(* ===== verification/Prelude.thy ===== *)
theory Prelude
  imports Complex_Main
begin

text \<open>
  What every component of the development shares: results and errors in the shape of Go's
  \<open>(value, error)\<close> pairs, a state-passing computation type for code that calls the database,
  the exchange or the clock, the string functions of Go's standard library that the program
  uses, decimal numbers, instants and 64-bit conversions, and the rules that lift a fact about
  one call to a whole handler.
\<close>

named_theorems io_simps \<open>unfolding rules of the computation combinators\<close>
named_theorems emits_rules \<open>introduction rules for the log judgement\<close>
named_theorems relates_rules \<open>introduction rules for the relation judgement\<close>

section \<open>Errors and results\<close>

text \<open>
  Go's error values: the sentinels the code compares with \<open>errors.Is\<close>, a plain message, a
  message that wraps one or two causes (\<open>fmt.Errorf\<close> with \<open>%w\<close>), and a failure reported by something
  outside the program (database, exchange, Redis).
\<close>

datatype err =
    ErrNotFound | ErrNoRows | ErrInvalidConfig | ErrRunLocked
  | ErrOrderNotFound | ErrOrderAlreadyFinal | ErrDuplicateTask | ErrSkipRetry | ErrMarketSyncStore
  | ErrExternal string
  | ErrMsg string
  | ErrWrap string err
  | ErrAround string err string
  | ErrBoth string err err

text \<open>\<open>errors.Is\<close>: the error itself or something it wraps.\<close>

fun errIs :: "err \<Rightarrow> err \<Rightarrow> bool" where
  "errIs (ErrWrap m e) t = (ErrWrap m e = t \<or> errIs e t)"
| "errIs (ErrAround a e b) t = (ErrAround a e b = t \<or> errIs e t)"
| "errIs (ErrBoth m e f) t = (ErrBoth m e f = t \<or> errIs e t \<or> errIs f t)"
| "errIs e t = (e = t)"

text \<open>\<open>err.Error()\<close>.\<close>

fun errText :: "err \<Rightarrow> string" where
  "errText ErrNotFound = ''record not found''"
| "errText ErrNoRows = ''sql: no rows in result set''"
| "errText ErrInvalidConfig = ''invalid configuration''"
| "errText ErrRunLocked = ''hedge run already locked''"
| "errText ErrOrderNotFound = ''exchange order not found''"
| "errText ErrOrderAlreadyFinal = ''exchange order is already final''"
| "errText ErrDuplicateTask = ''task already exists''"
| "errText ErrSkipRetry = ''skip retry for the task''"
| "errText ErrMarketSyncStore = ''market sync store error''"
| "errText (ErrExternal m) = m"
| "errText (ErrMsg m) = m"
| "errText (ErrWrap m e) = m @ '': '' @ errText e"
| "errText (ErrAround a e b) = a @ errText e @ b"
| "errText (ErrBoth m e f) = m @ '': '' @ errText e @ '': '' @ errText f"

text \<open>A call returns a value, returns an error, or panics.\<close>

datatype 'a result = Ok 'a | Err err | Panic

fun rbind :: "'a result \<Rightarrow> ('a \<Rightarrow> 'b result) \<Rightarrow> 'b result" where
  "rbind (Ok x) f = f x"
| "rbind (Err e) f = Err e"
| "rbind Panic f = Panic"

lemma rbind_Ok_iff: "rbind r f = Ok y \<longleftrightarrow> (\<exists>x. r = Ok x \<and> f x = Ok y)"
  by (cases r) auto

lemma rbind_Panic_iff: "rbind r f = Panic \<longleftrightarrow> r = Panic \<or> (\<exists>x. r = Ok x \<and> f x = Panic)"
  by (cases r) auto

fun wrapErr :: "string \<Rightarrow> 'a result \<Rightarrow> 'a result" where
  "wrapErr m (Ok x) = Ok x"
| "wrapErr m (Err e) = Err (ErrWrap m e)"
| "wrapErr m Panic = Panic"

lemma wrapErr_Ok_iff: "wrapErr m r = Ok x \<longleftrightarrow> r = Ok x"
  by (cases r) auto

section \<open>Computations\<close>

text \<open>
  A computation over a world \<open>'w\<close> (the database, the exchange, the clock, the locks) reads and
  changes the world and returns a result. \<open>bnd\<close> is the statement pattern
  \<open>x, err := f(); if err != nil { return err }\<close>; \<open>attempt\<close> gives the code the error as a value,
  for the branches that look at it; \<open>ignore\<close> is \<open>_ = f()\<close>; a panic unwinds all three.
\<close>

type_synonym ('w, 'a) io = "'w \<Rightarrow> 'a result \<times> 'w"

definition ret :: "'a \<Rightarrow> ('w, 'a) io" where
  "ret x = (\<lambda>w. (Ok x, w))"

definition throw :: "err \<Rightarrow> ('w, 'a) io" where
  "throw e = (\<lambda>w. (Err e, w))"

definition panic :: "('w, 'a) io" where
  "panic = (\<lambda>w. (Panic, w))"

definition lift :: "'a result \<Rightarrow> ('w, 'a) io" where
  "lift r = (\<lambda>w. (r, w))"

definition bnd :: "('w, 'a) io \<Rightarrow> ('a \<Rightarrow> ('w, 'b) io) \<Rightarrow> ('w, 'b) io" where
  "bnd m f = (\<lambda>w. case m w of
      (Ok x, w') \<Rightarrow> f x w'
    | (Err e, w') \<Rightarrow> (Err e, w')
    | (Panic, w') \<Rightarrow> (Panic, w'))"

definition attempt :: "('w, 'a) io \<Rightarrow> ('w, err + 'a) io" where
  "attempt m = (\<lambda>w. case m w of
      (Ok x, w') \<Rightarrow> (Ok (Inr x), w')
    | (Err e, w') \<Rightarrow> (Ok (Inl e), w')
    | (Panic, w') \<Rightarrow> (Panic, w'))"

definition wrapIO :: "string \<Rightarrow> ('w, 'a) io \<Rightarrow> ('w, 'a) io" where
  "wrapIO msg m = (\<lambda>w. (wrapErr msg (fst (m w)), snd (m w)))"

definition ignore :: "('w, 'a) io \<Rightarrow> ('w, unit) io" where
  "ignore m = bnd (attempt m) (\<lambda>_. ret ())"

text \<open>A deferred call runs when the body has returned, failed or panicked, and its own error is
  dropped (\<open>defer func() { _ = release(...) }()\<close>).\<close>

definition finally_do :: "('w, 'a) io \<Rightarrow> ('w, 'b) io \<Rightarrow> ('w, 'a) io" where
  "finally_do m cleanup = (\<lambda>w. case m w of (r, w') \<Rightarrow> (r, snd (cleanup w')))"

lemma ret_apply [io_simps]: "ret x w = (Ok x, w)"
  by (simp add: ret_def)

lemma throw_apply [io_simps]: "throw e w = (Err e, w)"
  by (simp add: throw_def)

lemma panic_apply [io_simps]: "panic w = (Panic, w)"
  by (simp add: panic_def)

lemma lift_apply [io_simps]: "lift r w = (r, w)"
  by (simp add: lift_def)

lemma bnd_ret [simp]: "bnd (ret x) f = f x"
  by (simp add: bnd_def ret_def)

lemma bnd_throw [simp]: "bnd (throw e) f = throw e"
  by (simp add: bnd_def throw_def)

lemma bnd_apply_Ok [io_simps]: "m w = (Ok x, w') \<Longrightarrow> bnd m f w = f x w'"
  by (simp add: bnd_def)

lemma bnd_apply_Err [io_simps]: "m w = (Err e, w') \<Longrightarrow> bnd m f w = (Err e, w')"
  by (simp add: bnd_def)

lemma bnd_apply_Panic [io_simps]: "m w = (Panic, w') \<Longrightarrow> bnd m f w = (Panic, w')"
  by (simp add: bnd_def)

lemma bnd_Ok_iff: "bnd m f w = (Ok y, w') \<longleftrightarrow> (\<exists>x v. m w = (Ok x, v) \<and> f x v = (Ok y, w'))"
  by (auto simp: bnd_def split: prod.splits result.splits)

lemma wrapIO_Ok_iff: "wrapIO s m w = (Ok y, w') \<longleftrightarrow> m w = (Ok y, w')"
  by (cases "m w") (auto simp: wrapIO_def wrapErr_Ok_iff)

lemma attempt_Inr: "fst (attempt m w) = Ok (Inr y) \<longleftrightarrow> fst (m w) = Ok y"
  by (simp add: attempt_def split: prod.split result.split)

lemma bnd_attempt_Ok:
  assumes "bnd (attempt m) f w = (Ok y, w')"
  shows "(\<exists>e v. m w = (Err e, v) \<and> f (Inl e) v = (Ok y, w')) \<or>
     (\<exists>x v. m w = (Ok x, v) \<and> f (Inr x) v = (Ok y, w'))"
  using assms by (auto simp: bnd_def attempt_def split: prod.splits result.splits)

lemma attempt_apply_Ok [io_simps]: "m w = (Ok x, w') \<Longrightarrow> attempt m w = (Ok (Inr x), w')"
  by (simp add: attempt_def)

lemma attempt_apply_Err [io_simps]: "m w = (Err e, w') \<Longrightarrow> attempt m w = (Ok (Inl e), w')"
  by (simp add: attempt_def)

lemma attempt_apply_Panic [io_simps]: "m w = (Panic, w') \<Longrightarrow> attempt m w = (Panic, w')"
  by (simp add: attempt_def)

lemma wrapIO_apply_Ok [io_simps]: "m w = (Ok x, w') \<Longrightarrow> wrapIO s m w = (Ok x, w')"
  by (simp add: wrapIO_def)

lemma wrapIO_apply_Err [io_simps]: "m w = (Err e, w') \<Longrightarrow> wrapIO s m w = (Err (ErrWrap s e), w')"
  by (simp add: wrapIO_def)

lemma snd_attempt [simp]: "snd (attempt m w) = snd (m w)"
  by (simp add: attempt_def split: prod.split result.split)

lemma snd_wrapIO [simp]: "snd (wrapIO s m w) = snd (m w)"
  by (simp add: wrapIO_def)

lemma snd_ret [simp]: "snd (ret x w) = w"
  by (simp add: ret_def)

lemma snd_throw [simp]: "snd (throw e w) = w"
  by (simp add: throw_def)

lemma snd_lift [simp]: "snd (lift r w) = w"
  by (simp add: lift_def)

lemma snd_ignore [simp]: "snd (ignore m w) = snd (m w)"
  by (simp add: ignore_def bnd_def attempt_def ret_def split: prod.split result.split)

lemma ignore_apply_Ok [io_simps]: "fst (m w) \<noteq> Panic \<Longrightarrow> ignore m w = (Ok (), snd (m w))"
  by (cases "m w") (auto simp: ignore_def bnd_def attempt_def ret_def split: result.split)

lemma snd_finally_do [simp]: "snd (finally_do m c w) = snd (c (snd (m w)))"
  by (simp add: finally_do_def split: prod.split)

lemma fst_finally_do [simp]: "fst (finally_do m c w) = fst (m w)"
  by (simp add: finally_do_def split: prod.split)

lemma snd_bnd_cases:
  obtains (ok) x where "fst (m w) = Ok x" "snd (bnd m f w) = snd (f x (snd (m w)))"
    "fst (bnd m f w) = fst (f x (snd (m w)))"
  | (stop) "snd (bnd m f w) = snd (m w)" "\<And>x. fst (m w) \<noteq> Ok x" "\<And>y. fst (bnd m f w) \<noteq> Ok y"
  by (cases "m w"; cases "fst (m w)") (auto simp: bnd_def)

section \<open>Judgements on computations\<close>

text \<open>
  \<open>emits g n P m\<close>: run from any world, \<open>m\<close> appends at most \<open>n\<close> entries to the log \<open>g\<close>, each of
  which satisfies \<open>P\<close>, and removes none. \<open>keepsInv J m\<close>: \<open>m\<close> keeps the predicate \<open>J\<close> of the world
  whatever it returns. \<open>relates R m\<close>: the worlds before and after \<open>m\<close> are related by \<open>R\<close>.
\<close>

definition emits :: "('w \<Rightarrow> 'l list) \<Rightarrow> nat \<Rightarrow> ('l \<Rightarrow> bool) \<Rightarrow> ('w, 'a) io \<Rightarrow> bool" where
  "emits g n P m \<longleftrightarrow>
    (\<forall>w. \<exists>xs. g (snd (m w)) = g w @ xs \<and> length xs \<le> n \<and> list_all P xs)"

definition keepsInv :: "('w \<Rightarrow> bool) \<Rightarrow> ('w, 'a) io \<Rightarrow> bool" where
  "keepsInv J m \<longleftrightarrow> (\<forall>w. J w \<longrightarrow> J (snd (m w)))"

lemma emits_quietI: "(\<And>w. g (snd (m w)) = g w) \<Longrightarrow> emits g n P m"
  unfolding emits_def by (auto intro: exI [of _ "[]"])

lemma emits_quietD: "emits g 0 P m \<Longrightarrow> g (snd (m w)) = g w"
  unfolding emits_def by (auto dest: spec [of _ w])

lemma emits_mono: "emits g k P m \<Longrightarrow> k \<le> n \<Longrightarrow> emits g n P m"
  unfolding emits_def by (meson order_trans)

lemma emits_0_any: "emits g 0 P m \<Longrightarrow> emits g n Q m"
  by (rule emits_quietI) (erule emits_quietD)

lemma emits_weaken: "emits g n P m \<Longrightarrow> (\<And>x. P x \<Longrightarrow> Q x) \<Longrightarrow> emits g n Q m"
  unfolding emits_def by (meson list.pred_mono_strong)

lemma emits_ret [emits_rules]: "emits g n P (ret x)"
  by (rule emits_quietI) simp

lemma emits_throw [emits_rules]: "emits g n P (throw e)"
  by (rule emits_quietI) simp

lemma emits_panic [emits_rules]: "emits g n P panic"
  by (rule emits_quietI) (simp add: panic_def)

lemma emits_lift [emits_rules]: "emits g n P (lift r)"
  by (rule emits_quietI) simp

lemma emits_attempt [emits_rules]: "emits g n P m \<Longrightarrow> emits g n P (attempt m)"
  by (simp add: emits_def)

lemma emits_ignore [emits_rules]: "emits g n P m \<Longrightarrow> emits g n P (ignore m)"
  by (simp add: emits_def)

lemma emits_wrapIO [emits_rules]: "emits g n P m \<Longrightarrow> emits g n P (wrapIO s m)"
  by (simp add: emits_def)

lemma emits_bnd_sum:
  assumes "emits g k P m" and "\<And>x. emits g n P (f x)"
  shows "emits g (k + n) P (bnd m f)"
  unfolding emits_def
proof
  fix w
  from assms(1) obtain xs where xs: "g (snd (m w)) = g w @ xs" "length xs \<le> k" "list_all P xs"
    unfolding emits_def by blast
  show "\<exists>zs. g (snd (bnd m f w)) = g w @ zs \<and> length zs \<le> k + n \<and> list_all P zs"
  proof (cases rule: snd_bnd_cases [of m w f])
    case (ok x)
    from assms(2) [of x] obtain ys where "g (snd (f x (snd (m w)))) = g (snd (m w)) @ ys"
        "length ys \<le> n" "list_all P ys"
      unfolding emits_def by blast
    with ok xs show ?thesis by (auto intro!: exI [of _ "xs @ ys"])
  next
    case stop
    with xs show ?thesis by (auto intro!: exI [of _ xs])
  qed
qed

lemma emits_bnd [emits_rules]:
  "emits g 0 P m \<Longrightarrow> (\<And>x. emits g n P (f x)) \<Longrightarrow> emits g n P (bnd m f)"
  using emits_bnd_sum [of g 0 P m n f] by simp

lemma emits_bnd_last:
  "emits g n P m \<Longrightarrow> (\<And>x. emits g 0 P (f x)) \<Longrightarrow> emits g n P (bnd m f)"
  using emits_bnd_sum [of g n P m 0 f] by simp

lemma emits_if [emits_rules]:
  "(b \<Longrightarrow> emits g n P m) \<Longrightarrow> (\<not> b \<Longrightarrow> emits g n P m') \<Longrightarrow> emits g n P (if b then m else m')"
  by simp

lemma emits_case_option [emits_rules]:
  "(x = None \<Longrightarrow> emits g n P m) \<Longrightarrow> (\<And>y. x = Some y \<Longrightarrow> emits g n P (f y)) \<Longrightarrow>
   emits g n P (case x of None \<Rightarrow> m | Some y \<Rightarrow> f y)"
  by (cases x) auto

lemma emits_case_sum [emits_rules]:
  "(\<And>e. x = Inl e \<Longrightarrow> emits g n P (h e)) \<Longrightarrow> (\<And>y. x = Inr y \<Longrightarrow> emits g n P (f y)) \<Longrightarrow>
   emits g n P (case x of Inl e \<Rightarrow> h e | Inr y \<Rightarrow> f y)"
  by (cases x) auto

lemma emits_case_prod [emits_rules]:
  "(\<And>a b. p = (a, b) \<Longrightarrow> emits g n P (f a b)) \<Longrightarrow> emits g n P (case p of (a, b) \<Rightarrow> f a b)"
  by (cases p) auto

lemma emits_let [emits_rules]: "emits g n P (f x) \<Longrightarrow> emits g n P (Let x f)"
  by simp

lemma emits_finally_do [emits_rules]:
  assumes "emits g n P m" and "emits g 0 P c"
  shows "emits g n P (finally_do m c)"
  using assms(1) emits_quietD [OF assms(2)] by (simp add: emits_def)

definition relates :: "('w \<Rightarrow> 'w \<Rightarrow> bool) \<Rightarrow> ('w, 'a) io \<Rightarrow> bool" where
  "relates R m \<longleftrightarrow> (\<forall>w. R w (snd (m w)))"

lemma relatesD: "relates R m \<Longrightarrow> R w (snd (m w))"
  by (simp add: relates_def)

lemma keepsInv_relates: "keepsInv J m \<longleftrightarrow> relates (\<lambda>w w'. J w \<longrightarrow> J w') m"
  by (simp add: keepsInv_def relates_def)

lemma relates_attempt [relates_rules]: "relates R m \<Longrightarrow> relates R (attempt m)"
  by (simp add: relates_def)

lemma relates_ignore [relates_rules]: "relates R m \<Longrightarrow> relates R (ignore m)"
  by (simp add: relates_def)

lemma relates_wrapIO [relates_rules]: "relates R m \<Longrightarrow> relates R (wrapIO s m)"
  by (simp add: relates_def)

lemma relates_if [relates_rules]:
  "(b \<Longrightarrow> relates R m) \<Longrightarrow> (\<not> b \<Longrightarrow> relates R m') \<Longrightarrow> relates R (if b then m else m')"
  by simp

lemma relates_case_option [relates_rules]:
  "(x = None \<Longrightarrow> relates R m) \<Longrightarrow> (\<And>y. x = Some y \<Longrightarrow> relates R (f y)) \<Longrightarrow>
   relates R (case x of None \<Rightarrow> m | Some y \<Rightarrow> f y)"
  by (cases x) auto

lemma relates_case_sum [relates_rules]:
  "(\<And>e. x = Inl e \<Longrightarrow> relates R (h e)) \<Longrightarrow> (\<And>y. x = Inr y \<Longrightarrow> relates R (f y)) \<Longrightarrow>
   relates R (case x of Inl e \<Rightarrow> h e | Inr y \<Rightarrow> f y)"
  by (cases x) auto

lemma relates_case_prod [relates_rules]:
  "(\<And>a b. p = (a, b) \<Longrightarrow> relates R (f a b)) \<Longrightarrow> relates R (case p of (a, b) \<Rightarrow> f a b)"
  by (cases p) auto

lemma relates_let [relates_rules]: "relates R (f x) \<Longrightarrow> relates R (Let x f)"
  by simp

text \<open>For a reflexive and transitive relation the judgement passes through the whole handler.\<close>

locale world_preorder =
  fixes R :: "'w \<Rightarrow> 'w \<Rightarrow> bool"
  assumes R_refl: "R w w"
    and R_trans: "R u v \<Longrightarrow> R v w \<Longrightarrow> R u w"
begin

lemma relates_stay: "(\<And>w. snd (m w) = w) \<Longrightarrow> relates R m"
  by (simp add: relates_def R_refl)

lemma relates_ret: "relates R (ret x)"
  by (rule relates_stay) simp

lemma relates_throw: "relates R (throw e)"
  by (rule relates_stay) simp

lemma relates_panic: "relates R panic"
  by (rule relates_stay) (simp add: panic_def)

lemma relates_lift: "relates R (lift r)"
  by (rule relates_stay) simp

lemma step_bnd:
  assumes "R w (snd (m w))" and "\<And>x. fst (m w) = Ok x \<Longrightarrow> R (snd (m w)) (snd (f x (snd (m w))))"
  shows "R w (snd (bnd m f w))"
  using assms R_trans by (cases rule: snd_bnd_cases [of m w f]) auto

lemma relates_bnd_result:
  assumes "relates R m" and "\<And>x w. fst (m w) = Ok x \<Longrightarrow> relates R (f x)"
  shows "relates R (bnd m f)"
  unfolding relates_def
proof
  fix w
  show "R w (snd (bnd m f w))"
    using relatesD [OF assms(1), of w] assms(2) R_trans
    by (cases rule: snd_bnd_cases [of m w f]) (auto simp: relates_def)
qed

lemma relates_bnd: "relates R m \<Longrightarrow> (\<And>x. relates R (f x)) \<Longrightarrow> relates R (bnd m f)"
  by (rule relates_bnd_result)

lemma relates_finally_do: "relates R m \<Longrightarrow> relates R c \<Longrightarrow> relates R (finally_do m c)"
  unfolding relates_def snd_finally_do using R_trans by blast

lemmas io_rules = relates_ret relates_throw relates_panic relates_lift relates_bnd
  relates_finally_do

end

lemma emits_bnd_lift:
  "(\<And>x. r = Ok x \<Longrightarrow> emits g n P (f x)) \<Longrightarrow> emits g n P (bnd (lift r) f)"
  by (cases r) (auto simp: emits_def bnd_def lift_def)

lemma emits_bnd_result:
  assumes "emits g 0 P m" and f: "\<And>x w. fst (m w) = Ok x \<Longrightarrow> emits g n P (f x)"
  shows "emits g n P (bnd m f)"
  unfolding emits_def
proof
  fix w
  have quiet: "g (snd (m w)) = g w" by (rule emits_quietD [OF assms(1)])
  show "\<exists>xs. g (snd (bnd m f w)) = g w @ xs \<and> length xs \<le> n \<and> list_all P xs"
  proof (cases rule: snd_bnd_cases [of m w f])
    case (ok x)
    from f [OF ok(1)] obtain xs where "g (snd (f x (snd (m w)))) = g (snd (m w)) @ xs"
        "length xs \<le> n" "list_all P xs"
      unfolding emits_def by blast
    with ok(2) quiet show ?thesis by simp
  next
    case stop
    with quiet show ?thesis by simp
  qed
qed

end
