(* ===== verification/GoStd.thy ===== *)
theory GoStd
  imports Prelude "HOL-Library.Sublist"
begin

text \<open>
  The parts of Go's standard library and of the decimal package that the program calls.

  Strings are lists of bytes. \<open>TrimSpace\<close>, \<open>ToLower\<close>, \<open>ToUpper\<close> and \<open>EqualFold\<close> are Go's functions
  on ASCII text (the identifiers, symbols and statuses the program handles); the Unicode tables
  for other code points are not modelled.

  A decimal (\<open>shopspring/decimal\<close>: an integer times a power of ten) is its rational value.
  \<open>Add\<close>, \<open>Sub\<close>, \<open>Mul\<close>, \<open>Neg\<close>, \<open>Abs\<close>, \<open>Sign\<close> and the comparisons are exact on decimals, so they are
  the rational operations. \<open>Div\<close> is not exact: its value is a parameter \<open>dv\<close>, for which only the
  documented rounding (sixteen digits after the point) is ever assumed, and a zero divisor panics.

  An instant is the number of nanoseconds since year 1, so that 0 is Go's zero time; a duration is
  a number of nanoseconds.
\<close>

section \<open>Strings\<close>

definition isSpaceChar :: "char \<Rightarrow> bool" where
  "isSpaceChar c \<longleftrightarrow> c \<in> {CHR '' '', CHR 0x09, CHR 0x0A, CHR 0x0B, CHR 0x0C, CHR 0x0D}"

definition TrimSpace :: "string \<Rightarrow> string" where
  "TrimSpace s = rev (dropWhile isSpaceChar (rev (dropWhile isSpaceChar s)))"

definition lowerChar :: "char \<Rightarrow> char" where
  "lowerChar c = (let n = of_char c :: nat in if 65 \<le> n \<and> n \<le> 90 then char_of (n + 32) else c)"

definition upperChar :: "char \<Rightarrow> char" where
  "upperChar c = (let n = of_char c :: nat in if 97 \<le> n \<and> n \<le> 122 then char_of (n - 32) else c)"

definition ToLower :: "string \<Rightarrow> string" where
  "ToLower s = map lowerChar s"

definition ToUpper :: "string \<Rightarrow> string" where
  "ToUpper s = map upperChar s"

definition EqualFold :: "string \<Rightarrow> string \<Rightarrow> bool" where
  "EqualFold s t \<longleftrightarrow> ToLower s = ToLower t"

definition HasPrefix :: "string \<Rightarrow> string \<Rightarrow> bool" where
  "HasPrefix s p \<longleftrightarrow> take (length p) s = p"

lemma TrimSpace_Nil [simp]: "TrimSpace [] = []"
  by (simp add: TrimSpace_def)

lemma ToLower_Nil [simp]: "ToLower [] = []"
  by (simp add: ToLower_def)

lemma ToUpper_Nil [simp]: "ToUpper [] = []"
  by (simp add: ToUpper_def)

lemma ToUpper_eq_Nil [simp]: "ToUpper s = [] \<longleftrightarrow> s = []"
  by (simp add: ToUpper_def)

lemma ToLower_eq_Nil [simp]: "ToLower s = [] \<longleftrightarrow> s = []"
  by (simp add: ToLower_def)

lemma dropWhile_rev_hd:
  "ys \<noteq> [] \<Longrightarrow> rev (dropWhile P (rev xs)) = ys \<Longrightarrow> hd ys = hd xs"
  by (induction xs rule: rev_induct) (auto split: if_splits simp: hd_append)

lemma dropWhile_idle: "xs = [] \<or> \<not> P (hd xs) \<Longrightarrow> dropWhile P xs = xs"
  by (cases xs) auto

lemma TrimSpace_idem [simp]: "TrimSpace (TrimSpace s) = TrimSpace s"
proof -
  define u where "u = dropWhile isSpaceChar s"
  define t where "t = TrimSpace s"
  have t: "t = rev (dropWhile isSpaceChar (rev u))"
    by (simp add: t_def TrimSpace_def u_def)
  have "t = [] \<or> \<not> isSpaceChar (hd t)"
  proof (cases "t = []")
    case False
    with t have "hd t = hd u" and "u \<noteq> []"
      by (auto intro: dropWhile_rev_hd)
    then show ?thesis by (simp add: u_def hd_dropWhile)
  qed simp
  then have "dropWhile isSpaceChar t = t" by (rule dropWhile_idle)
  then show ?thesis
    by (simp add: t_def [symmetric]) (simp add: TrimSpace_def, simp add: t dropWhile_idem)
qed

lemma of_char_inj: "(of_char c :: nat) = of_char d \<longleftrightarrow> c = d"
  by simp

lemma of_char_lowerChar:
  "(of_char (lowerChar c) :: nat) =
     (if 65 \<le> (of_char c :: nat) \<and> (of_char c :: nat) \<le> 90 then of_char c + 32 else of_char c)"
  by (simp add: lowerChar_def Let_def)

lemma of_char_upperChar:
  "(of_char (upperChar c) :: nat) =
     (if 97 \<le> (of_char c :: nat) \<and> (of_char c :: nat) \<le> 122 then of_char c - 32 else of_char c)"
proof -
  have "(of_char c - 32) mod 256 = (of_char c - 32 :: nat)" if "(of_char c :: nat) \<le> 122"
    using that by simp
  then show ?thesis by (auto simp: upperChar_def Let_def)
qed

lemma lowerChar_idem [simp]: "lowerChar (lowerChar c) = lowerChar c"
  unfolding of_char_inj [symmetric] of_char_lowerChar by auto

lemma upperChar_idem [simp]: "upperChar (upperChar c) = upperChar c"
  unfolding of_char_inj [symmetric] of_char_upperChar by auto

lemma ToLower_idem [simp]: "ToLower (ToLower s) = ToLower s"
  by (simp add: ToLower_def)

lemma ToUpper_idem [simp]: "ToUpper (ToUpper s) = ToUpper s"
  by (simp add: ToUpper_def)

lemma isSpaceChar_code: "isSpaceChar c \<longleftrightarrow> (of_char c :: nat) \<in> {32, 9, 10, 11, 12, 13}"
proof -
  have "inj (of_char :: char \<Rightarrow> nat)"
    by (rule injI) (simp only: of_char_inj)
  then have "isSpaceChar c \<longleftrightarrow> (of_char c :: nat) \<in> (of_char :: char \<Rightarrow> nat) `
      {CHR '' '', CHR 0x09, CHR 0x0A, CHR 0x0B, CHR 0x0C, CHR 0x0D}"
    unfolding isSpaceChar_def by (rule inj_image_mem_iff [symmetric])
  then show ?thesis by simp
qed

lemma isSpaceChar_upperChar [simp]: "isSpaceChar (upperChar c) = isSpaceChar c"
  by (auto simp: isSpaceChar_code of_char_upperChar)

lemma isSpaceChar_lowerChar [simp]: "isSpaceChar (lowerChar c) = isSpaceChar c"
  by (auto simp: isSpaceChar_code of_char_lowerChar)

lemma TrimSpace_map:
  "(\<And>c. isSpaceChar (f c) = isSpaceChar c) \<Longrightarrow> TrimSpace (map f s) = map f (TrimSpace s)"
  by (simp add: TrimSpace_def dropWhile_map rev_map comp_def)

lemma TrimSpace_ToUpper [simp]: "TrimSpace (ToUpper s) = ToUpper (TrimSpace s)"
  by (simp add: ToUpper_def TrimSpace_map)

lemma TrimSpace_ToLower [simp]: "TrimSpace (ToLower s) = ToLower (TrimSpace s)"
  by (simp add: ToLower_def TrimSpace_map)

lemma EqualFold_refl [simp]: "EqualFold s s"
  by (simp add: EqualFold_def)

subsection \<open>Numbers as text (\<open>%d\<close>, \<open>strconv.Itoa\<close>)\<close>

fun natDigits :: "nat \<Rightarrow> string" where
  "natDigits n = (if n < 10 then [char_of (48 + n)] else natDigits (n div 10) @ [char_of (48 + n mod 10)])"

declare natDigits.simps [simp del]

definition showNat :: "nat \<Rightarrow> string" where
  "showNat n = natDigits n"

definition showInt :: "int \<Rightarrow> string" where
  "showInt i = (if i < 0 then CHR ''-'' # showNat (nat (- i)) else showNat (nat i))"

definition readDigits :: "string \<Rightarrow> nat" where
  "readDigits s = foldl (\<lambda>a c. a * 10 + (of_char c - 48)) 0 s"

lemma readDigits_natDigits: "readDigits (natDigits n) = n"
proof (induction n rule: natDigits.induct)
  case (1 n)
  show ?case
  proof (cases "n < 10")
    case True
    then show ?thesis by (subst natDigits.simps) (simp add: readDigits_def)
  next
    case False
    with "1.IH" have "readDigits (natDigits (n div 10)) = n div 10" by simp
    with False show ?thesis
      by (subst natDigits.simps) (simp add: readDigits_def)
  qed
qed

lemma showNat_inj: "showNat m = showNat n \<longleftrightarrow> m = n"
  unfolding showNat_def by (metis readDigits_natDigits)

section \<open>Decimals\<close>

type_synonym decimal = rat

text \<open>\<open>Decimal.Sign\<close>: -1, 0 or 1.\<close>

definition decSign :: "decimal \<Rightarrow> int" where
  "decSign d = (if d < 0 then -1 else if d = 0 then 0 else 1)"

text \<open>\<open>Decimal.Div\<close>: a zero divisor panics; otherwise the package's rounded quotient.\<close>

definition decDiv :: "(decimal \<Rightarrow> decimal \<Rightarrow> decimal) \<Rightarrow> decimal \<Rightarrow> decimal \<Rightarrow> decimal result" where
  "decDiv dv a b = (if b = 0 then Panic else Ok (dv a b))"

text \<open>
  What the package documents of a quotient: it is a multiple of the sixteenth decimal place, at
  most half of that place away from the exact quotient.
\<close>

definition divisionLaw :: "(decimal \<Rightarrow> decimal \<Rightarrow> decimal) \<Rightarrow> bool" where
  "divisionLaw dv \<longleftrightarrow> (\<forall>a b. b \<noteq> 0 \<longrightarrow>
     (\<exists>k::int. dv a b = of_int k / 10 ^ 16) \<and> \<bar>dv a b - a / b\<bar> \<le> 1 / (2 * 10 ^ 16))"

text \<open>A concrete quotient with that rounding, for examples.\<close>

definition div16 :: "decimal \<Rightarrow> decimal \<Rightarrow> decimal" where
  "div16 a b = of_int (round (a / b * 10 ^ 16)) / 10 ^ 16"

lemma divisionLaw_div16: "divisionLaw div16"
  unfolding divisionLaw_def
proof (intro allI impI conjI)
  fix a b :: decimal
  show "\<exists>k::int. div16 a b = of_int k / 10 ^ 16"
    by (auto simp: div16_def)
  define q where "q = a / b * 10 ^ 16"
  have "div16 a b - a / b = (of_int (round q) - q) / 10 ^ 16"
    by (simp add: div16_def q_def diff_divide_distrib)
  then have "\<bar>div16 a b - a / b\<bar> = \<bar>of_int (round q) - q\<bar> / 10 ^ 16"
    by (simp only: abs_divide) simp
  also have "\<dots> \<le> (1 / 2) / 10 ^ 16"
    by (rule divide_right_mono [OF of_int_round_abs_le]) simp
  finally show "\<bar>div16 a b - a / b\<bar> \<le> 1 / (2 * 10 ^ 16)"
    by simp
qed

lemma divisionLaw_near:
  "divisionLaw dv \<Longrightarrow> b \<noteq> 0 \<Longrightarrow> \<bar>dv a b - a / b\<bar> \<le> 1 / (2 * 10 ^ 16)"
  by (simp add: divisionLaw_def)

text \<open>A quotient that fits sixteen places is exact.\<close>

lemma divisionLaw_exact:
  assumes law: "divisionLaw dv" and b: "b \<noteq> 0" and m: "a / b = of_int m / 10 ^ 16"
  shows "dv a b = a / b"
proof -
  from law b obtain k :: int where k: "dv a b = of_int k / 10 ^ 16"
    unfolding divisionLaw_def by blast
  have "\<bar>of_int k / 10 ^ 16 - of_int m / 10 ^ 16 :: rat\<bar> \<le> 1 / (2 * 10 ^ 16)"
    using divisionLaw_near [OF law b, of a] by (simp add: k m)
  then have "\<bar>of_int (k - m) :: rat\<bar> \<le> 1 / 2"
    by (simp add: diff_divide_distrib [symmetric] abs_divide divide_le_eq)
  then have "\<bar>k - m\<bar> < 1"
    by linarith
  then show ?thesis by (simp add: k m)
qed

lemma divisionLaw_nonneg:
  assumes law: "divisionLaw dv" and ab: "0 \<le> a" "0 < b"
  shows "0 \<le> dv a b"
proof -
  from law ab obtain k :: int where k: "dv a b = of_int k / 10 ^ 16"
    unfolding divisionLaw_def by (metis less_irrefl)
  have "\<bar>dv a b - a / b\<bar> \<le> 1 / (2 * 10 ^ 16)"
    using divisionLaw_near [OF law] ab by simp
  moreover have "0 \<le> a / b" using ab by simp
  ultimately have "- (1 / (2 * 10 ^ 16)) \<le> (of_int k :: rat) / 10 ^ 16"
    unfolding k by linarith
  then have "- (1 / 2) \<le> (of_int k :: rat)"
    by (simp add: field_simps)
  then have "0 \<le> k" by linarith
  then show ?thesis by (simp add: k)
qed

section \<open>Instants, durations and 64-bit conversions\<close>

type_synonym time = int
type_synonym duration = int

definition nanosecond :: duration where "nanosecond = 1"
definition second :: duration where "second = 1000000000"
definition minute :: duration where "minute = 60 * second"

text \<open>Nanoseconds from year 1 to the Unix epoch; \<open>t.UnixNano()\<close> inside the 64-bit range.\<close>

definition unixEpoch :: time where "unixEpoch = 62135596800 * second"

definition UnixNano :: "time \<Rightarrow> int" where
  "UnixNano t = signed_take_bit 63 (t - unixEpoch)"

text \<open>\<open>t.Sub(u)\<close> saturates at the ends of the duration type.\<close>

definition timeSub :: "time \<Rightarrow> time \<Rightarrow> duration" where
  "timeSub t u = max (- (2 ^ 63)) (min (2 ^ 63 - 1) (t - u))"

lemma timeSub_le_iff: "s < 2 ^ 63 - 1 \<Longrightarrow> - (2 ^ 63) \<le> s \<Longrightarrow> timeSub t u \<le> s \<longleftrightarrow> t - u \<le> s"
  by (auto simp: timeSub_def max_def min_def)

text \<open>\<open>int64(x)\<close> of an unsigned 64-bit value.\<close>

definition int64 :: "nat \<Rightarrow> int" where
  "int64 n = signed_take_bit 63 (int n)"

definition maxInt64 :: nat where
  "maxInt64 = 9223372036854775807"

lemma int64_small: "n \<le> maxInt64 \<Longrightarrow> int64 n = int n"
  unfolding int64_def maxInt64_def
  by (rule signed_take_bit_int_eq_self) simp_all

end
