(* ===== verification/ExchangeTypes.thy ===== *)
theory ExchangeTypes
  imports GoStd
begin

text \<open>
  The exchange boundary (\<open>internal/exchange/adapter.go\<close>): the account configuration carried by every
  call, the request and result types, the order statuses, and the \<open>Adapter\<close> interface as a record of
  operations over a world \<open>'w\<close>. The simulated adapter implements it in \<open>Simulated\<close>; the hedge service
  and the synchronisers are its clients. \<open>map[string]any\<close> fields are maps to a small value type.
\<close>

datatype rawValue = RawString string | RawBool bool | RawInt int | RawStrings "string list"

type_synonym raw = "string \<rightharpoonup> rawValue"

definition OrderStatusSubmitted :: string where "OrderStatusSubmitted = ''submitted''"
definition OrderStatusFilled :: string where "OrderStatusFilled = ''filled''"
definition OrderStatusCanceled :: string where "OrderStatusCanceled = ''canceled''"
definition OrderStatusFailed :: string where "OrderStatusFailed = ''failed''"
definition OrderStatusDryRun :: string where "OrderStatusDryRun = ''dry_run''"

lemmas order_status_defs = OrderStatusSubmitted_def OrderStatusFilled_def OrderStatusCanceled_def
  OrderStatusFailed_def OrderStatusDryRun_def

record AccountConfig =
  ac_exchange :: string
  ac_account_name :: string
  ac_ccxt_id :: string
  ac_market_type :: string
  ac_sandbox :: bool
  ac_default_settle :: string
  ac_account_type :: string
  ac_product_type :: string
  ac_category :: string
  ac_position_mode :: string
  ac_margin_mode :: string
  ac_recv_window_ms :: int
  ac_rate_limit_ms :: int
  ac_api_key :: string
  ac_api_secret :: string
  ac_passphrase :: string

record FetchBalanceRequest =
  fb_account :: AccountConfig
  fb_assets :: "string list"
  fb_params :: raw

record BalanceAsset =
  ba_asset :: string
  ba_free :: decimal
  ba_used :: decimal
  ba_total :: decimal
  ba_debt :: decimal
  ba_updated_at :: time

record BalanceResult =
  br_exchange :: string
  br_account_name :: string
  br_assets :: "BalanceAsset list"
  br_raw :: raw

record FetchPositionsRequest =
  fp_account :: AccountConfig
  fp_symbols :: "string list"
  fp_params :: raw

record ExPosition =
  xp_exchange :: string
  xp_account_name :: string
  xp_symbol :: string
  xp_position_side :: string
  xp_quantity :: decimal
  xp_notional :: decimal
  xp_entry_price :: decimal
  xp_mark_price :: decimal
  xp_unrealized_pnl :: decimal
  xp_leverage :: decimal
  xp_margin_mode :: string
  xp_updated_at :: time
  xp_raw :: raw

record FetchTickerRequest =
  ft_account :: AccountConfig
  ft_symbol :: string
  ft_params :: raw

record FetchMarketsRequest =
  fm_account :: AccountConfig
  fm_params :: raw

record Ticker =
  tk_exchange :: string
  tk_symbol :: string
  tk_last :: decimal
  tk_mark :: decimal
  tk_bid :: decimal
  tk_ask :: decimal
  tk_bid_size :: decimal
  tk_ask_size :: decimal
  tk_updated_at :: time
  tk_raw :: raw

record Market =
  mk_exchange :: string
  mk_ccxt_id :: string
  mk_symbol :: string
  mk_base :: string
  mk_quote :: string
  mk_settle :: string
  mk_market_type :: string
  mk_active :: bool
  mk_contract :: bool
  mk_linear :: bool
  mk_inverse :: bool
  mk_spot :: bool
  mk_swap :: bool
  mk_future :: bool
  mk_option :: bool
  mk_price_precision :: decimal
  mk_amount_precision :: decimal
  mk_min_amount :: decimal
  mk_min_cost :: decimal
  mk_contract_size :: decimal
  mk_created_at :: time
  mk_raw :: raw

record PlaceOrderRequest =
  po_client_order_id :: string
  po_exchange :: string
  po_account_name :: string
  po_ccxt_id :: string
  po_market_type :: string
  po_sandbox :: bool
  po_default_settle :: string
  po_account_type :: string
  po_product_type :: string
  po_category :: string
  po_position_mode :: string
  po_margin_mode :: string
  po_recv_window_ms :: int
  po_rate_limit_ms :: int
  po_api_key :: string
  po_api_secret :: string
  po_passphrase :: string
  po_symbol :: string
  po_side :: string
  po_position_side :: string
  po_order_type :: string
  po_quantity :: decimal
  po_price :: decimal
  po_reduce_only :: bool
  po_exchange_order_params :: raw

record FetchOrderRequest =
  fo_account :: AccountConfig
  fo_order_id :: string
  fo_client_order_id :: string
  fo_symbol :: string
  fo_params :: raw

record CancelOrderRequest =
  co_account :: AccountConfig
  co_order_id :: string
  co_client_order_id :: string
  co_symbol :: string
  co_params :: raw

record OrderResult =
  or_exchange_order_id :: string
  or_client_order_id :: string
  or_status :: string
  or_symbol :: string
  or_side :: string
  or_order_type :: string
  or_quantity :: decimal
  or_price :: decimal
  or_reduce_only :: bool
  or_filled_quantity :: decimal
  or_avg_price :: decimal
  or_fee_usdt :: decimal
  or_updated_at :: time
  or_raw :: raw

record SetLeverageRequest =
  sl_account :: AccountConfig
  sl_symbol :: string
  sl_leverage :: int
  sl_params :: raw

record SetMarginModeRequest =
  sm_account :: AccountConfig
  sm_symbol :: string
  sm_margin_mode :: string
  sm_params :: raw

record CommandResult =
  cr_success :: bool
  cr_raw :: raw

text \<open>\<open>type Adapter interface\<close>\<close>

record 'w Adapter =
  FetchBalance :: "FetchBalanceRequest \<Rightarrow> ('w, BalanceResult) io"
  FetchPositions :: "FetchPositionsRequest \<Rightarrow> ('w, ExPosition list) io"
  FetchTicker :: "FetchTickerRequest \<Rightarrow> ('w, Ticker) io"
  FetchMarkets :: "FetchMarketsRequest \<Rightarrow> ('w, Market list) io"
  PlaceOrder :: "PlaceOrderRequest \<Rightarrow> ('w, OrderResult) io"
  FetchOrder :: "FetchOrderRequest \<Rightarrow> ('w, OrderResult) io"
  CancelOrder :: "CancelOrderRequest \<Rightarrow> ('w, OrderResult) io"
  SetLeverage :: "SetLeverageRequest \<Rightarrow> ('w, CommandResult) io"
  SetMarginMode :: "SetMarginModeRequest \<Rightarrow> ('w, CommandResult) io"

end
