(* ===== verification/Calculator.thy ===== *)
theory Calculator
  imports GoStd
begin

text \<open>
  The hedge calculator (\<open>internal/hedge/calculator.go\<close>): the pure decision procedure that turns a
  configuration, a net exposure and the current hedge position into an order decision, and the
  manual close of a position. Every early return of the source is a branch here, and the decimal
  division is the parameter \<open>dv\<close>. The lemmas give the decision on each branch, the safety of the
  order it describes and its bounds.
\<close>

section \<open>Data\<close>

text \<open>\<open>Action\<close>; \<open>ActionUnset\<close> is Go's zero value, the empty string.\<close>

datatype action = ActionUnset | ActionHold | ActionOpen | ActionRebalance | ActionExit | ActionSkip

fun actionString :: "action \<Rightarrow> string" where
  "actionString ActionUnset = ''''"
| "actionString ActionHold = ''hold''"
| "actionString ActionOpen = ''open''"
| "actionString ActionRebalance = ''rebalance''"
| "actionString ActionExit = ''exit''"
| "actionString ActionSkip = ''skip''"

definition ReasonFirstTrigger :: string where "ReasonFirstTrigger = ''first_trigger''"
definition ReasonRebalance :: string where "ReasonRebalance = ''rebalance''"
definition ReasonExitHedge :: string where "ReasonExitHedge = ''exit_hedge''"
definition ReasonManualClose :: string where "ReasonManualClose = ''manual_close''"
definition ReasonHedgeRatioAdjustment :: string where
  "ReasonHedgeRatioAdjustment = ''hedge_ratio_adjustment''"
definition ReasonPositionFlipClose :: string where
  "ReasonPositionFlipClose = ''position_flip_close''"

lemmas reason_defs = ReasonFirstTrigger_def ReasonRebalance_def ReasonExitHedge_def
  ReasonManualClose_def ReasonHedgeRatioAdjustment_def ReasonPositionFlipClose_def

text \<open>\<open>Side\<close> is a string type with two constants; any other text is \<open>SideOther\<close>.\<close>

datatype side = SideBuy | SideSell | SideOther string

fun sideString :: "side \<Rightarrow> string" where
  "sideString SideBuy = ''BUY''"
| "sideString SideSell = ''SELL''"
| "sideString (SideOther s) = s"

definition sideOfString :: "string \<Rightarrow> side" where
  "sideOfString s = (if s = ''BUY'' then SideBuy else if s = ''SELL'' then SideSell else SideOther s)"

record HConfig =
  hc_id :: int
  hc_source :: string
  hc_symbol :: string
  hc_target_symbol :: string
  hc_target_hedge_ratio :: decimal
  hc_first_trigger :: decimal
  hc_rebalance :: decimal
  hc_exit :: decimal
  hc_max_slippage_bps :: int
  hc_max_notional :: decimal
  hc_min_order :: decimal
  hc_enabled :: bool
  hc_dry_run :: bool

record HExposure =
  he_source :: string
  he_symbol :: string
  he_net_quantity :: decimal
  he_net_notional :: decimal
  he_mark_price :: decimal

record HPosition =
  hp_exchange :: string
  hp_account_name :: string
  hp_symbol :: string
  hp_quantity :: decimal
  hp_notional :: decimal
  hp_mark_price :: decimal
  hp_position_side :: string

record Decision =
  d_action :: action
  d_side :: side
  d_symbol :: string
  d_target :: decimal
  d_current :: decimal
  d_adjustment :: decimal
  d_order_quantity :: decimal
  d_limit_price :: decimal
  d_reduce_only :: bool
  d_reason :: string
  d_dry_run :: bool

text \<open>The zero value \<open>Decision{}\<close>.\<close>

definition emptyDecision :: Decision where
  "emptyDecision = \<lparr>d_action = ActionUnset, d_side = SideOther '''', d_symbol = '''',
     d_target = 0, d_current = 0, d_adjustment = 0, d_order_quantity = 0, d_limit_price = 0,
     d_reduce_only = False, d_reason = '''', d_dry_run = False\<rparr>"

section \<open>Helpers\<close>

definition limitPrice ::
    "(decimal \<Rightarrow> decimal \<Rightarrow> decimal) \<Rightarrow> decimal \<Rightarrow> side \<Rightarrow> int \<Rightarrow> decimal result" where
  "limitPrice dv markPrice sd slippageBps =
     (if slippageBps \<le> 0 then Ok markPrice
      else rbind (decDiv dv (of_int slippageBps) 10000) (\<lambda>rate.
        if sd = SideBuy then Ok (markPrice * (1 + rate))
        else Ok (markPrice * (1 - rate))))"

definition shouldReduceOnly :: "decimal \<Rightarrow> decimal \<Rightarrow> bool" where
  "shouldReduceOnly current adjustment =
     (if current = 0 then False
      else if decSign current = decSign adjustment then False
      else \<bar>adjustment\<bar> \<le> \<bar>current\<bar>)"

definition wouldFlipPosition :: "decimal \<Rightarrow> decimal \<Rightarrow> bool" where
  "wouldFlipPosition current adjustment =
     (if current = 0 \<or> decSign current = decSign adjustment then False
      else \<bar>adjustment\<bar> > \<bar>current\<bar>)"

text \<open>\<open>if x.IsPositive() { SideBuy } else { SideSell }\<close>\<close>

definition sideFor :: "decimal \<Rightarrow> side" where
  "sideFor x = (if x > 0 then SideBuy else SideSell)"

section \<open>Closing a position\<close>

definition ClosePosition ::
    "(decimal \<Rightarrow> decimal \<Rightarrow> decimal) \<Rightarrow> HConfig \<Rightarrow> HPosition \<Rightarrow> Decision result" where
  "ClosePosition dv config position =
    (let symbol = (if hc_target_symbol config = '''' then hp_symbol position
                   else hc_target_symbol config)
     in if symbol = '''' then Err (ErrMsg ''target symbol is required'')
     else rbind
       (if \<not> hp_mark_price position > 0 \<and> hp_quantity position \<noteq> 0 \<and> hp_notional position \<noteq> 0
        then decDiv dv \<bar>hp_notional position\<bar> \<bar>hp_quantity position\<bar>
        else Ok (hp_mark_price position)) (\<lambda>markPrice.
     let current = (if hp_notional position = 0 \<and> hp_quantity position \<noteq> 0
                    then hp_quantity position * markPrice else hp_notional position);
         decision = emptyDecision\<lparr>d_action := ActionHold, d_symbol := symbol, d_target := 0,
                      d_current := current, d_dry_run := hc_dry_run config\<rparr>
     in if current = 0 \<and> hp_quantity position = 0
        then Ok (decision\<lparr>d_reason := ''no hedge position to close''\<rparr>)
     else if \<not> markPrice > 0
        then Err (ErrMsg ''mark price must be greater than zero'')
     else
       let adjustment = - current;
           sd = sideFor adjustment
       in rbind
         (if \<bar>hp_quantity position\<bar> = 0 then decDiv dv \<bar>adjustment\<bar> markPrice
          else Ok \<bar>hp_quantity position\<bar>) (\<lambda>quantity.
       rbind (limitPrice dv markPrice sd (hc_max_slippage_bps config)) (\<lambda>price.
       Ok (decision\<lparr>d_action := ActionExit, d_adjustment := adjustment, d_reduce_only := True,
             d_reason := ReasonManualClose, d_side := sd, d_order_quantity := quantity,
             d_limit_price := price\<rparr>)))))"

section \<open>Deciding an order\<close>

text \<open>The capped hedge target (lines 169 to 172).\<close>

definition hedgeTarget :: "decimal \<Rightarrow> decimal \<Rightarrow> decimal \<Rightarrow> decimal" where
  "hedgeTarget netNotional ratio maxNotional =
     (let target = (- netNotional) * ratio
      in if maxNotional > 0 \<and> \<bar>target\<bar> > maxNotional
         then of_int (decSign target) * maxNotional else target)"

text \<open>The part of \<open>Calculate\<close> after the action is chosen (lines 201 to 247): it holds when there
  is nothing to do or too little to trade, closes first when the order would reverse the position,
  and otherwise trades the difference.\<close>

definition planAdjustment ::
    "(decimal \<Rightarrow> decimal \<Rightarrow> decimal) \<Rightarrow> HConfig \<Rightarrow> HExposure \<Rightarrow> HPosition \<Rightarrow> Decision \<Rightarrow> decimal
      \<Rightarrow> Decision result" where
  "planAdjustment dv config exposure position decision0 target =
    (let current = hp_notional position;
         adjustment = target - current;
         decision = decision0\<lparr>d_target := target, d_adjustment := adjustment\<rparr>
     in if adjustment = 0 then
          Ok (decision\<lparr>d_action := ActionHold, d_reason := ''current hedge already matches target''\<rparr>)
     else if \<bar>adjustment\<bar> < hc_min_order config then
          Ok (decision\<lparr>d_action := ActionHold, d_reason := ''adjustment is below min order notional''\<rparr>)
     else if d_action decision = ActionRebalance \<and> \<bar>adjustment\<bar> < hc_rebalance config then
          Ok (decision\<lparr>d_action := ActionHold, d_reason := ''adjustment is below rebalance threshold''\<rparr>)
     else if wouldFlipPosition current adjustment then
       (let closeAdjustment = - current;
            sd = sideFor closeAdjustment
        in rbind
          (if \<bar>hp_quantity position\<bar> = 0
           then decDiv dv \<bar>closeAdjustment\<bar> (he_mark_price exposure)
           else Ok \<bar>hp_quantity position\<bar>) (\<lambda>quantity.
        rbind (limitPrice dv (he_mark_price exposure) sd (hc_max_slippage_bps config)) (\<lambda>price.
        Ok (decision\<lparr>d_adjustment := closeAdjustment, d_reduce_only := True,
              d_reason := ReasonPositionFlipClose, d_side := sd, d_order_quantity := quantity,
              d_limit_price := price\<rparr>))))
     else
       (let sd = sideFor adjustment
        in rbind (decDiv dv \<bar>adjustment\<bar> (he_mark_price exposure)) (\<lambda>quantity.
        rbind (limitPrice dv (he_mark_price exposure) sd (hc_max_slippage_bps config)) (\<lambda>price.
        Ok (decision\<lparr>d_side := sd, d_order_quantity := quantity, d_limit_price := price,
              d_reduce_only := shouldReduceOnly current adjustment\<rparr>)))))"

definition Calculate ::
    "(decimal \<Rightarrow> decimal \<Rightarrow> decimal) \<Rightarrow> HConfig \<Rightarrow> HExposure \<Rightarrow> HPosition \<Rightarrow> Decision result" where
  "Calculate dv config exposure position =
    (let decision = emptyDecision\<lparr>d_action := ActionHold, d_symbol := hc_target_symbol config,
           d_current := hp_notional position, d_dry_run := hc_dry_run config\<rparr>
     in if \<not> hc_enabled config then
          Ok (decision\<lparr>d_action := ActionSkip, d_reason := ''hedge config disabled''\<rparr>)
     else if hc_target_symbol config = '''' then Err (ErrMsg ''target symbol is required'')
     else if \<not> he_mark_price exposure > 0 then
          Err (ErrMsg ''mark price must be greater than zero'')
     else if hc_target_hedge_ratio config < 0 then
          Err (ErrMsg ''target hedge ratio cannot be negative'')
     else
       let target = hedgeTarget (he_net_notional exposure) (hc_target_hedge_ratio config)
             (hc_max_notional config);
           absExposure = \<bar>he_net_notional exposure\<bar>;
           currentlyHedged = (hp_notional position \<noteq> 0)
       in if absExposure \<le> hc_exit config then
            (if currentlyHedged then
               planAdjustment dv config exposure position
                 (decision\<lparr>d_action := ActionExit, d_reason := ReasonExitHedge\<rparr>) 0
             else Ok (decision\<lparr>d_target := 0,
               d_reason := ''net exposure is below exit threshold and no hedge exists''\<rparr>))
          else if \<not> currentlyHedged then
            (if absExposure < hc_first_trigger config then
               Ok (decision\<lparr>d_target := target,
                 d_reason := ''net exposure is below first trigger threshold''\<rparr>)
             else planAdjustment dv config exposure position
                 (decision\<lparr>d_action := ActionOpen, d_reason := ReasonFirstTrigger\<rparr>) target)
          else planAdjustment dv config exposure position
                 (decision\<lparr>d_action := ActionRebalance, d_reason := ReasonRebalance\<rparr>) target)"

text \<open>A decision that leads to an order (\<open>RunOnce\<close> returns early on hold and skip).\<close>

definition isTrade :: "Decision \<Rightarrow> bool" where
  "isTrade d \<longleftrightarrow> d_action d \<noteq> ActionHold \<and> d_action d \<noteq> ActionSkip"

section \<open>Helper lemmas\<close>

lemma emptyDecision_simps [simp]:
  "d_action emptyDecision = ActionUnset" "d_side emptyDecision = SideOther ''''"
  "d_symbol emptyDecision = ''''" "d_target emptyDecision = 0" "d_current emptyDecision = 0"
  "d_adjustment emptyDecision = 0" "d_order_quantity emptyDecision = 0"
  "d_limit_price emptyDecision = 0" "d_reduce_only emptyDecision = False"
  "d_reason emptyDecision = ''''" "d_dry_run emptyDecision = False"
  by (simp_all add: emptyDecision_def)

lemma decDiv_nonzero [simp]: "b \<noteq> 0 \<Longrightarrow> decDiv dv a b = Ok (dv a b)"
  by (simp add: decDiv_def)

text \<open>The slippage rate and the limit price as values.\<close>

definition slippageRate :: "(decimal \<Rightarrow> decimal \<Rightarrow> decimal) \<Rightarrow> int \<Rightarrow> decimal" where
  "slippageRate dv bps = (if bps \<le> 0 then 0 else dv (of_int bps) 10000)"

definition price :: "(decimal \<Rightarrow> decimal \<Rightarrow> decimal) \<Rightarrow> decimal \<Rightarrow> side \<Rightarrow> int \<Rightarrow> decimal" where
  "price dv mark sd bps = (if sd = SideBuy then mark * (1 + slippageRate dv bps)
     else mark * (1 - slippageRate dv bps))"

lemma limitPrice_price: "limitPrice dv mark sd bps = Ok (price dv mark sd bps)"
  by (simp add: limitPrice_def slippageRate_def price_def)

lemma slippageRate_exact:
  assumes "divisionLaw dv" and "0 \<le> bps"
  shows "slippageRate dv bps = of_int bps / 10000"
proof (cases "bps = 0")
  case False
  have "(of_int bps :: rat) / 10000 = of_int (bps * 10 ^ 12) / 10 ^ 16"
    by simp
  then have "dv (of_int bps) 10000 = of_int bps / 10000"
    using divisionLaw_exact [OF assms(1), of 10000 "of_int bps" "bps * 10 ^ 12"] by simp
  with False assms(2) show ?thesis by (simp add: slippageRate_def)
qed (simp add: slippageRate_def)

lemma decSign_eq_iff:
  "decSign x = decSign y \<longleftrightarrow> (x < 0 \<longleftrightarrow> y < 0) \<and> (x = 0 \<longleftrightarrow> y = 0)"
  by (auto simp: decSign_def)

lemma hedgeTarget_cap:
  "0 < maxN \<Longrightarrow> \<bar>hedgeTarget n r maxN\<bar> \<le> maxN"
  by (auto simp: hedgeTarget_def Let_def decSign_def abs_mult)

lemma hedgeTarget_opposes:
  assumes "0 \<le> r"
  shows "hedgeTarget n r maxN * n \<le> 0"
proof -
  have raw: "(- n * r) * n \<le> 0"
    using assms mult_nonneg_nonneg [OF assms zero_le_square [of n]] by (simp add: algebra_simps)
  show ?thesis
  proof (cases "maxN > 0 \<and> \<bar>- n * r\<bar> > maxN")
    case False
    then show ?thesis using raw by (auto simp: hedgeTarget_def Let_def)
  next
    case True
    then have "hedgeTarget n r maxN = of_int (decSign (- n * r)) * maxN"
      by (simp add: hedgeTarget_def Let_def)
    then have "hedgeTarget n r maxN * n = maxN * (of_int (decSign (- n * r)) * n)"
      by (simp only: ac_simps)
    moreover have "of_int (decSign (- n * r)) * n \<le> 0"
      using assms by (auto simp: decSign_def mult_less_0_iff zero_less_mult_iff)
    ultimately show ?thesis
      using True by (metis less_imp_le mult_nonneg_nonpos)
  qed
qed

text \<open>The three ways \<open>planAdjustment\<close> ends, with every field that matters to the order.\<close>

definition tooSmall :: "HConfig \<Rightarrow> action \<Rightarrow> decimal \<Rightarrow> bool" where
  "tooSmall config act adjustment \<longleftrightarrow>
     adjustment = 0 \<or> \<bar>adjustment\<bar> < hc_min_order config \<or>
     act = ActionRebalance \<and> \<bar>adjustment\<bar> < hc_rebalance config"

definition tradeQuantity ::
    "(decimal \<Rightarrow> decimal \<Rightarrow> decimal) \<Rightarrow> HExposure \<Rightarrow> HPosition \<Rightarrow> decimal \<Rightarrow> decimal" where
  "tradeQuantity dv exposure position adjustment =
     (if wouldFlipPosition (hp_notional position) adjustment
      then (if hp_quantity position = 0 then dv \<bar>hp_notional position\<bar> (he_mark_price exposure)
            else \<bar>hp_quantity position\<bar>)
      else dv \<bar>adjustment\<bar> (he_mark_price exposure))"

lemma planAdjustment_cases [consumes 1, case_names hold flip trade]:
  assumes mark: "he_mark_price e > 0"
  obtains
    (hold) d where "planAdjustment dv c e p d0 t = Ok d" "tooSmall c (d_action d0) (t - hp_notional p)"
      "d_action d = ActionHold" "d_target d = t" "d_adjustment d = t - hp_notional p"
      "d_current d = d_current d0"
  | (flip) d where "planAdjustment dv c e p d0 t = Ok d"
      "\<not> tooSmall c (d_action d0) (t - hp_notional p)"
      "wouldFlipPosition (hp_notional p) (t - hp_notional p)"
      "d_action d = d_action d0" "d_target d = t" "d_adjustment d = - hp_notional p"
      "d_side d = sideFor (- hp_notional p)" "d_reduce_only d" "d_reason d = ReasonPositionFlipClose"
      "d_order_quantity d = tradeQuantity dv e p (t - hp_notional p)"
      "d_current d = d_current d0"
      "d_limit_price d = price dv (he_mark_price e) (d_side d) (hc_max_slippage_bps c)"
  | (trade) d where "planAdjustment dv c e p d0 t = Ok d"
      "\<not> tooSmall c (d_action d0) (t - hp_notional p)"
      "\<not> wouldFlipPosition (hp_notional p) (t - hp_notional p)"
      "d_action d = d_action d0" "d_target d = t" "d_adjustment d = t - hp_notional p"
      "d_side d = sideFor (t - hp_notional p)"
      "d_reduce_only d = shouldReduceOnly (hp_notional p) (t - hp_notional p)"
      "d_reason d = d_reason d0"
      "d_order_quantity d = tradeQuantity dv e p (t - hp_notional p)"
      "d_current d = d_current d0"
      "d_limit_price d = price dv (he_mark_price e) (d_side d) (hc_max_slippage_bps c)"
proof -
  let ?a = "t - hp_notional p"
  consider "tooSmall c (d_action d0) ?a"
    | "\<not> tooSmall c (d_action d0) ?a" "wouldFlipPosition (hp_notional p) ?a"
    | "\<not> tooSmall c (d_action d0) ?a" "\<not> wouldFlipPosition (hp_notional p) ?a"
    by blast
  then show thesis
  proof cases
    case 1
    then have "\<exists>r. planAdjustment dv c e p d0 t = Ok (d0\<lparr>d_target := t, d_adjustment := ?a,
        d_action := ActionHold, d_reason := r\<rparr>)"
      by (auto simp: planAdjustment_def tooSmall_def Let_def)
    with 1 show thesis by (auto intro: hold)
  next
    case 2
    let ?sd = "sideFor (- hp_notional p)"
    have eq: "planAdjustment dv c e p d0 t = Ok (d0\<lparr>d_target := t, d_adjustment := - hp_notional p,
        d_reduce_only := True, d_reason := ReasonPositionFlipClose, d_side := ?sd,
        d_order_quantity := tradeQuantity dv e p ?a,
        d_limit_price := price dv (he_mark_price e) ?sd (hc_max_slippage_bps c)\<rparr>)"
      using 2 mark
      by (auto simp: planAdjustment_def tooSmall_def Let_def limitPrice_price tradeQuantity_def)
    show thesis by (rule flip [OF eq]) (use 2 in simp_all)
  next
    case 3
    let ?sd = "sideFor ?a"
    have eq: "planAdjustment dv c e p d0 t = Ok (d0\<lparr>d_target := t, d_adjustment := ?a,
        d_side := ?sd, d_order_quantity := tradeQuantity dv e p ?a,
        d_limit_price := price dv (he_mark_price e) ?sd (hc_max_slippage_bps c),
        d_reduce_only := shouldReduceOnly (hp_notional p) ?a\<rparr>)"
      using 3 mark
      by (auto simp: planAdjustment_def tooSmall_def Let_def limitPrice_price tradeQuantity_def)
    show thesis by (rule trade [OF eq]) (use 3 in simp_all)
  qed
qed

section \<open>Properties\<close>

text \<open>\<open>Calculate\<close> on inputs it accepts: one call of \<open>planAdjustment\<close>, or a hold.\<close>

definition validRun :: "HConfig \<Rightarrow> HExposure \<Rightarrow> bool" where
  "validRun c e \<longleftrightarrow> hc_enabled c \<and> hc_target_symbol c \<noteq> '''' \<and> he_mark_price e > 0
     \<and> hc_target_hedge_ratio c \<ge> 0"

text \<open>The target the decision aims at, and the action chosen before the size checks.\<close>

definition aim :: "HConfig \<Rightarrow> HExposure \<Rightarrow> decimal" where
  "aim c e = (if \<bar>he_net_notional e\<bar> \<le> hc_exit c then 0
     else hedgeTarget (he_net_notional e) (hc_target_hedge_ratio c) (hc_max_notional c))"

definition chosenAction :: "HConfig \<Rightarrow> HExposure \<Rightarrow> HPosition \<Rightarrow> action" where
  "chosenAction c e p =
     (if \<bar>he_net_notional e\<bar> \<le> hc_exit c
      then (if hp_notional p \<noteq> 0 then ActionExit else ActionHold)
      else if hp_notional p = 0
      then (if \<bar>he_net_notional e\<bar> < hc_first_trigger c then ActionHold else ActionOpen)
      else ActionRebalance)"

definition startDecision :: "HConfig \<Rightarrow> HPosition \<Rightarrow> action \<Rightarrow> Decision" where
  "startDecision c p act = emptyDecision\<lparr>d_action := act, d_symbol := hc_target_symbol c,
     d_current := hp_notional p, d_dry_run := hc_dry_run c,
     d_reason := (if act = ActionExit then ReasonExitHedge
                  else if act = ActionOpen then ReasonFirstTrigger else ReasonRebalance)\<rparr>"

lemma startDecision_simps [simp]:
  "d_action (startDecision c p act) = act" "d_current (startDecision c p act) = hp_notional p"
  "d_reduce_only (startDecision c p act) = False"
  by (simp_all add: startDecision_def)

lemma startDecision_reason: "d_reason (startDecision c p act) \<noteq> ReasonPositionFlipClose"
  by (simp add: startDecision_def reason_defs)

lemma Calculate_chosen:
  assumes "validRun c e" and "chosenAction c e p \<noteq> ActionHold"
  shows "Calculate dv c e p =
    planAdjustment dv c e p (startDecision c p (chosenAction c e p)) (aim c e)"
  using assms
  by (auto simp: Calculate_def validRun_def chosenAction_def aim_def startDecision_def Let_def
      emptyDecision_def)

lemma Calculate_held:
  assumes "validRun c e" and "chosenAction c e p = ActionHold"
  shows "\<exists>d. Calculate dv c e p = Ok d \<and> d_action d = ActionHold \<and> d_target d = aim c e"
  using assms
  by (auto simp: Calculate_def validRun_def chosenAction_def aim_def Let_def split: if_splits)

lemma Calculate_disabled:
  "\<not> hc_enabled c \<Longrightarrow> \<exists>d. Calculate dv c e p = Ok d \<and> d_action d = ActionSkip \<and> d_target d = 0"
  by (simp add: Calculate_def Let_def)

lemma Calculate_invalid:
  "hc_enabled c \<Longrightarrow> \<not> validRun c e \<Longrightarrow> \<exists>er. Calculate dv c e p = Err er"
  by (auto simp: Calculate_def validRun_def Let_def)

lemma chosenAction_not_skip [simp]: "chosenAction c e p \<noteq> ActionSkip"
  by (simp add: chosenAction_def)

lemma trade_validRun:
  assumes "Calculate dv c e p = Ok d" and "isTrade d"
  shows "validRun c e"
proof (rule ccontr)
  assume v: "\<not> validRun c e"
  show False
  proof (cases "hc_enabled c")
    case True
    with v Calculate_invalid [of c e dv p] assms show False by auto
  next
    case False
    with Calculate_disabled [of c dv e p] assms show False by (auto simp: isTrade_def)
  qed
qed

text \<open>What a trading decision looks like; everything below is read off these two cases.\<close>

lemma Calculate_trade_cases [consumes 2, case_names flip trade]:
  assumes calc: "Calculate dv c e p = Ok d" and tr: "isTrade d"
  obtains
    (flip) "validRun c e" "chosenAction c e p \<noteq> ActionHold" "d_action d = chosenAction c e p"
      "\<not> tooSmall c (chosenAction c e p) (aim c e - hp_notional p)"
      "wouldFlipPosition (hp_notional p) (aim c e - hp_notional p)"
      "d_target d = aim c e" "d_current d = hp_notional p" "d_adjustment d = - hp_notional p"
      "d_side d = sideFor (- hp_notional p)" "d_reduce_only d" "d_reason d = ReasonPositionFlipClose"
      "d_order_quantity d = tradeQuantity dv e p (aim c e - hp_notional p)"
      "d_limit_price d = price dv (he_mark_price e) (d_side d) (hc_max_slippage_bps c)"
  | (trade) "validRun c e" "chosenAction c e p \<noteq> ActionHold" "d_action d = chosenAction c e p"
      "\<not> tooSmall c (chosenAction c e p) (aim c e - hp_notional p)"
      "\<not> wouldFlipPosition (hp_notional p) (aim c e - hp_notional p)"
      "d_target d = aim c e" "d_current d = hp_notional p"
      "d_adjustment d = aim c e - hp_notional p"
      "d_side d = sideFor (aim c e - hp_notional p)"
      "d_reduce_only d = shouldReduceOnly (hp_notional p) (aim c e - hp_notional p)"
      "d_reason d \<noteq> ReasonPositionFlipClose"
      "d_order_quantity d = tradeQuantity dv e p (aim c e - hp_notional p)"
      "d_limit_price d = price dv (he_mark_price e) (d_side d) (hc_max_slippage_bps c)"
proof -
  from calc tr have v: "validRun c e" by (rule trade_validRun)
  have ch: "chosenAction c e p \<noteq> ActionHold"
    using Calculate_held [OF v, of p dv] calc tr by (auto simp: isTrade_def)
  from v have mark: "he_mark_price e > 0" by (simp add: validRun_def)
  note eq = Calculate_chosen [OF v ch, of dv]
  from mark show thesis
  proof (cases rule: planAdjustment_cases [of e dv c p "startDecision c p (chosenAction c e p)" "aim c e"])
    case (hold d')
    with calc tr eq show thesis by (auto simp: isTrade_def)
  next
    case (flip d')
    with calc eq have "d' = d" by simp
    with flip v ch show thesis by (intro that(1)) auto
  next
    case (trade d')
    with calc eq have "d' = d" by simp
    with trade v ch startDecision_reason [of c p "chosenAction c e p"] show thesis
      by (intro that(2)) auto
  qed
qed

text \<open>Concrete inputs for the examples: a one-to-one hedge of BTCUSDT at a mark price of 50000.\<close>

definition exampleConfig :: HConfig where
  "exampleConfig = \<lparr>hc_id = 1, hc_source = ''platform'', hc_symbol = ''BTCUSDT'',
     hc_target_symbol = ''BTCUSDT'', hc_target_hedge_ratio = 1, hc_first_trigger = 5000,
     hc_rebalance = 2000, hc_exit = 1500, hc_max_slippage_bps = 30, hc_max_notional = 0,
     hc_min_order = 10, hc_enabled = True, hc_dry_run = False\<rparr>"

definition exampleExposure :: "decimal \<Rightarrow> HExposure" where
  "exampleExposure n = \<lparr>he_source = ''platform'', he_symbol = ''BTCUSDT'', he_net_quantity = n / 50000,
     he_net_notional = n, he_mark_price = 50000\<rparr>"

definition examplePosition :: "decimal \<Rightarrow> HPosition" where
  "examplePosition n = \<lparr>hp_exchange = ''Binance'', hp_account_name = ''main'',
     hp_symbol = ''BTCUSDT'', hp_quantity = n / 50000, hp_notional = n, hp_mark_price = 50000,
     hp_position_side = ''NET''\<rparr>"

lemmas example_defs = exampleConfig_def exampleExposure_def examplePosition_def

text \<open>Calculate and ClosePosition never panic: every decimal division they perform has a
  non-zero divisor, whatever the inputs.\<close>

theorem calculator_never_panics:
  "Calculate dv c e p \<noteq> Panic \<and> ClosePosition dv c p \<noteq> Panic"
proof
  show "Calculate dv c e p \<noteq> Panic"
  proof (cases "validRun c e")
    case False
    then show ?thesis
      using Calculate_invalid [of c e dv p] Calculate_disabled [of c dv e p]
      by (cases "hc_enabled c") auto
  next
    case True
    then have mark: "he_mark_price e > 0" by (simp add: validRun_def)
    show ?thesis
    proof (cases "chosenAction c e p = ActionHold")
      case True
      then show ?thesis using Calculate_held [OF \<open>validRun c e\<close> True, of dv] by auto
    next
      case False
      note eq = Calculate_chosen [OF \<open>validRun c e\<close> False, of dv]
      from mark show ?thesis unfolding eq
        by (cases rule: planAdjustment_cases
            [of e dv c p "startDecision c p (chosenAction c e p)" "aim c e"]) auto
    qed
  qed
  show "ClosePosition dv c p \<noteq> Panic"
    by (auto simp: ClosePosition_def Let_def rbind_Panic_iff limitPrice_price decDiv_def)
qed

text \<open>C12: When Calculate orders a trade: the configuration was enabled, the order is at least the
  minimum order notional away from the current position, its side is the sign of the adjustment, and
  the fill moves the position to the target unless it is a flip close, which moves it to zero.\<close>

theorem Calculate_trade_sound:
  assumes "Calculate dv c e p = Ok d" and "isTrade d"
  shows "hc_enabled c \<and> d_current d = hp_notional p \<and> d_adjustment d \<noteq> 0
    \<and> d_side d = (if d_adjustment d > 0 then SideBuy else SideSell)
    \<and> hc_min_order c \<le> \<bar>d_target d - d_current d\<bar>
    \<and> d_current d + d_adjustment d =
        (if d_reason d = ReasonPositionFlipClose then 0 else d_target d)"
  using assms
proof (cases rule: Calculate_trade_cases)
  case flip
  then show ?thesis
    by (auto simp: validRun_def tooSmall_def sideFor_def wouldFlipPosition_def split: if_splits)
next
  case trade
  then show ?thesis by (auto simp: validRun_def tooSmall_def sideFor_def)
qed

lemma example_Calculate:
  assumes "chosenAction exampleConfig (exampleExposure n) (examplePosition m) \<noteq> ActionHold"
    and "\<not> tooSmall exampleConfig (chosenAction exampleConfig (exampleExposure n) (examplePosition m))
           (aim exampleConfig (exampleExposure n) - m)"
  shows "\<exists>d. Calculate dv exampleConfig (exampleExposure n) (examplePosition m) = Ok d \<and> isTrade d
    \<and> d_target d = aim exampleConfig (exampleExposure n) \<and> d_current d = m
    \<and> (d_reason d = ReasonPositionFlipClose \<longleftrightarrow>
         wouldFlipPosition m (aim exampleConfig (exampleExposure n) - m))"
proof -
  let ?e = "exampleExposure n" and ?p = "examplePosition m" and ?c = exampleConfig
  have v: "validRun ?c ?e" by (simp add: validRun_def example_defs)
  have mark: "he_mark_price ?e > 0" and m: "hp_notional ?p = m" by (simp_all add: example_defs)
  note eq = Calculate_chosen [OF v assms(1), of dv]
  from mark show ?thesis unfolding eq
    by (cases rule: planAdjustment_cases
          [of ?e dv ?c ?p "startDecision ?c ?p (chosenAction ?c ?e ?p)" "aim ?c ?e"])
      (use assms m startDecision_reason [of ?c ?p "chosenAction ?c ?e ?p"] in
        \<open>auto simp: isTrade_def\<close>)
qed

lemma example_open: "\<exists>d. Calculate dv exampleConfig (exampleExposure 10000) (examplePosition 0) = Ok d
    \<and> isTrade d \<and> d_target d = -10000 \<and> d_current d = 0 \<and> d_reason d \<noteq> ReasonPositionFlipClose"
  using example_Calculate [of 10000 0 dv]
  by (simp add: chosenAction_def aim_def tooSmall_def hedgeTarget_def wouldFlipPosition_def example_defs)

lemma example_flip: "\<exists>d. Calculate dv exampleConfig (exampleExposure 10000) (examplePosition 4000) = Ok d
    \<and> isTrade d \<and> d_target d = -10000 \<and> d_current d = 4000 \<and> d_reason d = ReasonPositionFlipClose"
  using example_Calculate [of 10000 4000 dv]
  by (simp add: chosenAction_def aim_def tooSmall_def hedgeTarget_def wouldFlipPosition_def
      decSign_def example_defs)

theorem Calculate_trade_sound_witness:
  "\<exists>d. Calculate div16 exampleConfig (exampleExposure 10000) (examplePosition 0) = Ok d
    \<and> d_side d = SideSell \<and> d_current d + d_adjustment d = -10000"
proof -
  obtain d where d: "Calculate div16 exampleConfig (exampleExposure 10000) (examplePosition 0) = Ok d"
      "isTrade d" "d_target d = -10000" "d_current d = 0" "d_reason d \<noteq> ReasonPositionFlipClose"
    using example_open by blast
  from Calculate_trade_sound [OF d(1,2)] d show ?thesis by auto
qed

text \<open>C4: No trade carries the position through zero, and a reduce-only trade never increases it:
  the position after the fill has the sign of the position before (or is zero), and with the
  reduce-only flag its size does not grow. A flip close is always reduce-only.\<close>

theorem trade_never_reverses:
  assumes "Calculate dv c e p = Ok d" and "isTrade d"
  shows "(hp_notional p + d_adjustment d) * hp_notional p \<ge> 0
    \<and> (d_reduce_only d \<longrightarrow> \<bar>hp_notional p + d_adjustment d\<bar> \<le> \<bar>hp_notional p\<bar>)
    \<and> (d_reason d = ReasonPositionFlipClose \<longrightarrow> d_reduce_only d)"
  using assms
proof (cases rule: Calculate_trade_cases)
  case flip
  then show ?thesis by simp
next
  case trade
  have noflip: "(x + a) * x \<ge> 0" if "\<not> wouldFlipPosition x a" for x a :: rat
    using that
    by (auto simp: wouldFlipPosition_def decSign_eq_iff mult_le_0_iff zero_le_mult_iff abs_if
        split: if_splits)
  have reduce: "\<bar>x + a\<bar> \<le> \<bar>x\<bar>" if "shouldReduceOnly x a" for x a :: rat
    using that by (auto simp: shouldReduceOnly_def decSign_eq_iff abs_if split: if_splits)
  from trade show ?thesis
    using noflip [of "hp_notional p" "aim c e - hp_notional p"]
      reduce [of "hp_notional p" "aim c e - hp_notional p"] by simp
qed

theorem trade_never_reverses_witness:
  "\<exists>d. Calculate div16 exampleConfig (exampleExposure 10000) (examplePosition 4000) = Ok d
    \<and> d_reduce_only d \<and> \<bar>4000 + d_adjustment d\<bar> \<le> 4000"
proof -
  obtain d where d: "Calculate div16 exampleConfig (exampleExposure 10000) (examplePosition 4000) = Ok d"
      "isTrade d" "d_reason d = ReasonPositionFlipClose"
    using example_flip by blast
  from trade_never_reverses [OF d(1,2)] d show ?thesis by (auto simp: examplePosition_def)
qed

text \<open>The target of every decision is capped and opposes the exposure: with a positive cap its
  size never exceeds the cap, and with an accepted (non-negative) hedge ratio it never has the sign of
  the net exposure.\<close>

theorem Calculate_target_bounded:
  assumes "Calculate dv c e p = Ok d"
  shows "(0 < hc_max_notional c \<longrightarrow> \<bar>d_target d\<bar> \<le> hc_max_notional c)
    \<and> d_target d * he_net_notional e \<le> 0"
proof (cases "validRun c e")
  case False
  with assms have "\<not> hc_enabled c" using Calculate_invalid [of c e dv p] by auto
  with Calculate_disabled [of c dv e p] assms show ?thesis by auto
next
  case True
  have "d_target d = aim c e"
  proof (cases "chosenAction c e p = ActionHold")
    case True
    then show ?thesis using Calculate_held [OF \<open>validRun c e\<close> True, of dv] assms by auto
  next
    case False
    from True have "he_mark_price e > 0" by (simp add: validRun_def)
    then show ?thesis using assms unfolding Calculate_chosen [OF True False]
      by (cases rule: planAdjustment_cases
          [of e dv c p "startDecision c p (chosenAction c e p)" "aim c e"]) auto
  qed
  with True show ?thesis
    by (auto simp: aim_def validRun_def hedgeTarget_cap hedgeTarget_opposes)
qed

theorem Calculate_target_bounded_witness:
  "\<exists>d. Calculate div16 (exampleConfig\<lparr>hc_max_notional := 8000\<rparr>) (exampleExposure 10000)
      (examplePosition 0) = Ok d \<and> \<bar>d_target d\<bar> \<le> 8000"
proof -
  let ?c = "exampleConfig\<lparr>hc_max_notional := 8000\<rparr>"
  let ?e = "exampleExposure 10000" and ?p = "examplePosition 0"
  have v: "validRun ?c ?e" and ch: "chosenAction ?c ?e ?p \<noteq> ActionHold" and m: "he_mark_price ?e > 0"
    by (simp_all add: validRun_def chosenAction_def example_defs)
  from m obtain d where "Calculate div16 ?c ?e ?p = Ok d"
    unfolding Calculate_chosen [OF v ch] by (cases rule: planAdjustment_cases) auto
  with Calculate_target_bounded [OF this] show ?thesis by simp
qed

text \<open>C13: The limit price is within the configured slippage of the mark price: for slippage below
  10000 basis points it is positive, a buy is priced at most bps/10000 above the mark and a sell at
  most bps/10000 below, and on the worse side of the mark in both cases.\<close>

theorem limitPrice_bounds:
  assumes law: "divisionLaw dv" and mark: "0 < mark" and bps: "0 \<le> bps" "bps < 10000"
    and ok: "limitPrice dv mark sd bps = Ok x"
  shows "0 < x \<and> \<bar>x - mark\<bar> = mark * of_int bps / 10000
    \<and> (if sd = SideBuy then mark \<le> x else x \<le> mark)"
proof -
  let ?r = "of_int bps / 10000 :: rat"
  have r: "slippageRate dv bps = ?r" by (rule slippageRate_exact [OF law bps(1)])
  have r01: "0 \<le> ?r" "?r < 1" using bps by simp_all
  have "0 \<le> mark * ?r" using mark r01(1) by simp
  moreover have "mark * ?r < mark" using mult_strict_left_mono [OF r01(2) mark] by simp
  moreover have "x = (if sd = SideBuy then mark + mark * ?r else mark - mark * ?r)"
    using ok unfolding limitPrice_price price_def r by (auto simp: algebra_simps)
  ultimately show ?thesis by (auto split: if_splits)
qed

theorem limitPrice_bounds_witness:
  "limitPrice div16 50000 SideSell 30 = Ok 49850 \<and> (49850::rat) \<le> 50000"
proof -
  have "limitPrice div16 50000 SideSell 30 = Ok 49850"
    by (simp add: limitPrice_price price_def slippageRate_exact [OF divisionLaw_div16])
  with limitPrice_bounds [OF divisionLaw_div16 _ _ _ this] show ?thesis by simp
qed

text \<open>C11: A hedge settles: once a trade other than a flip close has filled exactly, the next
  calculation with the same configuration and exposure holds.\<close>

theorem Calculate_settles:
  assumes calc: "Calculate dv c e p = Ok d" and tr: "isTrade d"
    and noflip: "d_reason d \<noteq> ReasonPositionFlipClose"
    and filled: "hp_notional p' = d_current d + d_adjustment d"
  shows "\<exists>d'. Calculate dv' c e p' = Ok d' \<and> d_action d' = ActionHold"
  using calc tr
proof (cases rule: Calculate_trade_cases)
  case flip
  with noflip show ?thesis by simp
next
  case trade
  with filled have p': "hp_notional p' = aim c e" by simp
  from trade have v: "validRun c e" and mark: "he_mark_price e > 0" by (simp_all add: validRun_def)
  show ?thesis
  proof (cases "chosenAction c e p' = ActionHold")
    case True
    then show ?thesis using Calculate_held [OF v True] by blast
  next
    case False
    from mark show ?thesis unfolding Calculate_chosen [OF v False]
      by (cases rule: planAdjustment_cases
          [of e dv' c p' "startDecision c p' (chosenAction c e p')" "aim c e"])
        (auto simp: p' tooSmall_def)
  qed
qed

theorem Calculate_settles_witness:
  "\<exists>d'. Calculate div16 exampleConfig (exampleExposure 10000) (examplePosition (-10000)) = Ok d'
     \<and> d_action d' = ActionHold"
proof -
  obtain d where d: "Calculate div16 exampleConfig (exampleExposure 10000) (examplePosition 0) = Ok d"
      "isTrade d" "d_target d = -10000" "d_current d = 0" "d_reason d \<noteq> ReasonPositionFlipClose"
    using example_open by blast
  with Calculate_trade_sound [OF d(1,2)]
  have "hp_notional (examplePosition (-10000)) = d_current d + d_adjustment d"
    by (simp add: examplePosition_def)
  with Calculate_settles [OF d(1,2,5)] show ?thesis by blast
qed

text \<open>Reversing a hedge takes two orders: after a flip close has filled, the position is zero
  and the next calculation opens exactly the target, unless the exposure is below the first trigger
  or the target is below the minimum order, in which case it holds.\<close>

theorem flip_close_then_open:
  assumes calc: "Calculate dv c e p = Ok d" and tr: "isTrade d"
    and flip: "d_reason d = ReasonPositionFlipClose"
    and filled: "hp_notional p' = d_current d + d_adjustment d"
  shows "\<exists>d'. Calculate dv' c e p' = Ok d' \<and>
    (if hc_first_trigger c \<le> \<bar>he_net_notional e\<bar> \<and> d_target d \<noteq> 0
        \<and> hc_min_order c \<le> \<bar>d_target d\<bar>
     then d_action d' = ActionOpen \<and> d_adjustment d' = d_target d \<and> \<not> d_reduce_only d'
     else d_action d' = ActionHold)"
  using calc tr
proof (cases rule: Calculate_trade_cases)
  case trade
  with flip show ?thesis by simp
next
  case flip
  with filled have p': "hp_notional p' = 0" by simp
  from flip have v: "validRun c e" and mark: "he_mark_price e > 0" and t: "d_target d = aim c e"
    by (simp_all add: validRun_def)
  have notexit: "\<not> \<bar>he_net_notional e\<bar> \<le> hc_exit c"
    using flip(5) by (auto simp: aim_def wouldFlipPosition_def split: if_splits)
  show ?thesis
  proof (cases "chosenAction c e p' = ActionHold")
    case True
    with notexit p' have "\<bar>he_net_notional e\<bar> < hc_first_trigger c"
      by (auto simp: chosenAction_def split: if_splits)
    with Calculate_held [OF v True, of dv'] show ?thesis by auto
  next
    case False
    with notexit p' have act: "chosenAction c e p' = ActionOpen"
        and trig: "hc_first_trigger c \<le> \<bar>he_net_notional e\<bar>"
      by (auto simp: chosenAction_def split: if_splits)
    from mark show ?thesis unfolding Calculate_chosen [OF v False]
      by (cases rule: planAdjustment_cases
          [of e dv' c p' "startDecision c p' (chosenAction c e p')" "aim c e"])
        (use t trig act p' in
          \<open>auto simp: tooSmall_def wouldFlipPosition_def shouldReduceOnly_def\<close>)
  qed
qed

theorem flip_close_then_open_witness:
  "\<exists>d'. Calculate div16 exampleConfig (exampleExposure 10000) (examplePosition 0) = Ok d'
     \<and> d_action d' = ActionOpen \<and> d_adjustment d' = -10000"
proof -
  obtain d where d: "Calculate div16 exampleConfig (exampleExposure 10000) (examplePosition 4000) = Ok d"
      "isTrade d" "d_target d = -10000" "d_current d = 4000" "d_reason d = ReasonPositionFlipClose"
    using example_flip by blast
  with Calculate_trade_sound [OF d(1,2)]
  have "hp_notional (examplePosition 0) = d_current d + d_adjustment d"
    by (simp add: examplePosition_def)
  with flip_close_then_open [OF d(1,2,5), of "examplePosition 0" div16] d show ?thesis
    by (auto simp: example_defs)
qed

text \<open>When \<open>Calculate\<close> trades, as one condition on the inputs; the monitor is compared with it.\<close>

lemma Calculate_trades_iff:
  assumes v: "validRun c e"
  shows "(\<exists>d. Calculate dv c e p = Ok d \<and> isTrade d) \<longleftrightarrow>
    chosenAction c e p \<noteq> ActionHold \<and> \<not> tooSmall c (chosenAction c e p) (aim c e - hp_notional p)"
proof (cases "chosenAction c e p = ActionHold")
  case True
  then show ?thesis using Calculate_held [OF v True, of dv] by (auto simp: isTrade_def)
next
  case False
  from v have mark: "he_mark_price e > 0" by (simp add: validRun_def)
  from mark show ?thesis unfolding Calculate_chosen [OF v False]
    by (cases rule: planAdjustment_cases
          [of e dv c p "startDecision c p (chosenAction c e p)" "aim c e"])
      (use False in \<open>auto simp: isTrade_def\<close>)
qed

text \<open>A manual close that orders something orders the whole position, reduce-only, on the
  opposite side: the adjustment cancels the current notional exactly and the quantity is the size of
  the position's quantity; when it orders nothing the position is empty.\<close>

theorem ClosePosition_closes_all:
  assumes ok: "ClosePosition dv c p = Ok d"
  shows "if d_action d = ActionExit
    then d_current d \<noteq> 0 \<and> d_current d + d_adjustment d = 0 \<and> d_reduce_only d \<and> d_target d = 0
      \<and> d_side d = (if d_current d < 0 then SideBuy else SideSell)
      \<and> (hp_notional p \<noteq> 0 \<longrightarrow> d_current d = hp_notional p)
      \<and> (hp_quantity p \<noteq> 0 \<longrightarrow> d_order_quantity d = \<bar>hp_quantity p\<bar>)
      \<and> d_reason d = ReasonManualClose
    else d_action d = ActionHold \<and> hp_quantity p = 0 \<and> hp_notional p = 0"
  using ok
  by (auto simp: ClosePosition_def Let_def rbind_Ok_iff limitPrice_price decDiv_def sideFor_def
      split: if_splits)

theorem ClosePosition_closes_all_witness:
  "\<exists>d. ClosePosition div16 exampleConfig (examplePosition 4000) = Ok d \<and> d_action d = ActionExit
     \<and> d_adjustment d = -4000"
proof -
  obtain d where d: "ClosePosition div16 exampleConfig (examplePosition 4000) = Ok d"
      "d_action d = ActionExit"
    by (auto simp: ClosePosition_def Let_def limitPrice_price example_defs)
  with ClosePosition_closes_all [OF d(1)] show ?thesis by (auto simp: examplePosition_def)
qed

end
