(* ===== verification/Models.thy ===== *)
theory Models
  imports ExchangeTypes Calculator
begin

text \<open>
  The persistent data: the rows of the core tables (\<open>internal/db/coredb/models.go\<close> and the parameter
  structs of \<open>core.sql.go\<close> and \<open>order_guard.go\<close>), the management rows
  (\<open>internal/db/mgmt/models.go\<close>) and the result types of the hedge service. The row bookkeeping
  columns \<open>created_at\<close> and \<open>deleted_at\<close> and the JSON columns \<open>metadata\<close> are left out; \<open>updated_at\<close> is kept
  where the code reads it.
\<close>

section \<open>Management rows\<close>

definition ExchangeAccountStatusActive :: string where "ExchangeAccountStatusActive = ''active''"
definition ExchangeAccountStatusDisabled :: string where "ExchangeAccountStatusDisabled = ''disabled''"

record ExchangeAccount =
  ea_id :: nat
  ea_agent_id :: nat
  ea_exchange :: string
  ea_name :: string
  ea_ccxt_id :: string
  ea_market_type :: string
  ea_sandbox :: bool
  ea_default_settle :: string
  ea_account_type :: string
  ea_product_type :: string
  ea_category :: string
  ea_position_mode :: string
  ea_margin_mode :: string
  ea_recv_window_ms :: int
  ea_rate_limit_ms :: int
  ea_allowed_symbols :: string
  ea_api_key_encrypted :: string
  ea_api_key_hint :: string
  ea_api_secret_encrypted :: string
  ea_passphrase_encrypted :: string
  ea_status :: string
  ea_is_primary :: bool
  ea_metadata :: string

record HedgeConfig =
  cf_id :: nat
  cf_agent_id :: nat
  cf_exchange_account_id :: nat
  cf_exchange_account :: ExchangeAccount
  cf_source :: string
  cf_symbol :: string
  cf_target_symbol :: string
  cf_target_hedge_ratio :: decimal
  cf_first_trigger :: decimal
  cf_rebalance :: decimal
  cf_exit :: decimal
  cf_max_slippage_bps :: int
  cf_max_notional :: decimal
  cf_min_order :: decimal
  cf_leverage :: int
  cf_enabled :: bool
  cf_lifecycle_status :: string
  cf_dry_run :: bool
  cf_metadata :: string

definition HedgeLifecycleActive :: string where "HedgeLifecycleActive = ''active''"
definition HedgeLifecycleClosing :: string where "HedgeLifecycleClosing = ''closing''"
definition HedgeLifecycleCloseFailed :: string where "HedgeLifecycleCloseFailed = ''close_failed''"
definition HedgeLifecycleDisabled :: string where "HedgeLifecycleDisabled = ''disabled''"

definition HedgeCloseRequested :: string where "HedgeCloseRequested = ''requested''"
definition HedgeCloseSubmitted :: string where "HedgeCloseSubmitted = ''submitted''"
definition HedgeCloseVerifying :: string where "HedgeCloseVerifying = ''verifying''"
definition HedgeCloseCompleted :: string where "HedgeCloseCompleted = ''completed''"
definition HedgeCloseFailed :: string where "HedgeCloseFailed = ''failed''"

lemmas lifecycle_defs = HedgeLifecycleActive_def HedgeLifecycleClosing_def
  HedgeLifecycleCloseFailed_def HedgeLifecycleDisabled_def

lemmas close_status_defs = HedgeCloseRequested_def HedgeCloseSubmitted_def HedgeCloseVerifying_def
  HedgeCloseCompleted_def HedgeCloseFailed_def

record HedgeCloseRequest =
  cq_id :: nat
  cq_config_id :: nat
  cq_order_execution_id :: "int option"
  cq_idempotency_key :: string
  cq_status :: string
  cq_error_message :: string
  cq_requested_at :: time
  cq_completed_at :: "time option"

record HedgingSetting =
  hs_agent_id :: nat
  hs_enabled :: bool

record HedgeMonitorConfig =
  mc_config :: HedgeConfig
  mc_global_enabled :: bool

definition CanExecute :: "HedgeMonitorConfig \<Rightarrow> bool" where
  "CanExecute config \<longleftrightarrow>
     mc_global_enabled config \<and>
     cf_enabled (mc_config config) \<and>
     (cf_lifecycle_status (mc_config config) = '''' \<or>
      cf_lifecycle_status (mc_config config) = HedgeLifecycleActive) \<and>
     cf_agent_id (mc_config config) \<noteq> 0 \<and>
     ea_id (cf_exchange_account (mc_config config)) \<noteq> 0 \<and>
     ea_agent_id (cf_exchange_account (mc_config config)) = cf_agent_id (mc_config config) \<and>
     ea_status (cf_exchange_account (mc_config config)) = ExchangeAccountStatusActive"

section \<open>Core rows\<close>

record ExposureSnapshot =
  es_id :: int
  es_agent_id :: int
  es_source :: string
  es_symbol :: string
  es_net_quantity :: decimal
  es_net_notional :: decimal
  es_mark_price :: decimal
  es_observed_at :: time

record HedgePositionSnapshot =
  ps_id :: int
  ps_agent_id :: int
  ps_exchange_account_id :: int
  ps_exchange :: string
  ps_account_name :: string
  ps_symbol :: string
  ps_position_side :: string
  ps_quantity :: decimal
  ps_notional :: decimal
  ps_entry_price :: decimal
  ps_mark_price :: decimal
  ps_observed_at :: time

record HedgeMonitorSnapshot =
  ms_id :: int
  ms_agent_id :: int
  ms_config_id :: int
  ms_exchange_account_id :: int
  ms_source :: string
  ms_symbol :: string
  ms_target_symbol :: string
  ms_exchange :: string
  ms_account_name :: string
  ms_net_quantity :: decimal
  ms_net_notional :: decimal
  ms_target_hedge :: decimal
  ms_actual_hedge :: decimal
  ms_adjustment :: decimal
  ms_switch_status :: string
  ms_health_status :: string
  ms_action_status :: string
  ms_status :: string
  ms_status_reason :: string
  ms_exposure_observed_at :: "time option"
  ms_position_observed_at :: "time option"
  ms_calculated_at :: time
  ms_updated_at :: time

record OrderPlan =
  op_id :: int
  op_idempotency_key :: string
  op_config_id :: int
  op_agent_id :: int
  op_exchange_account_id :: int
  op_source :: string
  op_exchange :: string
  op_account_name :: string
  op_symbol :: string
  op_side :: string
  op_position_side :: string
  op_order_type :: string
  op_quantity :: decimal
  op_price :: decimal
  op_notional :: decimal
  op_reduce_only :: bool
  op_reason :: string
  op_status :: string
  op_planned_at :: time
  op_updated_at :: time

record OrderExecution =
  ox_id :: int
  ox_order_plan_id :: int
  ox_exchange_order_id :: "string option"
  ox_client_order_id :: string
  ox_status :: string
  ox_filled_quantity :: decimal
  ox_avg_price :: decimal
  ox_fee_usdt :: decimal
  ox_raw_response :: raw
  ox_error_message :: "string option"
  ox_submitted_at :: "time option"
  ox_filled_at :: "time option"
  ox_failed_at :: "time option"
  ox_updated_at :: time

record LatestOrderExecutionState =
  ls_config_id :: int
  ls_order_plan_id :: int
  ls_execution_id :: int
  ls_exchange_order_id :: "string option"
  ls_client_order_id :: string
  ls_symbol :: string
  ls_side :: string
  ls_status :: string
  ls_updated_at :: time

record ListLatestOrderExecutionStatesRow =
  lr_config_id :: int
  lr_status :: string
  lr_error_message :: string
  lr_updated_at :: time

section \<open>Query parameters\<close>

record UpsertExposureSnapshotParams =
  ue_agent_id :: int
  ue_source :: string
  ue_symbol :: string
  ue_net_quantity :: decimal
  ue_net_notional :: decimal
  ue_mark_price :: decimal
  ue_observed_at :: time

record UpsertHedgePositionSnapshotParams =
  up_agent_id :: int
  up_exchange_account_id :: int
  up_exchange :: string
  up_account_name :: string
  up_symbol :: string
  up_position_side :: string
  up_quantity :: decimal
  up_notional :: decimal
  up_entry_price :: decimal
  up_mark_price :: decimal
  up_observed_at :: time

record CreateOrderPlanParams =
  cp_idempotency_key :: string
  cp_config_id :: int
  cp_agent_id :: int
  cp_exchange_account_id :: int
  cp_source :: string
  cp_exchange :: string
  cp_account_name :: string
  cp_symbol :: string
  cp_side :: string
  cp_position_side :: string
  cp_order_type :: string
  cp_quantity :: decimal
  cp_price :: decimal
  cp_notional :: decimal
  cp_reduce_only :: bool
  cp_reason :: string
  cp_status :: string

record CreateOrderExecutionParams =
  ce_order_plan_id :: int
  ce_exchange_order_id :: "string option"
  ce_client_order_id :: string
  ce_status :: string
  ce_filled_quantity :: decimal
  ce_avg_price :: decimal
  ce_fee_usdt :: decimal
  ce_raw_response :: raw
  ce_error_message :: "string option"

record UpdateOrderExecutionStatusParams =
  ux_id :: int
  ux_exchange_order_id :: "string option"
  ux_status :: string
  ux_filled_quantity :: decimal
  ux_avg_price :: decimal
  ux_fee_usdt :: decimal
  ux_raw_response :: raw
  ux_error_message :: "string option"

section \<open>Results of the hedge service and audit events\<close>

record RunResult =
  rr_config :: HedgeConfig
  rr_exposure :: "ExposureSnapshot option"
  rr_position :: "HedgePositionSnapshot option"
  rr_decision :: Decision
  rr_order_plan :: "OrderPlan option"
  rr_execution :: "OrderExecution option"
  rr_close_request :: "HedgeCloseRequest option"

text \<open>The payload of an audit event before it is marshalled to JSON.\<close>

datatype auditPayload =
    PayResult RunResult
  | PayIds int int
  | PayFields "(string \<times> string) list"

record CreateAuditEventParams =
  au_event_type :: string
  au_severity :: string
  au_symbol :: string
  au_message :: string
  au_payload :: auditPayload

end
