(* ===== verification/Tables.thy ===== *)
theory Tables
  imports Prelude
begin

text \<open>
  Database tables as lists of rows in insertion order, with the three statements the program's SQL
  is made of: a lookup by key, an \<open>UPDATE ... WHERE\<close>, and \<open>INSERT ... ON CONFLICT (key) DO UPDATE\<close>.
  The locale \<open>keyed_table\<close> is the interface a caller relies on (what a lookup returns after an
  upsert); the facts about sequences of upserts are proved in it once and used by every table.
\<close>

definition findRow :: "('r \<Rightarrow> bool) \<Rightarrow> 'r list \<Rightarrow> 'r option" where
  "findRow P rows = List.find P rows"

definition updateRows :: "('r \<Rightarrow> bool) \<Rightarrow> ('r \<Rightarrow> 'r) \<Rightarrow> 'r list \<Rightarrow> 'r list" where
  "updateRows P f rows = map (\<lambda>r. if P r then f r else r) rows"

definition upsertRow :: "('r \<Rightarrow> bool) \<Rightarrow> ('r \<Rightarrow> 'r) \<Rightarrow> 'r \<Rightarrow> 'r list \<Rightarrow> 'r list" where
  "upsertRow P f new rows =
     (if (\<exists>r \<in> set rows. P r) then updateRows P f rows else rows @ [new])"

lemma findRow_None_iff: "findRow P rows = None \<longleftrightarrow> (\<forall>r \<in> set rows. \<not> P r)"
  by (auto simp: findRow_def find_None_iff)

lemma findRow_SomeD: "findRow P rows = Some r \<Longrightarrow> r \<in> set rows \<and> P r"
  by (auto simp: findRow_def find_Some_iff)

lemma findRow_append:
  "findRow P (xs @ ys) = (case findRow P xs of Some r \<Rightarrow> Some r | None \<Rightarrow> findRow P ys)"
  unfolding findRow_def by (induction xs) auto

lemma findRow_Cons: "findRow P (x # xs) = (if P x then Some x else findRow P xs)"
  by (simp add: findRow_def)

lemma findRow_Nil [simp]: "findRow P [] = None"
  by (simp add: findRow_def)

lemma set_updateRows: "set (updateRows P f rows) = (\<lambda>r. if P r then f r else r) ` set rows"
  by (simp add: updateRows_def)

lemma length_updateRows [simp]: "length (updateRows P f rows) = length rows"
  by (simp add: updateRows_def)

lemma map_updateRows:
  "(\<And>r. P r \<Longrightarrow> k (f r) = k r) \<Longrightarrow> map k (updateRows P f rows) = map k rows"
  by (simp add: updateRows_def)

lemma findRow_updateRows_same:
  "(\<And>r. P r \<Longrightarrow> P (f r)) \<Longrightarrow> findRow P (updateRows P f rows) = map_option f (findRow P rows)"
  unfolding findRow_def updateRows_def by (induction rows) auto

lemma findRow_updateRows_other:
  "(\<And>r. P r \<Longrightarrow> Q (f r) = Q r) \<Longrightarrow> (\<And>r. P r \<Longrightarrow> \<not> Q r) \<Longrightarrow>
   findRow Q (updateRows P f rows) = findRow Q rows"
  unfolding findRow_def updateRows_def by (induction rows) auto

text \<open>With a unique key, the row a key finds is the only row with that key.\<close>

lemma findRow_key_iff:
  assumes "distinct (map k rows)"
  shows "findRow (\<lambda>r. k r = x) rows = Some r \<longleftrightarrow> r \<in> set rows \<and> k r = x"
  using assms by (induction rows) (auto simp: findRow_def image_iff)

lemma findRow_upsertRow_same:
  assumes "\<And>r. k r = x \<Longrightarrow> k (f r) = x" and "k new = x"
  shows "findRow (\<lambda>r. k r = x) (upsertRow (\<lambda>r. k r = x) f new rows) =
    Some (case findRow (\<lambda>r. k r = x) rows of None \<Rightarrow> new | Some r \<Rightarrow> f r)"
proof (cases "\<exists>r \<in> set rows. k r = x")
  case True
  then obtain r where "findRow (\<lambda>r. k r = x) rows = Some r"
    using findRow_None_iff [of "\<lambda>r. k r = x" rows] by (cases "findRow (\<lambda>r. k r = x) rows") auto
  then show ?thesis
    using True assms by (simp add: upsertRow_def findRow_updateRows_same)
next
  case False
  then have "findRow (\<lambda>r. k r = x) rows = None" by (auto simp: findRow_None_iff)
  then show ?thesis using False assms(2) by (simp add: upsertRow_def findRow_append findRow_Cons)
qed

lemma findRow_upsertRow_other:
  assumes "\<And>r. k r = x \<Longrightarrow> k (f r) = x" and "k new = x" and "y \<noteq> x"
  shows "findRow (\<lambda>r. k r = y) (upsertRow (\<lambda>r. k r = x) f new rows) = findRow (\<lambda>r. k r = y) rows"
proof (cases "\<exists>r \<in> set rows. k r = x")
  case True
  with assms show ?thesis
    by (auto simp: upsertRow_def intro!: findRow_updateRows_other)
next
  case False
  with assms show ?thesis
    by (auto simp: upsertRow_def findRow_append findRow_Cons split: option.splits)
qed

lemma keys_updateRows:
  "(\<And>r. k r = x \<Longrightarrow> k (f r) = x) \<Longrightarrow> map k (updateRows (\<lambda>r. k r = x) f rows) = map k rows"
  by (rule map_updateRows) metis

lemma distinct_upsertRow:
  assumes "\<And>r. k r = x \<Longrightarrow> k (f r) = x" and "k new = x" and "distinct (map k rows)"
  shows "distinct (map k (upsertRow (\<lambda>r. k r = x) f new rows))"
proof (cases "\<exists>r \<in> set rows. k r = x")
  case True
  with assms keys_updateRows [of k x f rows] show ?thesis by (simp add: upsertRow_def)
next
  case False
  with assms show ?thesis by (auto simp: upsertRow_def)
qed

section \<open>The interface of a keyed table\<close>

text \<open>
  \<open>put\<close> upserts the value a parameter describes, \<open>get\<close> looks a key up; \<open>shows\<close> says that a row carries
  the values of a parameter. The two laws are all a client uses.
\<close>

locale keyed_table =
  fixes key :: "'p \<Rightarrow> 'k"
    and put :: "'p \<Rightarrow> 'd \<Rightarrow> 'd"
    and get :: "'d \<Rightarrow> 'k \<Rightarrow> 'r option"
    and carries :: "'p \<Rightarrow> 'r \<Rightarrow> bool"
  assumes get_put_same: "\<exists>r. get (put p d) (key p) = Some r \<and> carries p r"
    and get_put_other: "x \<noteq> key p \<Longrightarrow> get (put p d) x = get d x"
begin

lemma get_fold_other: "x \<notin> key ` set ps \<Longrightarrow> get (fold put ps d) x = get d x"
  by (induction ps arbitrary: d) (auto simp: get_put_other)

text \<open>After a batch with distinct keys, every key holds the values of its own parameter.\<close>

lemma get_fold_distinct:
  assumes "distinct (map key ps)" and "p \<in> set ps"
  shows "\<exists>r. get (fold put ps d) (key p) = Some r \<and> carries p r"
  using assms
proof (induction ps arbitrary: d)
  case (Cons q ps)
  show ?case
  proof (cases "p = q")
    case True
    with Cons.prems have "key p \<notin> key ` set ps" by auto
    then have "get (fold put ps (put q d)) (key p) = get (put q d) (key p)"
      by (rule get_fold_other)
    with True get_put_same [of q d] show ?thesis by simp
  next
    case False
    with Cons show ?thesis by simp
  qed
qed simp

text \<open>In any batch, the last parameter with a key decides what the key holds.\<close>

lemma get_fold_last:
  assumes "x \<in> key ` set ps"
  shows "\<exists>p r. p \<in> set ps \<and> key p = x \<and> get (fold put ps d) x = Some r \<and> carries p r"
  using assms
proof (induction ps rule: rev_induct)
  case (snoc q ps)
  show ?case
  proof (cases "key q = x")
    case True
    with get_put_same [of q "fold put ps d"] show ?thesis by auto
  next
    case False
    with snoc have "x \<in> key ` set ps" by auto
    with snoc.IH obtain p r where "p \<in> set ps" "key p = x" "get (fold put ps d) x = Some r"
        "carries p r"
      by blast
    with False get_put_other [of x q "fold put ps d"] show ?thesis by auto
  qed
qed simp

end

end
