(* ===== verification/CoreStore.thy ===== *)
theory CoreStore
  imports Models Tables
begin

text \<open>
  The core tables and their queries (\<open>internal/db/coredb\<close>): each generated query function is the
  effect of its SQL statement on the tables, with the table's CHECK and UNIQUE constraints (migrations
  000001 to 000014). \<open>now\<close> is the statement's \<open>now()\<close>; \<open>updated_at\<close> is set by the update triggers. A
  sequence value is consumed by every insert attempt that reaches the row, also when it ends in the
  conflict branch. Foreign keys to the management tables are not modelled.
\<close>

record AuditEvent =
  av_id :: int
  av_event :: CreateAuditEventParams
  av_created_at :: time

record CoreDB =
  db_exposures :: "ExposureSnapshot list"
  db_positions :: "HedgePositionSnapshot list"
  db_monitor :: "HedgeMonitorSnapshot list"
  db_plans :: "OrderPlan list"
  db_executions :: "OrderExecution list"
  db_audits :: "AuditEvent list"
  sq_exposures :: int
  sq_positions :: int
  sq_monitor :: int
  sq_plans :: int
  sq_executions :: int
  sq_audits :: int

definition emptyCoreDB :: CoreDB where
  "emptyCoreDB = \<lparr>db_exposures = [], db_positions = [], db_monitor = [], db_plans = [],
     db_executions = [], db_audits = [], sq_exposures = 0, sq_positions = 0, sq_monitor = 0,
     sq_plans = 0, sq_executions = 0, sq_audits = 0\<rparr>"

section \<open>Exposure snapshots\<close>

definition exposureKey :: "ExposureSnapshot \<Rightarrow> int \<times> string \<times> string" where
  "exposureKey r = (es_agent_id r, es_source r, es_symbol r)"

definition exposureRow :: "int \<Rightarrow> UpsertExposureSnapshotParams \<Rightarrow> ExposureSnapshot" where
  "exposureRow i arg = \<lparr>es_id = i, es_agent_id = ue_agent_id arg, es_source = ue_source arg,
     es_symbol = ue_symbol arg, es_net_quantity = ue_net_quantity arg,
     es_net_notional = ue_net_notional arg, es_mark_price = ue_mark_price arg,
     es_observed_at = ue_observed_at arg\<rparr>"

definition putExposure :: "UpsertExposureSnapshotParams \<Rightarrow> CoreDB \<Rightarrow> CoreDB" where
  "putExposure arg db = db\<lparr>sq_exposures := sq_exposures db + 1,
     db_exposures := upsertRow
       (\<lambda>r. exposureKey r = (ue_agent_id arg, ue_source arg, ue_symbol arg))
       (\<lambda>r. exposureRow (es_id r) arg)
       (exposureRow (sq_exposures db + 1) arg) (db_exposures db)\<rparr>"

definition getExposure :: "CoreDB \<Rightarrow> int \<times> string \<times> string \<Rightarrow> ExposureSnapshot option" where
  "getExposure db k = findRow (\<lambda>r. exposureKey r = k) (db_exposures db)"

definition UpsertExposureSnapshot ::
    "UpsertExposureSnapshotParams \<Rightarrow> (CoreDB, ExposureSnapshot) io" where
  "UpsertExposureSnapshot arg db =
     (if \<not> ue_mark_price arg > 0
      then (Err (ErrExternal ''exposure_snapshots_mark_price_check''), db)
      else let db' = putExposure arg db
        in case getExposure db' (ue_agent_id arg, ue_source arg, ue_symbol arg) of
             Some r \<Rightarrow> (Ok r, db') | None \<Rightarrow> (Err ErrNoRows, db'))"

definition GetExposureSnapshot :: "int \<Rightarrow> string \<Rightarrow> string \<Rightarrow> (CoreDB, ExposureSnapshot) io" where
  "GetExposureSnapshot agentID source symbol db =
     (case getExposure db (agentID, source, symbol) of
        Some r \<Rightarrow> (Ok r, db) | None \<Rightarrow> (Err ErrNoRows, db))"

section \<open>Position snapshots\<close>

definition positionKey :: "HedgePositionSnapshot \<Rightarrow> int \<times> int \<times> string" where
  "positionKey r = (ps_agent_id r, ps_exchange_account_id r, ps_symbol r)"

definition positionRow :: "int \<Rightarrow> UpsertHedgePositionSnapshotParams \<Rightarrow> HedgePositionSnapshot" where
  "positionRow i arg = \<lparr>ps_id = i, ps_agent_id = up_agent_id arg,
     ps_exchange_account_id = up_exchange_account_id arg, ps_exchange = up_exchange arg,
     ps_account_name = up_account_name arg, ps_symbol = up_symbol arg,
     ps_position_side = up_position_side arg, ps_quantity = up_quantity arg,
     ps_notional = up_notional arg, ps_entry_price = up_entry_price arg,
     ps_mark_price = up_mark_price arg, ps_observed_at = up_observed_at arg\<rparr>"

definition positionParamKey :: "UpsertHedgePositionSnapshotParams \<Rightarrow> int \<times> int \<times> string" where
  "positionParamKey arg = (up_agent_id arg, up_exchange_account_id arg, up_symbol arg)"

definition putPosition :: "UpsertHedgePositionSnapshotParams \<Rightarrow> CoreDB \<Rightarrow> CoreDB" where
  "putPosition arg db = db\<lparr>sq_positions := sq_positions db + 1,
     db_positions := upsertRow (\<lambda>r. positionKey r = positionParamKey arg)
       (\<lambda>r. positionRow (ps_id r) arg)
       (positionRow (sq_positions db + 1) arg) (db_positions db)\<rparr>"

definition getPosition :: "CoreDB \<Rightarrow> int \<times> int \<times> string \<Rightarrow> HedgePositionSnapshot option" where
  "getPosition db k = findRow (\<lambda>r. positionKey r = k) (db_positions db)"

definition positionChecks :: "UpsertHedgePositionSnapshotParams \<Rightarrow> bool" where
  "positionChecks arg \<longleftrightarrow>
     up_position_side arg \<in> {''NET'', ''LONG'', ''SHORT''} \<and> up_mark_price arg \<ge> 0"

definition UpsertHedgePositionSnapshot ::
    "UpsertHedgePositionSnapshotParams \<Rightarrow> (CoreDB, HedgePositionSnapshot) io" where
  "UpsertHedgePositionSnapshot arg db =
     (if \<not> positionChecks arg then (Err (ErrExternal ''hedge_position_snapshots check''), db)
      else let db' = putPosition arg db
        in case getPosition db' (positionParamKey arg) of
             Some r \<Rightarrow> (Ok r, db') | None \<Rightarrow> (Err ErrNoRows, db'))"

definition GetHedgePositionSnapshot ::
    "int \<Rightarrow> int \<Rightarrow> string \<Rightarrow> (CoreDB, HedgePositionSnapshot) io" where
  "GetHedgePositionSnapshot agentID accountID symbol db =
     (case getPosition db (agentID, accountID, symbol) of
        Some r \<Rightarrow> (Ok r, db) | None \<Rightarrow> (Err ErrNoRows, db))"

section \<open>Order plans\<close>

definition planChecks :: "CreateOrderPlanParams \<Rightarrow> bool" where
  "planChecks arg \<longleftrightarrow> cp_agent_id arg > 0 \<and> cp_exchange_account_id arg > 0
     \<and> cp_side arg \<in> {''BUY'', ''SELL''}
     \<and> cp_position_side arg \<in> {''NET'', ''LONG'', ''SHORT''}
     \<and> cp_order_type arg \<in> {''LIMIT'', ''MARKET''}
     \<and> cp_reason arg \<in> {ReasonFirstTrigger, ReasonRebalance, ReasonExitHedge, ReasonManualClose,
         ReasonHedgeRatioAdjustment, ReasonPositionFlipClose}
     \<and> cp_status arg \<in> {''planned'', ''skipped'', ''submitted'', ''filled'', ''failed'', ''dry_run''}
     \<and> cp_quantity arg \<ge> 0 \<and> cp_price arg \<ge> 0 \<and> cp_notional arg \<ge> 0"

definition planStatusOk :: "string \<Rightarrow> bool" where
  "planStatusOk s \<longleftrightarrow> s \<in> {''planned'', ''skipped'', ''submitted'', ''filled'', ''failed'', ''dry_run''}"

definition planRow :: "time \<Rightarrow> int \<Rightarrow> CreateOrderPlanParams \<Rightarrow> OrderPlan" where
  "planRow now i arg = \<lparr>op_id = i, op_idempotency_key = cp_idempotency_key arg,
     op_config_id = cp_config_id arg, op_agent_id = cp_agent_id arg,
     op_exchange_account_id = cp_exchange_account_id arg, op_source = cp_source arg,
     op_exchange = cp_exchange arg, op_account_name = cp_account_name arg,
     op_symbol = cp_symbol arg, op_side = cp_side arg, op_position_side = cp_position_side arg,
     op_order_type = cp_order_type arg, op_quantity = cp_quantity arg, op_price = cp_price arg,
     op_notional = cp_notional arg, op_reduce_only = cp_reduce_only arg, op_reason = cp_reason arg,
     op_status = cp_status arg, op_planned_at = now, op_updated_at = now\<rparr>"

definition planByKey :: "string \<Rightarrow> CoreDB \<Rightarrow> OrderPlan option" where
  "planByKey k db = findRow (\<lambda>r. op_idempotency_key r = k) (db_plans db)"

definition planById :: "int \<Rightarrow> CoreDB \<Rightarrow> OrderPlan option" where
  "planById i db = findRow (\<lambda>r. op_id r = i) (db_plans db)"

definition CreateOrderPlan :: "time \<Rightarrow> CreateOrderPlanParams \<Rightarrow> (CoreDB, OrderPlan) io" where
  "CreateOrderPlan now arg db =
     (if \<not> planChecks arg then (Err (ErrExternal ''order_plans check''), db)
      else
        let db' = db\<lparr>sq_plans := sq_plans db + 1,
              db_plans := upsertRow (\<lambda>r. op_idempotency_key r = cp_idempotency_key arg)
                (\<lambda>r. r\<lparr>op_updated_at := now\<rparr>) (planRow now (sq_plans db + 1) arg) (db_plans db)\<rparr>
        in case planByKey (cp_idempotency_key arg) db' of
             Some r \<Rightarrow> (Ok r, db') | None \<Rightarrow> (Err ErrNoRows, db'))"

definition UpdateOrderPlanStatus :: "time \<Rightarrow> int \<Rightarrow> string \<Rightarrow> (CoreDB, OrderPlan) io" where
  "UpdateOrderPlanStatus now i status db =
     (case planById i db of
        None \<Rightarrow> (Err ErrNoRows, db)
      | Some _ \<Rightarrow>
          if \<not> planStatusOk status then (Err (ErrExternal ''order_plans_status_check''), db)
          else
            let db' = db\<lparr>db_plans := updateRows (\<lambda>r. op_id r = i)
                  (\<lambda>r. r\<lparr>op_status := status, op_updated_at := now\<rparr>) (db_plans db)\<rparr>
            in case planById i db' of
                 Some r \<Rightarrow> (Ok r, db') | None \<Rightarrow> (Err ErrNoRows, db'))"

section \<open>Order executions\<close>

definition executionStatusOk :: "string \<Rightarrow> bool" where
  "executionStatusOk s \<longleftrightarrow> s \<in> {''submitted'', ''filled'', ''failed'', ''dry_run''}"

definition executionRow :: "time \<Rightarrow> int \<Rightarrow> CreateOrderExecutionParams \<Rightarrow> OrderExecution" where
  "executionRow now i arg = \<lparr>ox_id = i, ox_order_plan_id = ce_order_plan_id arg,
     ox_exchange_order_id = ce_exchange_order_id arg, ox_client_order_id = ce_client_order_id arg,
     ox_status = ce_status arg, ox_filled_quantity = ce_filled_quantity arg,
     ox_avg_price = ce_avg_price arg, ox_fee_usdt = ce_fee_usdt arg,
     ox_raw_response = ce_raw_response arg, ox_error_message = ce_error_message arg,
     ox_submitted_at = (if ce_status arg \<in> {''submitted'', ''filled''} then Some now else None),
     ox_filled_at = (if ce_status arg = ''filled'' then Some now else None),
     ox_failed_at = (if ce_status arg = ''failed'' then Some now else None),
     ox_updated_at = now\<rparr>"

definition executionByPlan :: "int \<Rightarrow> CoreDB \<Rightarrow> OrderExecution option" where
  "executionByPlan i db = findRow (\<lambda>r. ox_order_plan_id r = i) (db_executions db)"

definition executionByClientOrder :: "string \<Rightarrow> CoreDB \<Rightarrow> OrderExecution option" where
  "executionByClientOrder c db = findRow (\<lambda>r. ox_client_order_id r = c) (db_executions db)"

definition executionById :: "int \<Rightarrow> CoreDB \<Rightarrow> OrderExecution option" where
  "executionById i db = findRow (\<lambda>r. ox_id r = i) (db_executions db)"

definition executionChecks :: "CreateOrderExecutionParams \<Rightarrow> bool" where
  "executionChecks arg \<longleftrightarrow> executionStatusOk (ce_status arg)
     \<and> ce_filled_quantity arg \<ge> 0 \<and> ce_avg_price arg \<ge> 0 \<and> ce_fee_usdt arg \<ge> 0"

text \<open>One execution per plan is the conflict target; a second client order id is an error.\<close>

definition CreateOrderExecution ::
    "time \<Rightarrow> CreateOrderExecutionParams \<Rightarrow> (CoreDB, OrderExecution) io" where
  "CreateOrderExecution now arg db =
     (if \<not> executionChecks arg then (Err (ErrExternal ''order_executions check''), db)
      else if executionByPlan (ce_order_plan_id arg) db = None
              \<and> executionByClientOrder (ce_client_order_id arg) db \<noteq> None
      then (Err (ErrExternal ''order_executions_client_order_id_uidx''), db)
      else if planById (ce_order_plan_id arg) db = None
      then (Err (ErrExternal ''order_executions_order_plan_id_fkey''), db)
      else
        let db' = db\<lparr>sq_executions := sq_executions db + 1,
              db_executions := upsertRow (\<lambda>r. ox_order_plan_id r = ce_order_plan_id arg)
                (\<lambda>r. r\<lparr>ox_updated_at := now\<rparr>)
                (executionRow now (sq_executions db + 1) arg) (db_executions db)\<rparr>
        in case executionByPlan (ce_order_plan_id arg) db' of
             Some r \<Rightarrow> (Ok r, db') | None \<Rightarrow> (Err ErrNoRows, db'))"

definition GetOrderExecutionByClientOrderID :: "string \<Rightarrow> (CoreDB, OrderExecution) io" where
  "GetOrderExecutionByClientOrderID c db =
     (case executionByClientOrder c db of
        Some r \<Rightarrow> (Ok r, db) | None \<Rightarrow> (Err ErrNoRows, db))"

definition orElse :: "'a option \<Rightarrow> 'a \<Rightarrow> 'a option" where
  "orElse x d = (case x of None \<Rightarrow> Some d | Some y \<Rightarrow> Some y)"

definition setExecutionStatus ::
    "time \<Rightarrow> UpdateOrderExecutionStatusParams \<Rightarrow> OrderExecution \<Rightarrow> OrderExecution" where
  "setExecutionStatus now arg r = r\<lparr>ox_exchange_order_id := ux_exchange_order_id arg,
     ox_status := ux_status arg, ox_filled_quantity := ux_filled_quantity arg,
     ox_avg_price := ux_avg_price arg, ox_fee_usdt := ux_fee_usdt arg,
     ox_raw_response := ux_raw_response arg, ox_error_message := ux_error_message arg,
     ox_submitted_at := (if ux_status arg \<in> {''submitted'', ''filled''}
        then orElse (ox_submitted_at r) now else ox_submitted_at r),
     ox_filled_at := (if ux_status arg = ''filled'' then orElse (ox_filled_at r) now
        else ox_filled_at r),
     ox_failed_at := (if ux_status arg = ''failed'' then orElse (ox_failed_at r) now
        else ox_failed_at r),
     ox_updated_at := now\<rparr>"

definition UpdateOrderExecutionStatus ::
    "time \<Rightarrow> UpdateOrderExecutionStatusParams \<Rightarrow> (CoreDB, OrderExecution) io" where
  "UpdateOrderExecutionStatus now arg db =
     (case executionById (ux_id arg) db of
        None \<Rightarrow> (Err ErrNoRows, db)
      | Some _ \<Rightarrow>
          if \<not> (executionStatusOk (ux_status arg) \<and> ux_filled_quantity arg \<ge> 0
                \<and> ux_avg_price arg \<ge> 0 \<and> ux_fee_usdt arg \<ge> 0)
          then (Err (ErrExternal ''order_executions check''), db)
          else
            let db' = db\<lparr>db_executions := updateRows (\<lambda>r. ox_id r = ux_id arg)
                  (setExecutionStatus now arg) (db_executions db)\<rparr>
            in case executionById (ux_id arg) db' of
                 Some r \<Rightarrow> (Ok r, db') | None \<Rightarrow> (Err ErrNoRows, db'))"

section \<open>Latest execution states\<close>

definition joinState :: "OrderPlan \<Rightarrow> OrderExecution \<Rightarrow> LatestOrderExecutionState" where
  "joinState p x = \<lparr>ls_config_id = op_config_id p, ls_order_plan_id = op_id p,
     ls_execution_id = ox_id x, ls_exchange_order_id = ox_exchange_order_id x,
     ls_client_order_id = ox_client_order_id x, ls_symbol = op_symbol p, ls_side = op_side p,
     ls_status = ox_status x, ls_updated_at = ox_updated_at x\<rparr>"

definition joinedStates :: "CoreDB \<Rightarrow> LatestOrderExecutionState list" where
  "joinedStates db = concat (map (\<lambda>p. map (joinState p)
     (filter (\<lambda>x. ox_order_plan_id x = op_id p) (db_executions db))) (db_plans db))"

text \<open>\<open>ORDER BY updated_at DESC, id DESC LIMIT 1\<close>\<close>

definition newerState ::
    "LatestOrderExecutionState \<Rightarrow> LatestOrderExecutionState \<Rightarrow> LatestOrderExecutionState" where
  "newerState a b =
     (if ls_updated_at a < ls_updated_at b
        \<or> ls_updated_at a = ls_updated_at b \<and> ls_execution_id a < ls_execution_id b
      then b else a)"

fun latestState :: "LatestOrderExecutionState list \<Rightarrow> LatestOrderExecutionState option" where
  "latestState [] = None"
| "latestState (s # ss) =
     (case latestState ss of None \<Rightarrow> Some s | Some t \<Rightarrow> Some (newerState s t))"

definition GetLatestOrderExecutionStateByConfigID ::
    "int \<Rightarrow> (CoreDB, LatestOrderExecutionState) io" where
  "GetLatestOrderExecutionStateByConfigID configID db =
     (case latestState (filter (\<lambda>s. ls_config_id s = configID) (joinedStates db)) of
        Some s \<Rightarrow> (Ok s, db) | None \<Rightarrow> (Err ErrNoRows, db))"

definition GetOrderExecutionStateByExecutionID ::
    "int \<Rightarrow> (CoreDB, LatestOrderExecutionState) io" where
  "GetOrderExecutionStateByExecutionID executionID db =
     (case filter (\<lambda>s. ls_execution_id s = executionID) (joinedStates db) of
        s # _ \<Rightarrow> (Ok s, db) | [] \<Rightarrow> (Err ErrNoRows, db))"

section \<open>Audit events\<close>

definition CreateAuditEvent :: "time \<Rightarrow> CreateAuditEventParams \<Rightarrow> (CoreDB, AuditEvent) io" where
  "CreateAuditEvent now arg db =
     (if au_severity arg \<notin> {''info'', ''warn'', ''error''}
      then (Err (ErrExternal ''audit_events_severity_check''), db)
      else
        let row = \<lparr>av_id = sq_audits db + 1, av_event = arg, av_created_at = now\<rparr>
        in (Ok row, db\<lparr>sq_audits := sq_audits db + 1, db_audits := db_audits db @ [row]\<rparr>))"

definition insertByCreated :: "AuditEvent \<Rightarrow> AuditEvent list \<Rightarrow> AuditEvent list" where
  "insertByCreated x ys =
     takeWhile (\<lambda>y. av_created_at x < av_created_at y) ys @ x #
     dropWhile (\<lambda>y. av_created_at x < av_created_at y) ys"

text \<open>\<open>ORDER BY created_at DESC LIMIT $1\<close>\<close>

definition ListRecentAuditEvents :: "int \<Rightarrow> (CoreDB, AuditEvent list) io" where
  "ListRecentAuditEvents limit db =
     (Ok (take (nat limit) (foldr insertByCreated (db_audits db) [])), db)"

section \<open>The tables as keyed tables\<close>

definition exposureParamKey :: "UpsertExposureSnapshotParams \<Rightarrow> int \<times> string \<times> string" where
  "exposureParamKey arg = (ue_agent_id arg, ue_source arg, ue_symbol arg)"

lemma exposureKey_row [simp]: "exposureKey (exposureRow i arg) = exposureParamKey arg"
  by (simp add: exposureKey_def exposureRow_def exposureParamKey_def)

lemma positionKey_row [simp]: "positionKey (positionRow i arg) = positionParamKey arg"
  by (simp add: positionKey_def positionRow_def positionParamKey_def)

lemma id_rows [simp]: "es_id (exposureRow i a) = i" "ps_id (positionRow i b) = i"
  by (simp_all add: exposureRow_def positionRow_def)

lemma getExposure_put_same:
  "\<exists>r. getExposure (putExposure p d) (exposureParamKey p) = Some r \<and> r = exposureRow (es_id r) p"
  unfolding getExposure_def putExposure_def
  by (simp add: exposureParamKey_def [symmetric] findRow_upsertRow_same split: option.split)

lemma getExposure_put_other:
  "x \<noteq> exposureParamKey p \<Longrightarrow> getExposure (putExposure p d) x = getExposure d x"
  by (simp add: getExposure_def putExposure_def exposureParamKey_def [symmetric]
      findRow_upsertRow_other)

lemma getPosition_put_same:
  "\<exists>r. getPosition (putPosition p d) (positionParamKey p) = Some r \<and> r = positionRow (ps_id r) p"
  unfolding getPosition_def putPosition_def
  by (simp add: findRow_upsertRow_same split: option.split)

lemma getPosition_put_other:
  "x \<noteq> positionParamKey p \<Longrightarrow> getPosition (putPosition p d) x = getPosition d x"
  by (simp add: getPosition_def putPosition_def findRow_upsertRow_other)

interpretation exposures: keyed_table exposureParamKey putExposure getExposure
    "\<lambda>p r. r = exposureRow (es_id r) p"
  by unfold_locales (rule getExposure_put_same, rule getExposure_put_other)

interpretation positions: keyed_table positionParamKey putPosition getPosition
    "\<lambda>p r. r = positionRow (ps_id r) p"
  by unfold_locales (rule getPosition_put_same, rule getPosition_put_other)

lemma UpsertExposureSnapshot_ok:
  assumes "ue_mark_price arg > 0"
  shows "\<exists>r. UpsertExposureSnapshot arg db = (Ok r, putExposure arg db) \<and> r = exposureRow (es_id r) arg"
  using getExposure_put_same [of arg db] assms
  by (auto simp: UpsertExposureSnapshot_def Let_def exposureParamKey_def [symmetric])

lemma UpsertHedgePositionSnapshot_ok:
  assumes "positionChecks arg"
  shows "\<exists>r. UpsertHedgePositionSnapshot arg db = (Ok r, putPosition arg db)
    \<and> getPosition (putPosition arg db) (positionParamKey arg) = Some r
    \<and> r = positionRow (ps_id r) arg"
  using getPosition_put_same [of arg db] assms
  by (auto simp: UpsertHedgePositionSnapshot_def Let_def)

section \<open>Integrity of the order tables\<close>

text \<open>
  What the UNIQUE constraints, the foreign key and the sequences promise together: plan ids and
  idempotency keys are unique, a plan has at most one execution, execution ids and client order ids
  are unique, every execution belongs to a stored plan, and every status is one the CHECK allows.
\<close>

definition wfOrders :: "CoreDB \<Rightarrow> bool" where
  "wfOrders db \<longleftrightarrow>
     distinct (map op_id (db_plans db)) \<and> distinct (map op_idempotency_key (db_plans db)) \<and>
     distinct (map ox_id (db_executions db)) \<and> distinct (map ox_order_plan_id (db_executions db)) \<and>
     distinct (map ox_client_order_id (db_executions db)) \<and>
     (\<forall>p \<in> set (db_plans db). op_id p \<le> sq_plans db \<and> planStatusOk (op_status p)) \<and>
     (\<forall>x \<in> set (db_executions db). ox_id x \<le> sq_executions db \<and> executionStatusOk (ox_status x) \<and>
        ox_order_plan_id x \<in> op_id ` set (db_plans db))"

lemma wfOrders_empty: "wfOrders emptyCoreDB"
  by (simp add: wfOrders_def emptyCoreDB_def)

lemma wfOrders_cong:
  "db_plans d' = db_plans d \<Longrightarrow> db_executions d' = db_executions d \<Longrightarrow> sq_plans d' = sq_plans d \<Longrightarrow>
   sq_executions d' = sq_executions d \<Longrightarrow> wfOrders d' = wfOrders d"
  by (simp add: wfOrders_def)

lemma planRow_simps [simp]:
  "op_id (planRow t i a) = i" "op_idempotency_key (planRow t i a) = cp_idempotency_key a"
  "op_status (planRow t i a) = cp_status a"
  by (simp_all add: planRow_def)

lemma executionRow_simps [simp]:
  "ox_id (executionRow t i a) = i" "ox_order_plan_id (executionRow t i a) = ce_order_plan_id a"
  "ox_client_order_id (executionRow t i a) = ce_client_order_id a"
  "ox_status (executionRow t i a) = ce_status a"
  by (simp_all add: executionRow_def)

lemma setExecutionStatus_simps [simp]:
  "ox_id (setExecutionStatus t a r) = ox_id r"
  "ox_order_plan_id (setExecutionStatus t a r) = ox_order_plan_id r"
  "ox_client_order_id (setExecutionStatus t a r) = ox_client_order_id r"
  "ox_status (setExecutionStatus t a r) = ux_status a"
  "ox_updated_at (setExecutionStatus t a r) = t"
  by (simp_all add: setExecutionStatus_def)

text \<open>An update that keeps the keys of a row and an allowed status keeps the integrity.\<close>

lemma wfOrders_updatePlans:
  assumes wf: "wfOrders db" and "sq_plans db \<le> n"
    and f: "\<And>r. P r \<Longrightarrow> op_id (f r) = op_id r \<and> op_idempotency_key (f r) = op_idempotency_key r
      \<and> (op_status (f r) = op_status r \<or> planStatusOk (op_status (f r)))"
  shows "wfOrders (db\<lparr>db_plans := updateRows P f (db_plans db), sq_plans := n\<rparr>)"
proof -
  have ids: "map op_id (updateRows P f (db_plans db)) = map op_id (db_plans db)"
    "map op_idempotency_key (updateRows P f (db_plans db)) = map op_idempotency_key (db_plans db)"
    using f by (auto intro!: map_updateRows)
  have "op_id ` set (updateRows P f (db_plans db)) = op_id ` set (db_plans db)"
    using ids(1) by (metis set_map)
  moreover have "\<forall>p \<in> set (updateRows P f (db_plans db)). op_id p \<le> n \<and> planStatusOk (op_status p)"
    using wf f assms(2) by (fastforce simp: set_updateRows wfOrders_def)
  ultimately show ?thesis
    using wf ids by (simp add: wfOrders_def)
qed

lemma wfOrders_updateExecutions:
  assumes wf: "wfOrders db" and "sq_executions db \<le> n"
    and f: "\<And>r. P r \<Longrightarrow> ox_id (f r) = ox_id r \<and> ox_order_plan_id (f r) = ox_order_plan_id r
      \<and> ox_client_order_id (f r) = ox_client_order_id r
      \<and> (ox_status (f r) = ox_status r \<or> executionStatusOk (ox_status (f r)))"
  shows "wfOrders (db\<lparr>db_executions := updateRows P f (db_executions db), sq_executions := n\<rparr>)"
proof -
  have "map ox_id (updateRows P f (db_executions db)) = map ox_id (db_executions db)"
    "map ox_order_plan_id (updateRows P f (db_executions db)) = map ox_order_plan_id (db_executions db)"
    "map ox_client_order_id (updateRows P f (db_executions db)) = map ox_client_order_id (db_executions db)"
    using f by (auto intro!: map_updateRows)
  moreover have "\<forall>x \<in> set (updateRows P f (db_executions db)). ox_id x \<le> n \<and>
      executionStatusOk (ox_status x) \<and> ox_order_plan_id x \<in> op_id ` set (db_plans db)"
  proof
    fix x assume "x \<in> set (updateRows P f (db_executions db))"
    then obtain r where r: "r \<in> set (db_executions db)" "x = (if P r then f r else r)"
      by (auto simp: set_updateRows)
    with wf have "ox_id r \<le> sq_executions db" "executionStatusOk (ox_status r)"
      "ox_order_plan_id r \<in> op_id ` set (db_plans db)"
      by (simp_all add: wfOrders_def)
    with r f [of r] assms(2) show "ox_id x \<le> n \<and> executionStatusOk (ox_status x) \<and>
        ox_order_plan_id x \<in> op_id ` set (db_plans db)"
      by (cases "P r") auto
  qed
  ultimately show ?thesis
    using wf by (simp add: wfOrders_def)
qed

lemma snd_case_option_row: "snd (case q of None \<Rightarrow> (Err e, d) | Some r \<Rightarrow> (Ok r, d)) = d"
  by (simp split: option.split)

lemma CreateOrderPlan_wf: "wfOrders db \<Longrightarrow> wfOrders (snd (CreateOrderPlan now arg db))"
proof -
  assume wf: "wfOrders db"
  let ?P = "\<lambda>r. op_idempotency_key r = cp_idempotency_key arg"
  let ?f = "\<lambda>r. r\<lparr>op_updated_at := now\<rparr>"
  let ?new = "planRow now (sq_plans db + 1) arg"
  let ?db = "db\<lparr>sq_plans := sq_plans db + 1, db_plans := upsertRow ?P ?f ?new (db_plans db)\<rparr>"
  show ?thesis
  proof (cases "planChecks arg")
    case False
    with wf show ?thesis by (simp add: CreateOrderPlan_def)
  next
    case ok: True
    then have st: "planStatusOk (cp_status arg)" by (auto simp: planChecks_def planStatusOk_def)
    have "wfOrders ?db"
    proof (cases "\<exists>r \<in> set (db_plans db). ?P r")
      case True
      then have "?db = db\<lparr>db_plans := updateRows ?P ?f (db_plans db), sq_plans := sq_plans db + 1\<rparr>"
        by (simp add: upsertRow_def)
      with wfOrders_updatePlans [OF wf, of "sq_plans db + 1" ?P ?f] show ?thesis by simp
    next
      case False
      with wf st show ?thesis by (force simp: wfOrders_def upsertRow_def)
    qed
    with ok show ?thesis
      by (simp add: CreateOrderPlan_def Let_def snd_case_option_row)
  qed
qed

lemma UpdateOrderPlanStatus_wf: "wfOrders db \<Longrightarrow> wfOrders (snd (UpdateOrderPlanStatus now i st db))"
  using wfOrders_updatePlans [of db "sq_plans db" "\<lambda>r. op_id r = i"
      "\<lambda>r. r\<lparr>op_status := st, op_updated_at := now\<rparr>"]
  by (simp add: UpdateOrderPlanStatus_def Let_def snd_case_option_row split: option.split)

lemma CreateOrderExecution_wf: "wfOrders db \<Longrightarrow> wfOrders (snd (CreateOrderExecution now arg db))"
proof -
  assume wf: "wfOrders db"
  let ?P = "\<lambda>r. ox_order_plan_id r = ce_order_plan_id arg"
  let ?f = "\<lambda>r. r\<lparr>ox_updated_at := now\<rparr>"
  let ?new = "executionRow now (sq_executions db + 1) arg"
  let ?db = "db\<lparr>sq_executions := sq_executions db + 1, db_executions :=
       upsertRow ?P ?f ?new (db_executions db)\<rparr>"
  show ?thesis
  proof (cases "executionChecks arg \<and> planById (ce_order_plan_id arg) db \<noteq> None
      \<and> \<not> (executionByPlan (ce_order_plan_id arg) db = None
           \<and> executionByClientOrder (ce_client_order_id arg) db \<noteq> None)")
    case False
    with wf show ?thesis by (auto simp: CreateOrderExecution_def)
  next
    case ok: True
    then have st: "executionStatusOk (ce_status arg)" by (auto simp: executionChecks_def)
    from ok obtain p where "findRow (\<lambda>r. op_id r = ce_order_plan_id arg) (db_plans db) = Some p"
      by (auto simp: planById_def)
    then have plan: "ce_order_plan_id arg \<in> op_id ` set (db_plans db)"
      using findRow_SomeD by force
    have "wfOrders ?db"
    proof (cases "\<exists>r \<in> set (db_executions db). ?P r")
      case True
      then have "?db = db\<lparr>db_executions := updateRows ?P ?f (db_executions db),
          sq_executions := sq_executions db + 1\<rparr>"
        by (simp add: upsertRow_def)
      with wfOrders_updateExecutions [OF wf, of "sq_executions db + 1" ?P ?f] show ?thesis by simp
    next
      case False
      then have "executionByPlan (ce_order_plan_id arg) db = None"
        by (simp add: executionByPlan_def findRow_None_iff)
      with ok have "executionByClientOrder (ce_client_order_id arg) db = None" by blast
      then have "\<forall>x \<in> set (db_executions db). ox_client_order_id x \<noteq> ce_client_order_id arg"
        by (simp add: executionByClientOrder_def findRow_None_iff)
      with False wf st plan show ?thesis
        by (force simp: wfOrders_def upsertRow_def)
    qed
    with ok show ?thesis
      by (auto simp: CreateOrderExecution_def Let_def snd_case_option_row)
  qed
qed

lemma UpdateOrderExecutionStatus_wf:
  "wfOrders db \<Longrightarrow> wfOrders (snd (UpdateOrderExecutionStatus now arg db))"
  using wfOrders_updateExecutions [of db "sq_executions db" "\<lambda>r. ox_id r = ux_id arg"
      "setExecutionStatus now arg"]
  by (simp add: UpdateOrderExecutionStatus_def Let_def snd_case_option_row split: option.split)

lemma other_queries_wf:
  "wfOrders (snd (UpsertExposureSnapshot ea db)) = wfOrders db"
  "wfOrders (snd (UpsertHedgePositionSnapshot pa db)) = wfOrders db"
  "wfOrders (snd (CreateAuditEvent now aa db)) = wfOrders db"
  by (simp_all add: UpsertExposureSnapshot_def UpsertHedgePositionSnapshot_def CreateAuditEvent_def
      Let_def putExposure_def putPosition_def wfOrders_def split: option.split)

section \<open>The newest execution state\<close>

text \<open>\<open>(updated_at, id)\<close> in lexicographic order, the order of the query.\<close>

definition stateRank :: "LatestOrderExecutionState \<Rightarrow> time \<times> int" where
  "stateRank s = (ls_updated_at s, ls_execution_id s)"

definition rankLe :: "time \<times> int \<Rightarrow> time \<times> int \<Rightarrow> bool" where
  "rankLe a b \<longleftrightarrow> fst a < fst b \<or> fst a = fst b \<and> snd a \<le> snd b"

lemma rankLe_trans: "rankLe a b \<Longrightarrow> rankLe b c \<Longrightarrow> rankLe a c"
  by (auto simp: rankLe_def)

lemma newerState_max:
  "rankLe (stateRank a) (stateRank (newerState a b)) \<and> rankLe (stateRank b) (stateRank (newerState a b))
   \<and> newerState a b \<in> {a, b}"
  by (auto simp: newerState_def rankLe_def stateRank_def)

lemma latestState_None_iff: "latestState xs = None \<longleftrightarrow> xs = []"
  by (cases xs) (auto split: option.split)

lemma latestState_max:
  "latestState xs = Some s \<Longrightarrow> s \<in> set xs \<and> (\<forall>t \<in> set xs. rankLe (stateRank t) (stateRank s))"
proof (induction xs arbitrary: s)
  case (Cons x xs)
  show ?case
  proof (cases "latestState xs")
    case None
    with Cons.prems show ?thesis by (simp add: latestState_None_iff rankLe_def)
  next
    case (Some t)
    with Cons.prems have s: "s = newerState x t" by simp
    from Cons.IH [OF Some] s newerState_max [of x t] show ?thesis
      by (auto intro: rankLe_trans)
  qed
qed simp

lemma joinedStates_iff:
  "s \<in> set (joinedStates db) \<longleftrightarrow> (\<exists>p \<in> set (db_plans db). \<exists>x \<in> set (db_executions db).
     ox_order_plan_id x = op_id p \<and> s = joinState p x)"
  by (auto simp: joinedStates_def)

section \<open>Properties\<close>

text \<open>Every query that writes keeps the integrity of the order tables, whatever its arguments and
  whether it succeeds or is refused by a constraint.\<close>

theorem queries_keep_integrity:
  "keepsInv wfOrders (CreateOrderPlan now plan) \<and>
   keepsInv wfOrders (UpdateOrderPlanStatus now i st) \<and>
   keepsInv wfOrders (CreateOrderExecution now ex) \<and>
   keepsInv wfOrders (UpdateOrderExecutionStatus now ux) \<and>
   keepsInv wfOrders (UpsertExposureSnapshot ue) \<and>
   keepsInv wfOrders (UpsertHedgePositionSnapshot up) \<and>
   keepsInv wfOrders (CreateAuditEvent now au)"
  by (simp add: keepsInv_def CreateOrderPlan_wf UpdateOrderPlanStatus_wf CreateOrderExecution_wf
      UpdateOrderExecutionStatus_wf other_queries_wf)

text \<open>C14: creating a plan is idempotent in its key. A second insert with a stored key changes nothing
  of the plan but its \<open>updated_at\<close> and stores no second plan; a new key is stored as given.\<close>

theorem CreateOrderPlan_idempotent:
  assumes "planChecks arg"
  shows "\<exists>r db'. CreateOrderPlan now arg db = (Ok r, db') \<and>
    planByKey (cp_idempotency_key arg) db' = Some r \<and>
    (case planByKey (cp_idempotency_key arg) db of
       Some old \<Rightarrow> r = old\<lparr>op_updated_at := now\<rparr> \<and> length (db_plans db') = length (db_plans db)
     | None \<Rightarrow> r = planRow now (sq_plans db + 1) arg \<and> db_plans db' = db_plans db @ [r])"
proof -
  let ?k = "cp_idempotency_key arg"
  let ?new = "planRow now (sq_plans db + 1) arg"
  let ?db = "db\<lparr>sq_plans := sq_plans db + 1, db_plans := upsertRow (\<lambda>r. op_idempotency_key r = ?k)
      (\<lambda>r. r\<lparr>op_updated_at := now\<rparr>) ?new (db_plans db)\<rparr>"
  have look: "planByKey ?k ?db = Some (case planByKey ?k db of None \<Rightarrow> ?new
      | Some r \<Rightarrow> r\<lparr>op_updated_at := now\<rparr>)"
    by (simp add: planByKey_def findRow_upsertRow_same)
  then have run: "CreateOrderPlan now arg db = (Ok (case planByKey ?k db of None \<Rightarrow> ?new
      | Some r \<Rightarrow> r\<lparr>op_updated_at := now\<rparr>), ?db)"
    using assms by (simp add: CreateOrderPlan_def Let_def)
  show ?thesis
  proof (cases "planByKey ?k db")
    case None
    then have "upsertRow (\<lambda>r. op_idempotency_key r = ?k) (\<lambda>r. r\<lparr>op_updated_at := now\<rparr>) ?new
        (db_plans db) = db_plans db @ [?new]"
      by (auto simp: planByKey_def findRow_None_iff upsertRow_def)
    with None run look show ?thesis by simp
  next
    case (Some old)
    then have "old \<in> set (db_plans db) \<and> op_idempotency_key old = ?k"
      unfolding planByKey_def by (rule findRow_SomeD)
    then have "length (db_plans ?db) = length (db_plans db)"
      by (auto simp: upsertRow_def)
    with Some run look show ?thesis by simp
  qed
qed

definition examplePlan :: CreateOrderPlanParams where
  "examplePlan = \<lparr>cp_idempotency_key = ''t-1'', cp_config_id = 7, cp_agent_id = 3,
     cp_exchange_account_id = 5, cp_source = ''platform'', cp_exchange = ''gate'',
     cp_account_name = ''main'', cp_symbol = ''BTC/USDT:USDT'', cp_side = ''SELL'',
     cp_position_side = ''NET'', cp_order_type = ''LIMIT'', cp_quantity = 1, cp_price = 100,
     cp_notional = 100, cp_reduce_only = False, cp_reason = ReasonFirstTrigger,
     cp_status = ''planned''\<rparr>"

lemma examplePlan_checks: "planChecks examplePlan"
  by (simp add: planChecks_def examplePlan_def reason_defs)

lemma CreateOrderPlan_idempotent_witness:
  "\<exists>r db'. CreateOrderPlan 5 examplePlan emptyCoreDB = (Ok r, db') \<and>
     r = planRow 5 1 examplePlan \<and> db_plans db' = [r]"
  using CreateOrderPlan_idempotent [OF examplePlan_checks, of 5 emptyCoreDB]
  by (auto simp: emptyCoreDB_def planByKey_def)

text \<open>C15: a recorded execution is found again by its client order id and by its own id, joined with
  its plan, and a second insert for the same plan returns it instead of a second row.\<close>

theorem CreateOrderExecution_recorded:
  assumes wf: "wfOrders db" and ok: "executionChecks arg"
    and plan: "planById (ce_order_plan_id arg) db = Some p"
    and free: "executionByPlan (ce_order_plan_id arg) db = None"
    and fresh: "executionByClientOrder (ce_client_order_id arg) db = None"
    and again: "executionChecks arg'" "ce_order_plan_id arg' = ce_order_plan_id arg"
  shows "\<exists>x db'. CreateOrderExecution now arg db = (Ok x, db') \<and>
    ox_client_order_id x = ce_client_order_id arg \<and> ox_status x = ce_status arg \<and>
    GetOrderExecutionByClientOrderID (ce_client_order_id arg) db' = (Ok x, db') \<and>
    GetOrderExecutionStateByExecutionID (ox_id x) db' = (Ok (joinState p x), db') \<and>
    (\<exists>db''. CreateOrderExecution later arg' db' = (Ok (x\<lparr>ox_updated_at := later\<rparr>), db'') \<and>
       length (db_executions db'') = length (db_executions db'))"
proof -
  let ?x = "executionRow now (sq_executions db + 1) arg"
  let ?db = "db\<lparr>sq_executions := sq_executions db + 1, db_executions := db_executions db @ [?x]\<rparr>"
  have noplan: "\<forall>x \<in> set (db_executions db). ox_order_plan_id x \<noteq> ce_order_plan_id arg"
    using free by (simp add: executionByPlan_def findRow_None_iff)
  have noclient: "\<forall>x \<in> set (db_executions db). ox_client_order_id x \<noteq> ce_client_order_id arg"
    using fresh by (simp add: executionByClientOrder_def findRow_None_iff)
  have ups: "upsertRow (\<lambda>r. ox_order_plan_id r = ce_order_plan_id arg) (\<lambda>r. r\<lparr>ox_updated_at := now\<rparr>)
      ?x (db_executions db) = db_executions db @ [?x]"
    using noplan by (auto simp: upsertRow_def)
  have byplan: "executionByPlan (ce_order_plan_id arg) ?db = Some ?x"
    using free by (simp add: executionByPlan_def findRow_append findRow_Cons)
  have run: "CreateOrderExecution now arg db = (Ok ?x, ?db)"
    using ok free fresh plan ups byplan by (simp add: CreateOrderExecution_def Let_def)
  have look: "GetOrderExecutionByClientOrderID (ce_client_order_id arg) ?db = (Ok ?x, ?db)"
    using fresh by (simp add: GetOrderExecutionByClientOrderID_def executionByClientOrder_def
        findRow_append findRow_Cons)
  have p: "p \<in> set (db_plans db)" "op_id p = ce_order_plan_id arg"
    using plan unfolding planById_def by (auto dest: findRow_SomeD)
  have uniq: "q = p" if "q \<in> set (db_plans db)" "op_id q = ce_order_plan_id arg" for q
    using that p wf by (metis (mono_tags, lifting) distinct_map inj_on_def wfOrders_def)
  have wfx: "\<forall>x \<in> set (db_executions db). ox_id x \<le> sq_executions db"
    using wf by (simp add: wfOrders_def)
  have only: "s = joinState p ?x" if "s \<in> set (joinedStates ?db)" "ls_execution_id s = ox_id ?x" for s
    using that wfx uniq by (force simp: joinedStates_iff joinState_def)
  have mem: "joinState p ?x \<in> set (filter (\<lambda>s. ls_execution_id s = ox_id ?x) (joinedStates ?db))"
    using p by (force simp: joinedStates_iff joinState_def)
  have byid: "GetOrderExecutionStateByExecutionID (ox_id ?x) ?db = (Ok (joinState p ?x), ?db)"
  proof (cases "filter (\<lambda>s. ls_execution_id s = ox_id ?x) (joinedStates ?db)")
    case Nil
    with mem show ?thesis by (metis empty_iff empty_set)
  next
    case (Cons s ss)
    then have "s \<in> set (filter (\<lambda>s. ls_execution_id s = ox_id ?x) (joinedStates ?db))"
      by simp
    then have "s \<in> set (joinedStates ?db) \<and> ls_execution_id s = ox_id ?x"
      by simp
    with only Cons show ?thesis
      unfolding GetOrderExecutionStateByExecutionID_def by simp
  qed
  have plan': "planById (ce_order_plan_id arg) ?db = Some p"
    using plan by (simp add: planById_def)
  let ?f = "\<lambda>r. r\<lparr>ox_updated_at := later\<rparr>"
  let ?db2 = "?db\<lparr>sq_executions := sq_executions ?db + 1, db_executions := upsertRow
      (\<lambda>r. ox_order_plan_id r = ce_order_plan_id arg) ?f
      (executionRow later (sq_executions ?db + 1) arg') (db_executions ?db)\<rparr>"
  have "executionByPlan (ce_order_plan_id arg) ?db2 = Some (?f ?x)"
    using free again(2) by (simp add: executionByPlan_def upsertRow_def findRow_updateRows_same
        findRow_append findRow_Cons)
  then have "CreateOrderExecution later arg' ?db = (Ok (?f ?x), ?db2)"
    using again byplan plan' by (simp add: CreateOrderExecution_def Let_def)
  moreover have "length (db_executions ?db2) = length (db_executions ?db)"
    by (simp add: upsertRow_def)
  ultimately show ?thesis
    using run look byid by (intro exI [of _ ?x] exI [of _ ?db]) auto
qed

definition exampleExecution :: CreateOrderExecutionParams where
  "exampleExecution = \<lparr>ce_order_plan_id = 1, ce_exchange_order_id = Some ''X'',
     ce_client_order_id = ''t-1'', ce_status = ''submitted'', ce_filled_quantity = 0,
     ce_avg_price = 0, ce_fee_usdt = 0, ce_raw_response = Map.empty, ce_error_message = None\<rparr>"

definition plannedDB :: CoreDB where
  "plannedDB = emptyCoreDB\<lparr>db_plans := [planRow 5 1 examplePlan], sq_plans := 1\<rparr>"

lemma plannedDB_facts:
  "wfOrders plannedDB" "executionChecks exampleExecution"
  "planById (ce_order_plan_id exampleExecution) plannedDB = Some (planRow 5 1 examplePlan)"
  "executionByPlan (ce_order_plan_id exampleExecution) plannedDB = None"
  "executionByClientOrder (ce_client_order_id exampleExecution) plannedDB = None"
  by (simp_all add: wfOrders_def plannedDB_def emptyCoreDB_def examplePlan_def planStatusOk_def
      exampleExecution_def executionChecks_def executionStatusOk_def planById_def findRow_Cons
      executionByPlan_def executionByClientOrder_def)

lemma CreateOrderExecution_recorded_witness:
  "\<exists>x db'. CreateOrderExecution 9 exampleExecution plannedDB = (Ok x, db') \<and>
     GetOrderExecutionByClientOrderID ''t-1'' db' = (Ok x, db') \<and>
     (\<exists>db''. CreateOrderExecution 11 exampleExecution db' = (Ok (x\<lparr>ox_updated_at := 11\<rparr>), db''))"
  using CreateOrderExecution_recorded [OF plannedDB_facts plannedDB_facts(2) refl, of 9 11]
  by (auto simp: exampleExecution_def)

text \<open>The state the run guard reads is the newest execution of the configuration: it belongs to
  the configuration and no other execution of it has a later \<open>(updated_at, id)\<close>. Without any, the
  query reports \<open>sql.ErrNoRows\<close>. It never writes.\<close>

theorem GetLatest_is_newest:
  "case GetLatestOrderExecutionStateByConfigID cid db of
     (Ok s, db') \<Rightarrow> db' = db \<and> ls_config_id s = cid \<and> s \<in> set (joinedStates db) \<and>
       list_all (\<lambda>t. ls_config_id t \<noteq> cid \<or> rankLe (stateRank t) (stateRank s)) (joinedStates db)
   | (Err e, db') \<Rightarrow> db' = db \<and> e = ErrNoRows \<and>
       list_all (\<lambda>t. ls_config_id t \<noteq> cid) (joinedStates db)
   | (Panic, db') \<Rightarrow> False"
proof (cases "latestState (filter (\<lambda>s. ls_config_id s = cid) (joinedStates db))")
  case None
  then have "filter (\<lambda>s. ls_config_id s = cid) (joinedStates db) = []"
    by (simp add: latestState_None_iff)
  with None show ?thesis
    by (simp add: GetLatestOrderExecutionStateByConfigID_def filter_empty_conv list_all_iff)
next
  case (Some s)
  from latestState_max [OF Some] show ?thesis
    using Some by (auto simp: GetLatestOrderExecutionStateByConfigID_def list_all_iff)
qed

definition executedDB :: CoreDB where
  "executedDB = snd (CreateOrderExecution 9 exampleExecution plannedDB)"

lemma executedDB_latest:
  "GetLatestOrderExecutionStateByConfigID 7 executedDB =
     (Ok (joinState (planRow 5 1 examplePlan) (executionRow 9 1 exampleExecution)), executedDB)"
  by (simp add: GetLatestOrderExecutionStateByConfigID_def executedDB_def CreateOrderExecution_def
      plannedDB_facts Let_def plannedDB_def emptyCoreDB_def executionByPlan_def upsertRow_def findRow_Cons
      joinedStates_def joinState_def examplePlan_def planRow_def executionRow_def exampleExecution_def
      executionChecks_def executionStatusOk_def executionByClientOrder_def planById_def)

theorem GetLatest_is_newest_witness:
  "\<exists>s. GetLatestOrderExecutionStateByConfigID 7 executedDB = (Ok s, executedDB) \<and> ls_config_id s = 7 \<and>
     s \<in> set (joinedStates executedDB) \<and> ls_client_order_id s = ''t-1''"
  using GetLatest_is_newest [where cid = 7 and db = executedDB]
  by (simp add: executedDB_latest, simp add: joinState_def executionRow_def exampleExecution_def)

end
