(* ===== verification/MgmtStore.thy ===== *)
theory MgmtStore
  imports Models Tables
begin

text \<open>
  The management tables and the configuration queries of \<open>internal/db/mgmt/repository.go\<close> and
  \<open>defaults.go\<close>. A table is its list of live rows in id order; accounts that were soft deleted are kept
  apart, because only the foreign key of a new configuration still sees them. Stored configurations
  carry the zero account: \<open>Preload("ExchangeAccount")\<close> fills it when a row is read. Numeric columns keep
  the decimals they are given (the rounding of \<open>numeric(38,18)\<close> is not modelled).
\<close>

record MgmtDB =
  md_accounts :: "ExchangeAccount list"
  md_deleted_accounts :: "ExchangeAccount list"
  md_configs :: "HedgeConfig list"
  md_settings :: "HedgingSetting list"
  md_requests :: "HedgeCloseRequest list"
  sq_md_accounts :: nat
  sq_md_configs :: nat
  sq_md_requests :: nat

definition emptyMgmtDB :: MgmtDB where
  "emptyMgmtDB = \<lparr>md_accounts = [], md_deleted_accounts = [], md_configs = [], md_settings = [],
     md_requests = [], sq_md_accounts = 0, sq_md_configs = 0, sq_md_requests = 0\<rparr>"

text \<open>The zero value \<open>ExchangeAccount{}\<close>.\<close>

definition zeroAccount :: ExchangeAccount where
  "zeroAccount = \<lparr>ea_id = 0, ea_agent_id = 0, ea_exchange = '''', ea_name = '''', ea_ccxt_id = '''',
     ea_market_type = '''', ea_sandbox = False, ea_default_settle = '''', ea_account_type = '''',
     ea_product_type = '''', ea_category = '''', ea_position_mode = '''', ea_margin_mode = '''',
     ea_recv_window_ms = 0, ea_rate_limit_ms = 0, ea_allowed_symbols = '''', ea_api_key_encrypted = '''',
     ea_api_key_hint = '''', ea_api_secret_encrypted = '''', ea_passphrase_encrypted = '''',
     ea_status = '''', ea_is_primary = False, ea_metadata = ''''\<rparr>"

section \<open>Configurations\<close>

text \<open>\<open>if x == zero { x = d }\<close>\<close>

definition orDefault :: "'a \<Rightarrow> 'a \<Rightarrow> 'a \<Rightarrow> 'a" where
  "orDefault zero d x = (if x = zero then d else x)"

definition applyHedgeConfigDefaults :: "HedgeConfig \<Rightarrow> HedgeConfig" where
  "applyHedgeConfigDefaults config = config\<lparr>
     cf_lifecycle_status := orDefault ''''
       (if cf_enabled config then HedgeLifecycleActive else HedgeLifecycleDisabled)
       (cf_lifecycle_status config),
     cf_source := orDefault '''' ''platform'' (cf_source config),
     cf_target_symbol := orDefault '''' (cf_symbol config) (cf_target_symbol config),
     cf_target_hedge_ratio := orDefault 0 1 (cf_target_hedge_ratio config),
     cf_first_trigger := orDefault 0 5000 (cf_first_trigger config),
     cf_rebalance := orDefault 0 2000 (cf_rebalance config),
     cf_exit := orDefault 0 1500 (cf_exit config),
     cf_max_slippage_bps := orDefault 0 30 (cf_max_slippage_bps config),
     cf_min_order := orDefault 0 10 (cf_min_order config),
     cf_leverage := orDefault 0 1 (cf_leverage config),
     cf_metadata := orDefault '''' ''{}'' (cf_metadata config)\<rparr>"

definition accountById :: "nat \<Rightarrow> MgmtDB \<Rightarrow> ExchangeAccount option" where
  "accountById i db = findRow (\<lambda>a. ea_id a = i) (md_accounts db)"

definition configById :: "nat \<Rightarrow> MgmtDB \<Rightarrow> HedgeConfig option" where
  "configById i db = findRow (\<lambda>c. cf_id c = i) (md_configs db)"

text \<open>\<open>Preload("ExchangeAccount")\<close>\<close>

definition preloadAccount :: "MgmtDB \<Rightarrow> HedgeConfig \<Rightarrow> HedgeConfig" where
  "preloadAccount db c = c\<lparr>cf_exchange_account :=
     (case accountById (cf_exchange_account_id c) db of Some a \<Rightarrow> a | None \<Rightarrow> zeroAccount)\<rparr>"

text \<open>The CHECK constraints of \<open>hedge_configs\<close>, its foreign key to the account of the same agent and
  its unique index.\<close>

definition configChecks :: "HedgeConfig \<Rightarrow> bool" where
  "configChecks c \<longleftrightarrow> cf_target_hedge_ratio c \<ge> 0 \<and> cf_first_trigger c \<ge> 0 \<and> cf_rebalance c \<ge> 0
     \<and> cf_exit c \<ge> 0 \<and> cf_max_notional c \<ge> 0 \<and> cf_min_order c \<ge> 0 \<and> cf_max_slippage_bps c \<ge> 0
     \<and> cf_leverage c \<ge> 1
     \<and> cf_lifecycle_status c \<in> {HedgeLifecycleActive, HedgeLifecycleClosing,
         HedgeLifecycleCloseFailed, HedgeLifecycleDisabled}"

definition configAccountExists :: "MgmtDB \<Rightarrow> HedgeConfig \<Rightarrow> bool" where
  "configAccountExists db c \<longleftrightarrow> list_ex (\<lambda>a. ea_id a = cf_exchange_account_id c
     \<and> ea_agent_id a = cf_agent_id c) (md_accounts db @ md_deleted_accounts db)"

definition configIdentity :: "HedgeConfig \<Rightarrow> nat \<times> string \<times> string \<times> nat" where
  "configIdentity c = (cf_agent_id c, cf_source c, cf_symbol c, cf_exchange_account_id c)"

definition CreateHedgeConfig :: "HedgeConfig \<Rightarrow> (MgmtDB, HedgeConfig) io" where
  "CreateHedgeConfig config db =
    (let c = (applyHedgeConfigDefaults config)\<lparr>cf_id := sq_md_configs db + 1,
               cf_exchange_account := zeroAccount\<rparr>
     in if \<not> configChecks c
        then (Err (ErrWrap ''create hedge config'' (ErrExternal ''hedge_configs check'')), db)
        else if \<not> configAccountExists db c
        then (Err (ErrWrap ''create hedge config''
               (ErrExternal ''hedge_configs_exchange_account_agent_fk'')), db)
        else if configIdentity c \<in> configIdentity ` set (md_configs db)
        then (Err (ErrWrap ''create hedge config''
               (ErrExternal ''hedge_configs_agent_source_symbol_account_active_uidx'')), db)
        else (Ok c, db\<lparr>md_configs := md_configs db @ [c], sq_md_configs := sq_md_configs db + 1\<rparr>))"

definition ListHedgeConfigs :: "(MgmtDB, HedgeConfig list) io" where
  "ListHedgeConfigs db = (Ok (map (preloadAccount db) (md_configs db)), db)"

definition ListEnabledHedgeConfigs :: "(MgmtDB, HedgeConfig list) io" where
  "ListEnabledHedgeConfigs db =
     (Ok (map (preloadAccount db) (filter (\<lambda>c.
        list_ex (\<lambda>s. hs_agent_id s = cf_agent_id c \<and> hs_enabled s) (md_settings db) \<and>
        list_ex (\<lambda>a. ea_id a = cf_exchange_account_id c \<and> ea_agent_id a = cf_agent_id c
                   \<and> ea_status a = ExchangeAccountStatusActive) (md_accounts db) \<and>
        cf_enabled c \<and> cf_lifecycle_status c = HedgeLifecycleActive) (md_configs db))), db)"

text \<open>\<open>enabledByAgent[agent]\<close>: the last setting read for the agent, false without one.\<close>

definition enabledByAgent :: "HedgingSetting list \<Rightarrow> nat \<Rightarrow> bool" where
  "enabledByAgent settings agent =
     (case findRow (\<lambda>s. hs_agent_id s = agent) (rev settings) of
        Some s \<Rightarrow> hs_enabled s | None \<Rightarrow> False)"

definition ListHedgeMonitorConfigs :: "(MgmtDB, HedgeMonitorConfig list) io" where
  "ListHedgeMonitorConfigs = bnd ListHedgeConfigs (\<lambda>configs db.
     (Ok (map (\<lambda>c. \<lparr>mc_config = c, mc_global_enabled = enabledByAgent (md_settings db) (cf_agent_id c)\<rparr>)
            configs), db))"

definition GetHedgeConfig :: "nat \<Rightarrow> (MgmtDB, HedgeConfig) io" where
  "GetHedgeConfig i db =
     (case configById i db of Some c \<Rightarrow> (Ok (preloadAccount db c), db) | None \<Rightarrow> (Err ErrNotFound, db))"

definition FindEnabledHedgeConfig :: "string \<Rightarrow> string \<Rightarrow> (MgmtDB, HedgeConfig) io" where
  "FindEnabledHedgeConfig source symbol db =
     (case findRow (\<lambda>c. cf_source c = source \<and> cf_symbol c = symbol \<and> cf_enabled c
              \<and> cf_lifecycle_status c = HedgeLifecycleActive) (md_configs db) of
        Some c \<Rightarrow> (Ok (preloadAccount db c), db) | None \<Rightarrow> (Err ErrNotFound, db))"

section \<open>Lemmas\<close>

lemma preloadAccount_simps [simp]:
  "cf_id (preloadAccount db c) = cf_id c" "cf_enabled (preloadAccount db c) = cf_enabled c"
  "cf_agent_id (preloadAccount db c) = cf_agent_id c" "cf_source (preloadAccount db c) = cf_source c"
  "cf_symbol (preloadAccount db c) = cf_symbol c" "cf_dry_run (preloadAccount db c) = cf_dry_run c"
  "cf_lifecycle_status (preloadAccount db c) = cf_lifecycle_status c"
  "cf_exchange_account_id (preloadAccount db c) = cf_exchange_account_id c"
  by (simp_all add: preloadAccount_def)

lemma reads_keep:
  "snd (ListHedgeConfigs db) = db" "snd (ListEnabledHedgeConfigs db) = db"
  "snd (ListHedgeMonitorConfigs db) = db" "snd (GetHedgeConfig i db) = db"
  "snd (FindEnabledHedgeConfig s t db) = db"
  by (simp_all add: ListHedgeConfigs_def ListEnabledHedgeConfigs_def ListHedgeMonitorConfigs_def
      GetHedgeConfig_def FindEnabledHedgeConfig_def bnd_def split: option.split)

lemma GetHedgeConfig_ok:
  "GetHedgeConfig i db = (Ok c, db') \<longleftrightarrow>
     db' = db \<and> (\<exists>c0. configById i db = Some c0 \<and> c = preloadAccount db c0)"
  by (auto simp: GetHedgeConfig_def split: option.splits)

lemma FindEnabledHedgeConfig_ok:
  assumes "FindEnabledHedgeConfig source symbol db = (Ok c, db')"
  shows "cf_enabled c \<and> cf_lifecycle_status c = HedgeLifecycleActive \<and> cf_source c = source
    \<and> cf_symbol c = symbol"
  using assms by (auto simp: FindEnabledHedgeConfig_def split: option.splits dest!: findRow_SomeD)

text \<open>Row identity: ids are unique and below the sequence, and so are close requests.\<close>

definition wfConfigs :: "MgmtDB \<Rightarrow> bool" where
  "wfConfigs db \<longleftrightarrow> distinct (map ea_id (md_accounts db)) \<and> distinct (map cf_id (md_configs db))
     \<and> distinct (map configIdentity (md_configs db)) \<and> distinct (map hs_agent_id (md_settings db))
     \<and> (\<forall>c \<in> set (md_configs db). cf_id c \<le> sq_md_configs db \<and> configChecks c)
     \<and> (\<forall>a \<in> set (md_accounts db). ea_id a > 0) \<and> (\<forall>s \<in> set (md_settings db). hs_agent_id s > 0)"

lemma CreateHedgeConfig_wf: "keepsInv wfConfigs (CreateHedgeConfig config)"
proof -
  have fresh: "cf_id (applyHedgeConfigDefaults config\<lparr>cf_id := Suc n, cf_exchange_account := z\<rparr>) = Suc n"
    for n z by simp
  show ?thesis
    unfolding keepsInv_def CreateHedgeConfig_def Let_def
    by (auto simp: wfConfigs_def fresh dest: Suc_le_lessD)
qed

lemma orDefault_idem [simp]: "orDefault z d (orDefault z d x) = orDefault z d x"
  by (simp add: orDefault_def)

lemma applyHedgeConfigDefaults_simps [simp]:
  "cf_id (applyHedgeConfigDefaults c) = cf_id c"
  "cf_agent_id (applyHedgeConfigDefaults c) = cf_agent_id c"
  "cf_exchange_account_id (applyHedgeConfigDefaults c) = cf_exchange_account_id c"
  "cf_symbol (applyHedgeConfigDefaults c) = cf_symbol c"
  "cf_source (applyHedgeConfigDefaults c) = orDefault '''' ''platform'' (cf_source c)"
  by (simp_all add: applyHedgeConfigDefaults_def)

lemma orDefault_lifecycle:
  "orDefault '''' x (orDefault '''' (if b then HedgeLifecycleActive else HedgeLifecycleDisabled) y)
   = orDefault '''' (if b then HedgeLifecycleActive else HedgeLifecycleDisabled) y"
  by (simp add: orDefault_def lifecycle_defs)

lemma applyHedgeConfigDefaults_idem:
  "applyHedgeConfigDefaults (applyHedgeConfigDefaults c) = applyHedgeConfigDefaults c"
  by (simp add: applyHedgeConfigDefaults_def orDefault_lifecycle)

lemma enabledByAgent_iff:
  assumes "distinct (map hs_agent_id ss)"
  shows "enabledByAgent ss a \<longleftrightarrow> (\<exists>s \<in> set ss. hs_agent_id s = a \<and> hs_enabled s)"
proof -
  have d: "distinct (map hs_agent_id (rev ss))"
    by (metis assms distinct_rev rev_map)
  show ?thesis
  proof (cases "findRow (\<lambda>s. hs_agent_id s = a) (rev ss)")
    case None
    then have "\<forall>s \<in> set ss. hs_agent_id s \<noteq> a" by (simp add: findRow_None_iff)
    with None show ?thesis by (auto simp: enabledByAgent_def)
  next
    case (Some s)
    with findRow_key_iff [OF d] have s: "s \<in> set ss" "hs_agent_id s = a" by auto
    have "t = s" if "t \<in> set ss" "hs_agent_id t = a" for t
      using that s assms by (metis distinct_map inj_on_def)
    then have "(\<exists>s \<in> set ss. hs_agent_id s = a \<and> hs_enabled s) \<longleftrightarrow> hs_enabled s"
      using s by blast
    with Some show ?thesis by (simp add: enabledByAgent_def)
  qed
qed

lemma joined_account_iff:
  assumes "wfConfigs db"
  shows "(\<exists>a \<in> set (md_accounts db). ea_id a = i \<and> P a) \<longleftrightarrow>
    (\<exists>a. accountById i db = Some a \<and> P a)"
  using assms findRow_key_iff [of ea_id "md_accounts db" i]
  by (auto simp: wfConfigs_def accountById_def)

section \<open>Properties\<close>

text \<open>C16: the two readers of the configuration tables agree. The scheduler's SQL join returns exactly the
  configurations for which the monitor's \<open>CanExecute\<close> holds on the monitor configurations, in the
  same order.\<close>

theorem scheduler_monitor_agree:
  assumes wf: "wfConfigs db"
  shows "\<exists>ms. fst (ListHedgeMonitorConfigs db) = Ok ms \<and>
    fst (ListEnabledHedgeConfigs db) = Ok (map mc_config (filter CanExecute ms))"
proof -
  let ?mc = "\<lambda>c. \<lparr>mc_config = preloadAccount db c,
      mc_global_enabled = enabledByAgent (md_settings db) (cf_agent_id c)\<rparr>"
  let ?sel = "\<lambda>c. list_ex (\<lambda>s. hs_agent_id s = cf_agent_id c \<and> hs_enabled s) (md_settings db) \<and>
      list_ex (\<lambda>a. ea_id a = cf_exchange_account_id c \<and> ea_agent_id a = cf_agent_id c
        \<and> ea_status a = ExchangeAccountStatusActive) (md_accounts db) \<and>
      cf_enabled c \<and> cf_lifecycle_status c = HedgeLifecycleActive"
  have "?sel c \<longleftrightarrow> CanExecute (?mc c)" if c: "c \<in> set (md_configs db)" for c
  proof -
    have settings: "list_ex (\<lambda>s. hs_agent_id s = cf_agent_id c \<and> hs_enabled s) (md_settings db)
        \<longleftrightarrow> enabledByAgent (md_settings db) (cf_agent_id c)"
      using wf enabledByAgent_iff [of "md_settings db" "cf_agent_id c"]
      by (simp add: wfConfigs_def list_ex_iff)
    have agent: "cf_agent_id c \<noteq> 0" if "enabledByAgent (md_settings db) (cf_agent_id c)"
      using that wf enabledByAgent_iff [of "md_settings db" "cf_agent_id c"]
      by (auto simp: wfConfigs_def)
    have account: "list_ex (\<lambda>a. ea_id a = cf_exchange_account_id c \<and> ea_agent_id a = cf_agent_id c
        \<and> ea_status a = ExchangeAccountStatusActive) (md_accounts db)
        \<longleftrightarrow> (\<exists>a. accountById (cf_exchange_account_id c) db = Some a \<and> ea_agent_id a = cf_agent_id c
          \<and> ea_status a = ExchangeAccountStatusActive)"
      using joined_account_iff [OF wf] by (simp add: list_ex_iff)
    have pos: "ea_id a \<noteq> 0" if "accountById i db = Some a" for a i
      using that wf by (auto simp: accountById_def wfConfigs_def dest!: findRow_SomeD)
    have life: "cf_lifecycle_status c \<noteq> ''''"
      using wf c by (auto simp: wfConfigs_def configChecks_def lifecycle_defs)
    show ?thesis
      unfolding settings account CanExecute_def
      using agent pos life
      by (auto simp: preloadAccount_def zeroAccount_def ExchangeAccountStatusActive_def
          split: option.splits)
  qed
  then have "filter ?sel (md_configs db) = filter (\<lambda>c. CanExecute (?mc c)) (md_configs db)"
    by (intro filter_cong) auto
  moreover have "fst (ListHedgeMonitorConfigs db) = Ok (map ?mc (md_configs db))"
    by (simp add: ListHedgeMonitorConfigs_def ListHedgeConfigs_def bnd_def)
  moreover have "map mc_config (filter CanExecute (map ?mc (md_configs db)))
      = map (preloadAccount db) (filter (\<lambda>c. CanExecute (?mc c)) (md_configs db))"
    by (simp add: filter_map comp_def)
  ultimately show ?thesis
    by (auto simp: ListEnabledHedgeConfigs_def)
qed

definition exampleAccount :: ExchangeAccount where
  "exampleAccount = zeroAccount\<lparr>ea_id := 5, ea_agent_id := 3, ea_exchange := ''Gate'',
     ea_name := ''main'', ea_ccxt_id := ''gate'', ea_market_type := ''swap'',
     ea_status := ExchangeAccountStatusActive\<rparr>"

definition exampleHedge :: HedgeConfig where
  "exampleHedge = \<lparr>cf_id = 7, cf_agent_id = 3, cf_exchange_account_id = 5,
     cf_exchange_account = zeroAccount, cf_source = ''platform'', cf_symbol = ''BTCUSDT'',
     cf_target_symbol = ''BTC/USDT:USDT'', cf_target_hedge_ratio = 1, cf_first_trigger = 5000,
     cf_rebalance = 2000, cf_exit = 1500, cf_max_slippage_bps = 30, cf_max_notional = 0,
     cf_min_order = 10, cf_leverage = 1, cf_enabled = True,
     cf_lifecycle_status = HedgeLifecycleActive, cf_dry_run = False, cf_metadata = ''{}''\<rparr>"

definition exampleMgmt :: MgmtDB where
  "exampleMgmt = emptyMgmtDB\<lparr>md_accounts := [exampleAccount], md_configs := [exampleHedge],
     md_settings := [\<lparr>hs_agent_id = 3, hs_enabled = True\<rparr>], sq_md_accounts := 5,
     sq_md_configs := 7\<rparr>"

lemma exampleMgmt_wf: "wfConfigs exampleMgmt"
  by (simp add: wfConfigs_def exampleMgmt_def emptyMgmtDB_def exampleHedge_def exampleAccount_def
      configChecks_def)

lemma scheduler_monitor_agree_witness:
  "\<exists>ms. fst (ListHedgeMonitorConfigs exampleMgmt) = Ok ms \<and>
    fst (ListEnabledHedgeConfigs exampleMgmt) = Ok (map mc_config (filter CanExecute ms))"
  by (rule scheduler_monitor_agree [OF exampleMgmt_wf])

text \<open>A created configuration reads back with every default filled in and its account loaded, under
  a fresh id; the fields the caller set are kept, and a repeated create of the same agent, source,
  symbol and account is refused without effect.\<close>

theorem CreateHedgeConfig_roundtrip:
  assumes wf: "wfConfigs db" and run: "CreateHedgeConfig config db = (Ok c, db')"
  shows "GetHedgeConfig (cf_id c) db' = (Ok (preloadAccount db' c), db') \<and>
    c = (applyHedgeConfigDefaults config)\<lparr>cf_id := sq_md_configs db + 1,
          cf_exchange_account := zeroAccount\<rparr> \<and>
    configById (cf_id c) db = None \<and>
    snd (CreateHedgeConfig config db') = db' \<and> (\<forall>x. fst (CreateHedgeConfig config db') \<noteq> Ok x)"
proof -
  from run have c: "c = (applyHedgeConfigDefaults config)\<lparr>cf_id := sq_md_configs db + 1,
      cf_exchange_account := zeroAccount\<rparr>"
    and db': "db' = db\<lparr>md_configs := md_configs db @ [c], sq_md_configs := sq_md_configs db + 1\<rparr>"
    by (auto simp: CreateHedgeConfig_def Let_def split: if_splits)
  have "\<forall>x \<in> set (md_configs db). cf_id x \<noteq> sq_md_configs db + 1"
    using wf by (auto simp: wfConfigs_def)
  then have none: "configById (cf_id c) db = None"
    by (simp add: c configById_def findRow_None_iff)
  then have "configById (cf_id c) db' = Some c"
    by (simp add: db' configById_def findRow_append findRow_Cons)
  then have get: "GetHedgeConfig (cf_id c) db' = (Ok (preloadAccount db' c), db')"
    by (simp add: GetHedgeConfig_def)
  have "configIdentity ((applyHedgeConfigDefaults config)\<lparr>cf_id := n, cf_exchange_account := zeroAccount\<rparr>)
      = configIdentity c" for n
    by (simp add: c configIdentity_def)
  then have "configIdentity ((applyHedgeConfigDefaults config)\<lparr>cf_id := sq_md_configs db' + 1,
      cf_exchange_account := zeroAccount\<rparr>) \<in> configIdentity ` set (md_configs db')"
    by (simp add: db')
  then have "snd (CreateHedgeConfig config db') = db' \<and> (\<forall>x. fst (CreateHedgeConfig config db') \<noteq> Ok x)"
    by (simp only: CreateHedgeConfig_def Let_def if_True split: if_split) simp
  with c none get show ?thesis by blast
qed

definition newHedge :: HedgeConfig where
  "newHedge = exampleHedge\<lparr>cf_symbol := ''ETHUSDT'', cf_target_symbol := '''', cf_exit := 0,
     cf_lifecycle_status := ''''\<rparr>"

lemma CreateHedgeConfig_roundtrip_witness:
  "\<exists>c db'. CreateHedgeConfig newHedge exampleMgmt = (Ok c, db') \<and>
     cf_id c = 8 \<and> cf_target_symbol c = ''ETHUSDT'' \<and> cf_exit c = 1500 \<and>
     cf_lifecycle_status c = HedgeLifecycleActive \<and>
     GetHedgeConfig (cf_id c) db' = (Ok (preloadAccount db' c), db')"
proof -
  let ?c = "(applyHedgeConfigDefaults newHedge)\<lparr>cf_id := 8, cf_exchange_account := zeroAccount\<rparr>"
  let ?db = "exampleMgmt\<lparr>md_configs := [exampleHedge, ?c], sq_md_configs := 8\<rparr>"
  have run: "CreateHedgeConfig newHedge exampleMgmt = (Ok ?c, ?db)"
    by (simp add: CreateHedgeConfig_def Let_def exampleMgmt_def emptyMgmtDB_def newHedge_def
        exampleHedge_def applyHedgeConfigDefaults_def orDefault_def configChecks_def configAccountExists_def
        exampleAccount_def configIdentity_def lifecycle_defs)
  show ?thesis
    using CreateHedgeConfig_roundtrip [OF exampleMgmt_wf run] run
    by (intro exI [of _ ?c] exI [of _ ?db])
      (simp add: newHedge_def exampleHedge_def applyHedgeConfigDefaults_def orDefault_def lifecycle_defs)
qed

end
