(* ===== verification/CloseLifecycle.thy ===== *)
theory CloseLifecycle
  imports MgmtStore
begin

text \<open>
  Hedge close requests (\<open>internal/db/mgmt/hedge_close.go\<close>): each repository operation is one
  transaction on the tables, with the unique indexes of migration 000014 (the idempotency key, and one
  active request per configuration). The step relation \<open>closeStep\<close> interleaves the operations in any
  order; its flag says whether an operation is applied to an active request only. The lemmas give
  the invariants of both disciplines and the transitions a configuration's lifecycle can make.
\<close>

section \<open>Operations\<close>

definition activeHedgeCloseStatuses :: "string list" where
  "activeHedgeCloseStatuses = [HedgeCloseRequested, HedgeCloseSubmitted, HedgeCloseVerifying]"

definition isActiveRequest :: "HedgeCloseRequest \<Rightarrow> bool" where
  "isActiveRequest q \<longleftrightarrow> cq_status q \<in> set activeHedgeCloseStatuses"

definition closeStatusOk :: "string \<Rightarrow> bool" where
  "closeStatusOk s \<longleftrightarrow> s \<in> set activeHedgeCloseStatuses \<or> s = HedgeCloseCompleted \<or> s = HedgeCloseFailed"

definition requestById :: "nat \<Rightarrow> MgmtDB \<Rightarrow> HedgeCloseRequest option" where
  "requestById i db = findRow (\<lambda>q. cq_id q = i) (md_requests db)"

definition ListActiveHedgeCloseRequests :: "(MgmtDB, HedgeCloseRequest list) io" where
  "ListActiveHedgeCloseRequests db = (Ok (filter isActiveRequest (md_requests db)), db)"

text \<open>Rows are in id order, so \<open>ORDER BY id DESC\<close> reads the last one first.\<close>

definition activeRequestFor :: "nat \<Rightarrow> MgmtDB \<Rightarrow> HedgeCloseRequest option" where
  "activeRequestFor configID db =
     findRow (\<lambda>q. cq_config_id q = configID \<and> isActiveRequest q) (rev (md_requests db))"

definition setConfig :: "nat \<Rightarrow> (HedgeConfig \<Rightarrow> HedgeConfig) \<Rightarrow> MgmtDB \<Rightarrow> MgmtDB" where
  "setConfig i f db = db\<lparr>md_configs := updateRows (\<lambda>c. cf_id c = i) f (md_configs db)\<rparr>"

definition setRequest :: "nat \<Rightarrow> (HedgeCloseRequest \<Rightarrow> HedgeCloseRequest) \<Rightarrow> MgmtDB \<Rightarrow> MgmtDB" where
  "setRequest i f db = db\<lparr>md_requests := updateRows (\<lambda>q. cq_id q = i) f (md_requests db)\<rparr>"

definition newCloseRequest :: "time \<Rightarrow> nat \<Rightarrow> string \<Rightarrow> nat \<Rightarrow> HedgeCloseRequest" where
  "newCloseRequest now configID key i = \<lparr>cq_id = i, cq_config_id = configID,
     cq_order_execution_id = None, cq_idempotency_key = key, cq_status = HedgeCloseRequested,
     cq_error_message = '''', cq_requested_at = now, cq_completed_at = None\<rparr>"

definition BeginHedgeCloseRequest ::
    "time \<Rightarrow> nat \<Rightarrow> string \<Rightarrow> (MgmtDB, HedgeCloseRequest \<times> bool) io" where
  "BeginHedgeCloseRequest now configID key db =
     (case configById configID db of
        None \<Rightarrow> (Err ErrNotFound, db)
      | Some _ \<Rightarrow>
        (case activeRequestFor configID db of
           Some q \<Rightarrow> (Ok (q, False), db)
         | None \<Rightarrow>
             if key \<in> cq_idempotency_key ` set (md_requests db)
             then (Err (ErrWrap ''begin hedge close request''
                    (ErrExternal ''hedge_close_requests_idempotency_key_uidx'')), db)
             else
               let q = newCloseRequest now configID key (sq_md_requests db + 1);
                   db' = db\<lparr>md_requests := md_requests db @ [q],
                            sq_md_requests := sq_md_requests db + 1\<rparr>
               in (Ok (q, True), setConfig configID
                     (\<lambda>c. c\<lparr>cf_enabled := True, cf_lifecycle_status := HedgeLifecycleClosing\<rparr>) db')))"

definition attachUpdate :: "int \<Rightarrow> string \<Rightarrow> HedgeCloseRequest \<Rightarrow> HedgeCloseRequest" where
  "attachUpdate ex st q = (if isActiveRequest q
     then q\<lparr>cq_order_execution_id := Some ex, cq_status := st, cq_error_message := ''''\<rparr> else q)"

definition AttachHedgeCloseExecution :: "nat \<Rightarrow> int \<Rightarrow> string \<Rightarrow> (MgmtDB, unit) io" where
  "AttachHedgeCloseExecution requestID executionID status db =
     (if \<not> closeStatusOk status \<and> list_ex (\<lambda>q. cq_id q = requestID \<and> isActiveRequest q) (md_requests db)
      then (Err (ErrWrap ''attach hedge close execution''
             (ErrExternal ''hedge_close_requests_status_check'')), db)
      else (Ok (), setRequest requestID (attachUpdate executionID status) db))"

definition GetHedgeCloseRequestByExecutionID :: "int \<Rightarrow> (MgmtDB, HedgeCloseRequest) io" where
  "GetHedgeCloseRequestByExecutionID executionID db =
     (case findRow (\<lambda>q. cq_order_execution_id q = Some executionID) (rev (md_requests db)) of
        Some q \<Rightarrow> (Ok q, db) | None \<Rightarrow> (Err ErrNotFound, db))"

text \<open>Two active requests of one configuration would break the partial unique index.\<close>

definition activeClash :: "nat \<Rightarrow> MgmtDB \<Rightarrow> bool" where
  "activeClash requestID db \<longleftrightarrow> (case requestById requestID db of
     None \<Rightarrow> False
   | Some q \<Rightarrow> list_ex (\<lambda>p. cq_id p \<noteq> requestID \<and> cq_config_id p = cq_config_id q \<and> isActiveRequest p)
       (md_requests db))"

definition UpdateHedgeCloseStatus :: "nat \<Rightarrow> string \<Rightarrow> (MgmtDB, unit) io" where
  "UpdateHedgeCloseStatus requestID status db =
     (if requestById requestID db \<noteq> None \<and> \<not> closeStatusOk status
      then (Err (ErrWrap ''update hedge close status''
             (ErrExternal ''hedge_close_requests_status_check'')), db)
      else if status \<in> set activeHedgeCloseStatuses \<and> activeClash requestID db
      then (Err (ErrWrap ''update hedge close status''
             (ErrExternal ''hedge_close_requests_active_config_uidx'')), db)
      else (Ok (), setRequest requestID (\<lambda>q. q\<lparr>cq_status := status, cq_error_message := ''''\<rparr>) db))"

definition finishHedgeClose :: "time \<Rightarrow> nat \<Rightarrow> string \<Rightarrow> string \<Rightarrow> string \<Rightarrow> (MgmtDB, unit) io" where
  "finishHedgeClose now requestID requestStatus lifecycleStatus message db =
     (case requestById requestID db of
        None \<Rightarrow> (Err (ErrExternal ''record not found''), db)
      | Some request \<Rightarrow>
          (Ok (), setConfig (cq_config_id request)
             (\<lambda>c. c\<lparr>cf_lifecycle_status := lifecycleStatus,
                     cf_enabled := (if lifecycleStatus = HedgeLifecycleDisabled then False
                                    else cf_enabled c)\<rparr>)
             (setRequest requestID
               (\<lambda>q. q\<lparr>cq_status := requestStatus, cq_error_message := message,
                      cq_completed_at := (if requestStatus = HedgeCloseCompleted then Some now
                                          else cq_completed_at q)\<rparr>) db)))"

definition CompleteHedgeClose :: "time \<Rightarrow> nat \<Rightarrow> (MgmtDB, unit) io" where
  "CompleteHedgeClose now requestID =
     finishHedgeClose now requestID HedgeCloseCompleted HedgeLifecycleDisabled ''''"

definition FailHedgeClose :: "time \<Rightarrow> nat \<Rightarrow> string \<Rightarrow> (MgmtDB, unit) io" where
  "FailHedgeClose now requestID message =
     finishHedgeClose now requestID HedgeCloseFailed HedgeLifecycleCloseFailed message"

section \<open>Steps\<close>

inductive closeStep :: "bool \<Rightarrow> MgmtDB \<Rightarrow> MgmtDB \<Rightarrow> bool" for guarded :: bool where
  begin_step: "closeStep guarded db (snd (BeginHedgeCloseRequest now cid key db))"
| attach_step: "st \<in> {HedgeCloseSubmitted, HedgeCloseVerifying} \<Longrightarrow>
    closeStep guarded db (snd (AttachHedgeCloseExecution rid ex st db))"
| verify_step: "(guarded \<Longrightarrow> \<exists>q. requestById rid db = Some q \<and> isActiveRequest q) \<Longrightarrow>
    closeStep guarded db (snd (UpdateHedgeCloseStatus rid HedgeCloseVerifying db))"
| complete_step: "(guarded \<Longrightarrow> \<exists>q. requestById rid db = Some q \<and> isActiveRequest q) \<Longrightarrow>
    closeStep guarded db (snd (CompleteHedgeClose now rid db))"
| fail_step: "(guarded \<Longrightarrow> \<exists>q. requestById rid db = Some q \<and> isActiveRequest q) \<Longrightarrow>
    closeStep guarded db (snd (FailHedgeClose now rid msg db))"


section \<open>Invariants\<close>

text \<open>What the indexes promise of the requests, whoever calls the operations.\<close>

definition wfRequests :: "MgmtDB \<Rightarrow> bool" where
  "wfRequests db \<longleftrightarrow>
     distinct (map cq_id (md_requests db)) \<and> distinct (map cq_idempotency_key (md_requests db)) \<and>
     (\<forall>q \<in> set (md_requests db). cq_id q \<le> sq_md_requests db \<and> closeStatusOk (cq_status q) \<and>
        (cq_status q = HedgeCloseCompleted \<longrightarrow> cq_completed_at q \<noteq> None)) \<and>
     (\<forall>p \<in> set (md_requests db). \<forall>q \<in> set (md_requests db).
        isActiveRequest p \<and> isActiveRequest q \<and> cq_config_id p = cq_config_id q \<longrightarrow> p = q)"

text \<open>A configuration is closing exactly while it has an active request, and it is then enabled.\<close>

definition hasActive :: "nat \<Rightarrow> MgmtDB \<Rightarrow> bool" where
  "hasActive i db \<longleftrightarrow> (\<exists>q \<in> set (md_requests db). cq_config_id q = i \<and> isActiveRequest q)"

definition lifecycleMatches :: "MgmtDB \<Rightarrow> bool" where
  "lifecycleMatches db \<longleftrightarrow> (\<forall>c \<in> set (md_configs db).
     (cf_lifecycle_status c = HedgeLifecycleClosing \<longleftrightarrow> hasActive (cf_id c) db) \<and>
     (cf_lifecycle_status c = HedgeLifecycleClosing \<longrightarrow> cf_enabled c))"

lemma active_status_facts [simp]:
  "HedgeCloseRequested \<in> set activeHedgeCloseStatuses"
  "HedgeCloseSubmitted \<in> set activeHedgeCloseStatuses"
  "HedgeCloseVerifying \<in> set activeHedgeCloseStatuses"
  "HedgeCloseCompleted \<notin> set activeHedgeCloseStatuses"
  "HedgeCloseFailed \<notin> set activeHedgeCloseStatuses"
  "HedgeCloseSubmitted \<noteq> HedgeCloseCompleted" "HedgeCloseVerifying \<noteq> HedgeCloseCompleted"
  "HedgeCloseRequested \<noteq> HedgeCloseCompleted" "HedgeCloseFailed \<noteq> HedgeCloseCompleted"
  by (simp_all add: activeHedgeCloseStatuses_def close_status_defs)

lemma setRequest_simps [simp]:
  "md_configs (setRequest i f db) = md_configs db" "sq_md_requests (setRequest i f db) = sq_md_requests db"
  "md_requests (setConfig i g db) = md_requests db" "sq_md_requests (setConfig i g db) = sq_md_requests db"
  "md_accounts (setRequest i f db) = md_accounts db" "md_accounts (setConfig i g db) = md_accounts db"
  "md_settings (setRequest i f db) = md_settings db" "md_settings (setConfig i g db) = md_settings db"
  "sq_md_configs (setRequest i f db) = sq_md_configs db" "sq_md_configs (setConfig i g db) = sq_md_configs db"
  by (simp_all add: setRequest_def setConfig_def)

lemma wfRequests_setConfig [simp]: "wfRequests (setConfig i f db) = wfRequests db"
  by (simp add: wfRequests_def)

lemma hasActive_setConfig [simp]: "hasActive j (setConfig i f db) = hasActive j db"
  by (simp add: hasActive_def)

lemma requestById_iff:
  "wfRequests db \<Longrightarrow> requestById i db = Some q \<longleftrightarrow> q \<in> set (md_requests db) \<and> cq_id q = i"
  unfolding requestById_def wfRequests_def by (simp add: findRow_key_iff)

lemma set_setRequest:
  "set (md_requests (setRequest i f db)) = (\<lambda>q. if cq_id q = i then f q else q) ` set (md_requests db)"
  by (simp add: setRequest_def set_updateRows)

lemma set_setConfig:
  "set (md_configs (setConfig i f db)) = (\<lambda>c. if cf_id c = i then f c else c) ` set (md_configs db)"
  by (simp add: setConfig_def set_updateRows)

text \<open>A request update keeps the promises when it keeps the request's identity and makes it active
  only when it was active already or no other request of the configuration is.\<close>

lemma wfRequests_setRequest:
  assumes wf: "wfRequests db"
    and keep: "\<And>q. cq_id q = i \<Longrightarrow> cq_id (f q) = i \<and> cq_config_id (f q) = cq_config_id q
      \<and> cq_idempotency_key (f q) = cq_idempotency_key q"
    and status: "\<And>q. q \<in> set (md_requests db) \<Longrightarrow> cq_id q = i \<Longrightarrow> closeStatusOk (cq_status (f q))
      \<and> (cq_status (f q) = HedgeCloseCompleted \<longrightarrow> cq_completed_at (f q) \<noteq> None)"
    and active: "\<And>q. q \<in> set (md_requests db) \<Longrightarrow> cq_id q = i \<Longrightarrow> isActiveRequest (f q) \<Longrightarrow>
      isActiveRequest q \<or> \<not> activeClash i db"
  shows "wfRequests (setRequest i f db)"
proof -
  let ?g = "\<lambda>q. if cq_id q = i then f q else q"
  have maps: "map cq_id (md_requests (setRequest i f db)) = map cq_id (md_requests db)"
    "map cq_idempotency_key (md_requests (setRequest i f db)) = map cq_idempotency_key (md_requests db)"
    using keep by (auto simp: setRequest_def intro!: map_updateRows)
  have same: "p = q" if "p \<in> set (md_requests db)" "q \<in> set (md_requests db)" "cq_id p = cq_id q" for p q
    using that wf by (metis distinct_map inj_on_def wfRequests_def)
  have one: "?g p = ?g q"
    if p: "p \<in> set (md_requests db)" and q: "q \<in> set (md_requests db)"
      and act: "isActiveRequest (?g p)" "isActiveRequest (?g q)"
      and conf: "cq_config_id (?g p) = cq_config_id (?g q)" for p q
  proof -
    have conf': "cq_config_id p = cq_config_id q"
      using conf keep by (auto split: if_splits)
    have clash: "activeClash i db" if "r \<in> set (md_requests db)" "s \<in> set (md_requests db)"
      "cq_id r = i" "cq_id s \<noteq> i" "cq_config_id s = cq_config_id r" "isActiveRequest s" for r s
      using that requestById_iff [OF wf, of i r] by (auto simp: activeClash_def list_ex_iff)
    consider "cq_id p = i" "cq_id q = i" | "cq_id p = i" "cq_id q \<noteq> i"
      | "cq_id p \<noteq> i" "cq_id q = i" | "cq_id p \<noteq> i" "cq_id q \<noteq> i" by blast
    then show ?thesis
    proof cases
      case 1
      with same p q show ?thesis by metis
    next
      case 2
      with act active [OF p] clash [OF p q] conf' have "isActiveRequest p" by auto
      with 2 act conf' wf p q have "p = q" by (auto simp: wfRequests_def)
      with 2 show ?thesis by simp
    next
      case 3
      with act active [OF q] clash [OF q p] conf' have "isActiveRequest q" by auto
      with 3 act conf' wf p q have "p = q" by (auto simp: wfRequests_def)
      with 3 show ?thesis by simp
    next
      case 4
      with act conf' wf p q show ?thesis by (auto simp: wfRequests_def)
    qed
  qed
  have rows: "\<forall>q \<in> set (md_requests (setRequest i f db)). cq_id q \<le> sq_md_requests db \<and>
      closeStatusOk (cq_status q) \<and> (cq_status q = HedgeCloseCompleted \<longrightarrow> cq_completed_at q \<noteq> None)"
    using wf keep status by (auto simp: set_setRequest wfRequests_def)
  have pairs: "\<forall>p \<in> set (md_requests (setRequest i f db)). \<forall>q \<in> set (md_requests (setRequest i f db)).
      isActiveRequest p \<and> isActiveRequest q \<and> cq_config_id p = cq_config_id q \<longrightarrow> p = q"
    unfolding set_setRequest using one by blast
  show ?thesis
    using wf maps rows pairs unfolding wfRequests_def by simp
qed

lemma Begin_cases:
  obtains (unchanged) "snd (BeginHedgeCloseRequest now cid key db) = db"
  | (created) c where "configById cid db = Some c" "activeRequestFor cid db = None"
      "key \<notin> cq_idempotency_key ` set (md_requests db)"
      "snd (BeginHedgeCloseRequest now cid key db) = setConfig cid
         (\<lambda>c. c\<lparr>cf_enabled := True, cf_lifecycle_status := HedgeLifecycleClosing\<rparr>)
         (db\<lparr>md_requests := md_requests db @ [newCloseRequest now cid key (sq_md_requests db + 1)],
             sq_md_requests := sq_md_requests db + 1\<rparr>)"
proof (cases "configById cid db")
  case None
  then show thesis by (intro unchanged) (simp add: BeginHedgeCloseRequest_def)
next
  case c: (Some c)
  show thesis
  proof (cases "activeRequestFor cid db = None \<and> key \<notin> cq_idempotency_key ` set (md_requests db)")
    case True
    with c show thesis by (intro created [of c]) (simp_all add: BeginHedgeCloseRequest_def Let_def)
  next
    case False
    with c show thesis
      by (intro unchanged) (auto simp: BeginHedgeCloseRequest_def Let_def split: option.split)
  qed
qed

lemma newCloseRequest_simps [simp]:
  "cq_id (newCloseRequest now cid key i) = i" "cq_config_id (newCloseRequest now cid key i) = cid"
  "cq_idempotency_key (newCloseRequest now cid key i) = key"
  "cq_status (newCloseRequest now cid key i) = HedgeCloseRequested"
  "isActiveRequest (newCloseRequest now cid key i)"
  by (simp_all add: newCloseRequest_def isActiveRequest_def)

lemma activeRequestFor_None: "activeRequestFor cid db = None \<longleftrightarrow> \<not> hasActive cid db"
  by (auto simp: activeRequestFor_def findRow_None_iff hasActive_def)

lemma Begin_wf: "wfRequests db \<Longrightarrow> wfRequests (snd (BeginHedgeCloseRequest now cid key db))"
proof (cases rule: Begin_cases [of now cid key db])
  case (created c)
  assume wf: "wfRequests db"
  from created(2) have "\<not> hasActive cid db" by (simp add: activeRequestFor_None)
  with wf created(3) show ?thesis
    unfolding created(4) wfRequests_setConfig
    by (fastforce simp: wfRequests_def hasActive_def closeStatusOk_def)
qed simp

lemma Attach_wf:
  assumes "wfRequests db" and "st \<in> {HedgeCloseSubmitted, HedgeCloseVerifying}"
  shows "wfRequests (snd (AttachHedgeCloseExecution rid ex st db))"
proof -
  have st: "closeStatusOk st" "st \<noteq> HedgeCloseCompleted"
    using assms(2) by (elim insertE emptyE; simp add: closeStatusOk_def)+
  have row: "closeStatusOk (cq_status q) \<and> (cq_status q = HedgeCloseCompleted \<longrightarrow> cq_completed_at q \<noteq> None)"
    if "q \<in> set (md_requests db)" for q
    using assms(1) that by (simp add: wfRequests_def)
  have "wfRequests (setRequest rid (attachUpdate ex st) db)"
  proof (rule wfRequests_setRequest [OF assms(1)])
    fix q assume "q \<in> set (md_requests db)"
    with row [of q] st show "closeStatusOk (cq_status (attachUpdate ex st q)) \<and>
        (cq_status (attachUpdate ex st q) = HedgeCloseCompleted \<longrightarrow>
         cq_completed_at (attachUpdate ex st q) \<noteq> None)"
      by (simp add: attachUpdate_def)
  qed (simp_all add: attachUpdate_def split: if_splits)
  with st show ?thesis by (simp add: AttachHedgeCloseExecution_def)
qed

lemma Update_wf: "wfRequests db \<Longrightarrow> wfRequests (snd (UpdateHedgeCloseStatus rid HedgeCloseVerifying db))"
  unfolding UpdateHedgeCloseStatus_def
  by (auto simp: closeStatusOk_def intro: wfRequests_setRequest)

lemma finish_wf:
  "wfRequests db \<Longrightarrow> st \<in> {HedgeCloseCompleted, HedgeCloseFailed} \<Longrightarrow>
   wfRequests (snd (finishHedgeClose now rid st life msg db))"
  unfolding finishHedgeClose_def
  by (auto split: option.split simp: closeStatusOk_def isActiveRequest_def
      intro!: wfRequests_setRequest)

lemma closeStep_wf: "closeStep g db db' \<Longrightarrow> wfRequests db \<Longrightarrow> wfRequests db'"
  by (induction rule: closeStep.induct)
    (simp_all add: Begin_wf Attach_wf Update_wf finish_wf CompleteHedgeClose_def FailHedgeClose_def)

lemma reachable_wf: "(closeStep g)\<^sup>*\<^sup>* db db' \<Longrightarrow> wfRequests db \<Longrightarrow> wfRequests db'"
  by (induction rule: rtranclp_induct) (auto intro: closeStep_wf)

text \<open>How each operation moves the activity of a request.\<close>

lemma hasActive_setRequest:
  assumes wf: "wfRequests db" and q: "requestById i db = Some q" "isActiveRequest q"
    and keep: "\<And>q. cq_config_id (f q) = cq_config_id q"
  shows "hasActive j (setRequest i f db) \<longleftrightarrow>
    (if j = cq_config_id q then isActiveRequest (f q) else hasActive j db)"
proof -
  have qs: "q \<in> set (md_requests db)" "cq_id q = i"
    using requestById_iff [OF wf, of i q] q(1) by blast+
  have uniq: "r = q" if "r \<in> set (md_requests db)" "cq_id r = i" for r
  proof -
    have "requestById i db = Some r" using requestById_iff [OF wf, of i r] that by blast
    with q(1) show ?thesis by simp
  qed
  have one: "\<forall>p \<in> set (md_requests db). \<forall>q \<in> set (md_requests db).
      isActiveRequest p \<and> isActiveRequest q \<and> cq_config_id p = cq_config_id q \<longrightarrow> p = q"
    using wf unfolding wfRequests_def by blast
  have other: "\<not> isActiveRequest r"
    if "r \<in> set (md_requests db)" "cq_id r \<noteq> i" "cq_config_id r = cq_config_id q" for r
    using that q(2) qs one by blast
  have conf: "cq_config_id (if cq_id r = i then f r else r) = cq_config_id r" for r
    using keep by simp
  have "hasActive j (setRequest i f db) \<longleftrightarrow> (\<exists>r \<in> set (md_requests db).
      cq_config_id r = j \<and> isActiveRequest (if cq_id r = i then f r else r))"
    unfolding hasActive_def set_setRequest bex_simps conf ..
  also have "\<dots> \<longleftrightarrow> (if j = cq_config_id q then isActiveRequest (f q) else hasActive j db)"
  proof (cases "j = cq_config_id q")
    case True
    with qs uniq other show ?thesis by (metis (full_types))
  next
    case False
    then have "cq_id r \<noteq> i" if "r \<in> set (md_requests db)" "cq_config_id r = j" for r
      using that uniq by blast
    with False show ?thesis unfolding hasActive_def by auto
  qed
  finally show ?thesis .
qed

lemma lifecycleMatches_cong:
  "md_configs d' = md_configs d \<Longrightarrow> (\<And>i. hasActive i d' = hasActive i d) \<Longrightarrow>
   lifecycleMatches d' = lifecycleMatches d"
  by (simp add: lifecycleMatches_def)

lemma Begin_matches:
  assumes "wfRequests db" "lifecycleMatches db"
  shows "lifecycleMatches (snd (BeginHedgeCloseRequest now cid key db))"
proof (cases rule: Begin_cases [of now cid key db])
  case (created c)
  let ?db = "db\<lparr>md_requests := md_requests db @ [newCloseRequest now cid key (sq_md_requests db + 1)],
      sq_md_requests := sq_md_requests db + 1\<rparr>"
  have act: "hasActive j ?db \<longleftrightarrow> j = cid \<or> hasActive j db" for j
    by (auto simp: hasActive_def)
  show ?thesis
    unfolding created(4) lifecycleMatches_def hasActive_setConfig act set_setConfig
    using assms(2) by (auto simp: lifecycleMatches_def)
qed (use assms in simp)

lemma status_update_matches:
  assumes "wfRequests db" "lifecycleMatches db" "requestById i db = Some q" "isActiveRequest q"
    and "\<And>q. cq_config_id (f q) = cq_config_id q" and "isActiveRequest (f q)"
  shows "lifecycleMatches (setRequest i f db)"
proof -
  from requestById_iff [OF assms(1)] assms(3) have "q \<in> set (md_requests db)" by blast
  with assms(4) have "hasActive (cq_config_id q) db" by (auto simp: hasActive_def)
  with hasActive_setRequest [OF assms(1,3,4,5)] assms(6)
  have "hasActive j (setRequest i f db) = hasActive j db" for j by auto
  with assms(2) show ?thesis by (simp add: lifecycleMatches_def)
qed

lemma finish_matches:
  assumes "wfRequests db" "lifecycleMatches db" "requestById i db = Some q" "isActiveRequest q"
    and "st \<in> {HedgeCloseCompleted, HedgeCloseFailed}" and "life \<noteq> HedgeLifecycleClosing"
  shows "lifecycleMatches (snd (finishHedgeClose now i st life msg db))"
proof -
  let ?f = "\<lambda>q. q\<lparr>cq_status := st, cq_error_message := msg,
      cq_completed_at := (if st = HedgeCloseCompleted then Some now else cq_completed_at q)\<rparr>"
  have "\<not> isActiveRequest (?f q)" using assms(5) by (auto simp: isActiveRequest_def)
  then have act: "hasActive j (setRequest i ?f db) \<longleftrightarrow> j \<noteq> cq_config_id q \<and> hasActive j db" for j
    using hasActive_setRequest [OF assms(1,3,4), of ?f j] by auto
  show ?thesis
    using assms(2,3,6) unfolding lifecycleMatches_def finishHedgeClose_def
    by (auto simp: act set_setConfig)
qed

lemma noop_Attach: "\<not> isActiveRequest q \<Longrightarrow> attachUpdate ex st q = q"
  by (simp add: attachUpdate_def)

lemma attachUpdate_simps [simp]:
  "cq_id (attachUpdate ex st q) = cq_id q" "cq_config_id (attachUpdate ex st q) = cq_config_id q"
  "cq_idempotency_key (attachUpdate ex st q) = cq_idempotency_key q"
  by (simp_all add: attachUpdate_def)

lemma attachUpdate_active:
  "st \<in> {HedgeCloseSubmitted, HedgeCloseVerifying} \<Longrightarrow>
   isActiveRequest (attachUpdate ex st q) = isActiveRequest q"
  by (elim insertE emptyE; simp add: attachUpdate_def isActiveRequest_def)

lemma Attach_run:
  "st \<in> {HedgeCloseSubmitted, HedgeCloseVerifying} \<Longrightarrow>
   AttachHedgeCloseExecution rid ex st db = (Ok (), setRequest rid (attachUpdate ex st) db)"
  by (elim insertE emptyE; simp add: AttachHedgeCloseExecution_def closeStatusOk_def)

lemma Attach_matches:
  assumes "lifecycleMatches db" "st \<in> {HedgeCloseSubmitted, HedgeCloseVerifying}"
  shows "lifecycleMatches (snd (AttachHedgeCloseExecution rid ex st db))"
proof -
  let ?g = "\<lambda>q. if cq_id q = rid then attachUpdate ex st q else q"
  have "cq_config_id (?g q) = cq_config_id q" "isActiveRequest (?g q) = isActiveRequest q" for q
    using attachUpdate_active [OF assms(2)] by simp_all
  then have "hasActive j (setRequest rid (attachUpdate ex st) db) = hasActive j db" for j
    unfolding hasActive_def set_setRequest bex_simps by simp
  with assms show ?thesis by (simp add: Attach_run lifecycleMatches_def)
qed

lemma Update_run:
  assumes "wfRequests db" "requestById i db = Some q" "isActiveRequest q"
  shows "UpdateHedgeCloseStatus i HedgeCloseVerifying db =
    (Ok (), setRequest i (\<lambda>q. q\<lparr>cq_status := HedgeCloseVerifying, cq_error_message := ''''\<rparr>) db)"
proof -
  from requestById_iff [OF assms(1), of i q] assms(2) have q: "q \<in> set (md_requests db)" "cq_id q = i"
    by blast+
  have "\<not> activeClash i db"
  proof
    assume "activeClash i db"
    with assms(2) obtain p where "p \<in> set (md_requests db)" "cq_id p \<noteq> i"
        "cq_config_id p = cq_config_id q" "isActiveRequest p"
      by (auto simp: activeClash_def list_ex_iff)
    with q assms(1,3) show False unfolding wfRequests_def by blast
  qed
  then show ?thesis by (simp add: UpdateHedgeCloseStatus_def closeStatusOk_def)
qed

lemma lifecycle_neq [simp]:
  "HedgeLifecycleDisabled \<noteq> HedgeLifecycleClosing" "HedgeLifecycleCloseFailed \<noteq> HedgeLifecycleClosing"
  "HedgeLifecycleActive \<noteq> HedgeLifecycleClosing" "HedgeLifecycleCloseFailed \<noteq> HedgeLifecycleDisabled"
  "HedgeLifecycleClosing \<noteq> HedgeLifecycleDisabled" "HedgeLifecycleClosing \<noteq> HedgeLifecycleCloseFailed"
  "HedgeLifecycleDisabled \<noteq> HedgeLifecycleCloseFailed"
  by (simp_all add: lifecycle_defs)

lemma closeStep_matches:
  "closeStep True db db' \<Longrightarrow> wfRequests db \<Longrightarrow> lifecycleMatches db \<Longrightarrow> lifecycleMatches db'"
proof (induction rule: closeStep.induct)
  case (begin_step db now cid key)
  then show ?case by (rule Begin_matches)
next
  case (attach_step st db rid ex)
  then show ?case by (intro Attach_matches)
next
  case (verify_step rid db)
  then obtain q where q: "requestById rid db = Some q" "isActiveRequest q" by auto
  show ?case
    unfolding Update_run [OF verify_step.prems(1) q] snd_conv
    by (rule status_update_matches [OF verify_step.prems q]) (simp_all add: isActiveRequest_def)
next
  case (complete_step rid db now)
  then obtain q where q: "requestById rid db = Some q" "isActiveRequest q" by auto
  show ?case
    unfolding CompleteHedgeClose_def by (rule finish_matches [OF complete_step.prems q]) simp_all
next
  case (fail_step rid db now msg)
  then obtain q where q: "requestById rid db = Some q" "isActiveRequest q" by auto
  show ?case
    unfolding FailHedgeClose_def by (rule finish_matches [OF fail_step.prems q]) simp_all
qed

section \<open>Properties\<close>

text \<open>However the repository operations are interleaved, even on requests that are finished, the
  requests keep their promises: one active request per configuration, unique ids and idempotency keys,
  only known statuses, and a completion time on every completed request.\<close>

theorem close_requests_integrity:
  assumes "(closeStep g)\<^sup>*\<^sup>* db db'" and "wfRequests db"
  shows "wfRequests db'"
  using assms by (rule reachable_wf)

lemma exampleMgmt_requests: "wfRequests exampleMgmt" "lifecycleMatches exampleMgmt"
  by (simp_all add: wfRequests_def lifecycleMatches_def exampleMgmt_def emptyMgmtDB_def hasActive_def
      exampleHedge_def)

lemma close_requests_integrity_witness:
  "wfRequests (snd (BeginHedgeCloseRequest 9 7 ''close_7_9'' exampleMgmt))"
  by (rule close_requests_integrity [OF _ exampleMgmt_requests(1), of True])
    (rule r_into_rtranclp, rule begin_step)

text \<open>C6: as long as requests are verified and finished only while they are active, a configuration is
  in lifecycle \<open>closing\<close> exactly when it has an active close request, and it stays enabled until then.\<close>

theorem closing_iff_active_request:
  assumes "(closeStep True)\<^sup>*\<^sup>* db db'" and "wfRequests db" and "lifecycleMatches db"
  shows "lifecycleMatches db'"
  using assms
  by (induction rule: rtranclp_induct) (auto intro: closeStep_matches reachable_wf)

lemma closing_iff_active_request_witness:
  "\<exists>db. (closeStep True)\<^sup>*\<^sup>* exampleMgmt db \<and> lifecycleMatches db \<and>
     map cf_lifecycle_status (md_configs db) = [HedgeLifecycleClosing] \<and>
     map cq_status (md_requests db) = [HedgeCloseRequested]"
proof -
  let ?db = "snd (BeginHedgeCloseRequest 9 7 ''close_7_9'' exampleMgmt)"
  have run: "(closeStep True)\<^sup>*\<^sup>* exampleMgmt ?db" by (rule r_into_rtranclp) (rule begin_step)
  have "map cf_lifecycle_status (md_configs ?db) = [HedgeLifecycleClosing]"
    "map cq_status (md_requests ?db) = [HedgeCloseRequested]"
    by (simp_all add: BeginHedgeCloseRequest_def exampleMgmt_def emptyMgmtDB_def configById_def
        findRow_Cons exampleHedge_def activeRequestFor_def Let_def setConfig_def updateRows_def)
  then show ?thesis
    using run closing_iff_active_request [OF run exampleMgmt_requests] by (intro exI [of _ ?db] conjI)
qed

text \<open>The lifecycle changes one operation can make to a configuration.\<close>

inductive lifecycleMove :: "string \<Rightarrow> string \<Rightarrow> bool" where
  stay: "lifecycleMove l l"
| start: "lifecycleMove l HedgeLifecycleClosing"
| finished: "lifecycleMove HedgeLifecycleClosing HedgeLifecycleDisabled"
| failed: "lifecycleMove HedgeLifecycleClosing HedgeLifecycleCloseFailed"

inductive_simps lifecycleMove_iff: "lifecycleMove l m"

lemma finish_config_rows:
  assumes "wfRequests db" "lifecycleMatches db" "requestById i db = Some q" "isActiveRequest q"
  shows "list_all2 (\<lambda>c c'. cf_id c' = cf_id c \<and>
      (c' = c \<or> cf_lifecycle_status c = HedgeLifecycleClosing \<and> cf_lifecycle_status c' = life \<and>
         cf_enabled c' = (life \<noteq> HedgeLifecycleDisabled)))
    (md_configs db) (md_configs (snd (finishHedgeClose now i st life msg db)))"
proof -
  from requestById_iff [OF assms(1), of i q] assms(3,4) have "hasActive (cq_config_id q) db"
    by (auto simp: hasActive_def)
  with assms(2) have "cf_lifecycle_status c = HedgeLifecycleClosing \<and> cf_enabled c"
    if "c \<in> set (md_configs db)" "cf_id c = cq_config_id q" for c
    using that by (auto simp: lifecycleMatches_def)
  then show ?thesis
    using assms(3)
    by (auto simp: finishHedgeClose_def setConfig_def updateRows_def list_all2_map2 setRequest_def
        intro!: list_all2_all_nthI)
qed

text \<open>C7: with the guarded discipline the lifecycle of every configuration is a state machine: an
  operation leaves it alone, starts closing it, or takes a closing one to disabled (and then not
  enabled any more) or close_failed. Nothing brings a disabled configuration back but a new close.\<close>

theorem lifecycle_machine:
  assumes "closeStep True db db'" and "wfRequests db" and "lifecycleMatches db"
  shows "list_all2 (\<lambda>c c'. cf_id c' = cf_id c \<and>
      lifecycleMove (cf_lifecycle_status c) (cf_lifecycle_status c') \<and>
      (cf_lifecycle_status c' = HedgeLifecycleDisabled \<longrightarrow> c' = c \<or> \<not> cf_enabled c'))
    (md_configs db) (md_configs db')"
  using assms
proof (cases rule: closeStep.cases)
  case (begin_step now cid key)
  show ?thesis
  proof (cases rule: Begin_cases [of now cid key db])
    case (created c)
    then show ?thesis
      unfolding begin_step(1)
      by (auto simp: setConfig_def updateRows_def list_all2_map2 lifecycleMove_iff
          intro!: list_all2_all_nthI)
  qed (auto simp: begin_step(1) lifecycleMove_iff intro!: list_all2_all_nthI)
next
  case (attach_step st rid ex)
  then show ?thesis
    by (auto simp: Attach_run lifecycleMove_iff intro!: list_all2_all_nthI)
next
  case (verify_step rid)
  then obtain q where "requestById rid db = Some q" "isActiveRequest q" by auto
  with verify_step assms(2) show ?thesis
    by (auto simp: Update_run lifecycleMove_iff intro!: list_all2_all_nthI)
next
  case (complete_step rid now)
  then obtain q where q: "requestById rid db = Some q" "isActiveRequest q" by auto
  show ?thesis
    unfolding complete_step(1) CompleteHedgeClose_def
    by (rule list_all2_mono [OF finish_config_rows [OF assms(2,3) q]]) (auto simp: lifecycleMove_iff)
next
  case (fail_step rid now msg)
  then obtain q where q: "requestById rid db = Some q" "isActiveRequest q" by auto
  show ?thesis
    unfolding fail_step(1) FailHedgeClose_def
    by (rule list_all2_mono [OF finish_config_rows [OF assms(2,3) q]]) (auto simp: lifecycleMove_iff)
qed

lemma lifecycle_machine_witness:
  "list_all2 (\<lambda>c c'. cf_id c' = cf_id c \<and>
      lifecycleMove (cf_lifecycle_status c) (cf_lifecycle_status c') \<and>
      (cf_lifecycle_status c' = HedgeLifecycleDisabled \<longrightarrow> c' = c \<or> \<not> cf_enabled c'))
    (md_configs exampleMgmt) (md_configs (snd (BeginHedgeCloseRequest 9 7 ''close_7_9'' exampleMgmt)))"
  by (rule lifecycle_machine [OF begin_step exampleMgmt_requests])

text \<open>Without the guard the machine is left: \<open>UpdateHedgeCloseStatus\<close> has no condition on the old status, so
  a second verification of a completed request makes it active again while its configuration stays
  disabled.\<close>


definition completedMgmt :: MgmtDB where
  "completedMgmt = snd (CompleteHedgeClose 12 1
     (snd (BeginHedgeCloseRequest 9 7 ''close_7_9'' exampleMgmt)))"

lemma completedMgmt_eval:
  "md_requests completedMgmt = [(newCloseRequest 9 7 ''close_7_9'' 1)
     \<lparr>cq_status := HedgeCloseCompleted, cq_error_message := '''', cq_completed_at := Some 12\<rparr>]"
  "md_configs completedMgmt = [exampleHedge\<lparr>cf_lifecycle_status := HedgeLifecycleDisabled, cf_enabled := False\<rparr>]"
  by (simp_all add: completedMgmt_def CompleteHedgeClose_def finishHedgeClose_def
      BeginHedgeCloseRequest_def exampleMgmt_def emptyMgmtDB_def configById_def findRow_Cons
      exampleHedge_def activeRequestFor_def Let_def setConfig_def setRequest_def updateRows_def
      requestById_def)


end
