(* ===== verification/Positions.thy ===== *)
theory Positions
  imports Models
begin

text \<open>
  What several services do with an exchange account and a position an exchange reports: the account
  configuration with its credentials decoded (\<open>accountConfigFromStoredAccount\<close> in
  \<open>service/exchange_reconciliation_service.go\<close>), and the signed quantity and notional of a position
  (\<open>service/position_sync_service.go\<close>). The credential decoder is the argument \<open>decoder\<close>.
\<close>

definition accountConfigFromStoredAccount ::
    "ExchangeAccount \<Rightarrow> (string \<Rightarrow> string result) \<Rightarrow> AccountConfig result" where
  "accountConfigFromStoredAccount account decoder =
     rbind (wrapErr ''decrypt exchange API key'' (decoder (ea_api_key_encrypted account))) (\<lambda>apiKey.
     rbind (wrapErr ''decrypt exchange API secret'' (decoder (ea_api_secret_encrypted account))) (\<lambda>apiSecret.
     rbind (wrapErr ''decrypt exchange passphrase'' (decoder (ea_passphrase_encrypted account))) (\<lambda>passphrase.
     Ok \<lparr>ac_exchange = ea_exchange account, ac_account_name = ea_name account,
         ac_ccxt_id = ea_ccxt_id account, ac_market_type = ea_market_type account,
         ac_sandbox = ea_sandbox account, ac_default_settle = ea_default_settle account,
         ac_account_type = ea_account_type account, ac_product_type = ea_product_type account,
         ac_category = ea_category account, ac_position_mode = ea_position_mode account,
         ac_margin_mode = ea_margin_mode account, ac_recv_window_ms = ea_recv_window_ms account,
         ac_rate_limit_ms = ea_rate_limit_ms account, ac_api_key = apiKey, ac_api_secret = apiSecret,
         ac_passphrase = passphrase\<rparr>)))"

definition signedExchangePositionQuantity :: "ExPosition \<Rightarrow> decimal" where
  "signedExchangePositionQuantity position =
    (let side = ToUpper (TrimSpace (xp_position_side position))
     in if side = ''SHORT'' then - \<bar>xp_quantity position\<bar>
        else if side = ''LONG'' then \<bar>xp_quantity position\<bar>
        else xp_quantity position)"

definition signedExchangePositionNotional :: "ExPosition \<Rightarrow> decimal \<Rightarrow> decimal" where
  "signedExchangePositionNotional position signedQuantity =
    (let notional = (if xp_notional position = 0 \<and> xp_mark_price position > 0
                     then \<bar>signedQuantity\<bar> * xp_mark_price position else xp_notional position)
     in if signedQuantity < 0 then - \<bar>notional\<bar>
        else if signedQuantity > 0 then \<bar>notional\<bar> else 0)"

definition normalizeExchangePositionValues :: "ExPosition \<Rightarrow> decimal \<times> decimal" where
  "normalizeExchangePositionValues position =
    (let quantity = signedExchangePositionQuantity position
     in (quantity, signedExchangePositionNotional position quantity))"

section \<open>Signs\<close>

lemma signed_notional_sign:
  "0 \<le> q * signedExchangePositionNotional p q"
  by (simp add: signedExchangePositionNotional_def Let_def zero_le_mult_iff)

lemma signed_notional_abs:
  "q \<noteq> 0 \<Longrightarrow> xp_notional p \<noteq> 0 \<Longrightarrow> \<bar>signedExchangePositionNotional p q\<bar> = \<bar>xp_notional p\<bar>"
  by (simp add: signedExchangePositionNotional_def Let_def)

lemma signed_notional_zero_iff:
  "signedExchangePositionNotional p q = 0 \<longleftrightarrow> q = 0 \<or> xp_notional p = 0 \<and> \<not> xp_mark_price p > 0"
  by (auto simp: signedExchangePositionNotional_def Let_def)

text \<open>The values taken from an exchange position agree in sign and lose no size: a SHORT is never
  positive, a LONG never negative, the quantity keeps its magnitude, the notional has the sign of the
  quantity, and its magnitude is the reported notional or, when none is reported, quantity times mark price.\<close>

theorem normalized_position_signs:
  "case normalizeExchangePositionValues p of (q, n) \<Rightarrow>
     \<bar>q\<bar> = \<bar>xp_quantity p\<bar> \<and> 0 \<le> q * n \<and> (q = 0 \<longrightarrow> n = 0) \<and>
     (ToUpper (TrimSpace (xp_position_side p)) = ''SHORT'' \<longrightarrow> q \<le> 0 \<and> n \<le> 0) \<and>
     (ToUpper (TrimSpace (xp_position_side p)) = ''LONG'' \<longrightarrow> 0 \<le> q \<and> 0 \<le> n) \<and>
     (q \<noteq> 0 \<longrightarrow> \<bar>n\<bar> = (if xp_notional p = 0 \<and> xp_mark_price p > 0
        then \<bar>xp_quantity p\<bar> * xp_mark_price p else \<bar>xp_notional p\<bar>))"
  by (auto simp: normalizeExchangePositionValues_def signedExchangePositionQuantity_def
      signedExchangePositionNotional_def Let_def abs_mult zero_le_mult_iff mult_le_0_iff)

definition examplePosition' :: ExPosition where
  "examplePosition' = \<lparr>xp_exchange = ''Gate'', xp_account_name = ''main'',
     xp_symbol = ''BTC/USDT:USDT'', xp_position_side = '' short '', xp_quantity = 2, xp_notional = 0,
     xp_entry_price = 90, xp_mark_price = 100, xp_unrealized_pnl = 0, xp_leverage = 1,
     xp_margin_mode = ''cross'', xp_updated_at = 5, xp_raw = Map.empty\<rparr>"

end
