(* ===== verification/Sha256.thy ===== *)
theory Sha256
  imports GoStd "HOL-Library.Word"
begin

text \<open>
  \<open>crypto/sha256.Sum256\<close> and \<open>encoding/hex.EncodeToString\<close>, which the client order id is made of: the
  padding, message schedule and compression of FIPS 180-4 on 32-bit words.
\<close>

unbundle bit_operations_syntax

type_synonym w32 = "32 word"

definition sha_K :: "w32 list" where
  "sha_K = map word_of_int [
     1116352408, 1899447441, 3049323471, 3921009573, 961987163, 1508970993, 2453635748, 2870763221,
     3624381080, 310598401, 607225278, 1426881987, 1925078388, 2162078206, 2614888103, 3248222580,
     3835390401, 4022224774, 264347078, 604807628, 770255983, 1249150122, 1555081692, 1996064986,
     2554220882, 2821834349, 2952996808, 3210313671, 3336571891, 3584528711, 113926993, 338241895,
     666307205, 773529912, 1294757372, 1396182291, 1695183700, 1986661051, 2177026350, 2456956037,
     2730485921, 2820302411, 3259730800, 3345764771, 3516065817, 3600352804, 4094571909, 275423344,
     430227734, 506948616, 659060556, 883997877, 958139571, 1322822218, 1537002063, 1747873779,
     1955562222, 2024104815, 2227730452, 2361852424, 2428436474, 2756734187, 3204031479, 3329325298]"

definition sha_H0 :: "w32 list" where
  "sha_H0 = map word_of_int [
     1779033703, 3144134277, 1013904242, 2773480762, 1359893119, 2600822924, 528734635, 1541459225]"

definition rotr :: "nat \<Rightarrow> w32 \<Rightarrow> w32" where
  "rotr n x = drop_bit n x OR push_bit (32 - n) x"

definition wordOfBytes :: "nat list \<Rightarrow> w32" where
  "wordOfBytes bs = word_of_int (foldl (\<lambda>a b. a * 256 + int b) 0 bs)"

definition bytesOfWord :: "w32 \<Rightarrow> nat list" where
  "bytesOfWord w = (let n = unat w in [n div 16777216, n div 65536 mod 256, n div 256 mod 256, n mod 256])"

text \<open>The message, a one bit, zeros, and the bit length in eight bytes.\<close>

definition sha_pad :: "string \<Rightarrow> nat list" where
  "sha_pad msg =
    (let n = length msg; z = (119 - n mod 64) mod 64; bits = 8 * n
     in map of_char msg @ [128] @ replicate z 0 @
        map (\<lambda>i. bits div 256 ^ i mod 256) [7, 6, 5, 4, 3, 2, 1, 0])"

fun chunks :: "nat \<Rightarrow> nat \<Rightarrow> 'a list \<Rightarrow> 'a list list" where
  "chunks 0 k xs = []"
| "chunks (Suc m) k xs = take k xs # chunks m k (drop k xs)"

fun sha_schedule :: "nat \<Rightarrow> w32 list \<Rightarrow> w32 list" where
  "sha_schedule 0 ws = ws"
| "sha_schedule (Suc m) ws =
    (let i = length ws; a = ws ! (i - 15); b = ws ! (i - 2);
         s0 = rotr 7 a XOR rotr 18 a XOR drop_bit 3 a;
         s1 = rotr 17 b XOR rotr 19 b XOR drop_bit 10 b
     in sha_schedule m (ws @ [ws ! (i - 16) + s0 + ws ! (i - 7) + s1]))"

fun sha_round :: "w32 list \<Rightarrow> w32 \<times> w32 \<Rightarrow> w32 list" where
  "sha_round [a, b, c, d, e, f, g, h] (k, w) =
    (let t1 = h + (rotr 6 e XOR rotr 11 e XOR rotr 25 e) + ((e AND f) XOR (NOT e AND g)) + k + w;
         t2 = (rotr 2 a XOR rotr 13 a XOR rotr 22 a) + ((a AND b) XOR (a AND c) XOR (b AND c))
     in [t1 + t2, a, b, c, d + t1, e, f, g])"
| "sha_round hs kw = hs"

definition sha_compress :: "w32 list \<Rightarrow> nat list \<Rightarrow> w32 list" where
  "sha_compress hs block =
    (let ws = sha_schedule 48 (map wordOfBytes (chunks 16 4 block))
     in map2 (+) hs (foldl sha_round hs (zip sha_K ws)))"

definition Sum256 :: "string \<Rightarrow> nat list" where
  "Sum256 msg =
    (let bs = sha_pad msg
     in concat (map bytesOfWord (foldl sha_compress sha_H0 (chunks (length bs div 64) 64 bs))))"

definition hexDigit :: "nat \<Rightarrow> char" where
  "hexDigit n = char_of (if n < 10 then 48 + n else 87 + n)"

definition hexEncode :: "nat list \<Rightarrow> string" where
  "hexEncode bs = concat (map (\<lambda>b. [hexDigit (b div 16), hexDigit (b mod 16)]) bs)"

section \<open>The digest has 32 bytes\<close>

lemma length_sha_K: "length sha_K = 64"
  by (simp add: sha_K_def)

lemma length_sha_round [simp]: "length (sha_round hs kw) = length hs"
  by (cases "(hs, kw)" rule: sha_round.cases) (simp_all add: Let_def)

lemma length_sha_rounds [simp]: "length (foldl sha_round hs kws) = length hs"
  by (induction kws arbitrary: hs) simp_all

lemma length_sha_compress [simp]: "length (sha_compress hs block) = length hs"
  by (simp add: sha_compress_def Let_def)

lemma length_sha_blocks [simp]: "length (foldl sha_compress hs blocks) = length hs"
  by (induction blocks arbitrary: hs) simp_all

lemma length_bytesOfWord [simp]: "length (bytesOfWord w) = 4"
  by (simp add: bytesOfWord_def Let_def)

lemma length_Sum256: "length (Sum256 msg) = 32"
proof -
  have "length (concat (map bytesOfWord ws)) = 4 * length ws" for ws
    by (induction ws) simp_all
  then show ?thesis by (simp add: Sum256_def Let_def sha_H0_def)
qed

lemma length_hexEncode [simp]: "length (hexEncode bs) = 2 * length bs"
  unfolding hexEncode_def by (induction bs) simp_all

end
