(* ===== verification/HedgeService.thy ===== *)
theory HedgeService
  imports CoreStore CloseLifecycle Positions Sha256
begin

text \<open>
  The hedge service (\<open>internal/service/hedge_service.go\<close>): one hedge run, the exit of a hedge, and the
  reconciliation of a submitted order. A Go interface the service holds is a record of operations over
  a world \<open>'w\<close>; a \<open>nil\<close> interface is \<open>None\<close>, and a call on it panics. Each function has the name and
  the order of calls of the source. Run metrics are not modelled. What comes from other packages is a
  field: the credential decoder, the decimal quotient and the text of a decimal.
\<close>

section \<open>Interfaces\<close>

text \<open>\<open>type HedgeStore interface\<close>; the lookup by execution id is the optional interface
  \<open>orderExecutionStateByIDStore\<close> of the same object.\<close>

record 'w HedgeStore =
  st_UpsertExposureSnapshot :: "UpsertExposureSnapshotParams \<Rightarrow> ('w, ExposureSnapshot) io"
  st_GetExposureSnapshot :: "int \<Rightarrow> string \<Rightarrow> string \<Rightarrow> ('w, ExposureSnapshot) io"
  st_UpsertHedgePositionSnapshot ::
    "UpsertHedgePositionSnapshotParams \<Rightarrow> ('w, HedgePositionSnapshot) io"
  st_GetHedgePositionSnapshot :: "int \<Rightarrow> int \<Rightarrow> string \<Rightarrow> ('w, HedgePositionSnapshot) io"
  st_CreateOrderPlan :: "CreateOrderPlanParams \<Rightarrow> ('w, OrderPlan) io"
  st_UpdateOrderPlanStatus :: "int \<Rightarrow> string \<Rightarrow> ('w, OrderPlan) io"
  st_CreateOrderExecution :: "CreateOrderExecutionParams \<Rightarrow> ('w, OrderExecution) io"
  st_UpdateOrderExecutionStatus :: "UpdateOrderExecutionStatusParams \<Rightarrow> ('w, OrderExecution) io"
  st_GetOrderExecutionByClientOrderID :: "string \<Rightarrow> ('w, OrderExecution) io"
  st_GetLatestOrderExecutionStateByConfigID :: "int \<Rightarrow> ('w, LatestOrderExecutionState) io"
  st_GetOrderExecutionStateByExecutionID :: "(int \<Rightarrow> ('w, LatestOrderExecutionState) io) option"
  st_CreateAuditEvent :: "CreateAuditEventParams \<Rightarrow> ('w, AuditEvent) io"
  st_ListRecentAuditEvents :: "int \<Rightarrow> ('w, AuditEvent list) io"

text \<open>The methods of \<open>*mgmt.Repository\<close> the service calls.\<close>

record 'w HedgeRepo =
  rp_GetHedgeConfig :: "nat \<Rightarrow> ('w, HedgeConfig) io"
  rp_FindEnabledHedgeConfig :: "string \<Rightarrow> string \<Rightarrow> ('w, HedgeConfig) io"
  rp_BeginHedgeCloseRequest :: "nat \<Rightarrow> string \<Rightarrow> ('w, HedgeCloseRequest \<times> bool) io"
  rp_AttachHedgeCloseExecution :: "nat \<Rightarrow> int \<Rightarrow> string \<Rightarrow> ('w, unit) io"
  rp_GetHedgeCloseRequestByExecutionID :: "int \<Rightarrow> ('w, HedgeCloseRequest) io"
  rp_UpdateHedgeCloseStatus :: "nat \<Rightarrow> string \<Rightarrow> ('w, unit) io"
  rp_CompleteHedgeClose :: "nat \<Rightarrow> ('w, unit) io"
  rp_FailHedgeClose :: "nat \<Rightarrow> string \<Rightarrow> ('w, unit) io"

record 'w Scheduler =
  ScheduleTrackedOrderReconciliation :: "int \<Rightarrow> ('w, unit) io"
  ScheduleCloseOrderReconciliation :: "int \<Rightarrow> ('w, unit) io"

type_synonym 'w tryLock = "string \<Rightarrow> duration \<Rightarrow> ('w, ('w, unit) io \<times> bool) io"

text \<open>\<open>type HedgeService struct\<close>. \<open>sv_now\<close> is the injected clock \<open>s.now\<close>, \<open>sv_clock\<close> is \<open>time.Now\<close>.\<close>

record 'w HedgeService =
  sv_core :: "'w HedgeStore"
  sv_mgmt :: "'w HedgeRepo"
  sv_exchange :: "'w Adapter option"
  sv_decodeCredential :: "string \<Rightarrow> string result"
  sv_locker :: "'w tryLock option"
  sv_lockTTL :: duration
  sv_runCooldown :: duration
  sv_now :: "('w, time) io"
  sv_clock :: "('w, time) io"
  sv_reconciler :: "'w Scheduler option"
  sv_dv :: "decimal \<Rightarrow> decimal \<Rightarrow> decimal"
  sv_decString :: "decimal \<Rightarrow> string"

definition SetRunGuardDurations :: "'w HedgeService \<Rightarrow> duration \<Rightarrow> duration \<Rightarrow> 'w HedgeService" where
  "SetRunGuardDurations s lockTTL cooldown =
    (let s1 = (if lockTTL > 0 then s\<lparr>sv_lockTTL := lockTTL\<rparr> else s)
     in if cooldown \<ge> 0 then s1\<lparr>sv_runCooldown := cooldown\<rparr> else s1)"

definition reasonRecentOrderPending :: string where
  "reasonRecentOrderPending = ''recent hedge order is still submitted''"
definition reasonRunCooldown :: string where
  "reasonRunCooldown = ''hedge run cooldown is active''"
definition reasonPositionSyncWait :: string where
  "reasonPositionSyncWait = ''waiting for position snapshot after recent fill''"

record UpsertExposureInput =
  ui_agent_id :: nat
  ui_source :: string
  ui_symbol :: string
  ui_net_quantity :: decimal
  ui_net_notional :: decimal
  ui_mark_price :: decimal
  ui_observed_at :: time

record UpsertPositionInput =
  pi_agent_id :: nat
  pi_exchange_account_id :: nat
  pi_exchange :: string
  pi_account_name :: string
  pi_symbol :: string
  pi_position_side :: string
  pi_quantity :: decimal
  pi_notional :: decimal
  pi_entry_price :: decimal
  pi_mark_price :: decimal
  pi_observed_at :: time

record RunInput =
  ri_config_id :: nat
  ri_source :: string
  ri_symbol :: string
  ri_reason :: string

record ExitInput =
  xi_config_id :: nat
  xi_source :: string
  xi_symbol :: string

section \<open>Pure helpers\<close>

definition targetSymbolForConfig :: "HedgeConfig \<Rightarrow> string" where
  "targetSymbolForConfig config =
     (if cf_target_symbol config \<noteq> '''' then cf_target_symbol config else cf_symbol config)"

definition toHedgeConfig :: "HedgeConfig \<Rightarrow> HConfig" where
  "toHedgeConfig config = \<lparr>hc_id = int64 (cf_id config), hc_source = cf_source config,
     hc_symbol = cf_symbol config, hc_target_symbol = targetSymbolForConfig config,
     hc_target_hedge_ratio = cf_target_hedge_ratio config, hc_first_trigger = cf_first_trigger config,
     hc_rebalance = cf_rebalance config, hc_exit = cf_exit config,
     hc_max_slippage_bps = cf_max_slippage_bps config, hc_max_notional = cf_max_notional config,
     hc_min_order = cf_min_order config, hc_enabled = cf_enabled config,
     hc_dry_run = cf_dry_run config\<rparr>"

definition calculationConfigForRun :: "HedgeConfig \<Rightarrow> RunInput \<Rightarrow> HConfig" where
  "calculationConfigForRun config input =
     (if ri_reason input = ReasonHedgeRatioAdjustment
      then (toHedgeConfig config)\<lparr>hc_rebalance := 0\<rparr> else toHedgeConfig config)"

definition applyRunReason :: "RunInput \<Rightarrow> Decision \<Rightarrow> Decision" where
  "applyRunReason input decision =
     (if ri_reason input = ReasonHedgeRatioAdjustment \<and> d_action decision = ActionRebalance
         \<and> d_reason decision = ReasonRebalance
      then decision\<lparr>d_reason := ReasonHedgeRatioAdjustment\<rparr> else decision)"

definition toExposure :: "ExposureSnapshot \<Rightarrow> HExposure" where
  "toExposure exposure = \<lparr>he_source = es_source exposure, he_symbol = es_symbol exposure,
     he_net_quantity = es_net_quantity exposure, he_net_notional = es_net_notional exposure,
     he_mark_price = es_mark_price exposure\<rparr>"

definition toPosition :: "HedgeConfig \<Rightarrow> HedgePositionSnapshot option \<Rightarrow> HPosition" where
  "toPosition config position = (case position of
     None \<Rightarrow> \<lparr>hp_exchange = ea_exchange (cf_exchange_account config),
        hp_account_name = ea_name (cf_exchange_account config),
        hp_symbol = targetSymbolForConfig config, hp_quantity = 0, hp_notional = 0,
        hp_mark_price = 0, hp_position_side = ''NET''\<rparr>
   | Some p \<Rightarrow> \<lparr>hp_exchange = ps_exchange p, hp_account_name = ps_account_name p,
        hp_symbol = ps_symbol p, hp_quantity = ps_quantity p, hp_notional = ps_notional p,
        hp_mark_price = ps_mark_price p, hp_position_side = ps_position_side p\<rparr>)"

definition makeClientOrderID ::
    "(decimal \<Rightarrow> string) \<Rightarrow> nat \<Rightarrow> ExposureSnapshot \<Rightarrow> Decision \<Rightarrow> string" where
  "makeClientOrderID decString configID exposure decision =
    (let raw = showNat configID @ ''|'' @ showInt (UnixNano (es_observed_at exposure)) @ ''|'' @
           actionString (d_action decision) @ ''|'' @ d_symbol decision @ ''|'' @
           decString (d_target decision) @ ''|'' @ decString (d_current decision) @ ''|'' @
           decString (d_adjustment decision)
     in ''t-'' @ take 26 (hexEncode (Sum256 raw)))"

definition lockKeyForConfig :: "HedgeConfig \<Rightarrow> string" where
  "lockKeyForConfig config = ''hedging-bot:run:config:'' @ showNat (cf_id config)"

definition auditSeverity :: "action \<Rightarrow> string" where
  "auditSeverity act = (if act = ActionSkip then ''warn'' else ''info'')"

definition persistedExecutionStatus :: "string \<Rightarrow> string \<times> string option" where
  "persistedExecutionStatus status =
    (let st = ToLower (TrimSpace status)
     in if st = OrderStatusFilled then (OrderStatusFilled, None)
        else if st = OrderStatusFailed then (OrderStatusFailed, Some ''exchange order failed'')
        else if st = OrderStatusCanceled then (OrderStatusFailed, Some ''exchange order canceled'')
        else (OrderStatusSubmitted, None))"

definition existingOrderExecutionError :: "OrderExecution \<Rightarrow> err option" where
  "existingOrderExecutionError execution =
     (if \<not> EqualFold (TrimSpace (ox_status execution)) OrderStatusFailed then None
      else case ox_error_message execution of
        Some m \<Rightarrow> if TrimSpace m \<noteq> '''' then Some (ErrMsg (''existing order execution failed: '' @ m))
                  else Some (ErrMsg ''existing order execution failed'')
      | None \<Rightarrow> Some (ErrMsg ''existing order execution failed''))"

definition expectedPositionQuantity ::
    "HedgePositionSnapshot option \<Rightarrow> Decision \<Rightarrow> OrderExecution \<Rightarrow> decimal" where
  "expectedPositionQuantity previous decision execution =
    (let quantity = (case previous of Some p \<Rightarrow> ps_quantity p | None \<Rightarrow> 0);
         filled = (if \<bar>ox_filled_quantity execution\<bar> = 0 then \<bar>d_order_quantity decision\<bar>
                   else \<bar>ox_filled_quantity execution\<bar>)
     in if d_side decision = SideBuy then quantity + filled else quantity - filled)"

section \<open>Positions and prices\<close>

text \<open>A method call on the exchange interface; calling a nil interface panics.\<close>

definition onExchange :: "'w HedgeService \<Rightarrow> ('w Adapter \<Rightarrow> ('w, 'a) io) \<Rightarrow> ('w, 'a) io" where
  "onExchange s f = (case sv_exchange s of None \<Rightarrow> panic | Some a \<Rightarrow> f a)"

definition accountConfigFromHedgeConfig :: "'w HedgeService \<Rightarrow> HedgeConfig \<Rightarrow> ('w, AccountConfig) io" where
  "accountConfigFromHedgeConfig s config =
     lift (accountConfigFromStoredAccount (cf_exchange_account config) (sv_decodeCredential s))"

definition writeAudit ::
    "'w HedgeService \<Rightarrow> string \<Rightarrow> string \<Rightarrow> string \<Rightarrow> string \<Rightarrow> auditPayload \<Rightarrow> ('w, unit) io" where
  "writeAudit s eventType severity symbol message payload =
     bnd (st_CreateAuditEvent (sv_core s) \<lparr>au_event_type = eventType, au_severity = severity,
            au_symbol = symbol, au_message = message, au_payload = payload\<rparr>) (\<lambda>_. ret ())"

definition loadStoredPosition ::
    "'w HedgeService \<Rightarrow> HedgeConfig \<Rightarrow> ('w, HedgePositionSnapshot option) io" where
  "loadStoredPosition s config =
     bnd (attempt (st_GetHedgePositionSnapshot (sv_core s) (int64 (cf_agent_id config))
            (int64 (cf_exchange_account_id config)) (targetSymbolForConfig config))) (\<lambda>r.
     case r of
       Inl e \<Rightarrow> if errIs e ErrNoRows then ret None
                 else throw (ErrWrap ''get hedge position snapshot'' e)
     | Inr p \<Rightarrow> ret (Some p))"

definition loadPosition ::
    "'w HedgeService \<Rightarrow> HedgeConfig \<Rightarrow> ExposureSnapshot \<Rightarrow> ('w, HedgePositionSnapshot option) io" where
  "loadPosition s config exposure =
     bnd (loadStoredPosition s config) (\<lambda>position.
     ret (case position of
       None \<Rightarrow> None
     | Some p \<Rightarrow> Some (if ps_mark_price p = 0 then p\<lparr>ps_mark_price := es_mark_price exposure\<rparr> else p)))"

text \<open>The loop of \<open>fetchLivePositionSnapshot\<close> stops at the first position of the symbol that is not flat.\<close>

definition firstLivePosition :: "string \<Rightarrow> ExPosition list \<Rightarrow> ExPosition option" where
  "firstLivePosition targetSymbol positions =
     List.find (\<lambda>p. EqualFold (xp_symbol p) targetSymbol \<and>
       \<not> (fst (normalizeExchangePositionValues p) = 0 \<and> snd (normalizeExchangePositionValues p) = 0))
       positions"

definition livePositionParams ::
    "HedgeConfig \<Rightarrow> time \<Rightarrow> ExPosition \<Rightarrow> UpsertHedgePositionSnapshotParams" where
  "livePositionParams config observedAt p = \<lparr>up_agent_id = int64 (cf_agent_id config),
     up_exchange_account_id = int64 (cf_exchange_account_id config),
     up_exchange = (if xp_exchange p = '''' then ea_exchange (cf_exchange_account config)
                    else xp_exchange p),
     up_account_name = (if xp_account_name p = '''' then ea_name (cf_exchange_account config)
                        else xp_account_name p),
     up_symbol = targetSymbolForConfig config,
     up_position_side = (if xp_position_side p = '''' then ''NET'' else xp_position_side p),
     up_quantity = fst (normalizeExchangePositionValues p),
     up_notional = snd (normalizeExchangePositionValues p),
     up_entry_price = xp_entry_price p, up_mark_price = xp_mark_price p,
     up_observed_at = observedAt\<rparr>"

definition fetchLivePositionSnapshot ::
    "'w HedgeService \<Rightarrow> HedgeConfig \<Rightarrow> ('w, UpsertHedgePositionSnapshotParams option) io" where
  "fetchLivePositionSnapshot s config =
     bnd (accountConfigFromHedgeConfig s config) (\<lambda>accountConfig.
     bnd (wrapIO ''fetch live hedge position'' (onExchange s (\<lambda>ex. FetchPositions ex
            \<lparr>fp_account = accountConfig, fp_symbols = [targetSymbolForConfig config],
             fp_params = Map.empty\<rparr>))) (\<lambda>positions.
     case firstLivePosition (targetSymbolForConfig config) positions of
       None \<Rightarrow> ret None
     | Some p \<Rightarrow> bnd (sv_now s) (\<lambda>observedAt. ret (Some (livePositionParams config observedAt p)))))"

definition upsertPositionSnapshot ::
    "'w HedgeService \<Rightarrow> UpsertHedgePositionSnapshotParams \<Rightarrow> ('w, HedgePositionSnapshot) io" where
  "upsertPositionSnapshot s params = wrapIO ''upsert live hedge position snapshot''
     (st_UpsertHedgePositionSnapshot (sv_core s) params)"

definition loadLivePosition ::
    "'w HedgeService \<Rightarrow> HedgeConfig \<Rightarrow> ('w, HedgePositionSnapshot option) io" where
  "loadLivePosition s config =
     bnd (fetchLivePositionSnapshot s config) (\<lambda>params.
     case params of
       None \<Rightarrow> ret None
     | Some p \<Rightarrow> bnd (upsertPositionSnapshot s p) (\<lambda>snapshot. ret (Some snapshot)))"

definition loadExitPosition ::
    "'w HedgeService \<Rightarrow> HedgeConfig \<Rightarrow> ('w, HedgePositionSnapshot option) io" where
  "loadExitPosition s config =
     (if \<not> cf_dry_run config \<and> sv_exchange s \<noteq> None
      then bnd (loadLivePosition s config) (\<lambda>position.
           case position of Some p \<Rightarrow> ret (Some p) | None \<Rightarrow> loadStoredPosition s config)
      else loadStoredPosition s config)"

definition zeroPositionSnapshotParams ::
    "HedgeConfig \<Rightarrow> HedgePositionSnapshot option \<Rightarrow> time \<Rightarrow> UpsertHedgePositionSnapshotParams" where
  "zeroPositionSnapshotParams config previous now =
     \<lparr>up_agent_id = int64 (cf_agent_id config),
      up_exchange_account_id = int64 (cf_exchange_account_id config),
      up_exchange = ea_exchange (cf_exchange_account config),
      up_account_name = ea_name (cf_exchange_account config),
      up_symbol = targetSymbolForConfig config, up_position_side = ''NET'', up_quantity = 0,
      up_notional = 0, up_entry_price = 0,
      up_mark_price = (case previous of Some p \<Rightarrow> ps_mark_price p | None \<Rightarrow> 0),
      up_observed_at = now\<rparr>"

text \<open>The result is the position that replaces \<open>result.Position\<close>, if any; an error is only audited.\<close>

definition refreshFilledPosition ::
    "'w HedgeService \<Rightarrow> HedgeConfig \<Rightarrow> HedgePositionSnapshot option \<Rightarrow> Decision \<Rightarrow> OrderExecution
      \<Rightarrow> ('w, HedgePositionSnapshot option) io" where
  "refreshFilledPosition s config previous decision execution =
    (let failed = (\<lambda>e. bnd (ignore (writeAudit s ''hedge.position.refresh'' ''warn'' (cf_symbol config)
           (errText e) (PayIds (int (cf_id config)) (ox_id execution)))) (\<lambda>_. ret None))
     in if cf_dry_run config \<or> ToLower (TrimSpace (ox_status execution)) \<noteq> OrderStatusFilled
        then ret None
        else bnd (attempt (fetchLivePositionSnapshot s config)) (\<lambda>r.
          case r of
            Inl e \<Rightarrow> failed e
          | Inr live \<Rightarrow>
              bnd (case live of Some p \<Rightarrow> ret p
                   | None \<Rightarrow> bnd (sv_now s) (\<lambda>now. ret (zeroPositionSnapshotParams config previous now))) (\<lambda>params.
              let expected = expectedPositionQuantity previous decision execution
              in if up_quantity params \<noteq> expected
                 then failed (ErrMsg (''exchange position has not reflected fill yet: expected quantity '' @
                   sv_decString s expected @ '', got '' @ sv_decString s (up_quantity params)))
                 else bnd (attempt (upsertPositionSnapshot s params)) (\<lambda>u.
                   case u of Inl e \<Rightarrow> failed e | Inr position \<Rightarrow> ret (Some position)))))"

definition ensureExitMarkPrice ::
    "'w HedgeService \<Rightarrow> HedgeConfig \<Rightarrow> HedgePositionSnapshot \<Rightarrow> ('w, HedgePositionSnapshot) io" where
  "ensureExitMarkPrice s config position =
     (if ps_mark_price position > 0 then ret position
      else if ps_quantity position \<noteq> 0 \<and> ps_notional position \<noteq> 0
      then bnd (lift (decDiv (sv_dv s) \<bar>ps_notional position\<bar> \<bar>ps_quantity position\<bar>)) (\<lambda>price.
           ret (position\<lparr>ps_mark_price := price\<rparr>))
      else if sv_exchange s = None
      then throw (ErrMsg ''exchange adapter is required to fetch exit mark price'')
      else bnd (accountConfigFromHedgeConfig s config) (\<lambda>accountConfig.
           bnd (wrapIO ''fetch ticker for hedge exit'' (onExchange s (\<lambda>ex. FetchTicker ex
              \<lparr>ft_account = accountConfig, ft_symbol = targetSymbolForConfig config,
               ft_params = Map.empty\<rparr>))) (\<lambda>ticker.
           let price = (if tk_mark ticker > 0 then tk_mark ticker else tk_last ticker)
           in if \<not> price > 0 then throw (ErrMsg ''ticker mark price must be greater than zero'')
              else ret (position\<lparr>ps_mark_price := price\<rparr>))))"

section \<open>Snapshots from outside\<close>

definition UpsertExposure :: "'w HedgeService \<Rightarrow> UpsertExposureInput \<Rightarrow> ('w, ExposureSnapshot) io" where
  "UpsertExposure s input =
     bnd (if ui_observed_at input = 0 then sv_clock s else ret (ui_observed_at input)) (\<lambda>observedAt.
     if ui_symbol input = '''' then throw (ErrMsg ''symbol is required'')
     else if \<not> ui_mark_price input > 0
     then throw (ErrMsg ''mark price must be greater than zero'')
     else st_UpsertExposureSnapshot (sv_core s) \<lparr>ue_agent_id = int64 (ui_agent_id input),
       ue_source = (if ui_source input = '''' then ''platform'' else ui_source input),
       ue_symbol = ui_symbol input, ue_net_quantity = ui_net_quantity input,
       ue_net_notional = ui_net_notional input, ue_mark_price = ui_mark_price input,
       ue_observed_at = observedAt\<rparr>)"

definition UpsertPosition :: "'w HedgeService \<Rightarrow> UpsertPositionInput \<Rightarrow> ('w, HedgePositionSnapshot) io" where
  "UpsertPosition s input =
     bnd (if pi_observed_at input = 0 then sv_clock s else ret (pi_observed_at input)) (\<lambda>observedAt.
     if pi_exchange input = '''' \<or> pi_account_name input = '''' \<or> pi_symbol input = ''''
     then throw (ErrMsg ''exchange, account_name and symbol are required'')
     else if pi_agent_id input = 0 \<or> pi_exchange_account_id input = 0
     then throw (ErrMsg ''agent_id and exchange_account_id are required'')
     else if \<not> pi_mark_price input > 0
     then throw (ErrMsg ''mark price must be greater than zero'')
     else st_UpsertHedgePositionSnapshot (sv_core s) \<lparr>up_agent_id = int64 (pi_agent_id input),
       up_exchange_account_id = int64 (pi_exchange_account_id input),
       up_exchange = pi_exchange input, up_account_name = pi_account_name input,
       up_symbol = pi_symbol input,
       up_position_side = (if pi_position_side input = '''' then ''NET'' else pi_position_side input),
       up_quantity = pi_quantity input, up_notional = pi_notional input,
       up_entry_price = pi_entry_price input, up_mark_price = pi_mark_price input,
       up_observed_at = observedAt\<rparr>)"

section \<open>Planning and executing an order\<close>

definition planParams :: "string \<Rightarrow> HedgeConfig \<Rightarrow> Decision \<Rightarrow> CreateOrderPlanParams" where
  "planParams clientOrderID config decision = \<lparr>cp_idempotency_key = clientOrderID,
     cp_config_id = int64 (cf_id config), cp_agent_id = int64 (cf_agent_id config),
     cp_exchange_account_id = int64 (cf_exchange_account_id config), cp_source = cf_source config,
     cp_exchange = ea_exchange (cf_exchange_account config),
     cp_account_name = ea_name (cf_exchange_account config), cp_symbol = targetSymbolForConfig config,
     cp_side = sideString (d_side decision), cp_position_side = ''NET'', cp_order_type = ''LIMIT'',
     cp_quantity = d_order_quantity decision, cp_price = d_limit_price decision,
     cp_notional = \<bar>d_adjustment decision\<bar>, cp_reduce_only = d_reduce_only decision,
     cp_reason = d_reason decision,
     cp_status = (if cf_dry_run config then ''dry_run'' else ''planned'')\<rparr>"

definition placeRequest ::
    "string \<Rightarrow> HedgeConfig \<Rightarrow> AccountConfig \<Rightarrow> Decision \<Rightarrow> PlaceOrderRequest" where
  "placeRequest clientOrderID config a decision = \<lparr>po_client_order_id = clientOrderID,
     po_exchange = ac_exchange a, po_account_name = ac_account_name a, po_ccxt_id = ac_ccxt_id a,
     po_market_type = ac_market_type a, po_sandbox = ac_sandbox a,
     po_default_settle = ac_default_settle a, po_account_type = ac_account_type a,
     po_product_type = ac_product_type a, po_category = ac_category a,
     po_position_mode = ac_position_mode a, po_margin_mode = ac_margin_mode a,
     po_recv_window_ms = ac_recv_window_ms a, po_rate_limit_ms = ac_rate_limit_ms a,
     po_api_key = ac_api_key a, po_api_secret = ac_api_secret a, po_passphrase = ac_passphrase a,
     po_symbol = targetSymbolForConfig config, po_side = sideString (d_side decision),
     po_position_side = ''NET'', po_order_type = ''LIMIT'',
     po_quantity = d_order_quantity decision, po_price = d_limit_price decision,
     po_reduce_only = d_reduce_only decision, po_exchange_order_params = Map.empty\<rparr>"

definition plainExecution ::
    "int \<Rightarrow> string \<Rightarrow> string \<Rightarrow> raw \<Rightarrow> string option \<Rightarrow> CreateOrderExecutionParams" where
  "plainExecution planID clientOrderID status rw msg = \<lparr>ce_order_plan_id = planID,
     ce_exchange_order_id = None, ce_client_order_id = clientOrderID, ce_status = status,
     ce_filled_quantity = 0, ce_avg_price = 0, ce_fee_usdt = 0, ce_raw_response = rw,
     ce_error_message = msg\<rparr>"

definition placedExecution :: "int \<Rightarrow> string \<Rightarrow> OrderResult \<Rightarrow> CreateOrderExecutionParams" where
  "placedExecution planID clientOrderID res = \<lparr>ce_order_plan_id = planID,
     ce_exchange_order_id = (if or_exchange_order_id res \<noteq> '''' then Some (or_exchange_order_id res)
                             else None),
     ce_client_order_id = clientOrderID, ce_status = or_status res,
     ce_filled_quantity = or_filled_quantity res, ce_avg_price = or_avg_price res,
     ce_fee_usdt = or_fee_usdt res, ce_raw_response = or_raw res, ce_error_message = None\<rparr>"

text \<open>The order was refused: the failure is recorded and returned.\<close>

definition recordFailedOrder ::
    "'w HedgeService \<Rightarrow> OrderPlan \<Rightarrow> string \<Rightarrow> err \<Rightarrow> ('w, OrderPlan \<times> OrderExecution) io" where
  "recordFailedOrder s plan clientOrderID e =
     bnd (attempt (st_CreateOrderExecution (sv_core s)
            (plainExecution (op_id plan) clientOrderID ''failed'' Map.empty (Some (errText e))))) (\<lambda>r.
     case r of
       Inl createErr \<Rightarrow> throw (ErrAround ''place order failed: '' e
         (''; create failed execution: '' @ errText createErr))
     | Inr _ \<Rightarrow>
         bnd (ignore (st_UpdateOrderPlanStatus (sv_core s) (op_id plan) ''failed'')) (\<lambda>_. throw e))"

text \<open>The exchange accepted the order: it is recorded, its reconciliation is scheduled when it is still
  open, and the plan takes its status.\<close>

definition recordPlacedOrder ::
    "'w HedgeService \<Rightarrow> HedgeConfig \<Rightarrow> Decision \<Rightarrow> OrderPlan \<Rightarrow> string \<Rightarrow> OrderResult
      \<Rightarrow> ('w, OrderPlan \<times> OrderExecution) io" where
  "recordPlacedOrder s config decision plan clientOrderID res =
     bnd (wrapIO ''create order execution'' (st_CreateOrderExecution (sv_core s)
            (placedExecution (op_id plan) clientOrderID res))) (\<lambda>execution.
     bnd (case sv_reconciler s of
            None \<Rightarrow> ret ()
          | Some rc \<Rightarrow>
              if EqualFold (or_status res) OrderStatusSubmitted \<and> d_reason decision \<noteq> ReasonManualClose
              then bnd (attempt (ScheduleTrackedOrderReconciliation rc (ox_id execution))) (\<lambda>r.
                   case r of
                     Inl e \<Rightarrow> ignore (writeAudit s ''hedge.order.reconcile.schedule'' ''warn''
                       (cf_symbol config) (errText e) (PayIds (int (cf_id config)) (ox_id execution)))
                   | Inr _ \<Rightarrow> ret ())
              else ret ()) (\<lambda>_.
     bnd (wrapIO ''update order plan status''
            (st_UpdateOrderPlanStatus (sv_core s) (op_id plan) (or_status res))) (\<lambda>plan'.
     ret (plan', execution))))"

text \<open>\<open>createPlanAndExecute\<close> once the plan is stored and no execution exists for it.\<close>

definition executePlan ::
    "'w HedgeService \<Rightarrow> HedgeConfig \<Rightarrow> Decision \<Rightarrow> string \<Rightarrow> OrderPlan
      \<Rightarrow> ('w, OrderPlan \<times> OrderExecution) io" where
  "executePlan s config decision clientOrderID plan =
     (if cf_dry_run config then
        bnd (wrapIO ''create dry-run execution'' (st_CreateOrderExecution (sv_core s)
               (plainExecution (op_id plan) clientOrderID ''dry_run''
                 [''dry_run'' \<mapsto> RawBool True] None))) (\<lambda>execution.
        ret (plan, execution))
      else
        bnd (accountConfigFromHedgeConfig s config) (\<lambda>accountConfig.
        bnd (attempt (onExchange s (\<lambda>ex. PlaceOrder ex
               (placeRequest clientOrderID config accountConfig decision)))) (\<lambda>placed.
        case placed of
          Inl e \<Rightarrow> recordFailedOrder s plan clientOrderID e
        | Inr res \<Rightarrow> recordPlacedOrder s config decision plan clientOrderID res)))"

definition createPlanAndExecute ::
    "'w HedgeService \<Rightarrow> HedgeConfig \<Rightarrow> ExposureSnapshot \<Rightarrow> Decision
      \<Rightarrow> ('w, OrderPlan \<times> OrderExecution) io" where
  "createPlanAndExecute s config exposure decision =
    (let clientOrderID = makeClientOrderID (sv_decString s) (cf_id config) exposure decision
     in bnd (wrapIO ''create order plan'' (st_CreateOrderPlan (sv_core s)
               (planParams clientOrderID config decision))) (\<lambda>plan.
        bnd (attempt (st_GetOrderExecutionByClientOrderID (sv_core s) clientOrderID)) (\<lambda>existing.
        case existing of
          Inr execution \<Rightarrow>
            (case existingOrderExecutionError execution of
               Some e \<Rightarrow> throw e
             | None \<Rightarrow> ret (plan, execution))
        | Inl e \<Rightarrow>
            if \<not> errIs e ErrNoRows then throw (ErrWrap ''get existing execution'' e)
            else executePlan s config decision clientOrderID plan)))"

section \<open>Reconciling a submitted order\<close>

definition reconcileSubmittedOrder ::
    "'w HedgeService \<Rightarrow> HedgeConfig \<Rightarrow> LatestOrderExecutionState
      \<Rightarrow> ('w, LatestOrderExecutionState) io" where
  "reconcileSubmittedOrder s config state =
     bnd (accountConfigFromHedgeConfig s config) (\<lambda>accountConfig.
     bnd (wrapIO ''fetch submitted hedge order'' (onExchange s (\<lambda>ex. FetchOrder ex
            \<lparr>fo_account = accountConfig,
             fo_order_id = (case ls_exchange_order_id state of Some i \<Rightarrow> i | None \<Rightarrow> ''''),
             fo_client_order_id = ls_client_order_id state, fo_symbol = ls_symbol state,
             fo_params = Map.empty\<rparr>))) (\<lambda>order.
     let (status, errorMessage) = persistedExecutionStatus (or_status order);
         exchangeOrderID = (if or_exchange_order_id order \<noteq> '''' then Some (or_exchange_order_id order)
                            else ls_exchange_order_id state)
     in bnd (wrapIO ''update reconciled order execution'' (st_UpdateOrderExecutionStatus (sv_core s)
               \<lparr>ux_id = ls_execution_id state, ux_exchange_order_id = exchangeOrderID,
                ux_status = status, ux_filled_quantity = or_filled_quantity order,
                ux_avg_price = or_avg_price order, ux_fee_usdt = or_fee_usdt order,
                ux_raw_response = or_raw order, ux_error_message = errorMessage\<rparr>)) (\<lambda>execution.
        bnd (wrapIO ''update reconciled order plan''
               (st_UpdateOrderPlanStatus (sv_core s) (ls_order_plan_id state) status)) (\<lambda>_.
        let state' = state\<lparr>ls_status := ox_status execution, ls_updated_at := ox_updated_at execution\<rparr>
        in if status = OrderStatusFilled
           then bnd (attempt (loadStoredPosition s config)) (\<lambda>r.
                case r of
                  Inl e \<Rightarrow> bnd (ignore (writeAudit s ''hedge.position.refresh'' ''warn'' (cf_symbol config)
                      (errText e) (PayIds (int (cf_id config)) (ox_id execution)))) (\<lambda>_. ret state')
                | Inr position \<Rightarrow>
                    bnd (refreshFilledPosition s config position
                           (emptyDecision\<lparr>d_side := sideOfString (ToUpper (ls_side state)),
                              d_order_quantity := ox_filled_quantity execution\<rparr>) execution) (\<lambda>_.
                    ret state'))
           else ret state'))))"

definition automaticRunBlockReason :: "'w HedgeService \<Rightarrow> HedgeConfig \<Rightarrow> ('w, string) io" where
  "automaticRunBlockReason s config =
    (let judge = (\<lambda>state. let status = ToLower (TrimSpace (ls_status state))
       in if status = OrderStatusSubmitted then ret reasonRecentOrderPending
          else if status = OrderStatusFilled then
            bnd (if sv_runCooldown s > 0
                 then bnd (sv_now s) (\<lambda>now. ret (now < ls_updated_at state + sv_runCooldown s))
                 else ret False) (\<lambda>cooling.
            if cooling then ret reasonRunCooldown
            else bnd (loadStoredPosition s config) (\<lambda>position.
              ret (case position of
                None \<Rightarrow> reasonPositionSyncWait
              | Some p \<Rightarrow> if ps_observed_at p < ls_updated_at state then reasonPositionSyncWait
                          else '''')))
          else ret '''')
     in bnd (attempt (st_GetLatestOrderExecutionStateByConfigID (sv_core s) (int64 (cf_id config)))) (\<lambda>r.
        case r of
          Inl e \<Rightarrow> if errIs e ErrNoRows then ret ''''
                    else throw (ErrWrap ''get latest order execution state'' e)
        | Inr state \<Rightarrow>
            if ToLower (TrimSpace (ls_status state)) = OrderStatusSubmitted \<and> sv_exchange s \<noteq> None
            then bnd (attempt (reconcileSubmittedOrder s config state)) (\<lambda>u.
                 case u of
                   Inl e \<Rightarrow> bnd (ignore (writeAudit s ''hedge.order.reconcile'' ''warn'' (cf_symbol config)
                       (errText e) (PayIds (int (cf_id config)) (ls_execution_id state)))) (\<lambda>_.
                     ret reasonRecentOrderPending)
                 | Inr state' \<Rightarrow> judge state')
            else judge state))"

section \<open>One hedge run\<close>

definition loadConfig :: "'w HedgeService \<Rightarrow> RunInput \<Rightarrow> ('w, HedgeConfig) io" where
  "loadConfig s input =
     (if ri_config_id input > 0 then rp_GetHedgeConfig (sv_mgmt s) (ri_config_id input)
      else if ri_symbol input = ''''
      then throw (ErrMsg ''symbol is required when config_id is empty'')
      else rp_FindEnabledHedgeConfig (sv_mgmt s)
        (if ri_source input = '''' then ''platform'' else ri_source input) (ri_symbol input))"

text \<open>The run lock of a configuration around \<open>body\<close>: refused, or released when \<open>body\<close> is over.\<close>

definition withRunLock :: "'w HedgeService \<Rightarrow> HedgeConfig \<Rightarrow> ('w, 'a) io \<Rightarrow> ('w, 'a) io" where
  "withRunLock s config body = (case sv_locker s of
     None \<Rightarrow> body
   | Some tryLock \<Rightarrow>
       bnd (tryLock (lockKeyForConfig config) (sv_lockTTL s)) (\<lambda>(release, ok).
       if \<not> ok then throw ErrRunLocked else finally_do body release))"

definition plainResult :: "HedgeConfig \<Rightarrow> Decision \<Rightarrow> RunResult" where
  "plainResult config decision = \<lparr>rr_config = config, rr_exposure = None, rr_position = None,
     rr_decision = decision, rr_order_plan = None, rr_execution = None, rr_close_request = None\<rparr>"

definition skipDecision :: "HedgeConfig \<Rightarrow> string \<Rightarrow> Decision" where
  "skipDecision config reason = emptyDecision\<lparr>d_action := ActionSkip,
     d_symbol := targetSymbolForConfig config, d_reason := reason, d_dry_run := cf_dry_run config\<rparr>"

text \<open>\<open>RunOnce\<close> from the exposure on: decide, then trade when the decision says so.\<close>

definition actOnDecision ::
    "'w HedgeService \<Rightarrow> HedgeConfig \<Rightarrow> ExposureSnapshot \<Rightarrow> HedgePositionSnapshot option \<Rightarrow> Decision
      \<Rightarrow> ('w, RunResult) io" where
  "actOnDecision s config exposure position decision =
    (let result = (plainResult config decision)\<lparr>rr_exposure := Some exposure, rr_position := position\<rparr>
     in if d_action decision = ActionHold \<or> d_action decision = ActionSkip
        then bnd (ignore (writeAudit s ''hedge.decision'' (auditSeverity (d_action decision))
                   (cf_symbol config) (d_reason decision) (PayResult result))) (\<lambda>_. ret result)
        else bnd (createPlanAndExecute s config exposure decision) (\<lambda>(plan, execution).
             bnd (refreshFilledPosition s config position decision execution) (\<lambda>refreshed.
             let result' = result\<lparr>rr_order_plan := Some plan, rr_execution := Some execution,
                   rr_position := (case refreshed of Some p \<Rightarrow> Some p | None \<Rightarrow> position)\<rparr>
             in bnd (ignore (writeAudit s ''hedge.order'' ''info'' (cf_symbol config)
                      (d_reason decision) (PayResult result'))) (\<lambda>_. ret result'))))"

definition runDecision :: "'w HedgeService \<Rightarrow> RunInput \<Rightarrow> HedgeConfig \<Rightarrow> ('w, RunResult) io" where
  "runDecision s input config =
     bnd (wrapIO ''get exposure snapshot'' (st_GetExposureSnapshot (sv_core s)
            (int64 (cf_agent_id config)) (cf_source config) (cf_symbol config))) (\<lambda>exposure.
     bnd (loadPosition s config exposure) (\<lambda>position.
     bnd (lift (Calculate (sv_dv s) (calculationConfigForRun config input) (toExposure exposure)
            (toPosition config position))) (\<lambda>decision.
     actOnDecision s config exposure position (applyRunReason input decision))))"

definition RunOnce :: "'w HedgeService \<Rightarrow> RunInput \<Rightarrow> ('w, RunResult) io" where
  "RunOnce s input =
     bnd (loadConfig s input) (\<lambda>config.
     if cf_lifecycle_status config \<noteq> '''' \<and> cf_lifecycle_status config \<noteq> HedgeLifecycleActive
     then ret (plainResult config
       (skipDecision config (''hedge config lifecycle is '' @ cf_lifecycle_status config)))
     else withRunLock s config
       (bnd (if ri_reason input = '''' then automaticRunBlockReason s config else ret '''') (\<lambda>blockReason.
        if blockReason \<noteq> ''''
        then let result = plainResult config (skipDecision config blockReason)
             in bnd (ignore (writeAudit s ''hedge.guard'' ''info'' (cf_symbol config) blockReason
                      (PayResult result))) (\<lambda>_. ret result)
        else runDecision s input config)))"

section \<open>Leaving a hedge\<close>

text \<open>The result is whether the close is complete, the request as the caller sees it afterwards, and
  the error.\<close>

definition finalizeHedgeClose ::
    "'w HedgeService \<Rightarrow> HedgeConfig \<Rightarrow> HedgeCloseRequest
      \<Rightarrow> ('w, bool \<times> HedgeCloseRequest \<times> err option) io" where
  "finalizeHedgeClose s config request =
    (let complete = bnd (attempt (rp_CompleteHedgeClose (sv_mgmt s) (cq_id request))) (\<lambda>r.
           case r of
             Inl e \<Rightarrow> ret (False, request, Some e)
           | Inr _ \<Rightarrow> ret (True, request\<lparr>cq_status := HedgeCloseCompleted\<rparr>, None));
         verifying = request\<lparr>cq_status := HedgeCloseVerifying\<rparr>
     in if cf_dry_run config then complete
        else bnd (attempt (loadLivePosition s config)) (\<lambda>r.
          case r of
            Inl e \<Rightarrow>
              bnd (ignore (rp_UpdateHedgeCloseStatus (sv_mgmt s) (cq_id request) HedgeCloseVerifying)) (\<lambda>_.
              ret (False, verifying, Some e))
          | Inr position \<Rightarrow>
              if (case position of None \<Rightarrow> False | Some p \<Rightarrow> ps_quantity p \<noteq> 0)
              then bnd (attempt (rp_UpdateHedgeCloseStatus (sv_mgmt s) (cq_id request)
                          HedgeCloseVerifying)) (\<lambda>u.
                   case u of
                     Inl e \<Rightarrow> ret (False, request, Some e)
                   | Inr _ \<Rightarrow> ret (False, verifying, None))
              else complete))"

text \<open>\<open>if s.reconciler != nil { _ = s.reconciler.ScheduleCloseOrderReconciliation(...) }\<close>\<close>

definition scheduleClose :: "'w HedgeService \<Rightarrow> int \<Rightarrow> ('w, unit) io" where
  "scheduleClose s executionID = (case sv_reconciler s of
     None \<Rightarrow> ret ()
   | Some rc \<Rightarrow> ignore (ScheduleCloseOrderReconciliation rc executionID))"

text \<open>\<open>if err != nil { _ = s.mgmt.FailHedgeClose(...); return err }\<close> around a step of the exit.\<close>

definition failingClose :: "'w HedgeService \<Rightarrow> HedgeCloseRequest \<Rightarrow> ('w, 'a) io \<Rightarrow> ('w, 'a) io" where
  "failingClose s request m = bnd (attempt m) (\<lambda>r. case r of
     Inl e \<Rightarrow> bnd (ignore (rp_FailHedgeClose (sv_mgmt s) (cq_id request) (errText e))) (\<lambda>_. throw e)
   | Inr x \<Rightarrow> ret x)"

text \<open>The exposure an exit order is planned with: no quantities, the position's price and time.\<close>

definition exitExposure ::
    "'w HedgeService \<Rightarrow> HedgeConfig \<Rightarrow> HedgePositionSnapshot option \<Rightarrow> ('w, ExposureSnapshot) io" where
  "exitExposure s config position =
     bnd (sv_clock s) (\<lambda>now.
     let base = \<lparr>es_id = 0, es_agent_id = 0, es_source = cf_source config,
                 es_symbol = cf_symbol config, es_net_quantity = 0, es_net_notional = 0,
                 es_mark_price = 0, es_observed_at = now\<rparr>
     in case position of
          None \<Rightarrow> ret base
        | Some p \<Rightarrow>
            bnd (if ps_observed_at p = 0 then sv_clock s else ret (ps_observed_at p)) (\<lambda>seen.
            ret (base\<lparr>es_mark_price := ps_mark_price p, es_observed_at := seen\<rparr>)))"

text \<open>\<open>ExitHedge\<close> after its order has been recorded.\<close>

definition exitOrdered ::
    "'w HedgeService \<Rightarrow> HedgeConfig \<Rightarrow> HedgeCloseRequest \<Rightarrow> HedgePositionSnapshot option
      \<Rightarrow> RunResult \<Rightarrow> OrderPlan \<Rightarrow> OrderExecution \<Rightarrow> ('w, RunResult) io" where
  "exitOrdered s config request position result plan execution =
    (let decision = rr_decision result;
         requestStatus = (if ox_status execution \<noteq> OrderStatusSubmitted then HedgeCloseVerifying
                          else HedgeCloseSubmitted)
     in bnd (rp_AttachHedgeCloseExecution (sv_mgmt s) (cq_id request) (ox_id execution) requestStatus) (\<lambda>_.
        let request1 = request\<lparr>cq_order_execution_id := Some (ox_id execution), cq_status := requestStatus\<rparr>
        in bnd (refreshFilledPosition s config position decision execution) (\<lambda>refreshed.
        let result1 = result\<lparr>rr_order_plan := Some plan, rr_execution := Some execution,
              rr_position := (case refreshed of Some p \<Rightarrow> Some p | None \<Rightarrow> rr_position result),
              rr_close_request := Some request1\<rparr>
        in bnd (if ox_status execution = OrderStatusFilled \<or> ox_status execution = OrderStatusDryRun
                then bnd (finalizeHedgeClose s config request1) (\<lambda>(completed, request2, verifyErr).
                     let result2 = result1\<lparr>rr_close_request := Some request2\<rparr>
                     in bnd (case verifyErr of
                               None \<Rightarrow> ret ()
                             | Some e \<Rightarrow> ignore (writeAudit s ''hedge.exit.verify'' ''warn''
                                 (cf_symbol config) (errText e) (PayResult result2))) (\<lambda>_.
                        if completed
                        then ret (result2\<lparr>rr_config := (rr_config result2)\<lparr>cf_enabled := False,
                               cf_lifecycle_status := HedgeLifecycleDisabled\<rparr>\<rparr>)
                        else bnd (scheduleClose s (ox_id execution)) (\<lambda>_. ret result2)))
                else bnd (scheduleClose s (ox_id execution)) (\<lambda>_. ret result1)) (\<lambda>result3.
           bnd (ignore (writeAudit s ''hedge.exit.order'' ''info'' (cf_symbol config)
                  (d_reason decision) (PayResult result3))) (\<lambda>_.
           ret result3)))))"

text \<open>\<open>ExitHedge\<close> with a close request of its own.\<close>

definition exitCreated ::
    "'w HedgeService \<Rightarrow> HedgeConfig \<Rightarrow> HedgeCloseRequest \<Rightarrow> ('w, RunResult) io" where
  "exitCreated s config request =
     bnd (failingClose s request (loadExitPosition s config)) (\<lambda>position0.
     bnd (case position0 of
            None \<Rightarrow> ret None
          | Some p \<Rightarrow> bnd (failingClose s request (ensureExitMarkPrice s config p)) (\<lambda>p'. ret (Some p'))) (\<lambda>position.
     bnd (exitExposure s config position) (\<lambda>exposure.
     bnd (lift (ClosePosition (sv_dv s) (toHedgeConfig config) (toPosition config position))) (\<lambda>decision.
     let result = (plainResult config decision)\<lparr>rr_exposure := Some exposure,
           rr_position := position, rr_close_request := Some request\<rparr>
     in if d_action decision = ActionHold \<or> d_action decision = ActionSkip
        then bnd (rp_CompleteHedgeClose (sv_mgmt s) (cq_id request)) (\<lambda>_.
             let result' = result\<lparr>rr_close_request := Some (request\<lparr>cq_status := HedgeCloseCompleted\<rparr>),
                   rr_config := config\<lparr>cf_enabled := False,
                     cf_lifecycle_status := HedgeLifecycleDisabled\<rparr>\<rparr>
             in bnd (ignore (writeAudit s ''hedge.exit.decision'' (auditSeverity (d_action decision))
                      (cf_symbol config) (d_reason decision) (PayResult result'))) (\<lambda>_. ret result'))
        else bnd (failingClose s request (createPlanAndExecute s config exposure decision)) (\<lambda>(plan, execution).
             exitOrdered s config request position result plan execution)))))"

definition statusOnlyExecution :: "int \<Rightarrow> string \<Rightarrow> OrderExecution" where
  "statusOnlyExecution i status = \<lparr>ox_id = i, ox_order_plan_id = 0, ox_exchange_order_id = None,
     ox_client_order_id = '''', ox_status = status, ox_filled_quantity = 0, ox_avg_price = 0,
     ox_fee_usdt = 0, ox_raw_response = Map.empty, ox_error_message = None, ox_submitted_at = None,
     ox_filled_at = None, ox_failed_at = None, ox_updated_at = 0\<rparr>"

definition closeKey :: "nat \<Rightarrow> time \<Rightarrow> string" where
  "closeKey configID now = ''close_'' @ showNat configID @ ''_'' @ showInt (UnixNano now)"

definition ExitHedge :: "'w HedgeService \<Rightarrow> ExitInput \<Rightarrow> ('w, RunResult) io" where
  "ExitHedge s input =
     bnd (loadConfig s \<lparr>ri_config_id = xi_config_id input, ri_source = xi_source input,
            ri_symbol = xi_symbol input, ri_reason = ''''\<rparr>) (\<lambda>config0.
     let config1 = config0\<lparr>cf_target_symbol := targetSymbolForConfig config0\<rparr>
     in withRunLock s config1
       (bnd (sv_now s) (\<lambda>now.
        bnd (rp_BeginHedgeCloseRequest (sv_mgmt s) (cf_id config1) (closeKey (cf_id config1) now)) (\<lambda>(request, created).
        let config = config1\<lparr>cf_lifecycle_status := HedgeLifecycleClosing\<rparr>
        in if created then exitCreated s config request
           else
             let base = (plainResult config (emptyDecision\<lparr>d_action := ActionExit,
                   d_symbol := targetSymbolForConfig config, d_reason := ReasonManualClose,
                   d_dry_run := cf_dry_run config\<rparr>))\<lparr>rr_close_request := Some request\<rparr>
             in case cq_order_execution_id request of
                  None \<Rightarrow> ret base
                | Some executionID \<Rightarrow>
                    bnd (scheduleClose s executionID) (\<lambda>_.
                    ret (base\<lparr>rr_execution := Some (statusOnlyExecution executionID (cq_status request))\<rparr>))))))"

section \<open>Background reconciliation\<close>

text \<open>\<open>uint(x)\<close> of a signed 64-bit value.\<close>

definition uint64 :: "int \<Rightarrow> nat" where
  "uint64 i = nat (i mod 2 ^ 64)"

text \<open>The status that accompanies an error is not read by any caller and is left out.\<close>

definition ReconcileOrderExecution :: "'w HedgeService \<Rightarrow> int \<Rightarrow> ('w, string) io" where
  "ReconcileOrderExecution s executionID = (case st_GetOrderExecutionStateByExecutionID (sv_core s) of
     None \<Rightarrow> throw (ErrMsg ''order execution lookup by id is not supported'')
   | Some lookup \<Rightarrow>
       bnd (wrapIO ''get order execution state'' (lookup executionID)) (\<lambda>state0.
       bnd (if ToLower (TrimSpace (ls_status state0)) = OrderStatusSubmitted
            then bnd (rp_GetHedgeConfig (sv_mgmt s) (uint64 (ls_config_id state0))) (\<lambda>config.
                 reconcileSubmittedOrder s config state0)
            else ret state0) (\<lambda>state.
       let status = ToLower (TrimSpace (ls_status state))
       in bnd (attempt (rp_GetHedgeCloseRequestByExecutionID (sv_mgmt s) executionID)) (\<lambda>r.
          case r of
            Inl e \<Rightarrow> if errIs e ErrNotFound then ret status else throw e
          | Inr request \<Rightarrow>
              if status = OrderStatusFilled \<or> status = OrderStatusDryRun
              then bnd (rp_GetHedgeConfig (sv_mgmt s) (cq_config_id request)) (\<lambda>config.
                   bnd (finalizeHedgeClose s config request) (\<lambda>(completed, _, err).
                   case err of
                     Some e \<Rightarrow> throw e
                   | None \<Rightarrow> if \<not> completed then ret HedgeCloseVerifying else ret OrderStatusFilled))
              else if status = OrderStatusFailed \<or> status = OrderStatusCanceled
              then bnd (rp_FailHedgeClose (sv_mgmt s) (cq_id request)
                         (''close order ended with status '' @ status)) (\<lambda>_. ret status)
              else ret status))))"

definition FailCloseReconciliation :: "'w HedgeService \<Rightarrow> int \<Rightarrow> string \<Rightarrow> ('w, unit) io" where
  "FailCloseReconciliation s executionID message =
     bnd (attempt (rp_GetHedgeCloseRequestByExecutionID (sv_mgmt s) executionID)) (\<lambda>r.
     case r of
       Inl e \<Rightarrow> if errIs e ErrNotFound then ret () else throw e
     | Inr request \<Rightarrow>
         if cq_status request = HedgeCloseCompleted \<or> cq_status request = HedgeCloseFailed then ret ()
         else rp_FailHedgeClose (sv_mgmt s) (cq_id request) message)"

definition ListAuditEvents :: "'w HedgeService \<Rightarrow> int \<Rightarrow> ('w, AuditEvent list) io" where
  "ListAuditEvents s limit = st_ListRecentAuditEvents (sv_core s)
     (if limit \<le> 0 \<or> limit > 200 then 50 else limit)"

end
