(* ===== verification/HedgeLaws.thy ===== *)
theory HedgeLaws
  imports HedgeService
begin

text \<open>
  What the hedge service needs of its collaborators, as locales, and what it promises in return. In
  \<open>service_quiet\<close> a relation on worlds holds across every operation the service calls except taking the
  run lock and placing an order; \<open>service_locked\<close> and \<open>service_place\<close> add those two, \<open>service_body\<close> takes the
  execution of a decision as a whole, \<open>service_steps\<close> is for
  relations that a whole locked section keeps, and \<open>service_log\<close> follows the log of placed orders. The
  handlers' facts are proved here once and used for every relation in \<open>World\<close>.
\<close>

section \<open>Interfaces\<close>

locale service_quiet = world_preorder R
  for R :: "'w \<Rightarrow> 'w \<Rightarrow> bool" +
  fixes s :: "'w HedgeService"
  assumes r_UpsertExposure: "relates R (st_UpsertExposureSnapshot (sv_core s) ue)"
    and r_GetExposure: "relates R (st_GetExposureSnapshot (sv_core s) a src smb)"
    and r_UpsertPosition: "relates R (st_UpsertHedgePositionSnapshot (sv_core s) up)"
    and r_GetPosition: "relates R (st_GetHedgePositionSnapshot (sv_core s) a acc smb)"
    and r_CreatePlan: "relates R (st_CreateOrderPlan (sv_core s) cp)"
    and r_UpdatePlan: "relates R (st_UpdateOrderPlanStatus (sv_core s) i st)"
    and r_CreateExecution: "relates R (st_CreateOrderExecution (sv_core s) ce)"
    and r_UpdateExecution: "relates R (st_UpdateOrderExecutionStatus (sv_core s) ux)"
    and r_GetByClient: "relates R (st_GetOrderExecutionByClientOrderID (sv_core s) c)"
    and r_GetLatest: "relates R (st_GetLatestOrderExecutionStateByConfigID (sv_core s) i)"
    and r_GetState: "st_GetOrderExecutionStateByExecutionID (sv_core s) = Some lookup \<Longrightarrow>
      relates R (lookup i)"
    and r_Audit: "relates R (st_CreateAuditEvent (sv_core s) au)"
    and r_GetConfig: "relates R (rp_GetHedgeConfig (sv_mgmt s) n)"
    and r_FindConfig: "relates R (rp_FindEnabledHedgeConfig (sv_mgmt s) src smb)"
    and r_Begin: "relates R (rp_BeginHedgeCloseRequest (sv_mgmt s) n key)"
    and r_Attach: "st = HedgeCloseSubmitted \<or> st = HedgeCloseVerifying \<Longrightarrow>
      relates R (rp_AttachHedgeCloseExecution (sv_mgmt s) n i st)"
    and r_GetRequest: "relates R (rp_GetHedgeCloseRequestByExecutionID (sv_mgmt s) i)"
    and r_UpdateClose: "relates R (rp_UpdateHedgeCloseStatus (sv_mgmt s) n HedgeCloseVerifying)"
    and r_Complete: "relates R (rp_CompleteHedgeClose (sv_mgmt s) n)"
    and r_Fail: "relates R (rp_FailHedgeClose (sv_mgmt s) n msg)"
    and r_FetchPositions: "sv_exchange s = Some ex \<Longrightarrow> relates R (FetchPositions ex fp)"
    and r_FetchTicker: "sv_exchange s = Some ex \<Longrightarrow> relates R (FetchTicker ex ft)"
    and r_FetchOrder: "sv_exchange s = Some ex \<Longrightarrow> relates R (FetchOrder ex fo)"
    and r_now: "relates R (sv_now s)"
    and r_clock: "relates R (sv_clock s)"
    and r_tracked: "sv_reconciler s = Some rc \<Longrightarrow> relates R (ScheduleTrackedOrderReconciliation rc i)"
    and r_scheduled: "sv_reconciler s = Some rc \<Longrightarrow> relates R (ScheduleCloseOrderReconciliation rc i)"
begin

lemmas op_rules = r_UpsertExposure r_GetExposure r_UpsertPosition r_GetPosition r_CreatePlan
  r_UpdatePlan r_CreateExecution r_UpdateExecution r_GetByClient r_GetLatest r_Audit r_GetConfig
  r_FindConfig r_Begin r_GetRequest r_UpdateClose r_Complete r_Fail r_now r_clock

lemmas flow_rules = io_rules relates_rules op_rules

lemma relates_onExchange:
  "(\<And>ex. sv_exchange s = Some ex \<Longrightarrow> relates R (f ex)) \<Longrightarrow> relates R (onExchange s f)"
  by (auto simp: onExchange_def relates_panic split: option.split)

lemma relates_accountConfig: "relates R (accountConfigFromHedgeConfig s c)"
  unfolding accountConfigFromHedgeConfig_def by (rule relates_lift)

lemma relates_writeAudit: "relates R (writeAudit s t sev smb m p)"
  unfolding writeAudit_def by (intro flow_rules)

lemma relates_loadStoredPosition: "relates R (loadStoredPosition s c)"
  unfolding loadStoredPosition_def by (intro flow_rules)

lemma relates_loadPosition: "relates R (loadPosition s c e)"
  unfolding loadPosition_def by (intro flow_rules relates_loadStoredPosition)

lemma relates_fetchLive: "relates R (fetchLivePositionSnapshot s c)"
  unfolding fetchLivePositionSnapshot_def
  by (intro flow_rules relates_accountConfig relates_onExchange r_FetchPositions)

lemma relates_upsertPosition: "relates R (upsertPositionSnapshot s p)"
  unfolding upsertPositionSnapshot_def by (intro flow_rules)

lemma relates_loadLive: "relates R (loadLivePosition s c)"
  unfolding loadLivePosition_def
  by (intro flow_rules relates_fetchLive relates_upsertPosition)

lemma relates_loadExit: "relates R (loadExitPosition s c)"
  unfolding loadExitPosition_def
  by (intro flow_rules relates_loadLive relates_loadStoredPosition)

lemma relates_refresh: "relates R (refreshFilledPosition s c prev d x)"
  unfolding refreshFilledPosition_def
  by (intro flow_rules relates_fetchLive relates_upsertPosition relates_writeAudit)

lemma relates_ensureMark: "relates R (ensureExitMarkPrice s c p)"
  unfolding ensureExitMarkPrice_def
  by (intro flow_rules relates_accountConfig relates_onExchange r_FetchTicker)

lemma relates_recordFailed: "relates R (recordFailedOrder s p c e)"
  unfolding recordFailedOrder_def by (intro flow_rules)

lemma relates_recordPlaced: "relates R (recordPlacedOrder s c d p i res)"
  unfolding recordPlacedOrder_def by (intro flow_rules r_tracked relates_writeAudit)

lemma relates_reconcile: "relates R (reconcileSubmittedOrder s c state)"
  unfolding reconcileSubmittedOrder_def
  by (intro flow_rules relates_accountConfig relates_onExchange r_FetchOrder
      relates_loadStoredPosition relates_refresh relates_writeAudit)

lemma relates_blockReason: "relates R (automaticRunBlockReason s c)"
  unfolding automaticRunBlockReason_def
  by (intro flow_rules relates_reconcile relates_loadStoredPosition relates_writeAudit)

lemma relates_loadConfig: "relates R (loadConfig s i)"
  unfolding loadConfig_def by (intro flow_rules)

lemma relates_finalize: "relates R (finalizeHedgeClose s c q)"
  unfolding finalizeHedgeClose_def by (intro flow_rules relates_loadLive)

lemma relates_scheduleClose: "relates R (scheduleClose s i)"
  unfolding scheduleClose_def by (intro flow_rules r_scheduled)

lemma relates_failingClose: "relates R m \<Longrightarrow> relates R (failingClose s q m)"
  unfolding failingClose_def by (intro flow_rules)

lemma relates_exitExposure: "relates R (exitExposure s c p)"
  unfolding exitExposure_def by (intro flow_rules)

lemma relates_exitOrdered: "relates R (exitOrdered s c q pos r p x)"
  unfolding exitOrdered_def
  by (intro flow_rules r_Attach relates_refresh relates_finalize relates_writeAudit
      relates_scheduleClose) auto

lemma relates_ReconcileOrderExecution: "relates R (ReconcileOrderExecution s i)"
  unfolding ReconcileOrderExecution_def
  by (intro flow_rules r_GetState relates_reconcile relates_finalize)

lemma relates_FailCloseReconciliation: "relates R (FailCloseReconciliation s i m)"
  unfolding FailCloseReconciliation_def by (intro flow_rules)

lemma relates_UpsertExposure: "relates R (UpsertExposure s ui)"
  unfolding UpsertExposure_def by (intro flow_rules)

lemma relates_UpsertPosition: "relates R (UpsertPosition s inp)"
  unfolding UpsertPosition_def by (intro flow_rules)

end

text \<open>Taking and releasing the run lock.\<close>

locale service_locked = service_quiet +
  assumes r_lock: "sv_locker s = Some lk \<Longrightarrow> relates R (lk key ttl)"
    and r_release: "sv_locker s = Some lk \<Longrightarrow> fst (lk key ttl w) = Ok (rel, ok) \<Longrightarrow> relates R rel"
begin

lemma relates_withRunLock: "relates R body \<Longrightarrow> relates R (withRunLock s c body)"
  unfolding withRunLock_def
proof (cases "sv_locker s")
  case (Some lk)
  assume body: "relates R body"
  have "relates R (bnd (lk (lockKeyForConfig c) (sv_lockTTL s)) (\<lambda>(release, ok).
      if \<not> ok then throw ErrRunLocked else finally_do body release))"
  proof (rule relates_bnd_result [OF r_lock [OF Some]])
    fix x w assume x: "fst (lk (lockKeyForConfig c) (sv_lockTTL s) w) = Ok x"
    obtain rel ok where "x = (rel, ok)" by (cases x)
    with x r_release [OF Some] have "relates R rel" by blast
    with body \<open>x = (rel, ok)\<close> show "relates R (case x of (release, ok) \<Rightarrow>
        if \<not> ok then throw ErrRunLocked else finally_do body release)"
      by (auto intro: relates_throw relates_finally_do)
  qed
  with Some show "relates R (case sv_locker s of None \<Rightarrow> body | Some tryLock \<Rightarrow>
      bnd (tryLock (lockKeyForConfig c) (sv_lockTTL s)) (\<lambda>(release, ok).
      if \<not> ok then throw ErrRunLocked else finally_do body release))" by simp
qed simp

end

section \<open>Placing orders\<close>

locale service_place = service_quiet +
  assumes r_place: "sv_exchange s = Some ex \<Longrightarrow> relates R (PlaceOrder ex po)"
begin

lemma relates_executePlan: "relates R (executePlan s c d i p)"
  unfolding executePlan_def
  by (intro flow_rules relates_accountConfig relates_onExchange r_place relates_recordFailed
      relates_recordPlaced)

lemma relates_createPlan: "relates R (createPlanAndExecute s c e d)"
  unfolding createPlanAndExecute_def by (intro flow_rules relates_executePlan)

end

text \<open>A relation that planning and executing a decision keeps as a whole.\<close>

locale service_body = service_quiet +
  assumes r_plan: "relates R (createPlanAndExecute s c e d)"
begin

lemma relates_act: "relates R (actOnDecision s c e p d)"
  unfolding actOnDecision_def
  by (intro flow_rules r_plan relates_refresh relates_writeAudit)

lemma relates_runDecision: "relates R (runDecision s i c)"
  unfolding runDecision_def by (intro flow_rules relates_loadPosition relates_act)

lemma relates_exitCreated: "relates R (exitCreated s c q)"
  unfolding exitCreated_def
  by (intro flow_rules relates_failingClose relates_loadExit relates_ensureMark relates_exitExposure
      r_plan relates_exitOrdered relates_writeAudit)

end

sublocale service_place \<subseteq> service_body
  by unfold_locales (rule relates_createPlan)

text \<open>A relation that a whole locked section keeps when its body keeps it.\<close>

locale service_steps = service_body +
  assumes r_scope: "relates R (body :: ('a, RunResult) io) \<Longrightarrow> relates R (withRunLock s c body)"
begin

lemma relates_RunOnce: "relates R (RunOnce s i)"
  unfolding RunOnce_def
  by (intro flow_rules relates_loadConfig r_scope relates_blockReason
      relates_runDecision relates_writeAudit)

lemma relates_ExitHedge: "relates R (ExitHedge s i)"
  unfolding ExitHedge_def
  by (intro flow_rules relates_loadConfig r_scope relates_exitCreated
      relates_scheduleClose)

lemmas relates_handlers = relates_RunOnce relates_ExitHedge relates_ReconcileOrderExecution
  relates_FailCloseReconciliation relates_UpsertExposure relates_UpsertPosition

end

section \<open>The log of placed orders\<close>

text \<open>The request \<open>createPlanAndExecute\<close> sends for a decision: one client order id, the decision's
  terms, and the credentials of the configuration's account.\<close>

definition requestFor ::
    "'w HedgeService \<Rightarrow> HedgeConfig \<Rightarrow> Decision \<Rightarrow> PlaceOrderRequest \<Rightarrow> bool" where
  "requestFor s config decision r \<longleftrightarrow> (\<exists>exposure account.
     r = placeRequest (makeClientOrderID (sv_decString s) (cf_id config) exposure decision)
           config account decision \<and>
     accountConfigFromStoredAccount (cf_exchange_account config) (sv_decodeCredential s) = Ok account)"

text \<open>A request a run may send: it carries out a decision on which \<open>P\<close> holds.\<close>

definition ordersOf ::
    "'w HedgeService \<Rightarrow> (HedgeConfig \<Rightarrow> Decision \<Rightarrow> bool) \<Rightarrow> PlaceOrderRequest \<Rightarrow> bool" where
  "ordersOf s P r \<longleftrightarrow> (\<exists>c d. P c d \<and> \<not> cf_dry_run c \<and> requestFor s c d r)"

locale service_log = service_locked "\<lambda>w w'. orders w' = orders w" s
  for orders :: "'w \<Rightarrow> PlaceOrderRequest list" and s :: "'w HedgeService" +
  assumes l_place: "sv_exchange s = Some ex \<Longrightarrow> emits orders 1 (\<lambda>r. r = po) (PlaceOrder ex po)"
begin

lemma quiet_emits: "relates (\<lambda>w w'. orders w' = orders w) m \<Longrightarrow> emits orders n P m"
  by (rule emits_quietI) (simp add: relates_def)

lemma emits_executePlan:
  "emits orders (if cf_dry_run c then 0 else 1)
     (\<lambda>r. \<exists>a. accountConfigFromStoredAccount (cf_exchange_account c) (sv_decodeCredential s) = Ok a
        \<and> r = placeRequest i c a d) (executePlan s c d i p)"
proof (cases "cf_dry_run c")
  case True
  then show ?thesis
    unfolding executePlan_def by (auto intro!: quiet_emits flow_rules)
next
  case False
  show ?thesis
    unfolding executePlan_def accountConfigFromHedgeConfig_def if_not_P [OF False]
  proof (rule emits_bnd_lift, rule emits_bnd_last)
    fix a assume a: "accountConfigFromStoredAccount (cf_exchange_account c) (sv_decodeCredential s) = Ok a"
    let ?P = "\<lambda>r. \<exists>a. accountConfigFromStoredAccount (cf_exchange_account c) (sv_decodeCredential s) = Ok a
        \<and> r = placeRequest i c a d"
    have "emits orders 1 ?P (PlaceOrder ex (placeRequest i c a d))" if "sv_exchange s = Some ex" for ex
      by (rule emits_weaken [OF l_place [OF that]]) (use a in blast)
    then have "emits orders 1 ?P (onExchange s (\<lambda>ex. PlaceOrder ex (placeRequest i c a d)))"
      unfolding onExchange_def by (intro emits_rules)
    then show "emits orders 1 ?P (attempt (onExchange s (\<lambda>ex. PlaceOrder ex (placeRequest i c a d))))"
      by (rule emits_attempt)
    show "emits orders 0 ?P (case placed of Inl e \<Rightarrow> recordFailedOrder s p i e
        | Inr res \<Rightarrow> recordPlacedOrder s c d p i res)" for placed
      by (intro quiet_emits relates_rules relates_recordFailed relates_recordPlaced)
  qed
qed

text \<open>A decision sends at most one order, with its own terms, and none under a dry-run configuration.\<close>

lemma emits_createPlan:
  "emits orders (if cf_dry_run c then 0 else 1) (requestFor s c d) (createPlanAndExecute s c e d)"
proof -
  let ?i = "makeClientOrderID (sv_decString s) (cf_id c) e d"
  have "emits orders (if cf_dry_run c then 0 else 1) (requestFor s c d) (executePlan s c d ?i p)" for p
    by (rule emits_weaken [OF emits_executePlan]) (auto simp: requestFor_def)
  then show ?thesis
    unfolding createPlanAndExecute_def Let_def
    by (intro emits_bnd emits_attempt emits_case_sum emits_case_option emits_if emits_ret emits_throw)
      (auto intro: quiet_emits flow_rules)
qed

lemma emits_createPlan_of:
  assumes "\<not> cf_dry_run c \<Longrightarrow> P c d"
  shows "emits orders 1 (ordersOf s P) (createPlanAndExecute s c e d)"
proof (cases "cf_dry_run c")
  case True
  with emits_createPlan [of c d e] show ?thesis by (auto intro: emits_0_any)
next
  case False
  with assms have "requestFor s c d r \<Longrightarrow> ordersOf s P r" for r by (auto simp: ordersOf_def)
  with emits_createPlan [of c d e] False show ?thesis by (auto intro: emits_weaken)
qed

lemma emits_act:
  assumes "isTrade d \<Longrightarrow> \<not> cf_dry_run c \<Longrightarrow> P c d"
  shows "emits orders 1 (ordersOf s P) (actOnDecision s c e p d)"
proof -
  have "d_action d \<noteq> ActionHold \<and> d_action d \<noteq> ActionSkip \<Longrightarrow> \<not> cf_dry_run c \<Longrightarrow> P c d"
    using assms by (simp add: isTrade_def)
  then show ?thesis
    unfolding actOnDecision_def Let_def
    by (intro emits_if emits_bnd_last [OF emits_createPlan_of] quiet_emits flow_rules relates_refresh
        relates_writeAudit) simp_all
qed

lemma emits_runDecision:
  assumes "\<And>e p d. Calculate (sv_dv s) (calculationConfigForRun c i) (toExposure e) (toPosition c p) = Ok d
      \<Longrightarrow> isTrade d \<Longrightarrow> \<not> cf_dry_run c \<Longrightarrow> P c (applyRunReason i d)"
  shows "emits orders 1 (ordersOf s P) (runDecision s i c)"
  unfolding runDecision_def
proof (intro emits_bnd_lift emits_bnd emits_act)
  show "emits orders 0 (ordersOf s P) (wrapIO ''get exposure snapshot''
      (st_GetExposureSnapshot (sv_core s) (int64 (cf_agent_id c)) (cf_source c) (cf_symbol c)))"
    by (intro quiet_emits flow_rules)
  show "emits orders 0 (ordersOf s P) (loadPosition s c e)" for e
    by (intro quiet_emits relates_loadPosition)
  fix e p d
  assume calc: "Calculate (sv_dv s) (calculationConfigForRun c i) (toExposure e) (toPosition c p) = Ok d"
    and "isTrade (applyRunReason i d)" "\<not> cf_dry_run c"
  moreover have "d_action (applyRunReason i d) = d_action d" by (simp add: applyRunReason_def)
  ultimately show "P c (applyRunReason i d)" by (intro assms) (auto simp: isTrade_def)
qed

lemma emits_withRunLock: "emits orders n Q body \<Longrightarrow> emits orders n Q (withRunLock s c body)"
proof (cases "sv_locker s")
  case (Some lk)
  assume body: "emits orders n Q body"
  let ?f = "\<lambda>(release, ok). if \<not> ok then throw ErrRunLocked else finally_do body release"
  have "emits orders n Q (bnd (lk (lockKeyForConfig c) (sv_lockTTL s)) ?f)"
  proof (rule emits_bnd_result [OF quiet_emits [OF r_lock [OF Some]]])
    fix x w assume x: "fst (lk (lockKeyForConfig c) (sv_lockTTL s) w) = Ok x"
    obtain rel b where p: "x = (rel, b)" by (cases x)
    with x r_release [OF Some] have "relates (\<lambda>w w'. orders w' = orders w) rel" by blast
    then show "emits orders n Q (?f x)"
      unfolding p prod.case by (intro emits_if emits_throw emits_finally_do body quiet_emits)
  qed
  with Some show ?thesis by (simp add: withRunLock_def)
qed (simp add: withRunLock_def)

text \<open>A whole run: at most one order, for a decision the calculator made.\<close>

lemma emits_RunOnce:
  assumes "\<And>c e p d. Calculate (sv_dv s) (calculationConfigForRun c i) (toExposure e) (toPosition c p) = Ok d
      \<Longrightarrow> isTrade d \<Longrightarrow> \<not> cf_dry_run c \<Longrightarrow> P c (applyRunReason i d)"
  shows "emits orders 1 (ordersOf s P) (RunOnce s i)"
  unfolding RunOnce_def Let_def
proof (intro emits_bnd emits_if emits_ret emits_withRunLock emits_runDecision)
  show "emits orders 0 (ordersOf s P) (loadConfig s i)"
    by (intro quiet_emits relates_loadConfig)
  show "emits orders 0 (ordersOf s P) (automaticRunBlockReason s c)" for c
    by (intro quiet_emits relates_blockReason)
  show "emits orders 0 (ordersOf s P) (ignore (writeAudit s x y z m q))" for x y z m q
    by (intro quiet_emits flow_rules relates_writeAudit)
qed (rule assms)

text \<open>Leaving a hedge: at most one order, for a decision \<open>ClosePosition\<close> made.\<close>

lemma emits_failingClose: "emits orders n Q m \<Longrightarrow> emits orders n Q (failingClose s q m)"
  unfolding failingClose_def
  by (rule emits_bnd_last, erule emits_attempt) (intro quiet_emits flow_rules)

lemma emits_exitCreated:
  assumes "\<And>p d. ClosePosition (sv_dv s) (toHedgeConfig c) (toPosition c p) = Ok d
      \<Longrightarrow> isTrade d \<Longrightarrow> \<not> cf_dry_run c \<Longrightarrow> P c d"
  shows "emits orders 1 (ordersOf s P) (exitCreated s c q)"
proof -
  have order: "emits orders 1 (ordersOf s P)
      (bnd (failingClose s q (createPlanAndExecute s c e d)) (\<lambda>(plan, execution).
         exitOrdered s c q p r plan execution))"
    if "\<not> cf_dry_run c \<Longrightarrow> P c d" for e d p r
    by (intro emits_bnd_last [OF emits_failingClose [OF emits_createPlan_of]] that quiet_emits
        relates_case_prod relates_exitOrdered)
  have trade: "\<not> (d_action d = ActionHold \<or> d_action d = ActionSkip) \<Longrightarrow> isTrade d" for d
    by (simp add: isTrade_def)
  show ?thesis
    unfolding exitCreated_def Let_def
  proof (intro emits_bnd_lift order emits_bnd emits_if)
    show "emits orders 0 (ordersOf s P) (failingClose s q (loadExitPosition s c))"
      by (intro quiet_emits relates_failingClose relates_loadExit)
    show "emits orders 0 (ordersOf s P) (case x of None \<Rightarrow> ret None
        | Some p \<Rightarrow> bnd (failingClose s q (ensureExitMarkPrice s c p)) (\<lambda>p'. ret (Some p')))" for x
      by (intro quiet_emits flow_rules relates_failingClose relates_ensureMark)
    show "emits orders 0 (ordersOf s P) (exitExposure s c p)" for p
      by (intro quiet_emits relates_exitExposure)
    show "emits orders 0 (ordersOf s P) (rp_CompleteHedgeClose (sv_mgmt s) (cq_id q))"
      by (intro quiet_emits flow_rules)
    show "emits orders 0 (ordersOf s P) (ignore (writeAudit s x y z m p))" for x y z m p
      by (intro quiet_emits flow_rules relates_writeAudit)
    show "emits orders 1 (ordersOf s P) (ret r)" for r :: RunResult
      by (rule emits_ret)
  qed (use assms trade in blast)
qed

lemma emits_ExitHedge:
  assumes "\<And>c p d. ClosePosition (sv_dv s) (toHedgeConfig c) (toPosition c p) = Ok d
      \<Longrightarrow> isTrade d \<Longrightarrow> \<not> cf_dry_run c \<Longrightarrow> P c d"
  shows "emits orders 1 (ordersOf s P) (ExitHedge s i)"
  unfolding ExitHedge_def Let_def
proof (intro emits_bnd emits_if emits_withRunLock emits_case_prod emits_exitCreated)
  show "emits orders 0 (ordersOf s P) (loadConfig s j)" for j
    by (intro quiet_emits relates_loadConfig)
  show "emits orders 0 (ordersOf s P) (sv_now s)"
    by (intro quiet_emits flow_rules)
  show "emits orders 0 (ordersOf s P) (rp_BeginHedgeCloseRequest (sv_mgmt s) n k)" for n k
    by (intro quiet_emits flow_rules)
  show "emits orders 1 (ordersOf s P) (case x of None \<Rightarrow> ret r
      | Some i \<Rightarrow> bnd (scheduleClose s i) (\<lambda>_. ret (f i)))" for x and r :: RunResult and f
    by (intro quiet_emits flow_rules relates_scheduleClose)
qed (rule assms)

end

end
