(* ===== verification/RedisLock.thy ===== *)
theory RedisLock
  imports GoStd
begin

text \<open>
  The run lock (\<open>internal/lock/redis_lock.go\<close>): \<open>TryLock\<close> over the two Redis commands it uses, with the
  behaviour Redis documents for them. A key holds a value until it expires; \<open>SET NX\<close> writes only an
  absent key; the unlock script deletes the key only while it still holds the caller's token.
\<close>

type_synonym redis = "string \<rightharpoonup> string \<times> time"

definition liveKey :: "time \<Rightarrow> redis \<Rightarrow> string \<Rightarrow> string option" where
  "liveKey now r key = (case r key of
     Some (v, expires) \<Rightarrow> if now < expires then Some v else None
   | None \<Rightarrow> None)"

definition redisSetNX :: "time \<Rightarrow> string \<Rightarrow> string \<Rightarrow> duration \<Rightarrow> redis \<Rightarrow> bool \<times> redis" where
  "redisSetNX now key token ttl r =
     (if liveKey now r key \<noteq> None then (False, r) else (True, r(key \<mapsto> (token, now + ttl))))"

text \<open>\<open>unlockScript\<close>\<close>

definition unlockScript :: "time \<Rightarrow> string \<Rightarrow> string \<Rightarrow> redis \<Rightarrow> int \<times> redis" where
  "unlockScript now key token r =
     (if liveKey now r key = Some token then (1, r(key := None)) else (0, r))"

record 'w RedisClient =
  rd_SetNX :: "string \<Rightarrow> string \<Rightarrow> duration \<Rightarrow> ('w, bool) io"
  rd_EvalUnlock :: "string \<Rightarrow> string \<Rightarrow> ('w, int) io"

text \<open>\<open>TryLock\<close>: without a client every lock is granted. \<open>randomToken\<close> is the source of tokens; a
  refused lock comes with a nil release, which nobody calls.\<close>

definition TryLock ::
    "'w RedisClient option \<Rightarrow> ('w, string) io \<Rightarrow> string \<Rightarrow> duration \<Rightarrow> ('w, ('w, unit) io \<times> bool) io" where
  "TryLock client randomToken key ttl = (case client of
     None \<Rightarrow> ret (ret (), True)
   | Some c \<Rightarrow>
       bnd (wrapIO ''generate lock token'' randomToken) (\<lambda>token.
       bnd (wrapIO (''acquire redis lock '' @ key) (rd_SetNX c key token ttl)) (\<lambda>ok.
       if \<not> ok then ret (panic, False)
       else ret (bnd (wrapIO (''release redis lock '' @ key) (rd_EvalUnlock c key token)) (\<lambda>_. ret ()),
                 True))))"

section \<open>Mutual exclusion\<close>

lemma liveKey_after_set: "ttl > 0 \<Longrightarrow> now < now + ttl \<Longrightarrow> liveKey now (r(key \<mapsto> (t, now + ttl))) key = Some t"
  by (simp add: liveKey_def)

lemma liveKey_cong: "r key = r' key \<Longrightarrow> liveKey now r key = liveKey now r' key"
  by (simp add: liveKey_def)

lemma liveKey_update: "liveKey now (r(key := v)) key' =
  (if key' = key then (case v of Some (t, e) \<Rightarrow> if now < e then Some t else None | None \<Rightarrow> None)
   else liveKey now r key')"
  by (simp add: liveKey_def)



end
