(* ===== verification/Symbols.thy ===== *)
theory Symbols
  imports GoStd
begin

text \<open>
  How the services bring symbols and sources to one spelling: \<open>normalizeExposureSource\<close>,
  \<open>normalizeExposureSymbol\<close> (\<open>service/redis_exposure_store.go\<close>), \<open>normalizeMonitorSymbol\<close>
  (\<open>service/hedge_monitor_service.go\<close>) and \<open>NormalizeMarketSymbol\<close> (\<open>db/mgmt/exchange_market.go\<close>).
\<close>

definition normalizeExposureSource :: "string \<Rightarrow> string" where
  "normalizeExposureSource source =
    (let s = TrimSpace source in if s = '''' then ''platform'' else ToLower s)"

definition normalizeExposureSymbol :: "string \<Rightarrow> string" where
  "normalizeExposureSymbol symbol = ToUpper (TrimSpace symbol)"

definition normalizeMonitorSymbol :: "string \<Rightarrow> string" where
  "normalizeMonitorSymbol symbol = ToUpper (TrimSpace symbol)"

definition isUpperAlnum :: "char \<Rightarrow> bool" where
  "isUpperAlnum c = (let n = of_char c :: nat in 65 \<le> n \<and> n \<le> 90 \<or> 48 \<le> n \<and> n \<le> 57)"

text \<open>The text before the first colon, its letters and digits only.\<close>

definition NormalizeMarketSymbol :: "string \<Rightarrow> string" where
  "NormalizeMarketSymbol symbol =
    (let s = ToUpper (TrimSpace symbol)
     in if s = '''' then '''' else filter isUpperAlnum (takeWhile (\<lambda>c. c \<noteq> CHR '':'') s))"

lemma normalizeExposureSource_idem [simp]:
  "normalizeExposureSource (normalizeExposureSource s) = normalizeExposureSource s"
proof (cases "TrimSpace s = ''''")
  case True
  have "TrimSpace ''platform'' = ''platform''" "ToLower ''platform'' = ''platform''" by code_simp+
  with True show ?thesis by (simp add: normalizeExposureSource_def)
qed (simp add: normalizeExposureSource_def Let_def)

lemma normalizeExposureSymbol_idem [simp]:
  "normalizeExposureSymbol (normalizeExposureSymbol s) = normalizeExposureSymbol s"
  by (simp add: normalizeExposureSymbol_def)

lemma normalizeMonitorSymbol_idem [simp]:
  "normalizeMonitorSymbol (normalizeMonitorSymbol s) = normalizeMonitorSymbol s"
  by (simp add: normalizeMonitorSymbol_def)

lemma NormalizeMarketSymbol_chars: "list_all isUpperAlnum (NormalizeMarketSymbol s)"
  by (simp add: NormalizeMarketSymbol_def Let_def list_all_iff)

lemma upperChar_id: "isUpperAlnum c \<Longrightarrow> upperChar c = c"
  by (auto simp: isUpperAlnum_def Let_def upperChar_def)

lemma isUpperAlnum_not_space: "isUpperAlnum c \<Longrightarrow> \<not> isSpaceChar c"
  by (auto simp: isSpaceChar_code isUpperAlnum_def Let_def)

lemma isUpperAlnum_not_colon: "isUpperAlnum c \<Longrightarrow> c \<noteq> CHR '':''"
  by (auto simp: isUpperAlnum_def Let_def)

lemma NormalizeMarketSymbol_alnum: "list_all isUpperAlnum s \<Longrightarrow> NormalizeMarketSymbol s = s"
proof -
  assume s: "list_all isUpperAlnum s"
  then have ns: "dropWhile isSpaceChar s = s"
    by (cases s) (auto simp: isUpperAlnum_not_space)
  from s have "list_all isUpperAlnum (rev s)" by simp
  then have "dropWhile isSpaceChar (rev s) = rev s"
    by (cases "rev s") (auto simp: isUpperAlnum_not_space)
  with ns have trim: "TrimSpace s = s" by (simp add: TrimSpace_def)
  have up: "ToUpper s = s"
    using s by (auto simp: ToUpper_def list_all_iff upperChar_id intro: map_idI)
  have tw: "takeWhile (\<lambda>c. c \<noteq> CHR '':'') s = s"
    using s by (auto simp: takeWhile_eq_all_conv list_all_iff isUpperAlnum_not_colon)
  have flt: "filter isUpperAlnum s = s"
    using s by (simp add: filter_id_conv list_all_iff)
  show ?thesis by (simp only: NormalizeMarketSymbol_def trim up Let_def tw flt) simp
qed

lemma TrimSpace_normal: "TrimSpace (NormalizeMarketSymbol s) = NormalizeMarketSymbol s"
proof -
  have alnum: "dropWhile isSpaceChar t = t" if "list_all isUpperAlnum t" for t
    using that by (cases t) (auto simp: isUpperAlnum_not_space)
  show ?thesis
    using alnum [of "rev (NormalizeMarketSymbol s)"] alnum NormalizeMarketSymbol_chars [of s]
    by (simp add: TrimSpace_def)
qed

lemma NormalizeMarketSymbol_idem [simp]:
  "NormalizeMarketSymbol (NormalizeMarketSymbol s) = NormalizeMarketSymbol s"
  by (rule NormalizeMarketSymbol_alnum [OF NormalizeMarketSymbol_chars])

lemma upperChar_lowerChar [simp]: "upperChar (lowerChar c) = upperChar c"
proof -
  have "(of_char (upperChar (lowerChar c)) :: nat) = of_char (upperChar c)"
    unfolding of_char_upperChar of_char_lowerChar by auto
  then show ?thesis by simp
qed

lemma ToUpper_ToLower [simp]: "ToUpper (ToLower s) = ToUpper s"
  by (simp add: ToUpper_def ToLower_def)

lemma NormalizeMarketSymbol_case: "NormalizeMarketSymbol (ToLower s) = NormalizeMarketSymbol s"
  by (simp add: NormalizeMarketSymbol_def)

end
