(* ===== verification/Reconciliation.thy ===== *)
theory Reconciliation
  imports HedgeService Symbols
begin

text \<open>
  The exchange reconciliation service (\<open>internal/service/exchange_reconciliation_service.go\<close>): it checks
  whose account a request names, asks the exchange for an order placed outside a hedge run, and verifies
  that a leverage or margin mode took effect. Audit events are written and their errors dropped.
\<close>

record 'w ReconciliationRepo =
  rr_GetExchangeAccount :: "nat \<Rightarrow> ('w, ExchangeAccount) io"
  rr_FindUniqueActiveExchangeAccountByIdentity ::
    "string \<Rightarrow> string \<Rightarrow> string \<Rightarrow> ('w, ExchangeAccount) io"

record 'w ExchangeReconciliationService =
  xs_core :: "(CreateAuditEventParams \<Rightarrow> ('w, AuditEvent) io) option"
  xs_mgmt :: "'w ReconciliationRepo"
  xs_exchange :: "'w Adapter option"
  xs_decodeCredential :: "string \<Rightarrow> string result"
  xs_decString :: "decimal \<Rightarrow> string"

record ExchangeAccountIdentity =
  id_account_id :: nat
  id_exchange :: string
  id_account_name :: string
  id_ccxt_id :: string
  id_api_key :: string

record ExternalOrderReconciliationInput =
  eo_account_id :: nat
  eo_order_id :: string
  eo_client_order_id :: string
  eo_symbol :: string

record PositionSettingVerificationInput =
  vs_account_id :: nat
  vs_symbol :: string
  vs_expected_leverage :: int
  vs_expected_margin_mode :: string

definition NewExchangeReconciliationService ::
    "(CreateAuditEventParams \<Rightarrow> ('w, AuditEvent) io) option \<Rightarrow> 'w ReconciliationRepo \<Rightarrow> 'w Adapter option \<Rightarrow>
     (decimal \<Rightarrow> string) \<Rightarrow> 'w ExchangeReconciliationService" where
  "NewExchangeReconciliationService core repo adapter decString =
     \<lparr>xs_core = core, xs_mgmt = repo, xs_exchange = adapter, xs_decodeCredential = Ok,
      xs_decString = decString\<rparr>"

definition SetCredentialDecoder ::
    "(string \<Rightarrow> string result) option \<Rightarrow> 'w ExchangeReconciliationService \<Rightarrow> 'w ExchangeReconciliationService" where
  "SetCredentialDecoder decoder s = (case decoder of
     None \<Rightarrow> s | Some d \<Rightarrow> s\<lparr>xs_decodeCredential := d\<rparr>)"

definition normalizeMarginMode :: "string \<Rightarrow> string" where
  "normalizeMarginMode value =
    (let v = ToLower (TrimSpace value)
     in if v \<in> {''cross'', ''crossed'', ''regular_margin''} then ''cross''
        else if v \<in> {''isolated'', ''isolated_margin''} then ''isolated'' else v)"

definition auditSeverityForReconciliation :: "string \<Rightarrow> string" where
  "auditSeverityForReconciliation status =
     (if status = OrderStatusFailed \<or> status = OrderStatusCanceled then ''warn'' else ''info'')"

text \<open>\<open>(s *ExchangeReconciliationService) writeAudit\<close>: the error of the insert is dropped.\<close>

definition reconciliationAudit ::
    "'w ExchangeReconciliationService \<Rightarrow> string \<Rightarrow> string \<Rightarrow> string \<Rightarrow> string \<Rightarrow> (string \<times> string) list
      \<Rightarrow> ('w, unit) io" where
  "reconciliationAudit s eventType severity symbol message payload = (case xs_core s of
     None \<Rightarrow> ret ()
   | Some create \<Rightarrow> ignore (create \<lparr>au_event_type = eventType, au_severity = severity, au_symbol = symbol,
       au_message = message, au_payload = PayFields payload\<rparr>))"

definition writeSettingAudit ::
    "'w ExchangeReconciliationService \<Rightarrow> string \<Rightarrow> nat \<Rightarrow> string \<Rightarrow> bool \<Rightarrow> string \<Rightarrow> string \<Rightarrow> ('w, unit) io" where
  "writeSettingAudit s eventType accountID symbol matched expected observed =
     reconciliationAudit s eventType (if matched then ''info'' else ''warn'') symbol
       (if matched then ''matched'' else ''not_matched'')
       [(''account_id'', showNat accountID), (''expected'', expected), (''observed'', observed)]"

definition RecordScheduleFailure ::
    "'w ExchangeReconciliationService \<Rightarrow> string \<Rightarrow> string \<Rightarrow> err option \<Rightarrow> ('w, unit) io" where
  "RecordScheduleFailure s operation symbol e = (case e of
     None \<Rightarrow> ret ()
   | Some e \<Rightarrow> reconciliationAudit s ''exchange.reconcile.schedule'' ''warn'' symbol (errText e)
       [(''operation'', operation)])"

definition loadAccount ::
    "'w ExchangeReconciliationService \<Rightarrow> nat \<Rightarrow> ('w, ExchangeAccount \<times> AccountConfig) io" where
  "loadAccount s accountID =
    (if accountID = 0 then throw (ErrMsg ''exchange account id is required'')
     else bnd (rr_GetExchangeAccount (xs_mgmt s) accountID) (\<lambda>account.
          bnd (lift (accountConfigFromStoredAccount account (xs_decodeCredential s))) (\<lambda>config.
          ret (account, config))))"

definition ResolveAccountID ::
    "'w ExchangeReconciliationService \<Rightarrow> ExchangeAccountIdentity \<Rightarrow> ('w, nat) io" where
  "ResolveAccountID s identity =
     bnd (if id_account_id identity > 0 then rr_GetExchangeAccount (xs_mgmt s) (id_account_id identity)
          else rr_FindUniqueActiveExchangeAccountByIdentity (xs_mgmt s) (id_exchange identity)
            (id_account_name identity) (id_ccxt_id identity)) (\<lambda>account.
     if ea_status account \<noteq> ExchangeAccountStatusActive
     then throw (ErrMsg ''exchange account is not active'')
     else
       let apiKey = TrimSpace (id_api_key identity)
       in if apiKey = '''' then ret (ea_id account)
          else bnd (wrapIO ''decrypt exchange API key''
                 (lift (xs_decodeCredential s (ea_api_key_encrypted account)))) (\<lambda>storedAPIKey.
               if TrimSpace storedAPIKey \<noteq> apiKey
               then throw (ErrMsg ''exchange account API key does not match stored account'')
               else ret (ea_id account)))"

text \<open>A call on a nil exchange interface panics.\<close>

definition onReconciliationExchange ::
    "'w ExchangeReconciliationService \<Rightarrow> ('w Adapter \<Rightarrow> ('w, 'a) io) \<Rightarrow> ('w, 'a) io" where
  "onReconciliationExchange s f = (case xs_exchange s of None \<Rightarrow> panic | Some a \<Rightarrow> f a)"

definition ReconcileExternalOrder ::
    "'w ExchangeReconciliationService \<Rightarrow> ExternalOrderReconciliationInput \<Rightarrow> ('w, string) io" where
  "ReconcileExternalOrder s input =
     bnd (loadAccount s (eo_account_id input)) (\<lambda>(account, accountConfig).
     bnd (onReconciliationExchange s (\<lambda>ex. FetchOrder ex \<lparr>fo_account = accountConfig,
            fo_order_id = TrimSpace (eo_order_id input),
            fo_client_order_id = TrimSpace (eo_client_order_id input),
            fo_symbol = TrimSpace (eo_symbol input), fo_params = Map.empty\<rparr>)) (\<lambda>order.
     let status = ToLower (TrimSpace (or_status order))
     in bnd (reconciliationAudit s ''exchange.order.reconcile'' (auditSeverityForReconciliation status)
               (eo_symbol input) status
               [(''account_id'', showNat (ea_id account)),
                (''client_order_id'', or_client_order_id order),
                (''order_id'', or_exchange_order_id order), (''status'', status)]) (\<lambda>_.
        ret status)))"

definition VerifyPositionSetting ::
    "'w ExchangeReconciliationService \<Rightarrow> PositionSettingVerificationInput \<Rightarrow> ('w, bool \<times> string) io" where
  "VerifyPositionSetting s input =
     bnd (loadAccount s (vs_account_id input)) (\<lambda>(account, accountConfig).
     bnd (onReconciliationExchange s (\<lambda>ex. FetchPositions ex \<lparr>fp_account = accountConfig,
            fp_symbols = [vs_symbol input], fp_params = Map.empty\<rparr>)) (\<lambda>positions.
     case List.find (\<lambda>p. normalizeMonitorSymbol (xp_symbol p) = normalizeMonitorSymbol (vs_symbol input))
            positions of
       None \<Rightarrow> ret (False, ''position_not_returned'')
     | Some p \<Rightarrow>
         if vs_expected_leverage input > 0
         then
           let matched = xp_leverage p = of_int (vs_expected_leverage input);
               observed = xs_decString s (xp_leverage p)
           in bnd (writeSettingAudit s ''exchange.leverage.verify'' (ea_id account) (vs_symbol input) matched
                     (showInt (vs_expected_leverage input)) observed) (\<lambda>_. ret (matched, observed))
         else
           let expected = normalizeMarginMode (vs_expected_margin_mode input);
               observed = normalizeMarginMode (xp_margin_mode p);
               matched = expected \<noteq> '''' \<and> observed = expected
           in bnd (writeSettingAudit s ''exchange.margin_mode.verify'' (ea_id account) (vs_symbol input) matched
                     expected observed) (\<lambda>_. ret (matched, observed))))"

section \<open>What an identity resolves to\<close>

lemma normalizeMarginMode_idem [simp]: "normalizeMarginMode (normalizeMarginMode v) = normalizeMarginMode v"
proof -
  have "normalizeMarginMode ''cross'' = ''cross''" "normalizeMarginMode ''isolated'' = ''isolated''" by code_simp+
  moreover have "normalizeMarginMode (ToLower (TrimSpace v)) = normalizeMarginMode v"
    by (simp add: normalizeMarginMode_def flip: TrimSpace_ToLower)
  ultimately show ?thesis by (auto simp: normalizeMarginMode_def [of v] Let_def)
qed

text \<open>An account is resolved only for a caller that names it by id or identity, and only while it is
  active; a caller that gives an API key must give the stored one.\<close>

lemma ResolveAccountID_ok:
  assumes "ResolveAccountID s identity w = (Ok i, w')"
  obtains account where "ea_id account = i" "ea_status account = ExchangeAccountStatusActive"
    "(if id_account_id identity > 0 then rr_GetExchangeAccount (xs_mgmt s) (id_account_id identity) w
      else rr_FindUniqueActiveExchangeAccountByIdentity (xs_mgmt s) (id_exchange identity)
        (id_account_name identity) (id_ccxt_id identity) w) = (Ok account, w')"
    "TrimSpace (id_api_key identity) = '''' \<or> (\<exists>k. xs_decodeCredential s (ea_api_key_encrypted account) = Ok k \<and>
        TrimSpace k = TrimSpace (id_api_key identity))"
proof -
  from assms obtain account v where load:
    "(if id_account_id identity > 0 then rr_GetExchangeAccount (xs_mgmt s) (id_account_id identity)
      else rr_FindUniqueActiveExchangeAccountByIdentity (xs_mgmt s) (id_exchange identity)
        (id_account_name identity) (id_ccxt_id identity)) w = (Ok account, v)"
    and rest: "(if ea_status account \<noteq> ExchangeAccountStatusActive
     then throw (ErrMsg ''exchange account is not active'')
     else
       let apiKey = TrimSpace (id_api_key identity)
       in if apiKey = '''' then ret (ea_id account)
          else bnd (wrapIO ''decrypt exchange API key''
                 (lift (xs_decodeCredential s (ea_api_key_encrypted account)))) (\<lambda>storedAPIKey.
               if TrimSpace storedAPIKey \<noteq> apiKey
               then throw (ErrMsg ''exchange account API key does not match stored account'')
               else ret (ea_id account))) v = (Ok i, w')"
    unfolding ResolveAccountID_def bnd_Ok_iff by blast
  have "ea_id account = i \<and> v = w' \<and> ea_status account = ExchangeAccountStatusActive \<and>
      (TrimSpace (id_api_key identity) = '''' \<or> (\<exists>k. xs_decodeCredential s (ea_api_key_encrypted account) = Ok k \<and>
        TrimSpace k = TrimSpace (id_api_key identity)))"
    using rest
    by (auto simp: throw_apply ret_apply Let_def bnd_Ok_iff wrapIO_def lift_apply wrapErr_Ok_iff split: if_splits)
  with load show thesis by (intro that [of account]) (auto split: if_splits)
qed

end
