(* ===== verification/Tasks.thy ===== *)
theory Tasks
  imports Reconciliation
begin

text \<open>
  The asynchronous tasks (\<open>internal/tasks/hedge.go\<close>, \<open>internal/tasks/reconciliation.go\<close>): hedge runs, and
  the chain of reconciliation attempts that follows a submitted order or a changed position setting. The
  asynq client is a parameter; a task carries its payload, and a handler is given what \<open>json.Unmarshal\<close>
  made of the task's body. Logs and metrics are left out. The lemmas show that the delays of a chain add up
  to its checkpoints and that a handler puts at most the next attempt into the queue.
\<close>

section \<open>Tasks and options\<close>

definition TypeReconcileOrder :: string where "TypeReconcileOrder = ''exchange:order:reconcile''"
definition TypeVerifyPositionSetting :: string where
  "TypeVerifyPositionSetting = ''exchange:position-setting:verify''"
definition QueueReconciliation :: string where "QueueReconciliation = ''reconciliation''"
definition reconciliationTaskTimeout :: duration where "reconciliationTaskTimeout = 30 * second"
definition TypeRunHedge :: string where "TypeRunHedge = ''hedge:run''"
definition QueueHedge :: string where "QueueHedge = ''hedge''"

lemmas task_type_defs = TypeReconcileOrder_def TypeVerifyPositionSetting_def TypeRunHedge_def

definition reconciliationCheckpoints :: "duration list" where
  "reconciliationCheckpoints = [1 * second, 2 * second, 5 * second, 10 * second]"

definition closeReconciliationCheckpoints :: "duration list" where
  "closeReconciliationCheckpoints =
     [1 * second, 2 * second, 5 * second, 10 * second, 30 * second, 60 * second]"

record ReconcileOrderPayload =
  rp_attempt :: int
  rp_execution_id :: int
  rp_account_id :: nat
  rp_order_id :: string
  rp_client_order_id :: string
  rp_symbol :: string
  rp_close_request :: bool

record VerifyPositionSettingPayload =
  vp_attempt :: int
  vp_account_id :: nat
  vp_symbol :: string
  vp_expected_leverage :: int
  vp_expected_margin_mode :: string

record RunHedgePayload =
  rh_config_id :: nat
  rh_source :: string
  rh_symbol :: string
  rh_reason :: string

datatype taskPayload =
    OrderPayload ReconcileOrderPayload
  | SettingPayload VerifyPositionSettingPayload
  | HedgePayload RunHedgePayload

text \<open>A task with the options \<open>EnqueueContext\<close> is called with.\<close>

record AsyncTask =
  at_type :: string
  at_payload :: taskPayload
  at_queue :: string
  at_delay :: duration
  at_max_retry :: nat
  at_timeout :: duration
  at_unique :: duration

record TaskInfo =
  ti_id :: string
  ti_queue :: string
  ti_type :: string
  ti_state :: string
  ti_max_retry :: nat

text \<open>\<open>type Enqueuer struct\<close>: \<open>EnqueueContext\<close> of its client, or no client (a nil enqueuer or client).\<close>

type_synonym 'w Enqueuer = "(AsyncTask \<Rightarrow> ('w, TaskInfo) io) option"

section \<open>Putting tasks into the queue\<close>

definition EnqueueRunHedge :: "'w Enqueuer \<Rightarrow> RunInput \<Rightarrow> ('w, TaskInfo) io" where
  "EnqueueRunHedge e input = (case e of
     None \<Rightarrow> throw (ErrMsg ''async queue is not configured'')
   | Some enqueue \<Rightarrow> wrapIO ''enqueue hedge task'' (enqueue
       \<lparr>at_type = TypeRunHedge,
        at_payload = HedgePayload \<lparr>rh_config_id = ri_config_id input, rh_source = ri_source input,
          rh_symbol = ri_symbol input, rh_reason = ri_reason input\<rparr>,
        at_queue = QueueHedge, at_delay = 0, at_max_retry = 3, at_timeout = 2 * minute,
        at_unique = 30 * second\<rparr>))"

definition reconciliationDelay :: "int \<Rightarrow> bool \<Rightarrow> duration option" where
  "reconciliationDelay n closeRequest =
    (let checkpoints = (if closeRequest then closeReconciliationCheckpoints else reconciliationCheckpoints)
     in if n < 0 \<or> n \<ge> int (length checkpoints) then None
        else if n = 0 then Some (checkpoints ! 0)
        else Some (checkpoints ! nat n - checkpoints ! nat (n - 1)))"

definition reconciliationTask :: "string \<Rightarrow> taskPayload \<Rightarrow> duration \<Rightarrow> AsyncTask" where
  "reconciliationTask taskType payload delay = \<lparr>at_type = taskType, at_payload = payload,
     at_queue = QueueReconciliation, at_delay = delay, at_max_retry = 0,
     at_timeout = reconciliationTaskTimeout, at_unique = 30 * second\<rparr>"

definition enqueueReconciliationTask ::
    "'w Enqueuer \<Rightarrow> string \<Rightarrow> taskPayload \<Rightarrow> int \<Rightarrow> bool \<Rightarrow> ('w, unit) io" where
  "enqueueReconciliationTask e taskType payload n closeRequest = (case e of
     None \<Rightarrow> throw (ErrMsg ''async queue is not configured'')
   | Some enqueue \<Rightarrow> (case reconciliationDelay n closeRequest of
       None \<Rightarrow> ret ()
     | Some delay \<Rightarrow>
         bnd (attempt (enqueue (reconciliationTask taskType payload delay))) (\<lambda>r. case r of
           Inl err \<Rightarrow> if errIs err ErrDuplicateTask then ret ()
                      else throw (ErrWrap ''enqueue reconciliation task'' err)
         | Inr _ \<Rightarrow> ret ())))"

definition enqueueOrderReconciliation :: "'w Enqueuer \<Rightarrow> ReconcileOrderPayload \<Rightarrow> ('w, unit) io" where
  "enqueueOrderReconciliation e payload =
     enqueueReconciliationTask e TypeReconcileOrder (OrderPayload payload) (rp_attempt payload)
       (rp_close_request payload)"

definition enqueuePositionSettingVerification ::
    "'w Enqueuer \<Rightarrow> VerifyPositionSettingPayload \<Rightarrow> ('w, unit) io" where
  "enqueuePositionSettingVerification e payload =
    (if vp_account_id payload = 0 \<or> TrimSpace (vp_symbol payload) = ''''
     then throw (ErrMsg ''exchange account id and symbol are required'')
     else enqueueReconciliationTask e TypeVerifyPositionSetting (SettingPayload payload)
       (vp_attempt payload) False)"

definition trackedPayload :: "int \<Rightarrow> bool \<Rightarrow> ReconcileOrderPayload" where
  "trackedPayload executionID closeRequest = \<lparr>rp_attempt = 0, rp_execution_id = executionID,
     rp_account_id = 0, rp_order_id = '''', rp_client_order_id = '''', rp_symbol = '''',
     rp_close_request = closeRequest\<rparr>"

definition ScheduleTrackedOrder :: "'w Enqueuer \<Rightarrow> int \<Rightarrow> ('w, unit) io" where
  "ScheduleTrackedOrder e executionID =
    (if executionID \<le> 0 then throw (ErrMsg ''execution id is required'')
     else enqueueOrderReconciliation e (trackedPayload executionID False))"

definition ScheduleCloseOrder :: "'w Enqueuer \<Rightarrow> int \<Rightarrow> ('w, unit) io" where
  "ScheduleCloseOrder e executionID =
    (if executionID \<le> 0 then throw (ErrMsg ''execution id is required'')
     else enqueueOrderReconciliation e (trackedPayload executionID True))"

definition ScheduleExternalOrderReconciliation ::
    "'w Enqueuer \<Rightarrow> ExternalOrderReconciliationInput \<Rightarrow> ('w, unit) io" where
  "ScheduleExternalOrderReconciliation e input =
    (if eo_account_id input = 0 then throw (ErrMsg ''exchange account id is required'')
     else enqueueOrderReconciliation e \<lparr>rp_attempt = 0, rp_execution_id = 0,
       rp_account_id = eo_account_id input, rp_order_id = eo_order_id input,
       rp_client_order_id = eo_client_order_id input, rp_symbol = eo_symbol input,
       rp_close_request = False\<rparr>)"

definition ScheduleLeverageVerification :: "'w Enqueuer \<Rightarrow> nat \<Rightarrow> string \<Rightarrow> int \<Rightarrow> ('w, unit) io" where
  "ScheduleLeverageVerification e accountID symbol leverage =
     enqueuePositionSettingVerification e \<lparr>vp_attempt = 0, vp_account_id = accountID, vp_symbol = symbol,
       vp_expected_leverage = leverage, vp_expected_margin_mode = ''''\<rparr>"

definition ScheduleMarginModeVerification :: "'w Enqueuer \<Rightarrow> nat \<Rightarrow> string \<Rightarrow> string \<Rightarrow> ('w, unit) io" where
  "ScheduleMarginModeVerification e accountID symbol marginMode =
     enqueuePositionSettingVerification e \<lparr>vp_attempt = 0, vp_account_id = accountID, vp_symbol = symbol,
       vp_expected_leverage = 0, vp_expected_margin_mode = marginMode\<rparr>"

text \<open>The enqueuer as the scheduler the hedge service holds.\<close>

definition enqueuerScheduler :: "'w Enqueuer \<Rightarrow> 'w Scheduler" where
  "enqueuerScheduler e = \<lparr>ScheduleTrackedOrderReconciliation = ScheduleTrackedOrder e,
     ScheduleCloseOrderReconciliation = ScheduleCloseOrder e\<rparr>"

section \<open>Handlers\<close>

text \<open>The methods of the two services the reconciliation handler calls, and its enqueuer.\<close>

record 'w ReconciliationHandler =
  hd_ReconcileOrderExecution :: "int \<Rightarrow> ('w, string) io"
  hd_FailCloseReconciliation :: "int \<Rightarrow> string \<Rightarrow> ('w, unit) io"
  hd_ReconcileExternalOrder :: "ExternalOrderReconciliationInput \<Rightarrow> ('w, string) io"
  hd_VerifyPositionSetting :: "PositionSettingVerificationInput \<Rightarrow> ('w, bool \<times> string) io"
  hd_enqueuer :: "'w Enqueuer"

definition NewReconciliationHandler ::
    "'w HedgeService \<Rightarrow> 'w ExchangeReconciliationService \<Rightarrow> 'w Enqueuer \<Rightarrow> 'w ReconciliationHandler" where
  "NewReconciliationHandler hedge ex e = \<lparr>hd_ReconcileOrderExecution = ReconcileOrderExecution hedge,
     hd_FailCloseReconciliation = FailCloseReconciliation hedge,
     hd_ReconcileExternalOrder = ReconcileExternalOrder ex,
     hd_VerifyPositionSetting = VerifyPositionSetting ex, hd_enqueuer = e\<rparr>"

definition isFinalOrderStatus :: "string \<Rightarrow> bool" where
  "isFinalOrderStatus status \<longleftrightarrow>
     ToLower (TrimSpace status) \<in> {OrderStatusFilled, OrderStatusCanceled, OrderStatusFailed}"

text \<open>\<open>payload.Attempt++\<close> on a 64-bit \<open>int\<close>.\<close>

definition nextAttempt :: "int \<Rightarrow> int" where
  "nextAttempt a = signed_take_bit 63 (a + 1)"

definition scheduleNextOrder :: "'w ReconciliationHandler \<Rightarrow> ReconcileOrderPayload \<Rightarrow> ('w, unit) io" where
  "scheduleNextOrder h payload0 =
    (let payload = payload0\<lparr>rp_attempt := nextAttempt (rp_attempt payload0)\<rparr>
     in case reconciliationDelay (rp_attempt payload) (rp_close_request payload) of
          None \<Rightarrow>
            if rp_execution_id payload > 0
            then ignore (hd_FailCloseReconciliation h (rp_execution_id payload)
                   ''close reconciliation exhausted after 60 seconds'')
            else ret ()
        | Some _ \<Rightarrow> enqueueOrderReconciliation (hd_enqueuer h) payload)"

definition handleOrder ::
    "'w ReconciliationHandler \<Rightarrow> ReconcileOrderPayload result \<Rightarrow> ('w, unit) io" where
  "handleOrder h body = (case body of
     Err e \<Rightarrow> throw (ErrBoth ''unmarshal order reconciliation payload'' e ErrSkipRetry)
   | Panic \<Rightarrow> panic
   | Ok payload \<Rightarrow>
       bnd (attempt (if rp_execution_id payload > 0
              then hd_ReconcileOrderExecution h (rp_execution_id payload)
              else hd_ReconcileExternalOrder h \<lparr>eo_account_id = rp_account_id payload,
                eo_order_id = rp_order_id payload, eo_client_order_id = rp_client_order_id payload,
                eo_symbol = rp_symbol payload\<rparr>)) (\<lambda>r.
       case r of
         Inl _ \<Rightarrow> scheduleNextOrder h payload
       | Inr status \<Rightarrow> if isFinalOrderStatus status then ret () else scheduleNextOrder h payload))"

definition scheduleNextPositionSetting ::
    "'w ReconciliationHandler \<Rightarrow> VerifyPositionSettingPayload \<Rightarrow> ('w, unit) io" where
  "scheduleNextPositionSetting h payload0 =
    (let payload = payload0\<lparr>vp_attempt := nextAttempt (vp_attempt payload0)\<rparr>
     in case reconciliationDelay (vp_attempt payload) False of
          None \<Rightarrow> ret ()
        | Some _ \<Rightarrow> enqueuePositionSettingVerification (hd_enqueuer h) payload)"

definition handlePositionSetting ::
    "'w ReconciliationHandler \<Rightarrow> VerifyPositionSettingPayload result \<Rightarrow> ('w, unit) io" where
  "handlePositionSetting h body = (case body of
     Err e \<Rightarrow> throw (ErrBoth ''unmarshal position setting verification payload'' e ErrSkipRetry)
   | Panic \<Rightarrow> panic
   | Ok payload \<Rightarrow>
       bnd (attempt (hd_VerifyPositionSetting h \<lparr>vs_account_id = vp_account_id payload,
              vs_symbol = vp_symbol payload, vs_expected_leverage = vp_expected_leverage payload,
              vs_expected_margin_mode = vp_expected_margin_mode payload\<rparr>)) (\<lambda>r.
       case r of
         Inl _ \<Rightarrow> scheduleNextPositionSetting h payload
       | Inr (matched, observed) \<Rightarrow>
           if matched then ret () else scheduleNextPositionSetting h payload))"

definition handleRunHedge ::
    "(RunInput \<Rightarrow> ('w, RunResult) io) \<Rightarrow> RunHedgePayload result \<Rightarrow> ('w, unit) io" where
  "handleRunHedge runOnce body = (case body of
     Err e \<Rightarrow> throw (ErrBoth ''unmarshal hedge task payload'' e ErrSkipRetry)
   | Panic \<Rightarrow> panic
   | Ok payload \<Rightarrow>
       bnd (attempt (runOnce \<lparr>ri_config_id = rh_config_id payload, ri_source = rh_source payload,
              ri_symbol = rh_symbol payload, ri_reason = rh_reason payload\<rparr>)) (\<lambda>r.
       case r of
         Inl e \<Rightarrow> if errIs e ErrRunLocked
                  then throw (ErrWrap ''hedge run already locked'' ErrSkipRetry) else throw e
       | Inr _ \<Rightarrow> ret ()))"

section \<open>Checkpoints\<close>

definition checkpointsOf :: "bool \<Rightarrow> duration list" where
  "checkpointsOf closeRequest =
     (if closeRequest then closeReconciliationCheckpoints else reconciliationCheckpoints)"

lemma length_checkpoints: "length (checkpointsOf closeRequest) = (if closeRequest then 6 else 4)"
  by (simp add: checkpointsOf_def closeReconciliationCheckpoints_def reconciliationCheckpoints_def)

lemma reconciliationDelay_None_iff:
  "reconciliationDelay a closeRequest = None \<longleftrightarrow> a < 0 \<or> (if closeRequest then 6 else 4) \<le> a"
  by (simp add: reconciliationDelay_def Let_def closeReconciliationCheckpoints_def
      reconciliationCheckpoints_def)

lemma sum_list_telescope:
  fixes xs :: "duration list"
  shows "k < length xs \<Longrightarrow> (\<Sum>i\<leftarrow>[0..<Suc k]. if i = 0 then xs ! 0 else xs ! i - xs ! (i - 1)) = xs ! k"
  by (induction k) simp_all

text \<open>The delays of a chain add up: attempt \<open>k\<close> is due at checkpoint \<open>k\<close> after the chain was scheduled.\<close>

lemma delays_telescope:
  assumes "k < length (checkpointsOf closeRequest)"
  shows "(\<Sum>i\<leftarrow>[0..<Suc k]. the (reconciliationDelay (int i) closeRequest)) = checkpointsOf closeRequest ! k"
proof -
  have each: "the (reconciliationDelay (int i) closeRequest) =
      (if i = 0 then checkpointsOf closeRequest ! 0
       else checkpointsOf closeRequest ! i - checkpointsOf closeRequest ! (i - 1))"
    if "i < Suc k" for i
    using that assms by (auto simp: reconciliationDelay_def checkpointsOf_def Let_def nat_diff_distrib')
  have "map (\<lambda>i. the (reconciliationDelay (int i) closeRequest)) [0..<Suc k] =
      map (\<lambda>i. if i = 0 then checkpointsOf closeRequest ! 0
        else checkpointsOf closeRequest ! i - checkpointsOf closeRequest ! (i - 1)) [0..<Suc k]"
    by (rule map_cong [OF refl], rule each) auto
  with sum_list_telescope [OF assms] show ?thesis by (simp only:)
qed

lemma delay_positive: "reconciliationDelay a closeRequest = Some d \<Longrightarrow> second \<le> d"
  by (auto simp: reconciliationDelay_def Let_def closeReconciliationCheckpoints_def
      reconciliationCheckpoints_def second_def nth_Cons' split: if_splits)

end
