(* ===== verification/World.thy ===== *)
theory World
  imports HedgeLaws RedisLock Tasks
begin

text \<open>
  The hedge service on its own stores: a world holds the core and management databases, the run locks
  in Redis, the queue of asynchronous tasks, a clock, and an exchange that is a parameter
  (any adapter over any state \<open>'x\<close>). Every call that leaves the process may fail: a schedule of faults
  says for each whether it works, fails before it has an effect, or takes effect and loses its reply.
  \<open>w_orders\<close> logs the requests that reached the exchange. The locales of \<open>HedgeLaws\<close> are interpreted
  here, and the properties of whole runs follow for every exchange and every schedule of faults.
\<close>

section \<open>Worlds\<close>

datatype fault = NoFault | FailBefore | FailAfter

record 'x World =
  w_core :: CoreDB
  w_mgmt :: MgmtDB
  w_ext :: 'x
  w_redis :: redis
  w_orders :: "PlaceOrderRequest list"
  w_queue :: "AsyncTask list"
  w_clock :: time
  w_rand :: nat
  w_faults :: "fault list"

definition faulty :: "('x World, 'a) io \<Rightarrow> ('x World, 'a) io" where
  "faulty m w = (case w_faults w of
     [] \<Rightarrow> m w
   | f # fs \<Rightarrow>
       let w1 = w\<lparr>w_faults := fs\<rparr>
       in case f of
            NoFault \<Rightarrow> m w1
          | FailBefore \<Rightarrow> (Err (ErrExternal ''unavailable''), w1)
          | FailAfter \<Rightarrow> (Err (ErrExternal ''connection lost''), snd (m w1)))"

definition readClock :: "('x World, time) io" where
  "readClock w = (Ok (w_clock w), w\<lparr>w_clock := w_clock w + 1\<rparr>)"

definition onCore :: "(time \<Rightarrow> (CoreDB, 'a) io) \<Rightarrow> ('x World, 'a) io" where
  "onCore m = faulty (\<lambda>w. case m (w_clock w) (w_core w) of (r, db) \<Rightarrow> (r, w\<lparr>w_core := db\<rparr>))"

definition onMgmt :: "(time \<Rightarrow> (MgmtDB, 'a) io) \<Rightarrow> ('x World, 'a) io" where
  "onMgmt m = faulty (\<lambda>w. case m (w_clock w) (w_mgmt w) of (r, db) \<Rightarrow> (r, w\<lparr>w_mgmt := db\<rparr>))"

definition onExt :: "('x, 'a) io \<Rightarrow> ('x World, 'a) io" where
  "onExt m = faulty (\<lambda>w. case m (w_ext w) of (r, x) \<Rightarrow> (r, w\<lparr>w_ext := x\<rparr>))"

definition placeExt :: "(PlaceOrderRequest \<Rightarrow> ('x, OrderResult) io) \<Rightarrow> PlaceOrderRequest \<Rightarrow> ('x World, OrderResult) io" where
  "placeExt m req = faulty (\<lambda>w. case m req (w_ext w) of
     (r, x) \<Rightarrow> (r, w\<lparr>w_ext := x, w_orders := w_orders w @ [req]\<rparr>))"

text \<open>\<open>EnqueueContext\<close> of the asynq client: a task whose unique lock is held (the parameter \<open>held\<close> says
  when) is refused as a duplicate, any other is added to the queue.\<close>

definition queueClient ::
    "(AsyncTask list \<Rightarrow> AsyncTask \<Rightarrow> bool) \<Rightarrow> (AsyncTask \<Rightarrow> TaskInfo) \<Rightarrow> AsyncTask \<Rightarrow> ('x World, TaskInfo) io" where
  "queueClient held info task = faulty (\<lambda>w.
     if held (w_queue w) task then (Err ErrDuplicateTask, w)
     else (Ok (info task), w\<lparr>w_queue := w_queue w @ [task]\<rparr>))"

definition liveStore :: "'x World HedgeStore" where
  "liveStore = \<lparr>
     st_UpsertExposureSnapshot = (\<lambda>a. onCore (\<lambda>_. UpsertExposureSnapshot a)),
     st_GetExposureSnapshot = (\<lambda>a src smb. onCore (\<lambda>_. GetExposureSnapshot a src smb)),
     st_UpsertHedgePositionSnapshot = (\<lambda>a. onCore (\<lambda>_. UpsertHedgePositionSnapshot a)),
     st_GetHedgePositionSnapshot = (\<lambda>a acc smb. onCore (\<lambda>_. GetHedgePositionSnapshot a acc smb)),
     st_CreateOrderPlan = (\<lambda>a. onCore (\<lambda>now. CreateOrderPlan now a)),
     st_UpdateOrderPlanStatus = (\<lambda>i st. onCore (\<lambda>now. UpdateOrderPlanStatus now i st)),
     st_CreateOrderExecution = (\<lambda>a. onCore (\<lambda>now. CreateOrderExecution now a)),
     st_UpdateOrderExecutionStatus = (\<lambda>a. onCore (\<lambda>now. UpdateOrderExecutionStatus now a)),
     st_GetOrderExecutionByClientOrderID = (\<lambda>c. onCore (\<lambda>_. GetOrderExecutionByClientOrderID c)),
     st_GetLatestOrderExecutionStateByConfigID =
       (\<lambda>i. onCore (\<lambda>_. GetLatestOrderExecutionStateByConfigID i)),
     st_GetOrderExecutionStateByExecutionID =
       Some (\<lambda>i. onCore (\<lambda>_. GetOrderExecutionStateByExecutionID i)),
     st_CreateAuditEvent = (\<lambda>a. onCore (\<lambda>now. CreateAuditEvent now a)),
     st_ListRecentAuditEvents = (\<lambda>n. onCore (\<lambda>_. ListRecentAuditEvents n))\<rparr>"

definition liveRepo :: "'x World HedgeRepo" where
  "liveRepo = \<lparr>
     rp_GetHedgeConfig = (\<lambda>i. onMgmt (\<lambda>_. GetHedgeConfig i)),
     rp_FindEnabledHedgeConfig = (\<lambda>src smb. onMgmt (\<lambda>_. FindEnabledHedgeConfig src smb)),
     rp_BeginHedgeCloseRequest = (\<lambda>i key. onMgmt (\<lambda>now. BeginHedgeCloseRequest now i key)),
     rp_AttachHedgeCloseExecution = (\<lambda>i x st. onMgmt (\<lambda>_. AttachHedgeCloseExecution i x st)),
     rp_GetHedgeCloseRequestByExecutionID = (\<lambda>x. onMgmt (\<lambda>_. GetHedgeCloseRequestByExecutionID x)),
     rp_UpdateHedgeCloseStatus = (\<lambda>i st. onMgmt (\<lambda>_. UpdateHedgeCloseStatus i st)),
     rp_CompleteHedgeClose = (\<lambda>i. onMgmt (\<lambda>now. CompleteHedgeClose now i)),
     rp_FailHedgeClose = (\<lambda>i msg. onMgmt (\<lambda>now. FailHedgeClose now i msg))\<rparr>"

definition liveAdapter :: "'x Adapter \<Rightarrow> 'x World Adapter" where
  "liveAdapter ex = \<lparr>
     FetchBalance = (\<lambda>q. onExt (FetchBalance ex q)),
     FetchPositions = (\<lambda>q. onExt (FetchPositions ex q)),
     FetchTicker = (\<lambda>q. onExt (FetchTicker ex q)),
     FetchMarkets = (\<lambda>q. onExt (FetchMarkets ex q)),
     PlaceOrder = placeExt (PlaceOrder ex),
     FetchOrder = (\<lambda>q. onExt (FetchOrder ex q)),
     CancelOrder = (\<lambda>q. onExt (CancelOrder ex q)),
     SetLeverage = (\<lambda>q. onExt (SetLeverage ex q)),
     SetMarginMode = (\<lambda>q. onExt (SetMarginMode ex q))\<rparr>"

definition liveRedis :: "'x World RedisClient" where
  "liveRedis = \<lparr>
     rd_SetNX = (\<lambda>key token ttl. faulty (\<lambda>w. case redisSetNX (w_clock w) key token ttl (w_redis w) of
       (ok, r) \<Rightarrow> (Ok ok, w\<lparr>w_redis := r\<rparr>))),
     rd_EvalUnlock = (\<lambda>key token. faulty (\<lambda>w. case unlockScript (w_clock w) key token (w_redis w) of
       (n, r) \<Rightarrow> (Ok n, w\<lparr>w_redis := r\<rparr>)))\<rparr>"

definition liveToken :: "(nat \<Rightarrow> string) \<Rightarrow> ('x World, string) io" where
  "liveToken tokens w = (Ok (tokens (w_rand w)), w\<lparr>w_rand := w_rand w + 1\<rparr>)"


text \<open>How a service is put together: which collaborators it has and its parameters.\<close>

record options =
  lo_locker :: bool
  lo_redis :: bool
  lo_queue :: bool
  lo_held :: "AsyncTask list \<Rightarrow> AsyncTask \<Rightarrow> bool"
  lo_taskInfo :: "AsyncTask \<Rightarrow> TaskInfo"
  lo_lockTTL :: duration
  lo_runCooldown :: duration
  lo_tokens :: "nat \<Rightarrow> string"
  lo_decode :: "string \<Rightarrow> string result"
  lo_dv :: "decimal \<Rightarrow> decimal \<Rightarrow> decimal"
  lo_decString :: "decimal \<Rightarrow> string"

definition liveEnqueuer :: "options \<Rightarrow> 'x World Enqueuer" where
  "liveEnqueuer opt = (if lo_queue opt then Some (queueClient (lo_held opt) (lo_taskInfo opt)) else None)"

definition liveService :: "'x Adapter option \<Rightarrow> options \<Rightarrow> 'x World HedgeService" where
  "liveService ex opt = \<lparr>sv_core = liveStore, sv_mgmt = liveRepo,
     sv_exchange = map_option liveAdapter ex, sv_decodeCredential = lo_decode opt,
     sv_locker = (if lo_locker opt
       then Some (TryLock (if lo_redis opt then Some liveRedis else None) (liveToken (lo_tokens opt)))
       else None),
     sv_lockTTL = lo_lockTTL opt, sv_runCooldown = lo_runCooldown opt, sv_now = readClock,
     sv_clock = readClock,
     sv_reconciler = (if lo_queue opt then Some (enqueuerScheduler (liveEnqueuer opt)) else None),
     sv_dv = lo_dv opt, sv_decString = lo_decString opt\<rparr>"

section \<open>Calls that succeed\<close>

lemma faulty_OkE:
  assumes "faulty m w = (Ok x, w')"
  obtains fs where "m (w\<lparr>w_faults := fs\<rparr>) = (Ok x, w')"
proof (cases "w_faults w")
  case Nil
  then have "w\<lparr>w_faults := []\<rparr> = w" by simp
  with assms Nil that [of "[]"] show thesis by (simp add: faulty_def)
next
  case (Cons f fs)
  with assms that [of fs] show thesis by (cases f) (auto simp: faulty_def Let_def)
qed

lemma onCore_OkE:
  assumes "onCore m w = (Ok x, w')"
  obtains now where "m now (w_core w) = (Ok x, w_core w')"
  using assms unfolding onCore_def by (rule faulty_OkE) (auto split: prod.splits)

lemma onExt_core: "onExt m w = (Ok x, w') \<Longrightarrow> w_core w' = w_core w"
  unfolding onExt_def by (erule faulty_OkE) (auto split: prod.splits)

section \<open>Relations across one call\<close>

text \<open>A relation that holds across a change of each part of the world holds across every call.\<close>

lemma relates_faulty:
  assumes refl: "\<And>w. R w w" and trans: "\<And>u v w. R u v \<Longrightarrow> R v w \<Longrightarrow> R u w"
    and pop: "\<And>w f fs. w_faults w = f # fs \<Longrightarrow> R w (w\<lparr>w_faults := fs\<rparr>)"
    and m: "\<And>w. R w (snd (m w))"
  shows "relates R (faulty m)"
  unfolding relates_def
proof
  fix w
  show "R w (snd (faulty m w))"
  proof (cases "w_faults w")
    case Nil
    with m show ?thesis by (simp add: faulty_def)
  next
    case (Cons f fs)
    have "R w (w\<lparr>w_faults := fs\<rparr>)" by (rule pop [OF Cons])
    moreover have "R w (snd (m (w\<lparr>w_faults := fs\<rparr>)))" by (rule trans [OF pop [OF Cons] m])
    ultimately show ?thesis by (cases f) (simp_all add: faulty_def Cons Let_def)
  qed
qed

text \<open>The changes one query or repository operation makes.\<close>

inductive coreStep :: "CoreDB \<Rightarrow> CoreDB \<Rightarrow> bool" where
  core_stay: "coreStep db db"
| core_exposure: "coreStep db (snd (UpsertExposureSnapshot ue db))"
| core_position: "coreStep db (snd (UpsertHedgePositionSnapshot up db))"
| core_plan: "coreStep db (snd (CreateOrderPlan now cp db))"
| core_planStatus: "coreStep db (snd (UpdateOrderPlanStatus now i st db))"
| core_execution: "coreStep db (snd (CreateOrderExecution now ce db))"
| core_executionStatus: "coreStep db (snd (UpdateOrderExecutionStatus now ux db))"
| core_audit: "coreStep db (snd (CreateAuditEvent now au db))"

inductive mgmtStep :: "MgmtDB \<Rightarrow> MgmtDB \<Rightarrow> bool" where
  mgmt_stay: "mgmtStep db db"
| mgmt_close: "closeStep False db db' \<Longrightarrow> mgmtStep db db'"

lemma core_reads:
  "snd (GetExposureSnapshot a src smb db) = db" "snd (GetHedgePositionSnapshot a acc smb db) = db"
  "snd (GetOrderExecutionByClientOrderID c db) = db"
  "snd (GetLatestOrderExecutionStateByConfigID i db) = db"
  "snd (GetOrderExecutionStateByExecutionID i db) = db" "snd (ListRecentAuditEvents n db) = db"
  by (simp_all add: GetExposureSnapshot_def GetHedgePositionSnapshot_def
      GetOrderExecutionByClientOrderID_def GetLatestOrderExecutionStateByConfigID_def
      GetOrderExecutionStateByExecutionID_def ListRecentAuditEvents_def split: option.split list.split)

lemma mgmt_reads: "snd (GetHedgeCloseRequestByExecutionID i db) = db"
  by (simp add: GetHedgeCloseRequestByExecutionID_def split: option.split)

locale live_stores = world_preorder R
  for R :: "'x World \<Rightarrow> 'x World \<Rightarrow> bool" +
  assumes v_pop: "w_faults w = f # fs \<Longrightarrow> R w (w\<lparr>w_faults := fs\<rparr>)"
    and v_core: "coreStep (w_core w) db \<Longrightarrow> R w (w\<lparr>w_core := db\<rparr>)"
    and v_mgmt: "mgmtStep (w_mgmt w) mdb \<Longrightarrow> R w (w\<lparr>w_mgmt := mdb\<rparr>)"
    and v_ext: "R w (w\<lparr>w_ext := x\<rparr>)"
    and v_clock: "R w (w\<lparr>w_clock := w_clock w + 1\<rparr>)"
    and v_rand: "R w (w\<lparr>w_rand := w_rand w + 1\<rparr>)"
begin

lemma relates_live_faulty: "(\<And>w. R w (snd (m w))) \<Longrightarrow> relates R (faulty m)"
  by (rule relates_faulty [OF R_refl R_trans v_pop])

lemma relates_onCore: "(\<And>now db. coreStep db (snd (m now db))) \<Longrightarrow> relates R (onCore m)"
  unfolding onCore_def by (rule relates_live_faulty) (simp add: v_core split: prod.split, metis snd_conv v_core)

lemma relates_onMgmt: "(\<And>now db. mgmtStep db (snd (m now db))) \<Longrightarrow> relates R (onMgmt m)"
  unfolding onMgmt_def by (rule relates_live_faulty) (simp add: v_mgmt split: prod.split, metis snd_conv v_mgmt)

lemma relates_onExt: "relates R (onExt m)"
  unfolding onExt_def by (rule relates_live_faulty) (simp add: v_ext split: prod.split)

lemma relates_readClock: "relates R readClock"
  by (simp add: relates_def readClock_def v_clock)

lemma relates_liveToken: "relates R (liveToken tokens)"
  unfolding relates_def liveToken_def snd_conv by (intro allI v_rand)


lemma attach_step': "st = HedgeCloseSubmitted \<or> st = HedgeCloseVerifying \<Longrightarrow>
    mgmtStep db (snd (AttachHedgeCloseExecution n i st db))"
  by (intro mgmt_close attach_step) auto

lemma close_steps:
  "mgmtStep db (snd (BeginHedgeCloseRequest now n key db))"
  "mgmtStep db (snd (UpdateHedgeCloseStatus n HedgeCloseVerifying db))"
  "mgmtStep db (snd (CompleteHedgeClose now n db))"
  "mgmtStep db (snd (FailHedgeClose now n msg db))"
  by (auto intro!: mgmt_close intro: closeStep.intros)

lemmas core_steps = core_exposure core_position core_plan core_planStatus core_execution
  core_executionStatus core_audit

end

text \<open>Without a queue the service needs no law about it; \<open>live_quiet\<close> adds the queue.\<close>

sublocale live_stores \<subseteq> nq: service_quiet R "liveService ex (opt\<lparr>lo_queue := False\<rparr>)" for ex opt
proof (unfold_locales, goal_cases)
qed (auto simp: liveService_def liveStore_def liveRepo_def liveAdapter_def
    core_reads reads_keep mgmt_reads split: if_splits
    intro!: relates_onCore relates_onMgmt relates_onExt relates_readClock core_steps
      close_steps attach_step' core_stay mgmt_stay)

locale live_quiet = live_stores +
  assumes v_queue: "R w (w\<lparr>w_queue := ts\<rparr>)"
begin

lemma relates_queueClient: "relates R (queueClient held info t)"
  unfolding queueClient_def by (rule relates_live_faulty) (simp add: v_queue R_refl)

lemma relates_enqueuer:
  "relates R (ScheduleTrackedOrder (liveEnqueuer opt) i)" "relates R (ScheduleCloseOrder (liveEnqueuer opt) i)"
  unfolding ScheduleTrackedOrder_def ScheduleCloseOrder_def enqueueOrderReconciliation_def
    enqueueReconciliationTask_def liveEnqueuer_def
  by (auto intro!: io_rules relates_rules relates_queueClient split: option.split)

end

sublocale live_quiet \<subseteq> sq: service_quiet R "liveService ex opt" for ex opt
proof (unfold_locales, goal_cases)
qed (auto simp: liveService_def liveStore_def liveRepo_def liveAdapter_def enqueuerScheduler_def
    core_reads reads_keep mgmt_reads split: if_splits
    intro!: relates_onCore relates_onMgmt relates_onExt relates_readClock relates_enqueuer core_steps
      close_steps attach_step' core_stay mgmt_stay)

locale live_redis = live_stores +
  assumes v_redis: "R w (w\<lparr>w_redis := r\<rparr>)"
begin

lemma relates_liveRedis:
  "relates R (rd_SetNX liveRedis key token ttl)" "relates R (rd_EvalUnlock liveRedis key token)"
  unfolding liveRedis_def RedisClient.simps
  by (rule relates_live_faulty, simp add: v_redis split: prod.split)+

lemma relates_TryLock:
  assumes "client = None \<or> client = Some liveRedis"
  shows "relates R (TryLock client (liveToken tokens) key ttl)"
  using assms unfolding TryLock_def
  by (auto intro!: io_rules relates_rules relates_liveRedis relates_liveToken)

lemma relates_TryLock_release:
  assumes "client = None \<or> client = Some liveRedis"
    and "fst (TryLock client (liveToken tokens) key ttl w) = Ok (rel, ok)"
  shows "relates R rel"
proof (cases client)
  case None
  with assms(2) have "rel = ret ()" by (auto simp: TryLock_def io_simps)
  then show ?thesis by (simp add: relates_ret)
next
  case (Some c)
  with assms(1) have c: "c = liveRedis" by simp
  have unlock: "relates R (bnd (wrapIO m (rd_EvalUnlock liveRedis key t)) (\<lambda>_. ret ()))" for m t
    by (intro io_rules relates_rules relates_liveRedis)
  from assms(2) Some c have "rel = panic \<or> (\<exists>m t. rel = bnd (wrapIO m (rd_EvalUnlock liveRedis key t)) (\<lambda>_. ret ()))"
    by (auto simp: TryLock_def bnd_def ret_def split: prod.splits result.splits if_splits)
  with unlock show ?thesis by (auto intro: relates_panic)
qed

end

sublocale live_redis \<subseteq> nl: service_locked R "liveService ex (opt\<lparr>lo_queue := False\<rparr>)" for ex opt
proof (unfold_locales, goal_cases)
  case (1 lk key ttl)
  then show ?case by (auto simp: liveService_def intro!: relates_TryLock split: if_splits)
next
  case (2 lk key ttl w rel ok)
  then show ?case by (auto simp: liveService_def intro: relates_TryLock_release split: if_splits)
qed

locale live_locked = live_quiet + live_redis

sublocale live_locked \<subseteq> sl: service_locked R "liveService ex opt" for ex opt
proof (unfold_locales, goal_cases)
  case (1 lk key ttl)
  then show ?case by (auto simp: liveService_def intro!: relates_TryLock split: if_splits)
next
  case (2 lk key ttl w rel ok)
  then show ?case by (auto simp: liveService_def intro: relates_TryLock_release split: if_splits)
qed

locale live_place = live_quiet +
  assumes v_place: "R w (w\<lparr>w_ext := x, w_orders := w_orders w @ [req]\<rparr>)"
begin

lemma relates_placeExt: "relates R (placeExt m req)"
  unfolding placeExt_def by (rule relates_live_faulty) (simp add: v_place split: prod.split)

end

sublocale live_place \<subseteq> sp: service_place R "liveService ex opt" for ex opt
  by unfold_locales (auto simp: liveService_def liveAdapter_def relates_placeExt)

locale live_steps = live_locked + live_place

sublocale live_steps \<subseteq> ss: service_steps R "liveService ex opt" for ex opt
  by unfold_locales (rule sl.relates_withRunLock)

section \<open>The relations\<close>

text \<open>Integrity of the order tables and of the close requests.\<close>

definition integrityStep :: "'x World \<Rightarrow> 'x World \<Rightarrow> bool" where
  "integrityStep w w' \<longleftrightarrow> (wfOrders (w_core w) \<longrightarrow> wfOrders (w_core w')) \<and>
     (wfRequests (w_mgmt w) \<longrightarrow> wfRequests (w_mgmt w'))"

lemma coreStep_wf: "coreStep db db' \<Longrightarrow> wfOrders db \<Longrightarrow> wfOrders db'"
  by (induction rule: coreStep.induct)
    (simp_all add: CreateOrderPlan_wf UpdateOrderPlanStatus_wf CreateOrderExecution_wf
      UpdateOrderExecutionStatus_wf other_queries_wf)

lemma mgmtStep_wf: "mgmtStep db db' \<Longrightarrow> wfRequests db \<Longrightarrow> wfRequests db'"
  by (auto elim!: mgmtStep.cases intro: closeStep_wf)

interpretation integrity: live_steps integrityStep
  by unfold_locales (auto simp: integrityStep_def intro: coreStep_wf mgmtStep_wf)

text \<open>Recorded client order ids only grow, and the order log only gets longer.\<close>

definition recordedIDs :: "CoreDB \<Rightarrow> string set" where
  "recordedIDs db = ox_client_order_id ` set (db_executions db)"

text \<open>Every order that is placed on the way is for a client order id that was not recorded before.\<close>

definition freshStep :: "'x World \<Rightarrow> 'x World \<Rightarrow> bool" where
  "freshStep w w' \<longleftrightarrow> recordedIDs (w_core w) \<subseteq> recordedIDs (w_core w') \<and>
     (\<exists>rs. w_orders w' = w_orders w @ rs \<and>
        (\<forall>r \<in> set rs. po_client_order_id r \<notin> recordedIDs (w_core w)))"

lemma recordedIDs_update:
  "(\<And>r. P r \<Longrightarrow> ox_client_order_id (f r) = ox_client_order_id r) \<Longrightarrow>
   ox_client_order_id ` set (updateRows P f rows) = ox_client_order_id ` set rows"
  by (metis (mono_tags, lifting) map_updateRows set_map)

lemma coreStep_ids: "coreStep db db' \<Longrightarrow> recordedIDs db \<subseteq> recordedIDs db'"
proof (induction rule: coreStep.induct)
  case (core_execution db now ce)
  show ?case
    by (auto simp: CreateOrderExecution_def Let_def snd_case_option_row recordedIDs_def upsertRow_def
        recordedIDs_update)
next
  case (core_executionStatus db now ux)
  have "ox_client_order_id ` set (updateRows (\<lambda>r. ox_id r = ux_id ux) (setExecutionStatus now ux)
      (db_executions db)) = ox_client_order_id ` set (db_executions db)"
    by (rule recordedIDs_update) simp
  then show ?case
    by (auto simp: UpdateOrderExecutionStatus_def Let_def snd_case_option_row recordedIDs_def
        split: option.split)
qed (auto simp: recordedIDs_def UpsertExposureSnapshot_def UpsertHedgePositionSnapshot_def
    CreateOrderPlan_def UpdateOrderPlanStatus_def CreateAuditEvent_def Let_def snd_case_option_row
    putExposure_def putPosition_def split: option.splits if_splits)

lemma freshStep_refl: "freshStep w w"
  by (simp add: freshStep_def)

lemma freshStepI:
  "recordedIDs (w_core w) \<subseteq> recordedIDs (w_core w') \<Longrightarrow> w_orders w' = w_orders w @ rs \<Longrightarrow>
   \<forall>r \<in> set rs. po_client_order_id r = i \<Longrightarrow> i \<notin> recordedIDs (w_core w) \<Longrightarrow> freshStep w w'"
  unfolding freshStep_def by (intro conjI exI [of _ rs] ballI) simp_all

lemma freshStep_trans: "freshStep u v \<Longrightarrow> freshStep v w \<Longrightarrow> freshStep u w"
  unfolding freshStep_def by (fastforce intro: exI)

interpretation fresh: live_locked freshStep
  by unfold_locales
    (auto simp: freshStep_refl intro: freshStep_trans, auto simp: freshStep_def dest: coreStep_ids)

definition idsGrow :: "'x World \<Rightarrow> 'x World \<Rightarrow> bool" where
  "idsGrow w w' \<longleftrightarrow> recordedIDs (w_core w) \<subseteq> recordedIDs (w_core w')"

interpretation ids: live_steps idsGrow
  by unfold_locales (auto simp: idsGrow_def dest: coreStep_ids)

interpretation same_orders: live_locked "\<lambda>w w'. w_orders w' = w_orders w"
  by unfold_locales auto

interpretation order_log: service_log w_orders "liveService ex opt" for ex opt
proof (unfold_locales, goal_cases)
  case (1 a po)
  then obtain x where a: "a = liveAdapter x" by (auto simp: liveService_def)
  have one: "emits w_orders 1 (\<lambda>r. r = po) (faulty m)"
    if "\<And>w. w_orders (snd (m w)) = w_orders w @ [po]" for m :: "('x World, OrderResult) io"
    unfolding emits_def
  proof
    fix w
    show "\<exists>xs. w_orders (snd (faulty m w)) = w_orders w @ xs \<and> length xs \<le> 1 \<and> list_all (\<lambda>r. r = po) xs"
    proof (cases "w_faults w")
      case Nil
      with that show ?thesis by (auto simp: faulty_def intro!: exI [of _ "[po]"])
    next
      case (Cons f fs)
      have "w_orders (snd (m (w\<lparr>w_faults := fs\<rparr>))) = w_orders w @ [po]" by (simp add: that)
      with Cons show ?thesis by (cases f) (auto simp: faulty_def Let_def)
    qed
  qed
  show ?case
    unfolding a liveAdapter_def Adapter.simps placeExt_def by (rule one) (simp split: prod.split)
qed

lemma lookup_missing:
  assumes "onCore (\<lambda>_. GetOrderExecutionByClientOrderID i) w = (Err e, w1)" and "errIs e ErrNoRows"
  shows "i \<notin> recordedIDs (w_core w) \<and> w_core w1 = w_core w \<and> w_orders w1 = w_orders w"
proof -
  have none: "executionByClientOrder i db = None \<longleftrightarrow> i \<notin> recordedIDs db" for db
    by (auto simp: executionByClientOrder_def findRow_None_iff recordedIDs_def)
  show ?thesis
    using assms
    by (cases "w_faults w"; cases "hd (w_faults w)")
      (auto simp: onCore_def faulty_def GetOrderExecutionByClientOrderID_def Let_def none [symmetric]
        split: option.splits)
qed

lemma fresh_createPlan: "relates freshStep (createPlanAndExecute (liveService ex opt) c e d)"
proof -
  let ?s = "liveService ex opt"
  let ?i = "makeClientOrderID (sv_decString ?s) (cf_id c) e d"
  let ?look = "st_GetOrderExecutionByClientOrderID (sv_core ?s) ?i"
  let ?g = "\<lambda>plan existing. case existing of
          Inr execution \<Rightarrow>
            (case existingOrderExecutionError execution of
               Some e \<Rightarrow> throw e
             | None \<Rightarrow> ret (plan, execution))
        | Inl e \<Rightarrow>
            if \<not> errIs e ErrNoRows then throw (ErrWrap ''get existing execution'' e)
            else executePlan ?s c d ?i plan"
  have exec: "relates freshStep (bnd (attempt ?look) (?g plan))" for plan
    unfolding relates_def
  proof
    fix w
    obtain r w1 where look: "?look w = (r, w1)" by (cases "?look w")
    have step: "freshStep w w1"
      using relatesD [OF fresh.sq.r_GetByClient [where ex = ex and opt = opt and c = ?i], where w = w]
      by (simp add: look)
    show "freshStep w (snd (bnd (attempt ?look) (?g plan) w))"
    proof (cases r)
      case (Ok x)
      then have "snd (bnd (attempt ?look) (?g plan) w) = w1"
        by (simp add: look io_simps split: option.split)
      with step show ?thesis by simp
    next
      case Panic
      then have "snd (bnd (attempt ?look) (?g plan) w) = w1" by (simp add: look io_simps)
      with step show ?thesis by simp
    next
      case (Err e)
      have run: "bnd (attempt ?look) (?g plan) w = ?g plan (Inl e) w1"
        by (simp add: look Err io_simps)
      show ?thesis
      proof (cases "errIs e ErrNoRows")
        case False
        with step show ?thesis unfolding run by (simp add: io_simps)
      next
        case True
        have "onCore (\<lambda>_. GetOrderExecutionByClientOrderID ?i) w = (Err e, w1)"
          using look Err by (simp add: liveService_def liveStore_def)
        from lookup_missing [OF this True] have w1: "?i \<notin> recordedIDs (w_core w)"
          "w_core w1 = w_core w" "w_orders w1 = w_orders w" by auto
        let ?w2 = "snd (executePlan ?s c d ?i plan w1)"
        have "emits w_orders (if cf_dry_run c then 0 else 1) (\<lambda>r. po_client_order_id r = ?i)
            (executePlan ?s c d ?i plan)"
          by (rule emits_weaken [OF order_log.emits_executePlan]) (auto simp: placeRequest_def)
        then obtain rs where rs: "w_orders ?w2 = w_orders w1 @ rs"
            "list_all (\<lambda>r. po_client_order_id r = ?i) rs"
          unfolding emits_def by blast
        have "recordedIDs (w_core w1) \<subseteq> recordedIDs (w_core ?w2)"
          using relatesD [OF ids.sp.relates_executePlan [where ex = ex and opt = opt and c = c and d = d
              and i = ?i and p = plan], where w = w1]
          by (simp add: idsGrow_def)
        then have "recordedIDs (w_core w) \<subseteq> recordedIDs (w_core ?w2)" using w1(2) by simp
        moreover have "\<forall>r \<in> set rs. po_client_order_id r = ?i"
          using rs(2) by (simp add: list_all_iff)
        ultimately have "freshStep w ?w2"
          using rs(1) w1(1,3) by (intro freshStepI [of w ?w2 rs ?i]) simp_all
        with True show ?thesis unfolding run by simp
      qed
    qed
  qed
  show ?thesis
    unfolding createPlanAndExecute_def Let_def
    by (intro fresh.relates_bnd relates_wrapIO fresh.sq.r_CreatePlan exec)
qed

interpretation fresh_steps: service_steps freshStep "liveService ex opt" for ex opt
  by unfold_locales (rule fresh_createPlan, rule fresh.sl.relates_withRunLock)

end
