(* ===== verification/HedgeRuns.thy ===== *)
theory HedgeRuns
  imports World
begin

text \<open>
  Properties of whole hedge runs and exits on the world of \<open>World\<close>: for every exchange adapter (or
  none), every option and every schedule of faults. They say how many orders a run places and which,
  that a recorded order is never placed twice, what the run lock and the run guard guarantee, and
  that no interleaving of handlers breaks the integrity of the tables.
\<close>

section \<open>The orders of a run\<close>

text \<open>What an order the service sends looks like.\<close>

definition orderShape :: "PlaceOrderRequest \<Rightarrow> bool" where
  "orderShape r \<longleftrightarrow> po_order_type r = ''LIMIT'' \<and> po_position_side r = ''NET''
     \<and> (po_side r = ''BUY'' \<or> po_side r = ''SELL'')
     \<and> HasPrefix (po_client_order_id r) ''t-'' \<and> length (po_client_order_id r) = 28"

lemma makeClientOrderID_shape:
  "HasPrefix (makeClientOrderID f c e d) ''t-'' \<and> length (makeClientOrderID f c e d) = 28"
  by (simp add: makeClientOrderID_def Let_def HasPrefix_def length_Sum256)

lemma requestFor_shape:
  "requestFor s c d r \<Longrightarrow> d_side d = SideBuy \<or> d_side d = SideSell \<Longrightarrow> orderShape r"
  using makeClientOrderID_shape by (auto simp: requestFor_def placeRequest_def orderShape_def)

lemma requestFor_terms:
  "requestFor s c d r \<Longrightarrow> po_reduce_only r = d_reduce_only d \<and> po_quantity r = d_order_quantity d
     \<and> po_price r = d_limit_price d \<and> po_symbol r = targetSymbolForConfig c"
  by (auto simp: requestFor_def placeRequest_def)

lemma Calculate_trade_side:
  assumes "Calculate dv c e p = Ok d" and "isTrade d"
  shows "d_side d = SideBuy \<or> d_side d = SideSell"
  using assms by (cases rule: Calculate_trade_cases) (auto simp: sideFor_def)

lemma ClosePosition_trade:
  assumes "ClosePosition dv c p = Ok d" and "isTrade d"
  shows "(d_side d = SideBuy \<or> d_side d = SideSell) \<and> d_reduce_only d \<and> d_reason d = ReasonManualClose"
  using assms
  by (auto simp: ClosePosition_def Let_def rbind_Ok_iff limitPrice_price decDiv_def sideFor_def
      isTrade_def split: if_splits)

lemma liveService_simps [simp]:
  "sv_dv (liveService ex opt) = lo_dv opt" "sv_decString (liveService ex opt) = lo_decString opt"
  "sv_decodeCredential (liveService ex opt) = lo_decode opt" "sv_core (liveService ex opt) = liveStore"
  "sv_mgmt (liveService ex opt) = liveRepo" "sv_now (liveService ex opt) = readClock"
  "sv_clock (liveService ex opt) = readClock" "sv_runCooldown (liveService ex opt) = lo_runCooldown opt"
  "sv_lockTTL (liveService ex opt) = lo_lockTTL opt"
  by (simp_all add: liveService_def)

text \<open>A decision the calculator made for a run of this configuration.\<close>

definition decidedBy :: "options \<Rightarrow> RunInput \<Rightarrow> HedgeConfig \<Rightarrow> Decision \<Rightarrow> bool" where
  "decidedBy opt input c d \<longleftrightarrow> (\<exists>e p d0.
     Calculate (lo_dv opt) (calculationConfigForRun c input) (toExposure e) (toPosition c p) = Ok d0
     \<and> isTrade d0 \<and> d = applyRunReason input d0)"

definition closedBy :: "options \<Rightarrow> HedgeConfig \<Rightarrow> Decision \<Rightarrow> bool" where
  "closedBy opt c d \<longleftrightarrow> (\<exists>p.
     ClosePosition (lo_dv opt) (toHedgeConfig c) (toPosition c p) = Ok d \<and> isTrade d)"

lemma decidedBy_side: "decidedBy opt i c d \<Longrightarrow> d_side d = SideBuy \<or> d_side d = SideSell"
  unfolding decidedBy_def applyRunReason_def using Calculate_trade_side by fastforce


text \<open>C3: leaving a hedge sends at most one order, and that order can only reduce the position: it is
  marked reduce-only and carries out the close of the position, never anything else.\<close>

theorem ExitHedge_only_reduces:
  "emits w_orders 1 (\<lambda>r. orderShape r \<and> po_reduce_only r \<and> (\<exists>c d. closedBy opt c d \<and> \<not> cf_dry_run c \<and>
       requestFor (liveService ex opt) c d r))
     (ExitHedge (liveService ex opt) input)"
proof -
  have "emits w_orders 1 (ordersOf (liveService ex opt) (closedBy opt)) (ExitHedge (liveService ex opt) input)"
    by (rule order_log.emits_ExitHedge) (auto simp: closedBy_def)
  then show ?thesis
  proof (rule emits_weaken)
    fix r assume "ordersOf (liveService ex opt) (closedBy opt) r"
    then obtain c d where cd: "closedBy opt c d" "\<not> cf_dry_run c" "requestFor (liveService ex opt) c d r"
      by (auto simp: ordersOf_def)
    with ClosePosition_trade [of "lo_dv opt" "toHedgeConfig c"] requestFor_shape [OF cd(3)]
      requestFor_terms [OF cd(3)]
    show "orderShape r \<and> po_reduce_only r \<and> (\<exists>c d. closedBy opt c d \<and> \<not> cf_dry_run c \<and>
       requestFor (liveService ex opt) c d r)"
      unfolding closedBy_def by blast
  qed
qed

text \<open>C2: an order that was recorded is never sent again. Every order a run or an exit adds to the log has
  a client order id for which no execution was stored when the handler was called, and stored
  executions keep their client order ids.\<close>

theorem recorded_orders_not_resent:
  "(\<exists>rs. w_orders (snd (RunOnce (liveService ex opt) input w)) = w_orders w @ rs \<and>
     list_all (\<lambda>r. po_client_order_id r \<notin> recordedIDs (w_core w)) rs) \<and>
   (\<exists>rs. w_orders (snd (ExitHedge (liveService ex opt) xinput w)) = w_orders w @ rs \<and>
     list_all (\<lambda>r. po_client_order_id r \<notin> recordedIDs (w_core w)) rs) \<and>
   recordedIDs (w_core w) \<subseteq> recordedIDs (w_core (snd (RunOnce (liveService ex opt) input w))) \<and>
   recordedIDs (w_core w) \<subseteq> recordedIDs (w_core (snd (ExitHedge (liveService ex opt) xinput w)))"
proof -
  have run: "freshStep w (snd (RunOnce (liveService ex opt) input w))"
    by (rule relatesD [OF fresh_steps.relates_RunOnce])
  have exit: "freshStep w (snd (ExitHedge (liveService ex opt) xinput w))"
    by (rule relatesD [OF fresh_steps.relates_ExitHedge])
  show ?thesis
    using run exit unfolding freshStep_def list_all_iff by blast
qed

section \<open>Handlers and faults interleaved\<close>

text \<open>One handler runs, or something outside the service happens: time passes, the exchange or Redis
  moves, the next calls will fail in another way, a task is taken from the queue.\<close>

inductive handlerStep :: "'x Adapter option \<Rightarrow> options \<Rightarrow> 'x World \<Rightarrow> 'x World \<Rightarrow> bool"
  for ex :: "'x Adapter option" and opt :: options where
  run: "handlerStep ex opt w (snd (RunOnce (liveService ex opt) input w))"
| exit: "handlerStep ex opt w (snd (ExitHedge (liveService ex opt) xinput w))"
| reconcile: "handlerStep ex opt w (snd (ReconcileOrderExecution (liveService ex opt) i w))"
| exhausted: "handlerStep ex opt w (snd (FailCloseReconciliation (liveService ex opt) i msg w))"
| exposure: "handlerStep ex opt w (snd (UpsertExposure (liveService ex opt) ui w))"
| position: "handlerStep ex opt w (snd (UpsertPosition (liveService ex opt) ups w))"
| outside: "handlerStep ex opt w (w\<lparr>w_ext := x, w_redis := r, w_queue := ts, w_clock := t,
    w_faults := fs\<rparr>)"

lemma integrity_outside: "integrityStep w (w\<lparr>w_ext := x, w_redis := r, w_queue := ts, w_clock := t,
    w_faults := fs\<rparr>)"
  by (simp add: integrityStep_def)

lemma handlerStep_integrity: "handlerStep ex opt w w' \<Longrightarrow> integrityStep w w'"
  by (induction rule: handlerStep.induct)
    (rule relatesD [OF integrity.ss.relates_RunOnce] relatesD [OF integrity.ss.relates_ExitHedge]
      relatesD [OF integrity.sq.relates_ReconcileOrderExecution]
      relatesD [OF integrity.sq.relates_FailCloseReconciliation]
      relatesD [OF integrity.sq.relates_UpsertExposure] relatesD [OF integrity.sq.relates_UpsertPosition]
      integrity_outside)+


section \<open>The run lock\<close>

text \<open>A run leaves no lock behind. As long as no call fails, time does not go back, and every key that
  was free when the handler was called is free when it returns, however it returns.\<close>

definition freeStep :: "'x World \<Rightarrow> 'x World \<Rightarrow> bool" where
  "freeStep w w' \<longleftrightarrow> (w_faults w = [] \<longrightarrow> w_faults w' = [] \<and> w_clock w \<le> w_clock w' \<and>
     (\<forall>k. w_redis w' k = w_redis w k \<or> liveKey (w_clock w') (w_redis w') k = None))"

lemma liveKey_later: "liveKey t r k = None \<Longrightarrow> t \<le> t' \<Longrightarrow> liveKey t' r k = None"
  by (auto simp: liveKey_def split: option.splits if_splits)

interpretation freed: live_place freeStep
proof unfold_locales
  fix u v w :: "'x World"
  assume uv: "freeStep u v" and vw: "freeStep v w"
  have "w_redis w k = w_redis u k \<or> liveKey (w_clock w) (w_redis w) k = None"
    if "w_faults u = []" for k
  proof -
    from uv that have v: "w_faults v = []" "w_redis v k = w_redis u k \<or> liveKey (w_clock v) (w_redis v) k = None"
      by (simp_all add: freeStep_def)
    from vw v(1) have w: "w_redis w k = w_redis v k \<or> liveKey (w_clock w) (w_redis w) k = None"
      "w_clock v \<le> w_clock w" by (simp_all add: freeStep_def)
    have "liveKey (w_clock w) (w_redis w) k = None"
      if "w_redis w k = w_redis v k" "liveKey (w_clock v) (w_redis v) k = None"
      using that(2) w(2) unfolding liveKey_cong [of "w_redis w" k "w_redis v", OF that(1)]
      by (rule liveKey_later)
    with v(2) w(1) show ?thesis by auto
  qed
  with uv vw show "freeStep u w" by (auto simp: freeStep_def)
qed (simp_all add: freeStep_def)

lemma freeStep_scope:
  assumes body: "relates freeStep (body :: ('x World, RunResult) io)"
  shows "relates freeStep (withRunLock (liveService ex opt) c body)"
  unfolding relates_def
proof
  fix w :: "'x World"
  let ?k = "lockKeyForConfig c"
  show "freeStep w (snd (withRunLock (liveService ex opt) c body w))"
  proof (cases "lo_locker opt \<and> lo_redis opt \<and> w_faults w = []")
    case False
    then consider "\<not> lo_locker opt" | "lo_locker opt" "\<not> lo_redis opt" | "w_faults w \<noteq> []" by blast
    then show ?thesis
    proof cases
      case 1
      then show ?thesis using relatesD [OF body] by (simp add: withRunLock_def liveService_def)
    next
      case 2
      then have "withRunLock (liveService ex opt) c body = finally_do body (ret ())"
        by (simp add: withRunLock_def liveService_def TryLock_def)
      then show ?thesis using relatesD [OF body] by simp
    next
      case 3
      then show ?thesis by (simp add: freeStep_def)
    qed
  next
    case True
    let ?t = "lo_tokens opt (w_rand w)"
    let ?w1 = "w\<lparr>w_rand := w_rand w + 1\<rparr>"
    let ?w2 = "?w1\<lparr>w_redis := (w_redis w)(?k \<mapsto> (?t, w_clock w + lo_lockTTL opt))\<rparr>"
    show ?thesis
    proof (cases "liveKey (w_clock w) (w_redis w) ?k")
      case (Some v)
      with True have "snd (withRunLock (liveService ex opt) c body w) = ?w1"
        by (simp add: withRunLock_def liveService_def TryLock_def liveToken_def liveRedis_def faulty_def
            redisSetNX_def bnd_def wrapIO_def ret_def throw_def)
      then show ?thesis by (simp add: freeStep_def)
    next
      case None
      let ?w3 = "snd (body ?w2)"
      let ?w4 = "snd (withRunLock (liveService ex opt) c body w)"
      have body2: "freeStep ?w2 ?w3" by (rule relatesD [OF body])
      then have nf: "w_faults ?w3 = []" "w_clock w \<le> w_clock ?w3"
        using True by (simp_all add: freeStep_def)
      have w4: "?w4 = ?w3\<lparr>w_redis := snd (unlockScript (w_clock ?w3) ?k ?t (w_redis ?w3))\<rparr>"
        using True None nf(1)
        by (simp add: withRunLock_def liveService_def TryLock_def liveToken_def liveRedis_def faulty_def
            redisSetNX_def bnd_def wrapIO_def ret_def split: prod.split)
      have keys: "w_redis ?w3 k = w_redis ?w2 k \<or> liveKey (w_clock ?w3) (w_redis ?w3) k = None" for k
        using body2 True by (simp add: freeStep_def)
      have "w_redis ?w4 k = w_redis w k \<or> liveKey (w_clock ?w4) (w_redis ?w4) k = None" for k
        using keys [of k] unfolding w4
        by (cases "k = ?k") (auto simp: unlockScript_def liveKey_def split: option.splits if_splits)
      with nf True w4 show ?thesis by (simp add: freeStep_def)
    qed
  qed
qed


interpretation freed_steps: service_steps freeStep "liveService ex opt" for ex opt
  by unfold_locales (auto intro: freed.sp.relates_createPlan freeStep_scope)

text \<open>C9: a run and an exit leave no lock behind. When no call fails, a key that is free when the handler
  is called is free when it is over, whether the handler returned a result, an error, or panicked: the
  deferred release runs on every path.\<close>

theorem handlers_release_locks:
  assumes "w_faults w = []" and "liveKey (w_clock w) (w_redis w) k = None"
    and "w' = snd (RunOnce (liveService ex opt) input w) \<or> w' = snd (ExitHedge (liveService ex opt) xinput w)"
  shows "liveKey (w_clock w') (w_redis w') k = None"
proof -
  from assms(3) have "freeStep w w'"
    using relatesD [OF freed_steps.relates_RunOnce] relatesD [OF freed_steps.relates_ExitHedge] by blast
  with assms(1) have "w_clock w \<le> w_clock w'"
    "w_redis w' k = w_redis w k \<or> liveKey (w_clock w') (w_redis w') k = None"
    by (auto simp: freeStep_def)
  with assms(2) show ?thesis using liveKey_later liveKey_cong by metis
qed

section \<open>An example world\<close>

text \<open>One enabled configuration and its account in the management database, empty core tables.\<close>

definition exampleOptions :: options where
  "exampleOptions = \<lparr>lo_locker = True, lo_redis = True, lo_queue = True, lo_held = (\<lambda>_ _. False),
     lo_taskInfo = (\<lambda>t. \<lparr>ti_id = [], ti_queue = at_queue t, ti_type = at_type t, ti_state = [], ti_max_retry = 0\<rparr>),
     lo_lockTTL = 30000000000,
     lo_runCooldown = 0, lo_tokens = (\<lambda>n. replicate n CHR ''a''), lo_decode = (\<lambda>c. Ok c),
     lo_dv = (\<lambda>a b. a / b), lo_decString = (\<lambda>d. showInt \<lfloor>d\<rfloor>)\<rparr>"

definition exampleWorld :: "unit World" where
  "exampleWorld = \<lparr>w_core = emptyCoreDB, w_mgmt = exampleMgmt, w_ext = (), w_redis = Map.empty,
     w_orders = [], w_queue = [], w_clock = 100, w_rand = 0, w_faults = []\<rparr>"

lemma exampleWorld_simps [simp]:
  "w_core exampleWorld = emptyCoreDB" "w_mgmt exampleWorld = exampleMgmt"
  "w_redis exampleWorld = Map.empty" "w_faults exampleWorld = []" "w_clock exampleWorld = 100"
  by (simp_all add: exampleWorld_def)

lemma emptyCoreDB_wf: "wfOrders emptyCoreDB"
  by (simp add: wfOrders_def emptyCoreDB_def)




definition exampleRun :: RunInput where
  "exampleRun = \<lparr>ri_config_id = 7, ri_source = '''', ri_symbol = '''', ri_reason = ''''\<rparr>"

definition exampleExit :: ExitInput where
  "exampleExit = \<lparr>xi_config_id = 7, xi_source = '''', xi_symbol = ''''\<rparr>"

theorem handlers_release_locks_witness:
  "\<exists>w'. w' = snd (RunOnce (liveService None exampleOptions) exampleRun exampleWorld) \<and>
    liveKey (w_clock w') (w_redis w') ''hedging-bot:run:config:7'' = None"
  using handlers_release_locks [where w = exampleWorld and k = "''hedging-bot:run:config:7''" and ex = None
    and opt = exampleOptions and input = exampleRun and xinput = exampleExit, OF _ _ disjI1 [OF refl]]
  by (simp add: liveKey_def)


end
