(* ===== verification/MonitorStore.thy ===== *)
theory MonitorStore
  imports CoreStore "HOL-Library.Product_Lexorder" "HOL-Library.List_Lexorder" "HOL-Library.Char_ord"
begin

text \<open>
  The list queries of the core tables and the monitor snapshots (\<open>coredb/core.sql.go\<close>). \<open>ORDER BY\<close> on a
  text column is the byte order of the C collation. The live configurations the prune statement looks
  up belong to the management tables and are the argument \<open>liveConfig\<close>; foreign keys to those tables
  are not modelled.
\<close>

section \<open>Snapshot lists\<close>

definition ListAllExposureSnapshots :: "(CoreDB, ExposureSnapshot list) io" where
  "ListAllExposureSnapshots db =
     (Ok (sort_key (\<lambda>r. (es_agent_id r, es_source r, es_symbol r)) (db_exposures db)), db)"

definition ListAllHedgePositionSnapshots :: "(CoreDB, HedgePositionSnapshot list) io" where
  "ListAllHedgePositionSnapshots db =
     (Ok (sort_key (\<lambda>r. (ps_agent_id r, ps_exchange_account_id r, ps_symbol r)) (db_positions db)), db)"

text \<open>\<open>ORDER BY observed_at DESC, symbol ASC\<close>\<close>

definition ListExposureSnapshots :: "string \<Rightarrow> (CoreDB, ExposureSnapshot list) io" where
  "ListExposureSnapshots source db =
     (Ok (sort_key (\<lambda>r. (- es_observed_at r, es_symbol r))
        (filter (\<lambda>r. es_source r = source) (db_exposures db))), db)"

section \<open>Latest executions of all configurations\<close>

definition joinedRows :: "CoreDB \<Rightarrow> (OrderPlan \<times> OrderExecution) list" where
  "joinedRows db = concat (map (\<lambda>p. map (Pair p)
     (filter (\<lambda>x. ox_order_plan_id x = op_id p) (db_executions db))) (db_plans db))"

definition newerPair ::
    "OrderPlan \<times> OrderExecution \<Rightarrow> OrderPlan \<times> OrderExecution \<Rightarrow> OrderPlan \<times> OrderExecution" where
  "newerPair a b =
     (if ox_updated_at (snd a) < ox_updated_at (snd b)
        \<or> ox_updated_at (snd a) = ox_updated_at (snd b) \<and> ox_id (snd a) < ox_id (snd b)
      then b else a)"

fun latestPair :: "(OrderPlan \<times> OrderExecution) list \<Rightarrow> (OrderPlan \<times> OrderExecution) option" where
  "latestPair [] = None"
| "latestPair (s # ss) =
     (case latestPair ss of None \<Rightarrow> Some s | Some t \<Rightarrow> Some (newerPair s t))"

definition latestRow :: "OrderPlan \<times> OrderExecution \<Rightarrow> ListLatestOrderExecutionStatesRow" where
  "latestRow r = \<lparr>lr_config_id = op_config_id (fst r), lr_status = ox_status (snd r),
     lr_error_message = (case ox_error_message (snd r) of Some m \<Rightarrow> m | None \<Rightarrow> ''''),
     lr_updated_at = ox_updated_at (snd r)\<rparr>"

text \<open>\<open>DISTINCT ON (config_id) ... ORDER BY config_id, updated_at DESC, id DESC\<close>: one row for each
  configuration that has an execution.\<close>

definition latestOf :: "CoreDB \<Rightarrow> int \<Rightarrow> (OrderPlan \<times> OrderExecution) option" where
  "latestOf db c = latestPair (filter (\<lambda>r. op_config_id (fst r) = c) (joinedRows db))"

definition ListLatestOrderExecutionStates ::
    "(CoreDB, ListLatestOrderExecutionStatesRow list) io" where
  "ListLatestOrderExecutionStates db =
     (Ok (map latestRow (List.map_filter (latestOf db)
        (sort (remdups (map (\<lambda>r. op_config_id (fst r)) (joinedRows db)))))), db)"

section \<open>Monitor snapshots\<close>

record UpsertHedgeMonitorSnapshotParams =
  um_agent_id :: int
  um_config_id :: int
  um_exchange_account_id :: int
  um_source :: string
  um_symbol :: string
  um_target_symbol :: string
  um_exchange :: string
  um_account_name :: string
  um_net_quantity :: decimal
  um_net_notional :: decimal
  um_target_hedge :: decimal
  um_actual_hedge :: decimal
  um_adjustment :: decimal
  um_switch_status :: string
  um_health_status :: string
  um_action_status :: string
  um_status :: string
  um_status_reason :: string
  um_exposure_observed_at :: "time option"
  um_position_observed_at :: "time option"
  um_calculated_at :: time

definition monitorRow :: "time \<Rightarrow> int \<Rightarrow> UpsertHedgeMonitorSnapshotParams \<Rightarrow> HedgeMonitorSnapshot" where
  "monitorRow now i arg = \<lparr>ms_id = i, ms_agent_id = um_agent_id arg, ms_config_id = um_config_id arg,
     ms_exchange_account_id = um_exchange_account_id arg, ms_source = um_source arg,
     ms_symbol = um_symbol arg, ms_target_symbol = um_target_symbol arg,
     ms_exchange = um_exchange arg, ms_account_name = um_account_name arg,
     ms_net_quantity = um_net_quantity arg, ms_net_notional = um_net_notional arg,
     ms_target_hedge = um_target_hedge arg, ms_actual_hedge = um_actual_hedge arg,
     ms_adjustment = um_adjustment arg, ms_switch_status = um_switch_status arg,
     ms_health_status = um_health_status arg, ms_action_status = um_action_status arg,
     ms_status = um_status arg, ms_status_reason = um_status_reason arg,
     ms_exposure_observed_at = um_exposure_observed_at arg,
     ms_position_observed_at = um_position_observed_at arg,
     ms_calculated_at = um_calculated_at arg, ms_updated_at = now\<rparr>"

definition switchStatuses :: "string list" where
  "switchStatuses = [''enabled'', ''global_off'', ''symbol_off'']"
definition healthStatuses :: "string list" where
  "healthStatuses = [''ok'', ''account_unavailable'', ''observing'', ''execution_failed'']"
definition actionStatuses :: "string list" where
  "actionStatuses = [''balanced'', ''open_required'', ''rebalance_required'', ''exit_required'']"
definition monitorStatuses :: "string list" where
  "monitorStatuses = [''global_off'', ''symbol_off'', ''account_unavailable'', ''observing'',
     ''open_required'', ''rebalance_required'', ''exit_required'', ''balanced'', ''execution_failed'']"

definition monitorChecks :: "UpsertHedgeMonitorSnapshotParams \<Rightarrow> bool" where
  "monitorChecks arg \<longleftrightarrow> um_switch_status arg \<in> set switchStatuses
     \<and> um_health_status arg \<in> set healthStatuses \<and> um_action_status arg \<in> set actionStatuses
     \<and> um_status arg \<in> set monitorStatuses"

definition putMonitor :: "time \<Rightarrow> UpsertHedgeMonitorSnapshotParams \<Rightarrow> CoreDB \<Rightarrow> CoreDB" where
  "putMonitor now arg db = db\<lparr>sq_monitor := sq_monitor db + 1,
     db_monitor := upsertRow (\<lambda>r. ms_config_id r = um_config_id arg)
       (\<lambda>r. monitorRow now (ms_id r) arg)
       (monitorRow now (sq_monitor db + 1) arg) (db_monitor db)\<rparr>"

definition getMonitor :: "CoreDB \<Rightarrow> int \<Rightarrow> HedgeMonitorSnapshot option" where
  "getMonitor db c = findRow (\<lambda>r. ms_config_id r = c) (db_monitor db)"

definition UpsertHedgeMonitorSnapshot ::
    "time \<Rightarrow> UpsertHedgeMonitorSnapshotParams \<Rightarrow> (CoreDB, HedgeMonitorSnapshot) io" where
  "UpsertHedgeMonitorSnapshot now arg db =
     (if \<not> monitorChecks arg then (Err (ErrExternal ''hedge_monitor_snapshots check''), db)
      else let db' = putMonitor now arg db
        in case getMonitor db' (um_config_id arg) of
             Some r \<Rightarrow> (Ok r, db') | None \<Rightarrow> (Err ErrNoRows, db'))"

definition ListHedgeMonitorSnapshots :: "int \<Rightarrow> (CoreDB, HedgeMonitorSnapshot list) io" where
  "ListHedgeMonitorSnapshots agentID db =
     (Ok (sort_key (\<lambda>r. (ms_symbol r, ms_config_id r))
        (filter (\<lambda>r. ms_agent_id r = agentID) (db_monitor db))), db)"

definition PruneHedgeMonitorSnapshots :: "(int \<Rightarrow> bool) \<Rightarrow> (CoreDB, int) io" where
  "PruneHedgeMonitorSnapshots liveConfig db =
    (let keep = filter (\<lambda>r. liveConfig (ms_config_id r)) (db_monitor db)
     in (Ok (int (length (db_monitor db)) - int (length keep)), db\<lparr>db_monitor := keep\<rparr>))"

section \<open>The monitor table as a keyed table\<close>

lemma monitorRow_simps [simp]:
  "ms_config_id (monitorRow now i arg) = um_config_id arg" "ms_id (monitorRow now i arg) = i"
  by (simp_all add: monitorRow_def)

lemma getMonitor_put_same:
  "\<exists>r. getMonitor (putMonitor now p d) (um_config_id p) = Some r \<and> r = monitorRow now (ms_id r) p"
  unfolding getMonitor_def putMonitor_def by (simp add: findRow_upsertRow_same split: option.split)

lemma getMonitor_put_other:
  "x \<noteq> um_config_id p \<Longrightarrow> getMonitor (putMonitor now p d) x = getMonitor d x"
  unfolding getMonitor_def putMonitor_def by (simp add: findRow_upsertRow_other)

interpretation monitors: keyed_table um_config_id "putMonitor now" getMonitor
    "\<lambda>p r. r = monitorRow now (ms_id r) p" for now
  by unfold_locales (rule getMonitor_put_same, rule getMonitor_put_other)

lemma UpsertHedgeMonitorSnapshot_ok:
  "monitorChecks arg \<Longrightarrow> \<exists>r. UpsertHedgeMonitorSnapshot now arg db = (Ok r, putMonitor now arg db)
     \<and> r = monitorRow now (ms_id r) arg"
  using getMonitor_put_same [of now arg db] by (auto simp: UpsertHedgeMonitorSnapshot_def Let_def)

section \<open>The run guard and the monitor read the same execution\<close>

lemma joinedRows_states: "joinedStates db = map (\<lambda>(p, x). joinState p x) (joinedRows db)"
  by (simp add: joinedStates_def joinedRows_def map_concat comp_def)

lemma joinState_simps [simp]:
  "ls_config_id (joinState p x) = op_config_id p" "ls_execution_id (joinState p x) = ox_id x"
  "ls_status (joinState p x) = ox_status x" "ls_updated_at (joinState p x) = ox_updated_at x"
  by (simp_all add: joinState_def)

lemma newer_join:
  "newerState (joinState p x) (joinState q y) = (case newerPair (p, x) (q, y) of (r, z) \<Rightarrow> joinState r z)"
  by (simp add: newerState_def newerPair_def)

lemma latestState_pairs:
  "latestState (map (\<lambda>(p, x). joinState p x) ps) = map_option (\<lambda>(p, x). joinState p x) (latestPair ps)"
proof (induction ps)
  case (Cons a ps)
  then show ?case
    by (cases a; cases "latestPair ps") (auto simp: newer_join split: prod.splits)
qed simp

lemma latestPair_mem: "latestPair ps = Some r \<Longrightarrow> r \<in> set ps"
  by (induction ps arbitrary: r) (auto simp: newerPair_def split: option.splits if_splits)

lemma latestPair_None_iff [simp]: "latestPair ps = None \<longleftrightarrow> ps = []"
  by (cases ps) (auto split: option.splits)

lemma GetLatest_latestOf:
  "GetLatestOrderExecutionStateByConfigID c db = (case latestOf db c of
     Some (p, x) \<Rightarrow> (Ok (joinState p x), db) | None \<Rightarrow> (Err ErrNoRows, db))"
proof -
  have "filter (\<lambda>s. ls_config_id s = c) (joinedStates db) =
      map (\<lambda>(p, x). joinState p x) (filter (\<lambda>r. op_config_id (fst r) = c) (joinedRows db))"
    unfolding joinedRows_states filter_map by (simp add: comp_def case_prod_beta)
  then have "latestState (filter (\<lambda>s. ls_config_id s = c) (joinedStates db)) =
      map_option (\<lambda>(p, x). joinState p x) (latestOf db c)"
    by (simp only: latestState_pairs latestOf_def)
  then show ?thesis
    by (simp add: GetLatestOrderExecutionStateByConfigID_def split: option.split prod.split)
qed

lemma latestOf_config: "latestOf db c = Some r \<Longrightarrow> op_config_id (fst r) = c \<and> r \<in> set (joinedRows db)"
  unfolding latestOf_def by (drule latestPair_mem) simp

lemma set_map_filter: "set (List.map_filter f xs) = {y. \<exists>x \<in> set xs. f x = Some y}"
  by (induction xs) (auto simp: List.map_filter_simps split: option.splits)

lemma latest_configs:
  assumes "distinct cs"
  shows "distinct (map (\<lambda>r. op_config_id (fst r)) (List.map_filter (latestOf db) cs))"
  using assms
proof (induction cs)
  case (Cons c cs)
  have "c \<notin> (\<lambda>r. op_config_id (fst r)) ` set (List.map_filter (latestOf db) cs)"
    using Cons.prems latestOf_config by (auto simp: set_map_filter)
  with Cons show ?case
    by (cases "latestOf db c") (simp_all add: List.map_filter_simps latestOf_config del: split_paired_All)
qed (simp add: List.map_filter_simps)

text \<open>The run guard and the monitor agree on the last order of every configuration. The list the
  monitor reads has at most one row for a configuration, it has one exactly when the guard's query finds
  an execution, and then both show the status and the time of the same execution.\<close>

theorem guard_and_monitor_agree:
  "\<exists>rows. ListLatestOrderExecutionStates db = (Ok rows, db) \<and> distinct (map lr_config_id rows) \<and>
    (case GetLatestOrderExecutionStateByConfigID c db of
       (Ok s, _) \<Rightarrow> (\<exists>r. findRow (\<lambda>r. lr_config_id r = c) rows = Some r \<and>
          lr_status r = ls_status s \<and> lr_updated_at r = ls_updated_at s)
     | (Err e, _) \<Rightarrow> e = ErrNoRows \<and> findRow (\<lambda>r. lr_config_id r = c) rows = None
     | (Panic, _) \<Rightarrow> False)"
proof -
  let ?ids = "sort (remdups (map (\<lambda>r. op_config_id (fst r)) (joinedRows db)))"
  let ?rows = "map latestRow (List.map_filter (latestOf db) ?ids)"
  have key: "lr_config_id (latestRow r) = op_config_id (fst r)" for r by (simp add: latestRow_def)
  have dist: "distinct (map lr_config_id ?rows)"
    using latest_configs [of ?ids db] by (simp add: comp_def key)
  have "c \<in> set ?ids" if "latestOf db c = Some p" for c p
    using latestOf_config [OF that] by (auto simp: image_iff)
  then have mem: "r \<in> set ?rows \<longleftrightarrow> (\<exists>c p. latestOf db c = Some p \<and> r = latestRow p)" for r
    by (simp add: set_map_filter image_iff del: split_paired_Ex) blast
  show ?thesis
  proof (intro exI [of _ ?rows] conjI dist)
    show "ListLatestOrderExecutionStates db = (Ok ?rows, db)"
      by (simp add: ListLatestOrderExecutionStates_def)
    show "case GetLatestOrderExecutionStateByConfigID c db of
       (Ok s, _) \<Rightarrow> (\<exists>r. findRow (\<lambda>r. lr_config_id r = c) ?rows = Some r \<and>
          lr_status r = ls_status s \<and> lr_updated_at r = ls_updated_at s)
     | (Err e, _) \<Rightarrow> e = ErrNoRows \<and> findRow (\<lambda>r. lr_config_id r = c) ?rows = None
     | (Panic, _) \<Rightarrow> False"
    proof (cases "latestOf db c")
      case None
      have "lr_config_id r \<noteq> c" if r: "r \<in> set ?rows" for r
      proof -
        from r obtain c' p where "latestOf db c' = Some p" "r = latestRow p" unfolding mem by blast
        with None latestOf_config [of db c' p] show ?thesis by (auto simp: key)
      qed
      with None show ?thesis by (simp add: GetLatest_latestOf findRow_None_iff)
    next
      case (Some r)
      then have "latestRow r \<in> set ?rows \<and> lr_config_id (latestRow r) = c"
        using latestOf_config [OF Some] unfolding mem by (auto simp: key simp del: split_paired_Ex)
      then have "findRow (\<lambda>r. lr_config_id r = c) ?rows = Some (latestRow r)"
        using findRow_key_iff [OF dist] by simp
      with Some show ?thesis
        by (cases r) (simp add: GetLatest_latestOf, simp add: latestRow_def)
    qed
  qed
qed

end
