(* ===== verification/MonitorTexts.thy ===== *)
theory MonitorTexts
  imports Main
begin

text \<open>
  The Chinese labels and reasons of \<open>service/hedge_monitor_service.go\<close> as their UTF-8 bytes, each with its
  meaning.
\<close>

definition utf8 :: "nat list \<Rightarrow> string" where
  "utf8 bytes = map char_of bytes"

text \<open>Master switch is off\<close>

definition labelGlobalOff :: string where
  "labelGlobalOff = utf8 [230, 128, 187, 229, 188, 128, 229, 133, 179, 229, 183, 178, 229, 133, 179, 233,
     151, 173]"

text \<open>Symbol is off\<close>

definition labelSymbolOff :: string where
  "labelSymbolOff = utf8 [229, 184, 129, 231, 167, 141, 229, 183, 178, 229, 133, 179, 233, 151, 173]"

text \<open>Account unavailable\<close>

definition labelAccountUnavailable :: string where
  "labelAccountUnavailable = utf8 [232, 180, 166, 230, 136, 183, 228, 184, 141, 229, 143, 175, 231, 148, 168]"

text \<open>Observing\<close>

definition labelObserving :: string where
  "labelObserving = utf8 [232, 167, 130, 229, 175, 159, 228, 184, 173]"

text \<open>First hedge due\<close>

definition labelOpenRequired :: string where
  "labelOpenRequired = utf8 [229, 190, 133, 233, 166, 150, 230, 172, 161, 229, 175, 185, 229, 134, 178]"

text \<open>Rebalance due\<close>

definition labelRebalanceRequired :: string where
  "labelRebalanceRequired = utf8 [229, 190, 133, 229, 134, 141, 229, 185, 179, 232, 161, 161]"

text \<open>Exit due\<close>

definition labelExitRequired :: string where
  "labelExitRequired = utf8 [229, 190, 133, 233, 128, 128, 229, 135, 186]"

text \<open>Hedge in order\<close>

definition labelBalanced :: string where
  "labelBalanced = utf8 [229, 175, 185, 229, 134, 178, 230, 173, 163, 229, 184, 184]"

text \<open>Execution failed\<close>

definition labelExecutionFailed :: string where
  "labelExecutionFailed = utf8 [230, 137, 167, 232, 161, 140, 229, 164, 177, 232, 180, 165]"

text \<open>The agent's master switch is off\<close>

definition reasonGlobalOff :: string where
  "reasonGlobalOff = utf8 [228, 187, 163, 231, 144, 134, 229, 149, 134, 229, 175, 185, 229, 134, 178, 230,
     128, 187, 229, 188, 128, 229, 133, 179, 229, 183, 178, 229, 133, 179, 233, 151,
     173]"

text \<open>The hedge configuration is off\<close>

definition reasonSymbolOff :: string where
  "reasonSymbolOff = utf8 [229, 184, 129, 231, 167, 141, 229, 175, 185, 229, 134, 178, 233, 133, 141, 231,
     189, 174, 229, 183, 178, 229, 133, 179, 233, 151, 173]"

text \<open>The account is missing, disabled or of another agent\<close>

definition reasonAccountUnavailable :: string where
  "reasonAccountUnavailable = utf8 [228, 186, 164, 230, 152, 147, 230, 137, 128, 232, 180, 166, 230, 136, 183, 228,
     184, 141, 229, 173, 152, 229, 156, 168, 227, 128, 129, 229, 183, 178, 229, 129,
     156, 231, 148, 168, 230, 136, 150, 228, 187, 163, 231, 144, 134, 229, 149, 134,
     229, 189, 146, 229, 177, 158, 228, 184, 141, 228, 184, 128, 232, 135, 180]"

text \<open>The latest hedge order failed\<close>

definition reasonExecutionFailed :: string where
  "reasonExecutionFailed = utf8 [230, 156, 128, 232, 191, 145, 228, 184, 128, 230, 172, 161, 229, 175, 185, 229,
     134, 178, 232, 174, 162, 229, 141, 149, 230, 137, 167, 232, 161, 140, 229, 164,
     177, 232, 180, 165]"

text \<open>Waiting for fresh snapshots\<close>

definition reasonObserving :: string where
  "reasonObserving = utf8 [230, 173, 163, 229, 156, 168, 231, 173, 137, 229, 190, 133, 230, 156, 128, 230,
     150, 176, 230, 149, 158, 229, 143, 163, 230, 136, 150, 228, 186, 164, 230, 152,
     147, 230, 137, 128, 228, 187, 147, 228, 189, 141, 229, 191, 171, 231, 133, 167]"

text \<open>Exposure below exit threshold, hedge still open\<close>

definition reasonExitRequired :: string where
  "reasonExitRequired = utf8 [229, 135, 128, 230, 149, 158, 229, 143, 163, 229, 183, 178, 228, 189, 142, 228,
     186, 142, 233, 128, 128, 229, 135, 186, 233, 152, 136, 229, 128, 188, 239, 188,
     140, 228, 189, 134, 228, 186, 164, 230, 152, 147, 230, 137, 128, 228, 187, 141,
     230, 156, 137, 229, 175, 185, 229, 134, 178, 228, 187, 147, 228, 189, 141]"

text \<open>Exposure below exit threshold, no hedge\<close>

definition reasonBelowExit :: string where
  "reasonBelowExit = utf8 [229, 135, 128, 230, 149, 158, 229, 143, 163, 228, 189, 142, 228, 186, 142, 233,
     128, 128, 229, 135, 186, 233, 152, 136, 229, 128, 188, 228, 184, 148, 230, 178,
     161, 230, 156, 137, 229, 175, 185, 229, 134, 178, 228, 187, 147, 228, 189, 141]"

text \<open>Remaining hedge below the minimum order\<close>

definition reasonBelowMinOrder :: string where
  "reasonBelowMinOrder = utf8 [229, 137, 169, 228, 189, 153, 229, 175, 185, 229, 134, 178, 228, 187, 147, 228,
     189, 141, 228, 189, 142, 228, 186, 142, 230, 156, 128, 229, 176, 143, 228, 184,
     139, 229, 141, 149, 229, 144, 141, 228, 185, 137, 228, 187, 183, 229, 128, 188]"

text \<open>First trigger reached\<close>

definition reasonOpenRequired :: string where
  "reasonOpenRequired = utf8 [229, 135, 128, 230, 149, 158, 229, 143, 163, 229, 183, 178, 232, 190, 190, 229,
     136, 176, 233, 166, 150, 230, 172, 161, 229, 175, 185, 229, 134, 178, 233, 152,
     136, 229, 128, 188]"

text \<open>First trigger not reached\<close>

definition reasonBelowTrigger :: string where
  "reasonBelowTrigger = utf8 [229, 135, 128, 230, 149, 158, 229, 143, 163, 229, 176, 154, 230, 156, 170, 232,
     190, 190, 229, 136, 176, 233, 166, 150, 230, 172, 161, 229, 175, 185, 229, 134,
     178, 233, 152, 136, 229, 128, 188]"

text \<open>Deviation reached the rebalance threshold\<close>

definition reasonRebalanceRequired :: string where
  "reasonRebalanceRequired = utf8 [229, 174, 158, 233, 153, 133, 229, 175, 185, 229, 134, 178, 228, 187, 147, 228,
     189, 141, 228, 184, 142, 231, 155, 174, 230, 160, 135, 228, 187, 147, 228, 189,
     141, 231, 154, 132, 229, 129, 143, 229, 183, 174, 229, 183, 178, 232, 190, 190,
     229, 136, 176, 229, 134, 141, 229, 185, 179, 232, 161, 161, 233, 152, 136, 229,
     128, 188]"

text \<open>Deviation within range\<close>

definition reasonWithinRange :: string where
  "reasonWithinRange = utf8 [229, 174, 158, 233, 153, 133, 229, 175, 185, 229, 134, 178, 228, 187, 147, 228,
     189, 141, 229, 164, 132, 228, 186, 142, 229, 133, 129, 232, 174, 184, 229, 129,
     143, 229, 183, 174, 232, 140, 131, 229, 155, 180, 229, 134, 133]"

end
