(* ===== verification/Monitor.thy ===== *)
theory Monitor
  imports MonitorStore MonitorTexts Symbols HedgeService
begin

text \<open>
  The hedge monitor (\<open>internal/service/hedge_monitor_service.go\<close>): it joins every configuration with its
  exposure, position and latest execution, computes the hedge the calculator would aim at, and stores one
  snapshot per configuration. The service's mutex makes \<open>Refresh\<close> atomic.
\<close>

section \<open>Statuses\<close>

definition MonitorSwitchEnabled :: string where "MonitorSwitchEnabled = ''enabled''"
definition MonitorSwitchGlobalOff :: string where "MonitorSwitchGlobalOff = ''global_off''"
definition MonitorSwitchSymbolOff :: string where "MonitorSwitchSymbolOff = ''symbol_off''"
definition MonitorHealthOK :: string where "MonitorHealthOK = ''ok''"
definition MonitorHealthAccountUnavailable :: string where
  "MonitorHealthAccountUnavailable = ''account_unavailable''"
definition MonitorHealthObserving :: string where "MonitorHealthObserving = ''observing''"
definition MonitorHealthExecutionFailed :: string where
  "MonitorHealthExecutionFailed = ''execution_failed''"
definition MonitorActionBalanced :: string where "MonitorActionBalanced = ''balanced''"
definition MonitorActionOpenRequired :: string where "MonitorActionOpenRequired = ''open_required''"
definition MonitorActionRebalanceRequired :: string where
  "MonitorActionRebalanceRequired = ''rebalance_required''"
definition MonitorActionExitRequired :: string where "MonitorActionExitRequired = ''exit_required''"

lemmas monitor_switch_defs = MonitorSwitchEnabled_def MonitorSwitchGlobalOff_def
  MonitorSwitchSymbolOff_def
lemmas monitor_health_defs = MonitorHealthOK_def MonitorHealthAccountUnavailable_def
  MonitorHealthObserving_def MonitorHealthExecutionFailed_def
lemmas monitor_action_defs = MonitorActionBalanced_def MonitorActionOpenRequired_def
  MonitorActionRebalanceRequired_def MonitorActionExitRequired_def
lemmas monitor_defs = monitor_switch_defs monitor_health_defs monitor_action_defs

definition monitorStatusLabels :: "string \<rightharpoonup> string" where
  "monitorStatusLabels = [MonitorSwitchGlobalOff \<mapsto> labelGlobalOff, MonitorSwitchSymbolOff \<mapsto> labelSymbolOff,
     MonitorHealthAccountUnavailable \<mapsto> labelAccountUnavailable, MonitorHealthObserving \<mapsto> labelObserving,
     MonitorActionOpenRequired \<mapsto> labelOpenRequired,
     MonitorActionRebalanceRequired \<mapsto> labelRebalanceRequired,
     MonitorActionExitRequired \<mapsto> labelExitRequired, MonitorActionBalanced \<mapsto> labelBalanced,
     MonitorHealthExecutionFailed \<mapsto> labelExecutionFailed]"

definition MonitorStatusLabel :: "string \<Rightarrow> string" where
  "MonitorStatusLabel status = (case monitorStatusLabels status of Some l \<Rightarrow> l | None \<Rightarrow> status)"

section \<open>One snapshot\<close>

definition signedPositionNotional :: "HedgePositionSnapshot \<Rightarrow> decimal" where
  "signedPositionNotional position =
    (let side = ToUpper (TrimSpace (ps_position_side position)); n = ps_notional position
     in if side = ''SHORT'' then - \<bar>n\<bar>
        else if side = ''LONG'' then \<bar>n\<bar>
        else if ps_quantity position < 0 then - \<bar>n\<bar>
        else if ps_quantity position > 0 then \<bar>n\<bar>
        else if n \<noteq> 0 then n else \<bar>n\<bar>)"

definition monitorAction :: "HedgeConfig \<Rightarrow> decimal \<Rightarrow> decimal \<Rightarrow> decimal \<Rightarrow> string \<times> string" where
  "monitorAction config netNotional actual adjustment =
     (if \<bar>netNotional\<bar> \<le> cf_exit config then
        (if actual \<noteq> 0 \<and> \<bar>actual\<bar> \<ge> cf_min_order config
         then (MonitorActionExitRequired, reasonExitRequired)
         else if actual = 0 then (MonitorActionBalanced, reasonBelowExit)
         else (MonitorActionBalanced, reasonBelowMinOrder))
      else if actual = 0 then
        (if \<bar>netNotional\<bar> \<ge> cf_first_trigger config \<and> \<bar>adjustment\<bar> \<ge> cf_min_order config
         then (MonitorActionOpenRequired, reasonOpenRequired)
         else (MonitorActionBalanced, reasonBelowTrigger))
      else if \<bar>adjustment\<bar> \<ge> cf_rebalance config \<and> \<bar>adjustment\<bar> \<ge> cf_min_order config
      then (MonitorActionRebalanceRequired, reasonRebalanceRequired)
      else (MonitorActionBalanced, reasonWithinRange))"

definition mergeMonitorStatus ::
    "string \<Rightarrow> string \<Rightarrow> string \<Rightarrow> string \<Rightarrow> string \<Rightarrow> string \<Rightarrow> string \<times> string" where
  "mergeMonitorStatus switchStatus switchReason healthStatus healthReason actionStatus actionReason =
     (if switchStatus \<noteq> MonitorSwitchEnabled then (switchStatus, switchReason)
      else if healthStatus = MonitorHealthAccountUnavailable \<or> healthStatus = MonitorHealthExecutionFailed
      then (healthStatus, healthReason)
      else if actionStatus \<noteq> MonitorActionBalanced then (actionStatus, actionReason)
      else if healthStatus = MonitorHealthObserving then (healthStatus, healthReason)
      else (actionStatus, actionReason))"

text \<open>Lines 319 to 329: the target the monitor shows.\<close>

definition monitorTarget :: "HedgeConfig \<Rightarrow> ExposureSnapshot option \<Rightarrow> decimal" where
  "monitorTarget config exposure = (case exposure of
     None \<Rightarrow> 0
   | Some e \<Rightarrow>
       let netNotional = es_net_notional e;
           target = (- netNotional) * cf_target_hedge_ratio config;
           capped = (if cf_max_notional config > 0 \<and> \<bar>target\<bar> > cf_max_notional config
                     then of_int (decSign target) * cf_max_notional config else target)
       in if \<bar>netNotional\<bar> \<le> cf_exit config then 0 else capped)"

text \<open>Lines 335 to 343.\<close>

definition monitorSwitch :: "HedgeMonitorConfig \<Rightarrow> string \<times> string" where
  "monitorSwitch mc =
     (if \<not> mc_global_enabled mc then (MonitorSwitchGlobalOff, reasonGlobalOff)
      else if \<not> cf_enabled (mc_config mc) then (MonitorSwitchSymbolOff, reasonSymbolOff)
      else (MonitorSwitchEnabled, ''''))"

text \<open>Lines 345 to 360.\<close>

definition monitorHealth ::
    "HedgeConfig \<Rightarrow> ExposureSnapshot option \<Rightarrow> HedgePositionSnapshot option
      \<Rightarrow> ListLatestOrderExecutionStatesRow option \<Rightarrow> time \<Rightarrow> duration \<Rightarrow> duration \<Rightarrow> string \<times> string" where
  "monitorHealth config exposure position execution now exposureStale positionStale =
    (let account = cf_exchange_account config;
         stale = (case (exposure, position) of
           (Some e, Some p) \<Rightarrow> timeSub now (es_observed_at e) > exposureStale
              \<or> timeSub now (ps_observed_at p) > positionStale
         | _ \<Rightarrow> True)
     in if ea_id account = 0 \<or> ea_agent_id account \<noteq> cf_agent_id config
           \<or> ea_status account \<noteq> ExchangeAccountStatusActive
        then (MonitorHealthAccountUnavailable, reasonAccountUnavailable)
        else case execution of
          Some x \<Rightarrow>
            if lr_status x = ''failed''
            then (MonitorHealthExecutionFailed, if TrimSpace (lr_error_message x) = ''''
                    then reasonExecutionFailed else TrimSpace (lr_error_message x))
            else if stale then (MonitorHealthObserving, reasonObserving) else (MonitorHealthOK, '''')
        | None \<Rightarrow>
            if stale then (MonitorHealthObserving, reasonObserving) else (MonitorHealthOK, ''''))"

definition calculateHedgeMonitorSnapshot ::
    "HedgeMonitorConfig \<Rightarrow> ExposureSnapshot option \<Rightarrow> HedgePositionSnapshot option
      \<Rightarrow> ListLatestOrderExecutionStatesRow option \<Rightarrow> time \<Rightarrow> duration \<Rightarrow> duration
      \<Rightarrow> UpsertHedgeMonitorSnapshotParams" where
  "calculateHedgeMonitorSnapshot monitorConfig exposure position execution now exposureStale positionStale =
    (let config = mc_config monitorConfig;
         netQuantity = (case exposure of Some e \<Rightarrow> es_net_quantity e | None \<Rightarrow> 0);
         netNotional = (case exposure of Some e \<Rightarrow> es_net_notional e | None \<Rightarrow> 0);
         target = monitorTarget config exposure;
         actual = (case position of Some p \<Rightarrow> signedPositionNotional p | None \<Rightarrow> 0);
         adjustment = target - actual;
         (switchStatus, switchReason) = monitorSwitch monitorConfig;
         (healthStatus, healthReason) =
           monitorHealth config exposure position execution now exposureStale positionStale;
         (actionStatus, actionReason) = monitorAction config netNotional actual adjustment;
         (status, reason) =
           mergeMonitorStatus switchStatus switchReason healthStatus healthReason actionStatus actionReason
     in \<lparr>um_agent_id = int64 (cf_agent_id config), um_config_id = int64 (cf_id config),
         um_exchange_account_id = int64 (cf_exchange_account_id config),
         um_source = normalizeExposureSource (cf_source config),
         um_symbol = normalizeExposureSymbol (cf_symbol config),
         um_target_symbol = cf_target_symbol config,
         um_exchange = ea_exchange (cf_exchange_account config),
         um_account_name = ea_name (cf_exchange_account config), um_net_quantity = netQuantity,
         um_net_notional = netNotional, um_target_hedge = target, um_actual_hedge = actual,
         um_adjustment = adjustment, um_switch_status = switchStatus, um_health_status = healthStatus,
         um_action_status = actionStatus, um_status = status, um_status_reason = reason,
         um_exposure_observed_at = map_option es_observed_at exposure,
         um_position_observed_at = map_option ps_observed_at position, um_calculated_at = now\<rparr>)"

section \<open>Refreshing all snapshots\<close>

record HedgeMonitorRefreshResult =
  rf_configs :: nat
  rf_updated :: nat
  rf_pruned :: int
  rf_failures :: "string list"

record 'w HedgeMonitorStore =
  mo_ListAllExposureSnapshots :: "('w, ExposureSnapshot list) io"
  mo_ListAllHedgePositionSnapshots :: "('w, HedgePositionSnapshot list) io"
  mo_ListLatestOrderExecutionStates :: "('w, ListLatestOrderExecutionStatesRow list) io"
  mo_UpsertHedgeMonitorSnapshot :: "UpsertHedgeMonitorSnapshotParams \<Rightarrow> ('w, HedgeMonitorSnapshot) io"
  mo_PruneHedgeMonitorSnapshots :: "('w, int) io"
  mo_ListHedgeMonitorSnapshots :: "int \<Rightarrow> ('w, HedgeMonitorSnapshot list) io"

record 'w HedgeMonitorService =
  mv_ListHedgeMonitorConfigs :: "('w, HedgeMonitorConfig list) io"
  mv_store :: "'w HedgeMonitorStore"
  mv_exposureStale :: duration
  mv_positionStale :: duration
  mv_now :: "('w, time) io"

definition NewHedgeMonitorService ::
    "('w, HedgeMonitorConfig list) io \<Rightarrow> 'w HedgeMonitorStore \<Rightarrow> ('w, time) io \<Rightarrow> duration \<Rightarrow> duration
      \<Rightarrow> 'w HedgeMonitorService" where
  "NewHedgeMonitorService repo store clock exposureStale positionStale =
     \<lparr>mv_ListHedgeMonitorConfigs = repo, mv_store = store,
      mv_exposureStale = (if exposureStale \<le> 0 then 2 * minute else exposureStale),
      mv_positionStale = (if positionStale \<le> 0 then minute else positionStale), mv_now = clock\<rparr>"

definition exposureIndex :: "ExposureSnapshot list \<Rightarrow> int \<times> string \<times> string \<Rightarrow> ExposureSnapshot option" where
  "exposureIndex exposures k = findRow (\<lambda>e. (es_agent_id e, normalizeExposureSource (es_source e),
     normalizeExposureSymbol (es_symbol e)) = k) (rev exposures)"

definition positionIndex ::
    "HedgePositionSnapshot list \<Rightarrow> int \<times> int \<times> string \<Rightarrow> HedgePositionSnapshot option" where
  "positionIndex positions k = findRow (\<lambda>p. (ps_agent_id p, ps_exchange_account_id p,
     normalizeMonitorSymbol (ps_symbol p)) = k) (rev positions)"

definition executionIndex ::
    "ListLatestOrderExecutionStatesRow list \<Rightarrow> int \<Rightarrow> ListLatestOrderExecutionStatesRow option" where
  "executionIndex executions k = findRow (\<lambda>x. lr_config_id x = k) (rev executions)"

text \<open>The three look-ups of one configuration.\<close>

definition snapshotFor ::
    "'w HedgeMonitorService \<Rightarrow> ExposureSnapshot list \<Rightarrow> HedgePositionSnapshot list
      \<Rightarrow> ListLatestOrderExecutionStatesRow list \<Rightarrow> time \<Rightarrow> HedgeMonitorConfig
      \<Rightarrow> UpsertHedgeMonitorSnapshotParams" where
  "snapshotFor s exposures positions executions now mc =
    (let config = mc_config mc
     in calculateHedgeMonitorSnapshot mc
          (exposureIndex exposures (int64 (cf_agent_id config), normalizeExposureSource (cf_source config),
             normalizeExposureSymbol (cf_symbol config)))
          (positionIndex positions (int64 (cf_agent_id config), int64 (cf_exchange_account_id config),
             normalizeMonitorSymbol (cf_target_symbol config)))
          (executionIndex executions (int64 (cf_id config)))
          now (mv_exposureStale s) (mv_positionStale s))"

fun refreshConfigs ::
    "'w HedgeMonitorService \<Rightarrow> (HedgeMonitorConfig \<Rightarrow> UpsertHedgeMonitorSnapshotParams)
      \<Rightarrow> HedgeMonitorConfig list \<Rightarrow> HedgeMonitorRefreshResult \<Rightarrow> ('w, HedgeMonitorRefreshResult) io" where
  "refreshConfigs s params [] result = ret result"
| "refreshConfigs s params (mc # mcs) result =
     bnd (attempt (mo_UpsertHedgeMonitorSnapshot (mv_store s) (params mc))) (\<lambda>r. case r of
       Inl e \<Rightarrow> refreshConfigs s params mcs (result\<lparr>rf_failures := rf_failures result @
         [''config_id='' @ showNat (cf_id (mc_config mc)) @ '': '' @ errText e]\<rparr>)
     | Inr _ \<Rightarrow> refreshConfigs s params mcs (result\<lparr>rf_updated := rf_updated result + 1\<rparr>))"

definition Refresh :: "'w HedgeMonitorService \<Rightarrow> ('w, HedgeMonitorRefreshResult) io" where
  "Refresh s =
     bnd (wrapIO ''list hedge monitor configs'' (mv_ListHedgeMonitorConfigs s)) (\<lambda>configs.
     bnd (wrapIO ''list exposure snapshots for monitoring''
            (mo_ListAllExposureSnapshots (mv_store s))) (\<lambda>exposures.
     bnd (wrapIO ''list hedge positions for monitoring''
            (mo_ListAllHedgePositionSnapshots (mv_store s))) (\<lambda>positions.
     bnd (wrapIO ''list order executions for monitoring''
            (mo_ListLatestOrderExecutionStates (mv_store s))) (\<lambda>executions.
     bnd (mv_now s) (\<lambda>now.
     bnd (refreshConfigs s (snapshotFor s exposures positions executions now) configs
            \<lparr>rf_configs = length configs, rf_updated = 0, rf_pruned = 0, rf_failures = []\<rparr>) (\<lambda>result.
     bnd (wrapIO ''prune hedge monitor snapshots''
            (mo_PruneHedgeMonitorSnapshots (mv_store s))) (\<lambda>pruned.
     ret (result\<lparr>rf_pruned := pruned\<rparr>))))))))"

section \<open>Listing\<close>

record HedgeMonitorSnapshotView =
  vw_snapshot :: HedgeMonitorSnapshot
  vw_status_label :: string

record HedgeMonitorSummary =
  su_net_exposure :: decimal
  su_target_hedge :: decimal
  su_actual_hedge :: decimal
  su_items :: nat

record HedgeMonitorList =
  hl_summary :: HedgeMonitorSummary
  hl_items :: "HedgeMonitorSnapshotView list"

text \<open>A view carries the fields of its snapshot and the label of its status.\<close>

definition hedgeMonitorSnapshotView :: "HedgeMonitorSnapshot \<Rightarrow> HedgeMonitorSnapshotView" where
  "hedgeMonitorSnapshotView item =
     \<lparr>vw_snapshot = item, vw_status_label = MonitorStatusLabel (ms_status item)\<rparr>"

definition monitorExposureKey :: "HedgeMonitorSnapshot \<Rightarrow> int \<times> string \<times> string" where
  "monitorExposureKey item = (ms_agent_id item, normalizeExposureSource (ms_source item),
     normalizeExposureSymbol (ms_symbol item))"

fun addItems ::
    "HedgeMonitorSnapshot list \<Rightarrow> (int \<times> string \<times> string) set \<Rightarrow> HedgeMonitorList \<Rightarrow> HedgeMonitorList" where
  "addItems [] counted result = result"
| "addItems (item # items) counted result =
    (let key = monitorExposureKey item; sm = hl_summary result;
         sm1 = (if key \<notin> counted
                then sm\<lparr>su_net_exposure := su_net_exposure sm + \<bar>ms_net_notional item\<bar>\<rparr> else sm);
         sm2 = sm1\<lparr>su_target_hedge := su_target_hedge sm1 + \<bar>ms_target_hedge item\<bar>,
                    su_actual_hedge := su_actual_hedge sm1 + \<bar>ms_actual_hedge item\<bar>\<rparr>
     in addItems items (insert key counted) \<lparr>hl_summary = sm2,
          hl_items = hl_items result @ [hedgeMonitorSnapshotView item]\<rparr>)"

definition buildHedgeMonitorList :: "HedgeMonitorSnapshot list \<Rightarrow> HedgeMonitorList" where
  "buildHedgeMonitorList items =
    (let result = addItems items {} \<lparr>hl_summary = \<lparr>su_net_exposure = 0, su_target_hedge = 0,
           su_actual_hedge = 0, su_items = 0\<rparr>, hl_items = []\<rparr>
     in result\<lparr>hl_summary := (hl_summary result)\<lparr>su_items := length (hl_items result)\<rparr>\<rparr>)"

definition ListMonitor :: "'w HedgeMonitorService \<Rightarrow> nat \<Rightarrow> ('w, HedgeMonitorList) io" where
  "ListMonitor s agentID =
     (if agentID = 0 then throw (ErrMsg ''agent_id is required'')
      else bnd (wrapIO ''list hedge monitor snapshots''
             (mo_ListHedgeMonitorSnapshots (mv_store s) (int64 agentID))) (\<lambda>items.
           ret (buildHedgeMonitorList items)))"

end
