(* ===== verification/MonitorRuns.thy ===== *)
theory MonitorRuns
  imports Monitor World
begin

text \<open>
  Properties of the monitor: what a snapshot says is what the next hedge run would do, every snapshot is
  one the table accepts, a refresh brings the stored snapshots in line with the configurations, and the
  totals of the list are the totals of its items.
\<close>

section \<open>The monitor and the calculator\<close>

text \<open>The monitor's word for a decision.\<close>

definition actionStatusFor :: "action \<Rightarrow> string" where
  "actionStatusFor act = (case act of
     ActionOpen \<Rightarrow> MonitorActionOpenRequired | ActionRebalance \<Rightarrow> MonitorActionRebalanceRequired
   | ActionExit \<Rightarrow> MonitorActionExitRequired | _ \<Rightarrow> MonitorActionBalanced)"

lemma Calculate_action:
  assumes v: "validRun c e"
  shows "\<exists>d. Calculate dv c e p = Ok d \<and> d_action d =
    (if chosenAction c e p = ActionHold \<or> tooSmall c (chosenAction c e p) (aim c e - hp_notional p)
     then ActionHold else chosenAction c e p)"
proof (cases "chosenAction c e p = ActionHold")
  case True
  then show ?thesis using Calculate_held [OF v True, of dv] by auto
next
  case False
  from v have mark: "he_mark_price e > 0" by (simp add: validRun_def)
  from mark show ?thesis unfolding Calculate_chosen [OF v False]
    by (cases rule: planAdjustment_cases
          [of e dv c p "startDecision c p (chosenAction c e p)" "aim c e"])
      (use False in auto)
qed

lemma monitorTarget_aim: "monitorTarget c (Some e) = aim (toHedgeConfig c) (toExposure e)"
  by (simp add: monitorTarget_def aim_def hedgeTarget_def toHedgeConfig_def toExposure_def Let_def)

lemma monitorAction_chosen:
  assumes "cf_min_order c > 0"
  shows "fst (monitorAction c (es_net_notional e) (hp_notional p)
      (aim (toHedgeConfig c) (toExposure e) - hp_notional p)) =
    actionStatusFor (let act = chosenAction (toHedgeConfig c) (toExposure e) p
      in if act = ActionHold \<or> tooSmall (toHedgeConfig c) act
              (aim (toHedgeConfig c) (toExposure e) - hp_notional p)
         then ActionHold else act)"
  using assms
  by (auto simp: monitorAction_def chosenAction_def tooSmall_def actionStatusFor_def aim_def Let_def
      toHedgeConfig_def toExposure_def not_less not_le)

lemma snapshot_simps:
  "um_config_id (calculateHedgeMonitorSnapshot mc e p x now es ps) = int64 (cf_id (mc_config mc))"
  "um_action_status (calculateHedgeMonitorSnapshot mc e p x now es ps) =
     fst (monitorAction (mc_config mc) (case e of Some e \<Rightarrow> es_net_notional e | None \<Rightarrow> 0)
       (case p of Some p \<Rightarrow> signedPositionNotional p | None \<Rightarrow> 0)
       (monitorTarget (mc_config mc) e - (case p of Some p \<Rightarrow> signedPositionNotional p | None \<Rightarrow> 0)))"
  "um_target_hedge (calculateHedgeMonitorSnapshot mc e p x now es ps) = monitorTarget (mc_config mc) e"
  "um_actual_hedge (calculateHedgeMonitorSnapshot mc e p x now es ps) =
     (case p of Some p \<Rightarrow> signedPositionNotional p | None \<Rightarrow> 0)"
  "um_switch_status (calculateHedgeMonitorSnapshot mc e p x now es ps) = fst (monitorSwitch mc)"
  "um_health_status (calculateHedgeMonitorSnapshot mc e p x now es ps) =
     fst (monitorHealth (mc_config mc) e p x now es ps)"
  "um_status (calculateHedgeMonitorSnapshot mc e p x now es ps) =
     (let act = monitorAction (mc_config mc) (case e of Some e \<Rightarrow> es_net_notional e | None \<Rightarrow> 0)
         (case p of Some p \<Rightarrow> signedPositionNotional p | None \<Rightarrow> 0)
         (monitorTarget (mc_config mc) e - (case p of Some p \<Rightarrow> signedPositionNotional p | None \<Rightarrow> 0));
        hl = monitorHealth (mc_config mc) e p x now es ps; sw = monitorSwitch mc
      in fst (mergeMonitorStatus (fst sw) (snd sw) (fst hl) (snd hl) (fst act) (snd act)))"
  by (simp_all add: calculateHedgeMonitorSnapshot_def Let_def case_prod_beta)


section \<open>Snapshots the table accepts\<close>

text \<open>C20: every snapshot the monitor computes satisfies the CHECK constraints of its table, whatever rows it
  is computed from, so the upsert never refuses it.\<close>

theorem snapshots_are_accepted:
  "monitorChecks (calculateHedgeMonitorSnapshot mc e p x now es ps) \<and>
   (\<exists>r. fst (UpsertHedgeMonitorSnapshot t (calculateHedgeMonitorSnapshot mc e p x now es ps) db) = Ok r)"
proof -
  have sw: "fst (monitorSwitch mc) \<in> set switchStatuses"
    by (simp add: monitorSwitch_def switchStatuses_def monitor_switch_defs)
  have hl: "fst (monitorHealth (mc_config mc) e p x now es ps) \<in> set healthStatuses"
    by (auto simp: monitorHealth_def healthStatuses_def monitor_health_defs Let_def split: option.split)
  have act: "fst (monitorAction c n a d) \<in> set actionStatuses" for c n a d
    by (simp add: monitorAction_def actionStatuses_def monitor_action_defs)
  have merged: "fst (mergeMonitorStatus s1 r1 h1 q1 a1 b1) \<in> set monitorStatuses"
    if "s1 \<in> set switchStatuses" "h1 \<in> set healthStatuses" "a1 \<in> set actionStatuses" for s1 r1 h1 q1 a1 b1
    using that by (auto simp: mergeMonitorStatus_def monitorStatuses_def switchStatuses_def
        healthStatuses_def actionStatuses_def monitor_defs)
  have "monitorChecks (calculateHedgeMonitorSnapshot mc e p x now es ps)"
    unfolding monitorChecks_def snapshot_simps Let_def
    using sw hl act merged by blast
  then show ?thesis using UpsertHedgeMonitorSnapshot_ok by (metis fst_conv)
qed


section \<open>A refresh\<close>

definition liveConfigIn :: "MgmtDB \<Rightarrow> int \<Rightarrow> bool" where
  "liveConfigIn db i = list_ex (\<lambda>c. int64 (cf_id c) = i) (md_configs db)"

definition liveMonitorStore :: "'x World HedgeMonitorStore" where
  "liveMonitorStore = \<lparr>
     mo_ListAllExposureSnapshots = onCore (\<lambda>_. ListAllExposureSnapshots),
     mo_ListAllHedgePositionSnapshots = onCore (\<lambda>_. ListAllHedgePositionSnapshots),
     mo_ListLatestOrderExecutionStates = onCore (\<lambda>_. ListLatestOrderExecutionStates),
     mo_UpsertHedgeMonitorSnapshot = (\<lambda>a. onCore (\<lambda>now. UpsertHedgeMonitorSnapshot now a)),
     mo_PruneHedgeMonitorSnapshots = faulty (\<lambda>w.
       case PruneHedgeMonitorSnapshots (liveConfigIn (w_mgmt w)) (w_core w) of (r, db) \<Rightarrow> (r, w\<lparr>w_core := db\<rparr>)),
     mo_ListHedgeMonitorSnapshots = (\<lambda>i. onCore (\<lambda>_. ListHedgeMonitorSnapshots i))\<rparr>"

definition liveMonitor :: "duration \<Rightarrow> duration \<Rightarrow> 'x World HedgeMonitorService" where
  "liveMonitor exposureStale positionStale =
     NewHedgeMonitorService (onMgmt (\<lambda>_. ListHedgeMonitorConfigs)) liveMonitorStore readClock
       exposureStale positionStale"

lemma onCore_ok: "w_faults w = [] \<Longrightarrow> onCore m w =
    (case m (w_clock w) (w_core w) of (r, db) \<Rightarrow> (r, w\<lparr>w_core := db\<rparr>))"
  by (simp add: onCore_def faulty_def)

lemma onMgmt_ok: "w_faults w = [] \<Longrightarrow> onMgmt m w =
    (case m (w_clock w) (w_mgmt w) of (r, db) \<Rightarrow> (r, w\<lparr>w_mgmt := db\<rparr>))"
  by (simp add: onMgmt_def faulty_def)

lemma refreshConfigs_live:
  assumes "w_faults w = []" and "\<And>mc. monitorChecks (params mc)"
    and "mv_store s = liveMonitorStore"
  shows "refreshConfigs s params mcs result w =
    (Ok (result\<lparr>rf_updated := rf_updated result + length mcs\<rparr>),
     w\<lparr>w_core := fold (\<lambda>mc. putMonitor (w_clock w) (params mc)) mcs (w_core w)\<rparr>)"
  using assms(1)
proof (induction mcs arbitrary: result w)
  case Nil
  then show ?case by (simp add: ret_def)
next
  case (Cons mc mcs)
  obtain r where r: "UpsertHedgeMonitorSnapshot (w_clock w) (params mc) (w_core w) =
      (Ok r, putMonitor (w_clock w) (params mc) (w_core w))"
    using UpsertHedgeMonitorSnapshot_ok [OF assms(2)] by blast
  then have "mo_UpsertHedgeMonitorSnapshot (mv_store s) (params mc) w =
      (Ok r, w\<lparr>w_core := putMonitor (w_clock w) (params mc) (w_core w)\<rparr>)"
    using Cons.prems by (simp add: assms(3) liveMonitorStore_def onCore_ok)
  then show ?case using Cons by (simp add: bnd_def attempt_def)
qed

lemma fold_putMonitor_distinct:
  "distinct (map ms_config_id (db_monitor db)) \<Longrightarrow>
   distinct (map ms_config_id (db_monitor (fold (putMonitor now) ps db)))"
  by (induction ps arbitrary: db) (simp_all add: putMonitor_def distinct_upsertRow)

lemma getMonitor_filter:
  "live x \<Longrightarrow> findRow (\<lambda>r. ms_config_id r = x) (filter (\<lambda>r. live (ms_config_id r)) rows) =
     findRow (\<lambda>r. ms_config_id r = x) rows"
  by (induction rows) (auto simp: findRow_Cons)

lemma config_ids_distinct:
  assumes "wfConfigs db" and "\<forall>c \<in> set (md_configs db). cf_id c \<le> maxInt64"
  shows "distinct (map (\<lambda>c. int64 (cf_id c)) (md_configs db))"
  using assms by (auto simp: wfConfigs_def distinct_map inj_on_def int64_small)

text \<open>C19: a refresh brings the stored snapshots in line with the configurations. When no call fails, it writes
  one snapshot for every live configuration, computed from the stored rows, reports no failure, drops the
  snapshots of configurations that are gone, and leaves exactly one row per live configuration.\<close>

theorem refresh_mirrors_configs:
  fixes w :: "'x World"
  assumes nf: "w_faults w = []" and wf: "wfConfigs (w_mgmt w)"
    and small: "\<forall>c \<in> set (md_configs (w_mgmt w)). cf_id c \<le> maxInt64"
    and uniq: "distinct (map ms_config_id (db_monitor (w_core w)))"
  shows "\<exists>r w' es' ps' xs' ms. Refresh (liveMonitor es ps) w = (Ok r, w') \<and>
    rf_updated r = length (md_configs (w_mgmt w)) \<and> rf_failures r = [] \<and>
    distinct (map ms_config_id (db_monitor (w_core w'))) \<and>
    set (map ms_config_id (db_monitor (w_core w'))) =
      set (map (\<lambda>c. int64 (cf_id c)) (md_configs (w_mgmt w))) \<and>
    fst (ListAllExposureSnapshots (w_core w)) = Ok es' \<and>
    fst (ListAllHedgePositionSnapshots (w_core w)) = Ok ps' \<and>
    fst (ListLatestOrderExecutionStates (w_core w)) = Ok xs' \<and>
    fst (ListHedgeMonitorConfigs (w_mgmt w)) = Ok ms \<and>
    list_all (\<lambda>mc. \<exists>row. getMonitor (w_core w') (int64 (cf_id (mc_config mc))) = Some row \<and>
      row = monitorRow (w_clock w + 1) (ms_id row)
        (snapshotFor (liveMonitor es ps :: 'x World HedgeMonitorService) es' ps' xs' (w_clock w) mc)) ms"
proof -
  let ?s = "liveMonitor es ps :: 'x World HedgeMonitorService"
  let ?db = "w_mgmt w"
  let ?mc = "\<lambda>c. \<lparr>mc_config = preloadAccount ?db c,
      mc_global_enabled = enabledByAgent (md_settings ?db) (cf_agent_id c)\<rparr>"
  let ?ms = "map ?mc (md_configs ?db)"
  obtain es' where es': "fst (ListAllExposureSnapshots (w_core w)) = Ok es'"
    by (simp add: ListAllExposureSnapshots_def)
  obtain ps' where ps': "fst (ListAllHedgePositionSnapshots (w_core w)) = Ok ps'"
    by (simp add: ListAllHedgePositionSnapshots_def)
  obtain xs' where xs': "fst (ListLatestOrderExecutionStates (w_core w)) = Ok xs'"
    by (simp add: ListLatestOrderExecutionStates_def)
  have reads: "ListAllExposureSnapshots (w_core w) = (Ok es', w_core w)"
    "ListAllHedgePositionSnapshots (w_core w) = (Ok ps', w_core w)"
    "ListLatestOrderExecutionStates (w_core w) = (Ok xs', w_core w)"
    using es' ps' xs' by (simp_all add: ListAllExposureSnapshots_def ListAllHedgePositionSnapshots_def
        ListLatestOrderExecutionStates_def)
  have configs: "ListHedgeMonitorConfigs ?db = (Ok ?ms, ?db)"
    by (simp add: ListHedgeMonitorConfigs_def ListHedgeConfigs_def bnd_def)
  let ?params = "snapshotFor ?s es' ps' xs' (w_clock w)"
  let ?t = "w_clock w + 1"
  let ?core = "fold (\<lambda>mc. putMonitor ?t (?params mc)) ?ms (w_core w)"
  let ?core' = "?core\<lparr>db_monitor := filter (\<lambda>r. liveConfigIn ?db (ms_config_id r)) (db_monitor ?core)\<rparr>"
  have checks: "monitorChecks (?params mc)" for mc
    using snapshots_are_accepted by (simp add: snapshotFor_def Let_def)
  have store: "mv_store ?s = liveMonitorStore"
    by (simp add: liveMonitor_def NewHedgeMonitorService_def)
  have now: "mv_now ?s = readClock" "mv_ListHedgeMonitorConfigs ?s = onMgmt (\<lambda>_. ListHedgeMonitorConfigs)"
    by (simp_all add: liveMonitor_def NewHedgeMonitorService_def)
  have run: "\<exists>r. Refresh ?s w = (Ok r, w\<lparr>w_clock := ?t, w_core := ?core'\<rparr>) \<and>
      rf_updated r = length (md_configs ?db) \<and> rf_failures r = []"
    by (simp add: Refresh_def now store refreshConfigs_live [OF _ checks store] nf)
      (simp add: bnd_def wrapIO_def onMgmt_ok onCore_ok nf configs reads readClock_def liveMonitorStore_def
        refreshConfigs_live [OF _ checks store] faulty_def PruneHedgeMonitorSnapshots_def ret_def Let_def)
  have key: "um_config_id (?params mc) = int64 (cf_id (mc_config mc))" for mc
    by (simp add: snapshotFor_def Let_def snapshot_simps)
  have fold_eq: "?core = fold (putMonitor ?t) (map ?params ?ms) (w_core w)"
    by (simp add: fold_map comp_def)
  have keys: "distinct (map um_config_id (map ?params ?ms))"
    using config_ids_distinct [OF wf small] by (simp add: comp_def key)
  have uniq': "distinct (map ms_config_id (db_monitor ?core'))"
    using fold_putMonitor_distinct [OF uniq, of ?t "map ?params ?ms"]
    unfolding fold_eq by (simp add: distinct_map_filter)
  have stored: "\<exists>row. getMonitor ?core' (int64 (cf_id (mc_config mc))) = Some row \<and>
      row = monitorRow ?t (ms_id row) (?params mc)" if mc: "mc \<in> set ?ms" for mc
  proof -
    have "\<exists>row. getMonitor ?core (um_config_id (?params mc)) = Some row \<and>
        row = monitorRow ?t (ms_id row) (?params mc)"
      unfolding fold_eq by (rule monitors.get_fold_distinct [OF keys]) (use mc in auto)
    moreover have "liveConfigIn ?db (int64 (cf_id (mc_config mc)))"
      using mc by (auto simp: liveConfigIn_def list_ex_iff)
    ultimately show ?thesis by (simp add: getMonitor_def getMonitor_filter key)
  qed
  have present: "set (map ms_config_id (db_monitor ?core')) =
      set (map (\<lambda>c. int64 (cf_id c)) (md_configs ?db))"
  proof
    show "set (map ms_config_id (db_monitor ?core')) \<subseteq> set (map (\<lambda>c. int64 (cf_id c)) (md_configs ?db))"
      by (auto simp: liveConfigIn_def list_ex_iff image_iff dest: sym)
    show "set (map (\<lambda>c. int64 (cf_id c)) (md_configs ?db)) \<subseteq> set (map ms_config_id (db_monitor ?core'))"
    proof
      fix i assume "i \<in> set (map (\<lambda>c. int64 (cf_id c)) (md_configs ?db))"
      then obtain c where c: "c \<in> set (md_configs ?db)" "i = int64 (cf_id c)" by auto
      from stored [of "?mc c"] c obtain row where "getMonitor ?core' i = Some row" by auto
      then show "i \<in> set (map ms_config_id (db_monitor ?core'))"
        unfolding getMonitor_def by (auto dest!: findRow_SomeD)
    qed
  qed
  from run obtain r where r: "Refresh ?s w = (Ok r, w\<lparr>w_clock := ?t, w_core := ?core'\<rparr>)"
    "rf_updated r = length (md_configs ?db)" "rf_failures r = []" by blast
  show ?thesis
    by (rule exI [of _ r], rule exI [of _ "w\<lparr>w_clock := ?t, w_core := ?core'\<rparr>"], rule exI [of _ es'],
        rule exI [of _ ps'], rule exI [of _ xs'], rule exI [of _ ?ms])
      (use r uniq' present stored reads configs in \<open>simp add: list_all_iff\<close>)
qed

definition monitorWorld :: "unit World" where
  "monitorWorld = \<lparr>w_core = emptyCoreDB, w_mgmt = exampleMgmt, w_ext = (), w_redis = Map.empty,
     w_orders = [], w_queue = [], w_clock = 100, w_rand = 0, w_faults = []\<rparr>"

lemma refresh_mirrors_configs_witness:
  "\<exists>r w'. Refresh (liveMonitor 0 0) monitorWorld = (Ok r, w') \<and> rf_updated r = 1 \<and>
     set (map ms_config_id (db_monitor (w_core w'))) = {7}"
proof -
  have "w_faults monitorWorld = []" "wfConfigs (w_mgmt monitorWorld)"
    "\<forall>c \<in> set (md_configs (w_mgmt monitorWorld)). cf_id c \<le> maxInt64"
    "distinct (map ms_config_id (db_monitor (w_core monitorWorld)))"
    using exampleMgmt_wf by (simp_all add: monitorWorld_def emptyCoreDB_def exampleMgmt_def exampleHedge_def
        maxInt64_def)
  from refresh_mirrors_configs [OF this, of 0 0] show ?thesis
    by (auto simp: monitorWorld_def exampleMgmt_def exampleHedge_def int64_small maxInt64_def)
qed

section \<open>Totals\<close>

text \<open>The notional the summary counts for an exposure: the first item that shows it.\<close>

definition firstNotional :: "HedgeMonitorSnapshot list \<Rightarrow> int \<times> string \<times> string \<Rightarrow> decimal" where
  "firstNotional items k = (case findRow (\<lambda>i. monitorExposureKey i = k) items of
     Some i \<Rightarrow> \<bar>ms_net_notional i\<bar> | None \<Rightarrow> 0)"

lemma addItems_sums:
  "hl_items (addItems items counted result) = hl_items result @ map hedgeMonitorSnapshotView items"
  "su_target_hedge (hl_summary (addItems items counted result)) =
     su_target_hedge (hl_summary result) + (\<Sum>i \<leftarrow> items. \<bar>ms_target_hedge i\<bar>)"
  "su_actual_hedge (hl_summary (addItems items counted result)) =
     su_actual_hedge (hl_summary result) + (\<Sum>i \<leftarrow> items. \<bar>ms_actual_hedge i\<bar>)"
  by (induction items arbitrary: counted result) (simp_all add: Let_def)

lemma addItems_net:
  "su_net_exposure (hl_summary (addItems items counted result)) =
     su_net_exposure (hl_summary result) +
     (\<Sum>k \<in> monitorExposureKey ` set items - counted. firstNotional items k)"
proof (induction items arbitrary: counted result)
  case (Cons i items)
  let ?k = "monitorExposureKey i"
  let ?K = "monitorExposureKey ` set items"
  have first: "firstNotional (i # items) k = (if k = ?k then \<bar>ms_net_notional i\<bar> else firstNotional items k)" for k
    by (auto simp: firstNotional_def findRow_Cons)
  have step: "su_net_exposure (hl_summary (addItems (i # items) counted result)) =
      su_net_exposure (hl_summary result) + (if ?k \<in> counted then 0 else \<bar>ms_net_notional i\<bar>) +
      (\<Sum>k \<in> ?K - insert ?k counted. firstNotional items k)"
    by (simp only: addItems.simps Let_def Cons.IH) simp
  have rest: "(\<Sum>k \<in> ?K - insert ?k counted. firstNotional (i # items) k) =
      (\<Sum>k \<in> ?K - insert ?k counted. firstNotional items k)"
    by (rule sum.cong) (auto simp: first)
  have keys: "monitorExposureKey ` set (i # items) - counted =
      (if ?k \<in> counted then ?K - insert ?k counted else insert ?k (?K - insert ?k counted))"
    by auto
  have total: "(\<Sum>k \<in> monitorExposureKey ` set (i # items) - counted. firstNotional (i # items) k) =
      (if ?k \<in> counted then 0 else \<bar>ms_net_notional i\<bar>) +
      (\<Sum>k \<in> ?K - insert ?k counted. firstNotional items k)"
  proof (cases "?k \<in> counted")
    case True
    then show ?thesis unfolding keys by (simp add: rest)
  next
    case False
    have "(\<Sum>k \<in> insert ?k (?K - insert ?k counted). firstNotional (i # items) k) =
        firstNotional (i # items) ?k + (\<Sum>k \<in> ?K - insert ?k counted. firstNotional (i # items) k)"
      by (rule sum.insert) simp_all
    also have "\<dots> = \<bar>ms_net_notional i\<bar> +
        (\<Sum>k \<in> ?K - insert ?k counted. firstNotional items k)"
      unfolding rest by (simp add: first)
    finally show ?thesis using False unfolding keys by simp
  qed
  show ?case unfolding step total by simp
qed simp

text \<open>The totals of the monitor list are those of its items: one view per snapshot in the same order,
  absolute target and actual hedges summed over all configurations, and each net exposure counted once
  however many configurations (accounts) hedge it.\<close>

theorem list_totals:
  "map vw_snapshot (hl_items (buildHedgeMonitorList items)) = items \<and>
   su_items (hl_summary (buildHedgeMonitorList items)) = length items \<and>
   su_target_hedge (hl_summary (buildHedgeMonitorList items)) = (\<Sum>i \<leftarrow> items. \<bar>ms_target_hedge i\<bar>) \<and>
   su_actual_hedge (hl_summary (buildHedgeMonitorList items)) = (\<Sum>i \<leftarrow> items. \<bar>ms_actual_hedge i\<bar>) \<and>
   su_net_exposure (hl_summary (buildHedgeMonitorList items)) =
     (\<Sum>k \<in> set (map monitorExposureKey items). firstNotional items k)"
  by (simp add: buildHedgeMonitorList_def Let_def addItems_sums addItems_net comp_def
      hedgeMonitorSnapshotView_def)

end
