(* ===== verification/GoTime.thy ===== *)
theory GoTime
  imports GoStd
begin

text \<open>
  The text of an instant in UTC (\<open>time.RFC3339Nano\<close>): the proleptic Gregorian date of a day number,
  and the fraction of a second without its trailing zeros. An instant counts nanoseconds from
  0001-01-01T00:00:00Z.
\<close>

text \<open>Year, month and day of the day \<open>n\<close> days after 0001-01-01; years are counted from 1 March, in
  eras of 400 years.\<close>

definition civilDate :: "int \<Rightarrow> int \<times> int \<times> int" where
  "civilDate n =
    (let z = n + 306; era = z div 146097; doe = z mod 146097;
         yoe = (doe - doe div 1460 + doe div 36524 - doe div 146096) div 365;
         doy = doe - (365 * yoe + yoe div 4 - yoe div 100);
         mp = (5 * doy + 2) div 153;
         d = doy - (153 * mp + 2) div 5 + 1;
         m = (if mp < 10 then mp + 3 else mp - 9)
     in (yoe + era * 400 + (if m \<le> 2 then 1 else 0), m, d))"

definition padLeft :: "nat \<Rightarrow> int \<Rightarrow> string" where
  "padLeft w i = (let s = showInt i in replicate (w - length s) CHR ''0'' @ s)"

definition fractionText :: "int \<Rightarrow> string" where
  "fractionText ns = (if ns = 0 then ''''
     else CHR ''.'' # rev (dropWhile (\<lambda>c. c = CHR ''0'') (rev (padLeft 9 ns))))"

definition formatRFC3339Nano :: "time \<Rightarrow> string" where
  "formatRFC3339Nano t =
    (let secs = t div second; ns = t mod second; day = secs div 86400; sec = secs mod 86400;
         (y, m, d) = civilDate day
     in padLeft 4 y @ ''-'' @ padLeft 2 m @ ''-'' @ padLeft 2 d @ ''T'' @ padLeft 2 (sec div 3600) @ '':'' @
        padLeft 2 (sec div 60 mod 60) @ '':'' @ padLeft 2 (sec mod 60) @ fractionText ns @ ''Z'')"

end
