(* ===== verification/Simulated.thy ===== *)
theory Simulated
  imports ExchangeTypes Sha256 GoTime "HOL-Library.AList" "HOL-Library.Multiset"
begin

text \<open>
  The simulated exchange (\<open>internal/exchange/simulated.go\<close>), an implementation of the \<open>Adapter\<close>
  interface. Its two Go maps are an association list of orders in the order of their first insertion and
  a map of client order ids. Go visits a map in an order it does not promise: the visiting orders are the
  parameters \<open>visitO\<close> and \<open>visitS\<close>, of which only a permutation is ever assumed. Contexts are not
  cancelled, the mutex makes every operation atomic, and a \<open>nil\<close> map (\<open>ensureState\<close>) is an empty one.
  \<open>time.Now\<close> reads a clock that advances.
\<close>

record SimulatedAdapter =
  sa_orders :: "(string \<times> OrderResult) list"
  sa_client_orders :: "string \<rightharpoonup> string"
  sa_clock :: time

definition NewSimulatedAdapter :: "time \<Rightarrow> SimulatedAdapter" where
  "NewSimulatedAdapter now = \<lparr>sa_orders = [], sa_client_orders = Map.empty, sa_clock = now\<rparr>"

definition simNow :: "(SimulatedAdapter, time) io" where
  "simNow a = (Ok (sa_clock a), a\<lparr>sa_clock := sa_clock a + 1\<rparr>)"

definition simulatedRaw :: "AccountConfig \<Rightarrow> raw \<Rightarrow> raw" where
  "simulatedRaw account values =
     [''simulated'' \<mapsto> RawBool True, ''exchange'' \<mapsto> RawString (ac_exchange account),
      ''account_name'' \<mapsto> RawString (ac_account_name account),
      ''ccxt_id'' \<mapsto> RawString (ac_ccxt_id account),
      ''market_type'' \<mapsto> RawString (ac_market_type account),
      ''sandbox'' \<mapsto> RawBool (ac_sandbox account)] ++ values"

definition simulatedPrice :: "string \<Rightarrow> decimal" where
  "simulatedPrice symbol =
    (let s = ToUpper symbol
     in if HasPrefix s ''BTC'' then 50000 else if HasPrefix s ''ETH'' then 4000
        else if HasPrefix s ''SOL'' then 150 else 1)"

definition averageEntry :: "(decimal \<Rightarrow> decimal \<Rightarrow> decimal) \<Rightarrow> decimal \<Rightarrow> decimal \<Rightarrow> decimal result" where
  "averageEntry dv notional quantity = (if quantity = 0 then Ok 0 else decDiv dv notional quantity)"

definition orDefaultUpper :: "string \<Rightarrow> string \<Rightarrow> string" where
  "orDefaultUpper s d = (let u = ToUpper (TrimSpace s) in if u = '''' then d else u)"

section \<open>Balances, tickers and markets\<close>

fun balanceItems :: "time \<Rightarrow> string list \<Rightarrow> BalanceAsset list result" where
  "balanceItems now [] = Ok []"
| "balanceItems now (asset # assets) =
    (let a = ToUpper (TrimSpace asset)
     in if a = '''' then Err (ErrMsg ''asset is required'')
        else rbind (balanceItems now assets) (\<lambda>items.
          Ok (\<lparr>ba_asset = a, ba_free = 1000000, ba_used = 0, ba_total = 1000000, ba_debt = 0,
               ba_updated_at = now\<rparr> # items)))"

definition simFetchBalance :: "FetchBalanceRequest \<Rightarrow> (SimulatedAdapter, BalanceResult) io" where
  "simFetchBalance req =
    (let assets = (if fb_assets req = [] then [orDefaultUpper (ac_default_settle (fb_account req)) ''USDT'']
                   else fb_assets req)
     in bnd simNow (\<lambda>now.
        bnd (lift (balanceItems now assets)) (\<lambda>items.
        ret \<lparr>br_exchange = ac_exchange (fb_account req), br_account_name = ac_account_name (fb_account req),
             br_assets = items,
             br_raw = simulatedRaw (fb_account req) [''assets'' \<mapsto> RawStrings assets]\<rparr>)))"

definition simFetchTicker :: "FetchTickerRequest \<Rightarrow> (SimulatedAdapter, Ticker) io" where
  "simFetchTicker req =
    (let symbol = TrimSpace (ft_symbol req); last = simulatedPrice symbol
     in if symbol = '''' then throw (ErrMsg ''symbol is required'')
        else bnd simNow (\<lambda>now.
          ret \<lparr>tk_exchange = ac_exchange (ft_account req), tk_symbol = symbol, tk_last = last, tk_mark = last,
               tk_bid = last * (999 / 1000), tk_ask = last * (1001 / 1000), tk_bid_size = 10,
               tk_ask_size = 10, tk_updated_at = now,
               tk_raw = simulatedRaw (ft_account req) [''symbol'' \<mapsto> RawString symbol]\<rparr>))"

definition simMarket ::
    "AccountConfig \<Rightarrow> string \<Rightarrow> string \<Rightarrow> string \<Rightarrow> string \<Rightarrow> time \<Rightarrow> string \<Rightarrow> Market" where
  "simMarket account exchangeName ccxtID marketType settle now base =
    (let symbol = base @ ''/'' @ settle @ '':'' @ settle
     in \<lparr>mk_exchange = exchangeName, mk_ccxt_id = ccxtID, mk_symbol = symbol, mk_base = base,
         mk_quote = settle, mk_settle = settle, mk_market_type = marketType, mk_active = True,
         mk_contract = (marketType = ''swap'' \<or> marketType = ''future''),
         mk_linear = (settle = ''USDT'' \<or> settle = ''USDC''), mk_inverse = False,
         mk_spot = (marketType = ''spot''), mk_swap = (marketType = ''swap''),
         mk_future = (marketType = ''future''), mk_option = False, mk_price_precision = 1 / 10,
         mk_amount_precision = 1 / 1000, mk_min_amount = 1 / 1000, mk_min_cost = 5,
         mk_contract_size = 1, mk_created_at = now,
         mk_raw = simulatedRaw account [''symbol'' \<mapsto> RawString symbol]\<rparr>)"

definition simFetchMarkets :: "FetchMarketsRequest \<Rightarrow> (SimulatedAdapter, Market list) io" where
  "simFetchMarkets req =
    (let account = fm_account req;
         exchangeName = (if TrimSpace (ac_exchange account) = '''' then ''Simulated''
                         else TrimSpace (ac_exchange account));
         ccxtID = (if TrimSpace (ac_ccxt_id account) = '''' then ToLower exchangeName
                   else TrimSpace (ac_ccxt_id account));
         marketType = (if ToLower (TrimSpace (ac_market_type account)) = '''' then ''swap''
                       else ToLower (TrimSpace (ac_market_type account)));
         settle = orDefaultUpper (ac_default_settle account) ''USDT''
     in bnd simNow (\<lambda>now.
        ret (map (simMarket account exchangeName ccxtID marketType settle now) [''BTC'', ''ETH'', ''SOL''])))"

section \<open>Orders\<close>

definition storeOrder :: "OrderResult \<Rightarrow> SimulatedAdapter \<Rightarrow> SimulatedAdapter" where
  "storeOrder r a = a\<lparr>sa_orders := AList.update (or_exchange_order_id r) r (sa_orders a),
     sa_client_orders := (if or_client_order_id r \<noteq> ''''
       then (sa_client_orders a)(or_client_order_id r \<mapsto> or_exchange_order_id r)
       else sa_client_orders a)\<rparr>"

definition simOrderID :: "string \<Rightarrow> time \<Rightarrow> string" where
  "simOrderID clientOrderID now =
     ''sim_'' @ take 24 (hexEncode (Sum256 (clientOrderID @ formatRFC3339Nano now)))"

text \<open>\<open>simulate_status\<close> of the request's parameters overrides the filled status.\<close>

definition simStatus :: "raw \<Rightarrow> string" where
  "simStatus params = (case params ''simulate_status'' of
     Some (RawString st) \<Rightarrow> if TrimSpace st \<noteq> '''' then ToLower (TrimSpace st) else OrderStatusFilled
   | _ \<Rightarrow> OrderStatusFilled)"

definition simResult :: "PlaceOrderRequest \<Rightarrow> string \<Rightarrow> time \<Rightarrow> OrderResult" where
  "simResult req orderID now =
    (let status = simStatus (po_exchange_order_params req)
     in \<lparr>or_exchange_order_id = orderID, or_client_order_id = po_client_order_id req,
         or_status = status, or_symbol = po_symbol req, or_side = ToUpper (po_side req),
         or_order_type = ToUpper (po_order_type req), or_quantity = po_quantity req,
         or_price = po_price req, or_reduce_only = po_reduce_only req,
         or_filled_quantity = (if status \<noteq> OrderStatusFilled then 0 else po_quantity req),
         or_avg_price = (if status \<noteq> OrderStatusFilled then 0 else po_price req),
         or_fee_usdt = 0, or_updated_at = now,
         or_raw = [''simulated'' \<mapsto> RawBool True,
           ''client_order_id'' \<mapsto> RawString (po_client_order_id req),
           ''exchange'' \<mapsto> RawString (po_exchange req),
           ''account_name'' \<mapsto> RawString (po_account_name req),
           ''ccxt_id'' \<mapsto> RawString (po_ccxt_id req),
           ''market_type'' \<mapsto> RawString (po_market_type req),
           ''sandbox'' \<mapsto> RawBool (po_sandbox req), ''symbol'' \<mapsto> RawString (po_symbol req)]\<rparr>)"

definition simPlaceOrder :: "PlaceOrderRequest \<Rightarrow> (SimulatedAdapter, OrderResult) io" where
  "simPlaceOrder req =
     (if TrimSpace (po_symbol req) = '''' then throw (ErrMsg ''symbol is required'')
      else if \<not> po_quantity req > 0 then throw (ErrMsg ''quantity must be greater than zero'')
      else if \<not> EqualFold (po_order_type req) ''market'' \<and> \<not> po_price req > 0
      then throw (ErrMsg ''price must be greater than zero for non-market order'')
      else bnd simNow (\<lambda>t1. bnd simNow (\<lambda>t2.
        let result = simResult req (simOrderID (po_client_order_id req) t1) t2
        in (\<lambda>a. (Ok result, storeOrder result a)))))"

definition findOrderLocked :: "string \<Rightarrow> string \<Rightarrow> SimulatedAdapter \<Rightarrow> OrderResult result" where
  "findOrderLocked orderID clientOrderID a =
    (case (if orderID \<noteq> '''' then map_of (sa_orders a) orderID else None) of
       Some r \<Rightarrow> Ok r
     | None \<Rightarrow>
         (case (if clientOrderID \<noteq> '''' then sa_client_orders a clientOrderID else None) of
            None \<Rightarrow> Err ErrOrderNotFound
          | Some i \<Rightarrow> (case map_of (sa_orders a) i of Some r \<Rightarrow> Ok r | None \<Rightarrow> Err ErrOrderNotFound)))"

definition simFetchOrder :: "FetchOrderRequest \<Rightarrow> (SimulatedAdapter, OrderResult) io" where
  "simFetchOrder req a = (findOrderLocked (fo_order_id req) (fo_client_order_id req) a, a)"

definition simFinal :: "string \<Rightarrow> bool" where
  "simFinal st \<longleftrightarrow> st = OrderStatusFilled \<or> st = OrderStatusCanceled \<or> st = OrderStatusFailed"

definition simCancelOrder :: "CancelOrderRequest \<Rightarrow> (SimulatedAdapter, OrderResult) io" where
  "simCancelOrder req =
     bnd (\<lambda>a. (findOrderLocked (co_order_id req) (co_client_order_id req) a, a)) (\<lambda>found.
     if simFinal (or_status found)
     then throw (ErrWrap (or_status found @ '' order cannot be canceled'') ErrOrderAlreadyFinal)
     else bnd simNow (\<lambda>now.
       let result = found\<lparr>or_status := OrderStatusCanceled, or_updated_at := now,
             or_raw := (or_raw found)(''canceled'' \<mapsto> RawBool True)\<rparr>
       in (\<lambda>a. (Ok result, storeOrder result a))))"

definition simSetLeverage :: "SetLeverageRequest \<Rightarrow> (SimulatedAdapter, CommandResult) io" where
  "simSetLeverage req =
     (if TrimSpace (sl_symbol req) = '''' then throw (ErrMsg ''symbol is required'')
      else if sl_leverage req \<le> 0 then throw (ErrMsg ''leverage must be greater than zero'')
      else ret \<lparr>cr_success = True, cr_raw = simulatedRaw (sl_account req)
        [''symbol'' \<mapsto> RawString (sl_symbol req), ''leverage'' \<mapsto> RawInt (sl_leverage req)]\<rparr>)"

definition simSetMarginMode :: "SetMarginModeRequest \<Rightarrow> (SimulatedAdapter, CommandResult) io" where
  "simSetMarginMode req =
    (let mode = ToLower (TrimSpace (sm_margin_mode req))
     in if TrimSpace (sm_symbol req) = '''' then throw (ErrMsg ''symbol is required'')
        else if mode \<noteq> ''cross'' \<and> mode \<noteq> ''isolated''
        then throw (ErrMsg ''margin_mode must be cross or isolated'')
        else ret \<lparr>cr_success = True, cr_raw = simulatedRaw (sm_account req)
          [''symbol'' \<mapsto> RawString (sm_symbol req), ''margin_mode'' \<mapsto> RawString mode]\<rparr>)"

section \<open>Positions\<close>

record simAggregate =
  sg_quantity :: decimal
  sg_notional :: decimal
  sg_mark :: decimal

definition zeroAggregate :: simAggregate where
  "zeroAggregate = \<lparr>sg_quantity = 0, sg_notional = 0, sg_mark = 0\<rparr>"

definition orderSign :: "OrderResult \<Rightarrow> decimal" where
  "orderSign order = (if EqualFold (or_side order) ''SELL'' \<or> EqualFold (or_side order) ''sell''
     then -1 else 1)"

text \<open>Whether an order counts for a positions request.\<close>

definition countsFor :: "FetchPositionsRequest \<Rightarrow> OrderResult \<Rightarrow> bool" where
  "countsFor req order =
    (let account = fp_account req;
         allowed = filter (\<lambda>s. s \<noteq> '''') (map TrimSpace (fp_symbols req))
     in or_status order = OrderStatusFilled
        \<and> \<not> (ac_exchange account \<noteq> '''' \<and> or_raw order ''exchange'' \<noteq> Some (RawString (ac_exchange account)))
        \<and> \<not> (ac_account_name account \<noteq> ''''
             \<and> or_raw order ''account_name'' \<noteq> Some (RawString (ac_account_name account)))
        \<and> (allowed = [] \<or> or_symbol order \<in> set allowed))"

definition addOrder :: "OrderResult \<Rightarrow> simAggregate \<Rightarrow> simAggregate" where
  "addOrder order current = current\<lparr>
     sg_quantity := sg_quantity current + or_filled_quantity order * orderSign order,
     sg_notional := sg_notional current + or_filled_quantity order * or_avg_price order * orderSign order,
     sg_mark := or_avg_price order\<rparr>"

text \<open>The loop over the orders; the map of aggregates is an association list.\<close>

fun aggregateOrders ::
    "FetchPositionsRequest \<Rightarrow> OrderResult list \<Rightarrow> (string \<times> simAggregate) list
      \<Rightarrow> (string \<times> simAggregate) list" where
  "aggregateOrders req [] acc = acc"
| "aggregateOrders req (order # orders) acc =
     (if countsFor req order
      then aggregateOrders req orders (AList.update (or_symbol order)
        (addOrder order (case map_of acc (or_symbol order) of Some g \<Rightarrow> g | None \<Rightarrow> zeroAggregate)) acc)
      else aggregateOrders req orders acc)"

fun simPositions ::
    "(decimal \<Rightarrow> decimal \<Rightarrow> decimal) \<Rightarrow> FetchPositionsRequest \<Rightarrow> time \<Rightarrow> (string \<times> simAggregate) list
      \<Rightarrow> ExPosition list result" where
  "simPositions dv req now [] = Ok []"
| "simPositions dv req now ((symbol, item) # rest) =
     (if sg_quantity item = 0 then simPositions dv req now rest
      else rbind (averageEntry dv (sg_notional item) (sg_quantity item)) (\<lambda>entry.
           rbind (simPositions dv req now rest) (\<lambda>positions.
           Ok (\<lparr>xp_exchange = ac_exchange (fp_account req),
                xp_account_name = ac_account_name (fp_account req), xp_symbol = symbol,
                xp_position_side = ''NET'', xp_quantity = sg_quantity item,
                xp_notional = sg_notional item, xp_entry_price = entry, xp_mark_price = sg_mark item,
                xp_unrealized_pnl = 0, xp_leverage = 1,
                xp_margin_mode = ac_margin_mode (fp_account req), xp_updated_at = now,
                xp_raw = simulatedRaw (fp_account req) [''symbol'' \<mapsto> RawString symbol]\<rparr> # positions))))"

type_synonym visitOrders = "(string \<times> OrderResult) list \<Rightarrow> (string \<times> OrderResult) list"
type_synonym visitSymbols = "(string \<times> simAggregate) list \<Rightarrow> (string \<times> simAggregate) list"

definition simFetchPositions ::
    "(decimal \<Rightarrow> decimal \<Rightarrow> decimal) \<Rightarrow> visitOrders \<Rightarrow> visitSymbols \<Rightarrow> FetchPositionsRequest
      \<Rightarrow> (SimulatedAdapter, ExPosition list) io" where
  "simFetchPositions dv visitO visitS req =
     bnd (\<lambda>a. (Ok (aggregateOrders req (map snd (visitO (sa_orders a))) []), a)) (\<lambda>aggregates.
     bnd simNow (\<lambda>now.
     lift (simPositions dv req now (visitS aggregates))))"

definition simulatedAdapter ::
    "(decimal \<Rightarrow> decimal \<Rightarrow> decimal) \<Rightarrow> visitOrders \<Rightarrow> visitSymbols \<Rightarrow> SimulatedAdapter Adapter" where
  "simulatedAdapter dv visitO visitS = \<lparr>FetchBalance = simFetchBalance,
     FetchPositions = simFetchPositions dv visitO visitS, FetchTicker = simFetchTicker,
     FetchMarkets = simFetchMarkets, PlaceOrder = simPlaceOrder, FetchOrder = simFetchOrder,
     CancelOrder = simCancelOrder, SetLeverage = simSetLeverage, SetMarginMode = simSetMarginMode\<rparr>"

section \<open>Orders are found again\<close>

text \<open>Every order is stored under its own id.\<close>

definition wfSim :: "SimulatedAdapter \<Rightarrow> bool" where
  "wfSim a \<longleftrightarrow> list_all (\<lambda>(i, r). or_exchange_order_id r = i \<and> i \<noteq> '''') (sa_orders a)"

lemma wfSim_lookup: "wfSim a \<Longrightarrow> map_of (sa_orders a) i = Some r \<Longrightarrow> or_exchange_order_id r = i \<and> i \<noteq> ''''"
  by (auto simp: wfSim_def list_all_iff dest!: map_of_SomeD)

lemma simResult_simps [simp]:
  "or_exchange_order_id (simResult req i t) = i"
  "or_client_order_id (simResult req i t) = po_client_order_id req"
  "or_status (simResult req i t) = simStatus (po_exchange_order_params req)"
  "or_symbol (simResult req i t) = po_symbol req"
  by (simp_all add: simResult_def Let_def)

lemma simOrderID_nonempty [simp]: "simOrderID c t \<noteq> ''''"
  by (simp add: simOrderID_def)

lemma storeOrder_lookup [simp]:
  "map_of (sa_orders (storeOrder r a)) = (map_of (sa_orders a))(or_exchange_order_id r \<mapsto> r)"
  by (simp add: storeOrder_def update_conv')

lemma storeOrder_client:
  "sa_client_orders (storeOrder r a) c =
     (if or_client_order_id r \<noteq> '''' \<and> c = or_client_order_id r then Some (or_exchange_order_id r)
      else sa_client_orders a c)"
  by (simp add: storeOrder_def)

lemma storeOrder_clock [simp]: "storeOrder r (a\<lparr>sa_clock := t\<rparr>) = (storeOrder r a)\<lparr>sa_clock := t\<rparr>"
  by (simp add: storeOrder_def)

lemma set_AList_update: "set (AList.update k v xs) \<subseteq> insert (k, v) (set xs)"
  by (induction xs) auto

lemma storeOrder_wf: "wfSim a \<Longrightarrow> or_exchange_order_id r \<noteq> '''' \<Longrightarrow> wfSim (storeOrder r a)"
  using set_AList_update [of "or_exchange_order_id r" r "sa_orders a"]
  by (auto simp: wfSim_def list_all_iff storeOrder_def)

definition validOrder :: "PlaceOrderRequest \<Rightarrow> bool" where
  "validOrder req \<longleftrightarrow> TrimSpace (po_symbol req) \<noteq> '''' \<and> po_quantity req > 0 \<and>
     (EqualFold (po_order_type req) ''market'' \<or> po_price req > 0)"

lemma simPlaceOrder_valid:
  "validOrder req \<Longrightarrow> simPlaceOrder req a =
     (let r = simResult req (simOrderID (po_client_order_id req) (sa_clock a)) (sa_clock a + 1)
      in (Ok r, (storeOrder r a)\<lparr>sa_clock := sa_clock a + 2\<rparr>))"
  by (auto simp: simPlaceOrder_def validOrder_def Let_def bnd_def simNow_def)

lemma simPlaceOrder_invalid:
  "\<not> validOrder req \<Longrightarrow> \<exists>e. simPlaceOrder req a = (Err e, a)"
  by (auto simp: simPlaceOrder_def validOrder_def throw_def)

lemma findOrderLocked_clock [simp]:
  "findOrderLocked i c (a\<lparr>sa_clock := t\<rparr>) = findOrderLocked i c a"
  by (simp add: findOrderLocked_def cong: option.case_cong)

lemma find_stored_id:
  "or_exchange_order_id r \<noteq> '''' \<Longrightarrow> findOrderLocked (or_exchange_order_id r) c (storeOrder r a) = Ok r"
  by (simp add: findOrderLocked_def)

lemma find_stored_client:
  "or_client_order_id r \<noteq> '''' \<Longrightarrow> findOrderLocked '''' (or_client_order_id r) (storeOrder r a) = Ok r"
  by (simp add: findOrderLocked_def storeOrder_client)

text \<open>C21: the simulated exchange accepts exactly the well-formed orders, changes nothing for the others, and an
  accepted order is found again by its exchange id and by its client order id with the same contents; filled
  orders are filled completely at their own price.\<close>

theorem simulated_order_roundtrip:
  assumes "simPlaceOrder req a = (res, a')"
  shows "(case res of
      Ok r \<Rightarrow> validOrder req \<and>
        simFetchOrder \<lparr>fo_account = acc, fo_order_id = or_exchange_order_id r, fo_client_order_id = c,
          fo_symbol = smb, fo_params = ps\<rparr> a' = (Ok r, a') \<and>
        (po_client_order_id req = '''' \<or>
          simFetchOrder \<lparr>fo_account = acc, fo_order_id = '''', fo_client_order_id = po_client_order_id req,
            fo_symbol = smb, fo_params = ps\<rparr> a' = (Ok r, a')) \<and>
        or_filled_quantity r = (if or_status r = OrderStatusFilled then po_quantity req else 0) \<and>
        or_avg_price r = (if or_status r = OrderStatusFilled then po_price req else 0)
    | Err e \<Rightarrow> \<not> validOrder req \<and> a' = a
    | Panic \<Rightarrow> False)"
proof (cases "validOrder req")
  case True
  let ?r = "simResult req (simOrderID (po_client_order_id req) (sa_clock a)) (sa_clock a + 1)"
  have r: "res = Ok ?r" "a' = (storeOrder ?r a)\<lparr>sa_clock := sa_clock a + 2\<rparr>"
    using assms simPlaceOrder_valid [OF True, of a] by (simp_all add: Let_def)
  have "or_filled_quantity ?r = (if or_status ?r = OrderStatusFilled then po_quantity req else 0)"
    "or_avg_price ?r = (if or_status ?r = OrderStatusFilled then po_price req else 0)"
    by (simp_all add: simResult_def Let_def)
  then show ?thesis
    using True find_stored_id [of ?r c a] find_stored_client [of ?r a]
    by (cases "po_client_order_id req = ''''") (simp_all add: r simFetchOrder_def)
next
  case False
  then show ?thesis using assms simPlaceOrder_invalid [OF False, of a] by auto
qed

definition exampleOrder :: PlaceOrderRequest where
  "exampleOrder = \<lparr>po_client_order_id = ''t-1'', po_exchange = ''gate'', po_account_name = ''main'',
     po_ccxt_id = ''gate'', po_market_type = ''swap'', po_sandbox = False, po_default_settle = ''USDT'',
     po_account_type = '''', po_product_type = '''', po_category = '''', po_position_mode = '''',
     po_margin_mode = ''cross'', po_recv_window_ms = 0, po_rate_limit_ms = 0, po_api_key = '''',
     po_api_secret = '''', po_passphrase = '''', po_symbol = ''BTC/USDT:USDT'', po_side = ''SELL'',
     po_position_side = ''NET'', po_order_type = ''LIMIT'', po_quantity = 2, po_price = 100,
     po_reduce_only = False, po_exchange_order_params = Map.empty\<rparr>"

lemma exampleOrder_valid: "validOrder exampleOrder"
  by (simp add: validOrder_def exampleOrder_def TrimSpace_def isSpaceChar_def)

lemma simulated_order_roundtrip_witness:
  "\<exists>r a'. simPlaceOrder exampleOrder (NewSimulatedAdapter 0) = (Ok r, a') \<and>
     (\<forall>acc. simFetchOrder \<lparr>fo_account = acc, fo_order_id = '''', fo_client_order_id = ''t-1'',
            fo_symbol = '''', fo_params = Map.empty\<rparr> a' = (Ok r, a'))"
proof -
  obtain r a' where run: "simPlaceOrder exampleOrder (NewSimulatedAdapter 0) = (Ok r, a')"
    using simPlaceOrder_valid [OF exampleOrder_valid, of "NewSimulatedAdapter 0"] by (simp add: Let_def)
  have id: "po_client_order_id exampleOrder = ''t-1''" by (simp add: exampleOrder_def)
  show ?thesis
    using run simulated_order_roundtrip [OF run, of _ "''''" "''''" Map.empty] by (auto simp: id)
qed

section \<open>Cancelling\<close>

lemma findOrder_cases:
  assumes "findOrderLocked i c a = Ok r"
  obtains (by_id) "i \<noteq> ''''" "map_of (sa_orders a) i = Some r"
  | (by_client) j where "i = '''' \<or> map_of (sa_orders a) i = None" "c \<noteq> ''''"
      "sa_client_orders a c = Some j" "map_of (sa_orders a) j = Some r"
  using assms by (auto simp: findOrderLocked_def split: option.splits if_splits)

lemma findOrder_replaced:
  assumes wf: "wfSim a" and found: "findOrderLocked i c a = Ok r"
    and same: "or_exchange_order_id r' = or_exchange_order_id r" "or_client_order_id r' = or_client_order_id r"
  shows "findOrderLocked i c (storeOrder r' a) = Ok r'"
  using found
proof (cases rule: findOrder_cases)
  case by_id
  with wfSim_lookup [OF wf by_id(2)] same show ?thesis by (simp add: findOrderLocked_def)
next
  case (by_client j)
  have j: "or_exchange_order_id r' = j" using wfSim_lookup [OF wf by_client(4)] same by simp
  have "i = '''' \<or> i \<noteq> j" using by_client(1,4) by auto
  with by_client j show ?thesis by (auto simp: findOrderLocked_def storeOrder_client)
qed

lemma simCancelOrder_eq:
  "simCancelOrder req a = (case findOrderLocked (co_order_id req) (co_client_order_id req) a of
     Ok r \<Rightarrow> if simFinal (or_status r)
       then (Err (ErrWrap (or_status r @ '' order cannot be canceled'') ErrOrderAlreadyFinal), a)
       else let r' = r\<lparr>or_status := OrderStatusCanceled, or_updated_at := sa_clock a,
                   or_raw := (or_raw r)(''canceled'' \<mapsto> RawBool True)\<rparr>
            in (Ok r', (storeOrder r' a)\<lparr>sa_clock := sa_clock a + 1\<rparr>)
   | Err e \<Rightarrow> (Err e, a) | Panic \<Rightarrow> (Panic, a))"
  by (simp add: simCancelOrder_def bnd_def simNow_def throw_def Let_def split: result.split)

text \<open>An order is cancelled at most once. The order that was found comes back as cancelled and stays
  findable, filling and price untouched; a second cancellation is refused with \<open>ErrOrderAlreadyFinal\<close> and
  changes nothing, as is the cancellation of a filled, failed or unknown order.\<close>

theorem simulated_cancel_once:
  assumes wf: "wfSim a" and run: "simCancelOrder req a = (res, a')"
  shows "(case res of
      Ok r \<Rightarrow> or_status r = OrderStatusCanceled \<and>
        (\<exists>r0. findOrderLocked (co_order_id req) (co_client_order_id req) a = Ok r0 \<and>
          \<not> simFinal (or_status r0) \<and> or_filled_quantity r = or_filled_quantity r0 \<and>
          or_avg_price r = or_avg_price r0 \<and> or_exchange_order_id r = or_exchange_order_id r0) \<and>
        findOrderLocked (co_order_id req) (co_client_order_id req) a' = Ok r \<and>
        simCancelOrder req a' =
          (Err (ErrWrap ''canceled order cannot be canceled'' ErrOrderAlreadyFinal), a')
    | Err e \<Rightarrow> a' = a
    | Panic \<Rightarrow> False)"
proof (cases "findOrderLocked (co_order_id req) (co_client_order_id req) a")
  case (Ok r0)
  show ?thesis
  proof (cases "simFinal (or_status r0)")
    case True
    with Ok run show ?thesis by (auto simp: simCancelOrder_eq)
  next
    case False
    let ?r = "r0\<lparr>or_status := OrderStatusCanceled, or_updated_at := sa_clock a,
                   or_raw := (or_raw r0)(''canceled'' \<mapsto> RawBool True)\<rparr>"
    have res: "res = Ok ?r" "a' = (storeOrder ?r a)\<lparr>sa_clock := sa_clock a + 1\<rparr>"
      using Ok run False by (simp_all add: simCancelOrder_eq Let_def)
    have again: "findOrderLocked (co_order_id req) (co_client_order_id req) (storeOrder ?r a) = Ok ?r"
      by (rule findOrder_replaced [OF wf Ok]) simp_all
    have "simFinal (or_status ?r)" by (simp add: simFinal_def)
    with again Ok False show ?thesis
      by (simp add: res simCancelOrder_eq [of req "(storeOrder ?r a)\<lparr>sa_clock := sa_clock a + 1\<rparr>"])
        (simp add: order_status_defs)
  qed
next
  case (Err e)
  with run have "res = Err e" "a' = a" by (simp_all add: simCancelOrder_eq)
  then show ?thesis by simp
next
  case Panic
  then show ?thesis by (auto simp: findOrderLocked_def split: option.splits if_splits)
qed

lemma simulated_cancel_once_witness:
  "\<forall>acc0. \<exists>a r a'. simCancelOrder \<lparr>co_account = acc0, co_order_id = '''', co_client_order_id = ''t-1'',
       co_symbol = '''', co_params = Map.empty\<rparr> a = (Ok r, a') \<and> or_status r = OrderStatusCanceled \<and>
     fst (simCancelOrder \<lparr>co_account = acc0, co_order_id = '''', co_client_order_id = ''t-1'',
       co_symbol = '''', co_params = Map.empty\<rparr> a') =
       Err (ErrWrap ''canceled order cannot be canceled'' ErrOrderAlreadyFinal)"
proof
  fix acc0
  let ?q = "\<lparr>co_account = acc0, co_order_id = '''', co_client_order_id = ''t-1'',
       co_symbol = '''', co_params = Map.empty\<rparr>"
  let ?o = "(simResult exampleOrder ''sim_1'' 0)\<lparr>or_status := ''submitted''\<rparr>"
  let ?a = "storeOrder ?o (NewSimulatedAdapter 0)"
  have wf: "wfSim ?a" by (rule storeOrder_wf) (simp_all add: wfSim_def NewSimulatedAdapter_def)
  have id: "or_client_order_id ?o = ''t-1''" by (simp add: exampleOrder_def)
  have found: "findOrderLocked '''' ''t-1'' ?a = Ok ?o"
    using find_stored_client [of ?o "NewSimulatedAdapter 0"] by (simp add: id)
  have "\<not> simFinal (or_status ?o)" by (simp add: simFinal_def order_status_defs)
  then obtain r a' where run: "simCancelOrder ?q ?a = (Ok r, a')"
    using found by (simp add: simCancelOrder_eq Let_def)
  have "or_status r = OrderStatusCanceled" "fst (simCancelOrder ?q a') =
      Err (ErrWrap ''canceled order cannot be canceled'' ErrOrderAlreadyFinal)"
    using simulated_cancel_once [OF wf run] by simp_all
  with run show "\<exists>a r a'. simCancelOrder ?q a = (Ok r, a') \<and> or_status r = OrderStatusCanceled \<and>
      fst (simCancelOrder ?q a') = Err (ErrWrap ''canceled order cannot be canceled'' ErrOrderAlreadyFinal)"
    by blast
qed

section \<open>Positions are sums of fills\<close>

text \<open>What a positions request should report for a symbol.\<close>

definition ordersFor :: "FetchPositionsRequest \<Rightarrow> string \<Rightarrow> SimulatedAdapter \<Rightarrow> OrderResult list" where
  "ordersFor req symbol a =
     filter (\<lambda>x. countsFor req x \<and> or_symbol x = symbol) (map snd (sa_orders a))"

definition netQuantity :: "FetchPositionsRequest \<Rightarrow> SimulatedAdapter \<Rightarrow> string \<Rightarrow> decimal" where
  "netQuantity req a symbol = (\<Sum>x \<leftarrow> ordersFor req symbol a. or_filled_quantity x * orderSign x)"

definition netNotional :: "FetchPositionsRequest \<Rightarrow> SimulatedAdapter \<Rightarrow> string \<Rightarrow> decimal" where
  "netNotional req a symbol =
     (\<Sum>x \<leftarrow> ordersFor req symbol a. or_filled_quantity x * or_avg_price x * orderSign x)"

definition aggregateOf :: "(string \<times> simAggregate) list \<Rightarrow> string \<Rightarrow> simAggregate" where
  "aggregateOf acc s = (case map_of acc s of Some g \<Rightarrow> g | None \<Rightarrow> zeroAggregate)"

lemma aggregateOf_update:
  "aggregateOf (AList.update k g acc) s = (if s = k then g else aggregateOf acc s)"
  by (simp add: aggregateOf_def update_conv')

lemma aggregateOrders_step:
  "aggregateOrders req (x # orders) acc = (if countsFor req x
     then aggregateOrders req orders (AList.update (or_symbol x) (addOrder x (aggregateOf acc (or_symbol x))) acc)
     else aggregateOrders req orders acc)"
  by (simp add: aggregateOf_def)

lemma aggregate_sums:
  "sg_quantity (aggregateOf (aggregateOrders req orders acc) s) = sg_quantity (aggregateOf acc s) +
     (\<Sum>x \<leftarrow> filter (\<lambda>x. countsFor req x \<and> or_symbol x = s) orders. or_filled_quantity x * orderSign x)"
  "sg_notional (aggregateOf (aggregateOrders req orders acc) s) = sg_notional (aggregateOf acc s) +
     (\<Sum>x \<leftarrow> filter (\<lambda>x. countsFor req x \<and> or_symbol x = s) orders.
       or_filled_quantity x * or_avg_price x * orderSign x)"
  by (induction orders arbitrary: acc)
    (simp_all add: aggregateOrders_step aggregateOf_update addOrder_def del: aggregateOrders.simps(2))

lemma aggregate_distinct:
  "distinct (map fst acc) \<Longrightarrow> distinct (map fst (aggregateOrders req orders acc))"
  by (induction req orders acc rule: aggregateOrders.induct) (simp_all add: distinct_update)

lemma sum_filter_permuted:
  "mset xs = mset ys \<Longrightarrow> (\<Sum>x \<leftarrow> filter P xs. f x) = (\<Sum>x \<leftarrow> filter P ys. (f x :: decimal))"
  by (metis mset_filter mset_map sum_mset_sum_list)

lemma simPositions_ok:
  "\<exists>ps. simPositions dv req now items = Ok ps \<and>
     map (\<lambda>p. (xp_symbol p, xp_quantity p, xp_notional p)) ps =
       map (\<lambda>(s, g). (s, sg_quantity g, sg_notional g)) (filter (\<lambda>(s, g). sg_quantity g \<noteq> 0) items)"
  by (induction dv req now items rule: simPositions.induct) (auto simp: averageEntry_def decDiv_def)

text \<open>C22: the positions of the simulated exchange are the signed sums of its fills, whatever order the
  runtime visits its maps in: for each symbol of the request one position with the net quantity and net
  notional of the filled orders of the account, none when they cancel out, and never a symbol twice.\<close>

theorem simulated_positions_are_sums:
  assumes visitO: "mset (visitO (sa_orders a)) = mset (sa_orders a)"
    and visitS: "mset (visitS (aggregateOrders req (map snd (visitO (sa_orders a))) [])) =
      mset (aggregateOrders req (map snd (visitO (sa_orders a))) [])"
  shows "\<exists>ps. fst (FetchPositions (simulatedAdapter dv visitO visitS) req a) = Ok ps \<and>
    distinct (map xp_symbol ps) \<and>
    set (map (\<lambda>p. (xp_symbol p, xp_quantity p, xp_notional p)) ps) =
      {(s, netQuantity req a s, netNotional req a s) | s. netQuantity req a s \<noteq> 0}"
proof -
  let ?agg = "aggregateOrders req (map snd (visitO (sa_orders a))) []"
  from simPositions_ok obtain ps where ps: "simPositions dv req (sa_clock a) (visitS ?agg) = Ok ps"
    "map (\<lambda>p. (xp_symbol p, xp_quantity p, xp_notional p)) ps =
       map (\<lambda>(s, g). (s, sg_quantity g, sg_notional g)) (filter (\<lambda>(s, g). sg_quantity g \<noteq> 0) (visitS ?agg))"
    by blast
  have run: "fst (FetchPositions (simulatedAdapter dv visitO visitS) req a) = Ok ps"
    using ps(1) by (simp add: simulatedAdapter_def simFetchPositions_def bnd_def simNow_def lift_def)
  have keys: "distinct (map fst ?agg)" by (rule aggregate_distinct) simp
  have "mset (map fst (visitS ?agg)) = mset (map fst ?agg)" using visitS by simp
  with keys have keysV: "distinct (map fst (visitS ?agg))" by (metis mset_eq_imp_distinct_iff)
  have "map xp_symbol ps = map fst (filter (\<lambda>(s, g). sg_quantity g \<noteq> 0) (visitS ?agg))"
    using arg_cong [OF ps(2), of "map fst"] by (simp add: comp_def case_prod_beta)
  with keysV have dist: "distinct (map xp_symbol ps)" by (simp add: distinct_map_filter)
  have "mset (map snd (visitO (sa_orders a))) = mset (map snd (sa_orders a))" using visitO by simp
  note same = sum_filter_permuted [OF this]
  have sums: "sg_quantity (aggregateOf ?agg s) = netQuantity req a s"
    "sg_notional (aggregateOf ?agg s) = netNotional req a s" for s
    using same by (simp_all add: aggregate_sums netQuantity_def netNotional_def ordersFor_def
        aggregateOf_def [of "[]"] zeroAggregate_def)
  have mem: "(s, g) \<in> set ?agg \<longleftrightarrow> map_of ?agg s = Some g" for s g
    using keys by (metis map_of_eq_Some_iff)
  have item: "(s, g) \<in> set ?agg \<Longrightarrow> sg_quantity g = netQuantity req a s \<and> sg_notional g = netNotional req a s" for s g
    using sums [of s] mem [of s g] by (simp add: aggregateOf_def)
  have present: "netQuantity req a s \<noteq> 0 \<Longrightarrow> \<exists>g. (s, g) \<in> set ?agg" for s
    using sums(1) [of s] mem by (cases "map_of ?agg s") (auto simp: aggregateOf_def zeroAggregate_def)
  have "set (visitS ?agg) = set ?agg" using visitS by (metis set_mset_mset)
  then have "set (map (\<lambda>p. (xp_symbol p, xp_quantity p, xp_notional p)) ps) =
      {(s, netQuantity req a s, netNotional req a s) | s. netQuantity req a s \<noteq> 0}"
    using item present unfolding ps(2) by (auto simp: image_iff) metis+
  with run dist show ?thesis by blast
qed

definition examplePositionsRequest :: FetchPositionsRequest where
  "examplePositionsRequest = \<lparr>fp_account = \<lparr>ac_exchange = ''gate'', ac_account_name = ''main'',
     ac_ccxt_id = ''gate'', ac_market_type = ''swap'', ac_sandbox = False, ac_default_settle = ''USDT'',
     ac_account_type = '''', ac_product_type = '''', ac_category = '''', ac_position_mode = '''',
     ac_margin_mode = ''cross'', ac_recv_window_ms = 0, ac_rate_limit_ms = 0, ac_api_key = '''',
     ac_api_secret = '''', ac_passphrase = ''''\<rparr>, fp_symbols = [''BTC/USDT:USDT''], fp_params = Map.empty\<rparr>"

lemma simulated_positions_are_sums_witness:
  "\<exists>a ps. a = storeOrder (simResult exampleOrder ''sim_1'' 0) (NewSimulatedAdapter 0) \<and>
    fst (FetchPositions (simulatedAdapter div16 rev (\<lambda>xs. xs)) examplePositionsRequest a) = Ok ps \<and>
    (''BTC/USDT:USDT'', -2, -200) \<in> set (map (\<lambda>p. (xp_symbol p, xp_quantity p, xp_notional p)) ps)"
proof -
  let ?a = "storeOrder (simResult exampleOrder ''sim_1'' 0) (NewSimulatedAdapter 0)"
  let ?q = "examplePositionsRequest"
  have counts: "countsFor ?q (simResult exampleOrder ''sim_1'' 0)"
    by (simp add: countsFor_def Let_def simResult_def simStatus_def exampleOrder_def
        examplePositionsRequest_def TrimSpace_def isSpaceChar_def)
  have net: "netQuantity ?q ?a ''BTC/USDT:USDT'' = -2" "netNotional ?q ?a ''BTC/USDT:USDT'' = -200"
    using counts by (simp_all add: netQuantity_def netNotional_def ordersFor_def storeOrder_def
        NewSimulatedAdapter_def simResult_def simStatus_def exampleOrder_def Let_def orderSign_def
        EqualFold_def ToLower_def ToUpper_def lowerChar_def upperChar_def)
  show ?thesis
    using simulated_positions_are_sums [where visitO = rev and visitS = "\<lambda>xs. xs" and a = ?a and req = ?q
        and dv = div16] net by fastforce
qed

end
