(* ===== verification/GoJson.thy ===== *)
theory GoJson
  imports GoStd
begin

text \<open>
  \<open>encoding/json\<close>, as far as the program uses it on raw columns: whether a text is valid JSON and what
  its outermost value is, and the text of a list of strings. The checker is the state machine of Go's
  scanner: one step per byte, a stack of what the open brackets wait for, at most 10000 deep. A number that
  does not fit a \<open>float64\<close> is an error of \<open>Unmarshal\<close> into \<open>any\<close>. The writer is for ASCII text; Go's
  treatment of invalid UTF-8 and of the two Unicode line separators is not modelled.
\<close>

section \<open>Reading\<close>

datatype jframe = AwaitColon | AwaitField | AwaitElement

text \<open>Where the scanner is: before a value or a key (the empty variants just after an opening bracket),
  after a value, inside a string, an escape, a literal, or a number.\<close>

datatype jstate =
    BeginValue | BeginValueOrEmpty | BeginKey | BeginKeyOrEmpty | EndValue
  | InString | InEscape | InHex nat | InLiteral string
  | Minus | Zero | Digits | Point | Fraction | Exponent | ExponentSign | ExponentDigits
  | Broken

record scanner =
  sc_state :: jstate
  sc_stack :: "jframe list"
  sc_number :: string
  sc_range :: bool

definition isJsonSpace :: "char \<Rightarrow> bool" where
  "isJsonSpace c \<longleftrightarrow> c \<in> set [CHR '' '', CHR 0x09, CHR 0x0A, CHR 0x0D]"

definition isDigit :: "char \<Rightarrow> bool" where
  "isDigit c \<longleftrightarrow> c \<in> set ''0123456789''"

definition isHex :: "char \<Rightarrow> bool" where
  "isHex c \<longleftrightarrow> isDigit c \<or> c \<in> set ''abcdefABCDEF''"

text \<open>\<open>strconv.ParseFloat(s, 64)\<close> reports a range error: the value rounds to infinity.\<close>

definition floatOverflows :: "string \<Rightarrow> bool" where
  "floatOverflows s =
    (let body = filter (\<lambda>c. c \<noteq> CHR ''-'') (takeWhile (\<lambda>c. c \<notin> set ''eE'') s);
         ex = drop 1 (dropWhile (\<lambda>c. c \<notin> set ''eE'') s);
         whole = takeWhile (\<lambda>c. c \<noteq> CHR ''.'') body;
         frac = drop 1 (dropWhile (\<lambda>c. c \<noteq> CHR ''.'') body);
         m = readDigits (whole @ frac);
         e = (if take 1 ex = ''-'' then - int (readDigits (drop 1 ex))
              else int (readDigits (if take 1 ex = ''+'' then drop 1 ex else ex))) - int (length frac);
         limit = 2 ^ 1024 - 2 ^ 970
     in m \<noteq> 0 \<and> (if 0 \<le> e then limit \<le> m * 10 ^ nat e else limit * 10 ^ nat (- e) \<le> m))"

definition maxNestingDepth :: nat where "maxNestingDepth = 10000"

definition goto :: "jstate \<Rightarrow> scanner \<Rightarrow> scanner" where
  "goto q s = s\<lparr>sc_state := q\<rparr>"

definition opened :: "jframe \<Rightarrow> jstate \<Rightarrow> scanner \<Rightarrow> scanner" where
  "opened f q s = (if length (sc_stack s) < maxNestingDepth
     then s\<lparr>sc_state := q, sc_stack := f # sc_stack s\<rparr> else goto Broken s)"

definition closed :: "scanner \<Rightarrow> scanner" where
  "closed s = s\<lparr>sc_state := EndValue, sc_stack := tl (sc_stack s)\<rparr>"

text \<open>\<open>stateBeginValue\<close>\<close>

definition beginValue :: "scanner \<Rightarrow> char \<Rightarrow> scanner" where
  "beginValue s c =
    (if c = CHR ''{'' then opened AwaitColon BeginKeyOrEmpty s
     else if c = CHR ''['' then opened AwaitElement BeginValueOrEmpty s
     else if c = CHR 0x22 then goto InString s
     else if c = CHR ''-'' then (goto Minus s)\<lparr>sc_number := [c]\<rparr>
     else if c = CHR ''0'' then (goto Zero s)\<lparr>sc_number := [c]\<rparr>
     else if isDigit c then (goto Digits s)\<lparr>sc_number := [c]\<rparr>
     else if c = CHR ''t'' then goto (InLiteral ''rue'') s
     else if c = CHR ''f'' then goto (InLiteral ''alse'') s
     else if c = CHR ''n'' then goto (InLiteral ''ull'') s
     else goto Broken s)"

text \<open>\<open>stateEndValue\<close>, and \<open>stateEndTop\<close> when no bracket is open\<close>

definition endValue :: "scanner \<Rightarrow> char \<Rightarrow> scanner" where
  "endValue s c =
    (if isJsonSpace c then goto EndValue s
     else case sc_stack s of
       [] \<Rightarrow> goto Broken s
     | AwaitColon # fs \<Rightarrow> if c = CHR '':'' then s\<lparr>sc_state := BeginValue, sc_stack := AwaitField # fs\<rparr>
         else goto Broken s
     | AwaitField # fs \<Rightarrow> if c = CHR '','' then s\<lparr>sc_state := BeginKey, sc_stack := AwaitColon # fs\<rparr>
         else if c = CHR ''}'' then closed s else goto Broken s
     | AwaitElement # fs \<Rightarrow> if c = CHR '','' then goto BeginValue s
         else if c = CHR '']'' then closed s else goto Broken s)"

text \<open>A number ends where its next byte cannot continue it.\<close>

definition endNumber :: "scanner \<Rightarrow> char \<Rightarrow> scanner" where
  "endNumber s c = endValue (s\<lparr>sc_range := sc_range s \<or> floatOverflows (sc_number s)\<rparr>) c"

definition inNumber :: "jstate \<Rightarrow> scanner \<Rightarrow> char \<Rightarrow> scanner" where
  "inNumber q s c = s\<lparr>sc_state := q, sc_number := sc_number s @ [c]\<rparr>"

definition scanStep :: "scanner \<Rightarrow> char \<Rightarrow> scanner" where
  "scanStep s c = (case sc_state s of
     BeginValue \<Rightarrow> if isJsonSpace c then s else beginValue s c
   | BeginValueOrEmpty \<Rightarrow> if isJsonSpace c then s
       else if c = CHR '']'' then endValue s c else beginValue s c
   | BeginKey \<Rightarrow> if isJsonSpace c then s else if c = CHR 0x22 then goto InString s else goto Broken s
   | BeginKeyOrEmpty \<Rightarrow> if isJsonSpace c then s
       else if c = CHR ''}'' then closed s
       else if c = CHR 0x22 then goto InString s else goto Broken s
   | EndValue \<Rightarrow> endValue s c
   | InString \<Rightarrow> if c = CHR 0x22 then goto EndValue s
       else if c = CHR 0x5C then goto InEscape s
       else if of_char c < (32::nat) then goto Broken s else s
   | InEscape \<Rightarrow> if c \<in> set [CHR ''b'', CHR ''f'', CHR ''n'', CHR ''r'', CHR ''t'', CHR 0x5C, CHR ''/'', CHR 0x22]
       then goto InString s
       else if c = CHR ''u'' then goto (InHex 3) s else goto Broken s
   | InHex n \<Rightarrow> if isHex c then goto (case n of 0 \<Rightarrow> InString | Suc m \<Rightarrow> InHex m) s else goto Broken s
   | InLiteral rest \<Rightarrow> (case rest of
         d # ds \<Rightarrow> if c = d then goto (if ds = [] then EndValue else InLiteral ds) s else goto Broken s
       | [] \<Rightarrow> goto Broken s)
   | Minus \<Rightarrow> if c = CHR ''0'' then inNumber Zero s c
       else if isDigit c then inNumber Digits s c else goto Broken s
   | Digits \<Rightarrow> if isDigit c then inNumber Digits s c
       else if c = CHR ''.'' then inNumber Point s c
       else if c \<in> set ''eE'' then inNumber Exponent s c else endNumber s c
   | Zero \<Rightarrow> if c = CHR ''.'' then inNumber Point s c
       else if c \<in> set ''eE'' then inNumber Exponent s c else endNumber s c
   | Point \<Rightarrow> if isDigit c then inNumber Fraction s c else goto Broken s
   | Fraction \<Rightarrow> if isDigit c then inNumber Fraction s c
       else if c \<in> set ''eE'' then inNumber Exponent s c else endNumber s c
   | Exponent \<Rightarrow> if c \<in> set ''+-'' then inNumber ExponentSign s c
       else if isDigit c then inNumber ExponentDigits s c else goto Broken s
   | ExponentSign \<Rightarrow> if isDigit c then inNumber ExponentDigits s c else goto Broken s
   | ExponentDigits \<Rightarrow> if isDigit c then inNumber ExponentDigits s c else endNumber s c
   | Broken \<Rightarrow> s)"

definition startScan :: scanner where
  "startScan = \<lparr>sc_state = BeginValue, sc_stack = [], sc_number = '''', sc_range = False\<rparr>"

definition runScan :: "string \<Rightarrow> scanner \<Rightarrow> scanner" where
  "runScan text s = foldl scanStep s text"

text \<open>The outermost value of a text \<open>json.Unmarshal(raw, &value)\<close> accepts; the end of the text is
  checked by feeding the scanner one space.\<close>

datatype jsonValueKind = JsonObject | JsonArray | JsonOther

definition jsonKind :: "string \<Rightarrow> jsonValueKind option" where
  "jsonKind raw =
    (let s = runScan (raw @ '' '') startScan
     in if sc_state s = EndValue \<and> sc_stack s = [] \<and> \<not> sc_range s
        then Some (case dropWhile isJsonSpace raw of
            c # _ \<Rightarrow> if c = CHR ''{'' then JsonObject else if c = CHR ''['' then JsonArray else JsonOther
          | [] \<Rightarrow> JsonOther)
        else None)"

section \<open>Writing\<close>

text \<open>\<open>json.Marshal\<close> of a string: quotes, backslashes, control characters and the three characters
  HTML treats specially are escaped.\<close>

definition lowerHexDigit :: "nat \<Rightarrow> char" where
  "lowerHexDigit n = ''0123456789abcdef'' ! (n mod 16)"

definition jsonChar :: "char \<Rightarrow> string" where
  "jsonChar c =
    (if c = CHR 0x22 \<or> c = CHR 0x5C then [CHR 0x5C, c]
     else if c = CHR 0x08 then [CHR 0x5C, CHR ''b'']
     else if c = CHR 0x0C then [CHR 0x5C, CHR ''f'']
     else if c = CHR 0x0A then [CHR 0x5C, CHR ''n'']
     else if c = CHR 0x0D then [CHR 0x5C, CHR ''r'']
     else if c = CHR 0x09 then [CHR 0x5C, CHR ''t'']
     else if of_char c < (32::nat) \<or> c \<in> set ''<>&''
     then CHR 0x5C # ''u00'' @ [lowerHexDigit (of_char c div 16), lowerHexDigit (of_char c)]
     else [c])"

definition jsonString :: "string \<Rightarrow> string" where
  "jsonString s = [CHR 0x22] @ concat (map jsonChar s) @ [CHR 0x22]"

fun jsonElements :: "string list \<Rightarrow> string" where
  "jsonElements [] = ''''"
| "jsonElements [s] = jsonString s"
| "jsonElements (s # t # ss) = jsonString s @ '','' @ jsonElements (t # ss)"

definition jsonStrings :: "string list \<Rightarrow> string" where
  "jsonStrings ss = ''['' @ jsonElements ss @ '']''"

section \<open>Quoting\<close>

text \<open>The verb \<open>%q\<close> (\<open>strconv.Quote\<close>) on ASCII text.\<close>

definition quotedChar :: "char \<Rightarrow> string" where
  "quotedChar c =
    (if c = CHR 0x22 \<or> c = CHR 0x5C then [CHR 0x5C, c]
     else case map_of (zip [CHR 0x07, CHR 0x08, CHR 0x0C, CHR 0x0A, CHR 0x0D, CHR 0x09, CHR 0x0B] ''abfnrtv'') c of
       Some d \<Rightarrow> [CHR 0x5C, d]
     | None \<Rightarrow> if of_char c < (32::nat) \<or> c = CHR 0x7F
         then CHR 0x5C # ''x'' @ [lowerHexDigit (of_char c div 16), lowerHexDigit (of_char c)] else [c])"

definition quoted :: "string \<Rightarrow> string" where
  "quoted s = [CHR 0x22] @ concat (map quotedChar s) @ [CHR 0x22]"

section \<open>What is written is read\<close>

lemma runScan_append: "runScan (s @ t) a = runScan t (runScan s a)"
  by (simp add: runScan_def)

lemma runScan_Nil [simp]: "runScan '''' a = a"
  by (simp add: runScan_def)

lemma runScan_Cons: "runScan (c # s) a = runScan s (scanStep a c)"
  by (simp add: runScan_def)

lemma isHex_lowerHexDigit: "isHex (lowerHexDigit n)"
proof -
  have "lowerHexDigit n \<in> set ''0123456789abcdef''"
    unfolding lowerHexDigit_def by (rule nth_mem) simp
  moreover have "list_all isHex ''0123456789abcdef''" by code_simp
  ultimately show ?thesis by (meson Ball_set)
qed

lemma goto_simps [simp]:
  "goto q (goto r a) = goto q a" "sc_state (goto q a) = q" "sc_stack (goto q a) = sc_stack a"
  "sc_range (goto q a) = sc_range a" "sc_state a = q \<Longrightarrow> goto q a = a"
  by (auto simp: goto_def)

lemma scan_escape:
  assumes "sc_state a = InString"
    "c \<in> set [CHR ''b'', CHR ''f'', CHR ''n'', CHR ''r'', CHR ''t'', CHR 0x5C, CHR ''/'', CHR 0x22]"
  shows "runScan [CHR 0x5C, c] a = a"
proof -
  have "scanStep a (CHR 0x5C) = goto InEscape a" using assms(1) by (simp add: scanStep_def)
  moreover have "scanStep (goto InEscape a) c = a"
    using assms unfolding scanStep_def by (simp only: goto_simps jstate.case if_True)
  ultimately show ?thesis by (simp add: runScan_Cons)
qed

lemma scan_unicode:
  assumes "sc_state a = InString" "isHex h" "isHex i"
  shows "runScan (CHR 0x5C # ''u00'' @ [h, i]) a = a"
proof -
  have z: "isHex (CHR ''0'')" by code_simp
  have "scanStep a (CHR 0x5C) = goto InEscape a" using assms(1) by (simp add: scanStep_def)
  moreover have "scanStep (goto InEscape a) (CHR ''u'') = goto (InHex 3) a"
    by (simp add: scanStep_def)
  moreover have hex: "scanStep (goto (InHex (Suc n)) a) x = goto (InHex n) a" if "isHex x" for n x
    using that by (simp add: scanStep_def)
  moreover have "scanStep (goto (InHex 0) a) x = a" if "isHex x" for x
    using that assms(1) by (simp add: scanStep_def)
  ultimately show ?thesis using assms(2,3) z by (simp add: runScan_Cons eval_nat_numeral)
qed

lemma scan_plain:
  assumes "sc_state a = InString" "c \<noteq> CHR 0x22" "c \<noteq> CHR 0x5C" "\<not> of_char c < (32::nat)"
  shows "runScan [c] a = a"
  using assms by (simp add: runScan_Cons scanStep_def)

lemma scan_jsonChar:
  assumes "sc_state a = InString"
  shows "runScan (jsonChar c) a = a"
  unfolding jsonChar_def
  using scan_escape [OF assms] scan_plain [OF assms, of c]
    scan_unicode [OF assms isHex_lowerHexDigit isHex_lowerHexDigit]
  by (auto simp del: append.simps set_ConsD split: if_splits)

lemma scan_jsonChars:
  assumes "sc_state a = InString"
  shows "runScan (concat (map jsonChar s)) a = a"
  using assms by (induction s) (simp_all add: runScan_append scan_jsonChar)

lemma scan_jsonString:
  assumes "sc_state a \<in> {BeginValue, BeginValueOrEmpty, BeginKey, BeginKeyOrEmpty}"
  shows "runScan (jsonString s) a = goto EndValue a"
proof -
  have "scanStep a (CHR 0x22) = goto InString a"
    using assms by (auto simp: scanStep_def beginValue_def isJsonSpace_def)
  then show ?thesis
    by (simp add: jsonString_def runScan_Cons runScan_append scan_jsonChars goto_def)
      (simp add: scanStep_def goto_def)
qed

lemma scan_jsonElements:
  assumes "sc_state a \<in> {BeginValue, BeginValueOrEmpty}" "sc_stack a = AwaitElement # fs" "ss \<noteq> []"
  shows "runScan (jsonElements ss) a = goto EndValue a"
  using assms
proof (induction ss arbitrary: a rule: jsonElements.induct)
  case (3 s t ss)
  have "runScan (jsonString s) a = goto EndValue a" by (rule scan_jsonString) (use 3 in auto)
  moreover have "scanStep (goto EndValue a) (CHR '','') = goto BeginValue a"
    using 3 by (simp add: scanStep_def goto_def endValue_def isJsonSpace_def)
  ultimately show ?case
    using 3 by (simp add: runScan_append runScan_Cons goto_def)
qed (use scan_jsonString in auto)

lemma jsonKind_jsonStrings: "jsonKind (jsonStrings ss) = Some JsonArray"
proof -
  let ?a = "startScan\<lparr>sc_state := BeginValueOrEmpty, sc_stack := [AwaitElement]\<rparr>"
  have o: "scanStep startScan (CHR ''['') = ?a"
    by (simp add: scanStep_def startScan_def beginValue_def opened_def maxNestingDepth_def isJsonSpace_def)
  have "runScan (jsonElements ss @ ''] '') ?a = startScan\<lparr>sc_state := EndValue\<rparr>"
  proof (cases "ss = []")
    case True
    then show ?thesis
      by (simp add: runScan_Cons scanStep_def isJsonSpace_def endValue_def closed_def goto_def startScan_def)
  next
    case False
    then have "runScan (jsonElements ss) ?a = goto EndValue ?a" by (intro scan_jsonElements) auto
    then show ?thesis
      by (simp add: runScan_append runScan_Cons scanStep_def isJsonSpace_def endValue_def closed_def
          goto_def startScan_def)
  qed
  then have "runScan (jsonStrings ss @ '' '') startScan = startScan\<lparr>sc_state := EndValue\<rparr>"
    by (simp add: jsonStrings_def runScan_Cons o)
  then show ?thesis
    by (simp add: jsonKind_def jsonStrings_def startScan_def isJsonSpace_def)
qed

lemma jsonKind_empty: "jsonKind ''[]'' = Some JsonArray" "jsonKind ''{}'' = Some JsonObject"
  by code_simp+

end
