(* ===== verification/Accounts.thy ===== *)
theory Accounts
  imports MgmtStore GoJson "HOL-Library.List_Lexorder" "HOL-Library.Char_ord"
begin

text \<open>
  Exchange accounts: defaults, normalisation and validation before a save, the patch of an update
  (\<open>internal/db/mgmt/exchange_account.go\<close>), and the repository operations on the account table
  (\<open>internal/db/mgmt/repository.go\<close>), each one transaction under the CHECK constraints of migration
  000001 and the unique indexes of migration 000004. JSON columns keep the text they are given. An error
  leaves the caller's struct half normalised in Go; no caller reads it then, and the model returns only
  the error. The lemmas show that a prepared account is one the table accepts and a fixed point of the
  preparation, and that an agent has at most one primary account whatever operations run.
\<close>

section \<open>Exchanges\<close>

definition MarketTypeSpot :: string where "MarketTypeSpot = ''spot''"
definition MarketTypeMargin :: string where "MarketTypeMargin = ''margin''"
definition MarketTypeSwap :: string where "MarketTypeSwap = ''swap''"
definition MarketTypeFuture :: string where "MarketTypeFuture = ''future''"
definition PositionModeOneWay :: string where "PositionModeOneWay = ''one_way''"
definition PositionModeHedge :: string where "PositionModeHedge = ''hedge''"
definition MarginModeCross :: string where "MarginModeCross = ''cross''"
definition MarginModeIsolated :: string where "MarginModeIsolated = ''isolated''"

lemmas mode_defs = MarketTypeSpot_def MarketTypeMargin_def MarketTypeSwap_def MarketTypeFuture_def
  PositionModeOneWay_def PositionModeHedge_def MarginModeCross_def MarginModeIsolated_def

record ExchangeDefaults =
  ed_exchange :: string
  ed_ccxt_id :: string
  ed_market_type :: string
  ed_default_settle :: string
  ed_account_type :: string
  ed_product_type :: string
  ed_category :: string
  ed_position_mode :: string
  ed_margin_mode :: string
  ed_recv_window_ms :: int
  ed_rate_limit_ms :: int
  ed_passphrase_required :: bool
  ed_supported_ccxt_ids :: "string list"

text \<open>What the entries of the table share; each entry writes out the rest.\<close>

definition swapDefaults :: "string \<Rightarrow> string \<Rightarrow> string \<Rightarrow> string list \<Rightarrow> ExchangeDefaults" where
  "swapDefaults exchange ccxt settle ids =
     \<lparr>ed_exchange = exchange, ed_ccxt_id = ccxt, ed_market_type = MarketTypeSwap,
      ed_default_settle = settle, ed_account_type = '''', ed_product_type = '''', ed_category = '''',
      ed_position_mode = PositionModeOneWay, ed_margin_mode = MarginModeCross,
      ed_recv_window_ms = 5000, ed_rate_limit_ms = 0, ed_passphrase_required = False,
      ed_supported_ccxt_ids = ids\<rparr>"

definition exchangeTable :: "(string \<times> ExchangeDefaults) list" where
  "exchangeTable = [
     (''binance'', (swapDefaults ''Binance'' ''binanceusdm'' ''USDT''
        [''binance'', ''binanceusdm'', ''binancecoinm''])\<lparr>ed_category := ''linear''\<rparr>),
     (''bybit'', (swapDefaults ''Bybit'' ''bybit'' ''USDT'' [''bybit''])
        \<lparr>ed_account_type := ''unified'', ed_category := ''linear''\<rparr>),
     (''gate'', swapDefaults ''Gate'' ''gate'' ''USDT'' [''gate'']),
     (''hyperliquid'', swapDefaults ''Hyperliquid'' ''hyperliquid'' ''USDC'' [''hyperliquid'']),
     (''aster'', (swapDefaults ''Aster'' ''aster'' ''USDT'' [''aster''])\<lparr>ed_category := ''linear''\<rparr>),
     (''bitget'', (swapDefaults ''Bitget'' ''bitget'' ''USDT'' [''bitget''])
        \<lparr>ed_product_type := ''USDT-FUTURES'', ed_passphrase_required := True\<rparr>),
     (''okx'', (swapDefaults ''OKX'' ''okx'' ''USDT'' [''okx''])\<lparr>ed_passphrase_required := True\<rparr>)]"

definition exchangeDefaultsByKey :: "string \<rightharpoonup> ExchangeDefaults" where
  "exchangeDefaultsByKey = map_of exchangeTable"

definition buildExchangeKeyByCCXTID :: "(string \<times> string) list" where
  "buildExchangeKeyByCCXTID =
     concat (map (\<lambda>(key, d). map (\<lambda>c. (c, key)) (ed_supported_ccxt_ids d)) exchangeTable)"

text \<open>A lookup of a missing key in the Go map gives the empty string.\<close>

definition exchangeKeyByCCXTID :: "string \<Rightarrow> string" where
  "exchangeKeyByCCXTID c = (case map_of buildExchangeKeyByCCXTID c of Some k \<Rightarrow> k | None \<Rightarrow> '''')"

definition SupportedExchangeDefaults :: "ExchangeDefaults list" where
  "SupportedExchangeDefaults = map (\<lambda>k. the (exchangeDefaultsByKey k)) (sort (map fst exchangeTable))"

definition normalizeExchangeKey :: "string \<Rightarrow> string" where
  "normalizeExchangeKey exchange =
    (let e = ToLower (TrimSpace exchange);
         e = filter (\<lambda>c. c \<noteq> CHR ''-'') e;
         e = filter (\<lambda>c. c \<noteq> CHR ''_'') e;
         e = filter (\<lambda>c. c \<noteq> CHR '' '') e;
         e = filter (\<lambda>c. c \<noteq> CHR ''.'') e
     in if e = ''okex'' then ''okx''
        else if e \<in> {''binanceusdm'', ''binancecoinm''} then ''binance''
        else if e = ''gateio'' then ''gate''
        else if e = ''asterdex'' then ''aster''
        else e)"

text \<open>\<open>fmt.Errorf("%w: ...", ErrInvalidConfig)\<close>\<close>

definition invalidConfig :: "string \<Rightarrow> err" where
  "invalidConfig m = ErrAround '''' ErrInvalidConfig ('': '' @ m)"

definition defaultsForAccount :: "string \<Rightarrow> string \<Rightarrow> ExchangeDefaults result" where
  "defaultsForAccount exchange ccxtID =
    (let k0 = normalizeExchangeKey exchange;
         key = (if k0 = '''' \<and> ccxtID \<noteq> '''' then exchangeKeyByCCXTID (ToLower (TrimSpace ccxtID)) else k0)
     in if key = '''' then Err (invalidConfig ''exchange is required'')
        else case exchangeDefaultsByKey key of
            None \<Rightarrow> Err (invalidConfig (''unsupported exchange '' @ quoted exchange))
          | Some d \<Rightarrow> Ok d)"

section \<open>Preparation\<close>

definition trimExchangeAccount :: "ExchangeAccount \<Rightarrow> ExchangeAccount" where
  "trimExchangeAccount a = a\<lparr>
     ea_exchange := TrimSpace (ea_exchange a),
     ea_name := TrimSpace (ea_name a),
     ea_ccxt_id := TrimSpace (ea_ccxt_id a),
     ea_market_type := TrimSpace (ea_market_type a),
     ea_default_settle := TrimSpace (ea_default_settle a),
     ea_account_type := TrimSpace (ea_account_type a),
     ea_product_type := TrimSpace (ea_product_type a),
     ea_category := TrimSpace (ea_category a),
     ea_position_mode := TrimSpace (ea_position_mode a),
     ea_margin_mode := TrimSpace (ea_margin_mode a),
     ea_api_key_encrypted := TrimSpace (ea_api_key_encrypted a),
     ea_api_key_hint := TrimSpace (ea_api_key_hint a),
     ea_api_secret_encrypted := TrimSpace (ea_api_secret_encrypted a),
     ea_passphrase_encrypted := TrimSpace (ea_passphrase_encrypted a),
     ea_status := TrimSpace (ea_status a)\<rparr>"

definition validateJSONArray :: "string \<Rightarrow> string \<Rightarrow> unit result" where
  "validateJSONArray raw field = (case jsonKind raw of
     None \<Rightarrow> Err (invalidConfig (field @ '' must be valid JSON array''))
   | Some k \<Rightarrow> if k = JsonArray then Ok () else Err (invalidConfig (field @ '' must be JSON array'')))"

definition validateJSONObject :: "string \<Rightarrow> string \<Rightarrow> unit result" where
  "validateJSONObject raw field = (case jsonKind raw of
     None \<Rightarrow> Err (invalidConfig (field @ '' must be valid JSON object''))
   | Some k \<Rightarrow> if k = JsonObject then Ok () else Err (invalidConfig (field @ '' must be JSON object'')))"

definition lastVisible :: "string \<Rightarrow> nat \<Rightarrow> string" where
  "lastVisible value count = (if value = '''' \<or> count = 0 then ''''
     else if length value \<le> count then value else drop (length value - count) value)"

text \<open>The part of \<open>PrepareExchangeAccountForSave\<close> between the choice of the exchange and the checks.\<close>

definition fillAccount :: "ExchangeDefaults \<Rightarrow> ExchangeAccount \<Rightarrow> ExchangeAccount" where
  "fillAccount d a = a\<lparr>
     ea_market_type := ToLower (orDefault '''' (ed_market_type d) (ea_market_type a)),
     ea_default_settle := ToUpper (orDefault '''' (ed_default_settle d) (ea_default_settle a)),
     ea_account_type := orDefault '''' (ed_account_type d) (ea_account_type a),
     ea_product_type := orDefault '''' (ed_product_type d) (ea_product_type a),
     ea_category := orDefault '''' (ed_category d) (ea_category a),
     ea_position_mode := ToLower (orDefault '''' (ed_position_mode d) (ea_position_mode a)),
     ea_margin_mode := ToLower (orDefault '''' (ed_margin_mode d) (ea_margin_mode a)),
     ea_recv_window_ms := orDefault 0 (ed_recv_window_ms d) (ea_recv_window_ms a),
     ea_status := orDefault '''' ExchangeAccountStatusActive (ea_status a),
     ea_allowed_symbols := orDefault '''' ''[]'' (ea_allowed_symbols a),
     ea_metadata := orDefault '''' ''{}'' (ea_metadata a),
     ea_api_key_hint := orDefault '''' (lastVisible (ea_api_key_encrypted a) 4) (ea_api_key_hint a)\<rparr>"

text \<open>The checks at its end, in their order.\<close>

definition checkAccount :: "ExchangeAccount \<Rightarrow> unit result" where
  "checkAccount a =
    (if ea_market_type a \<notin> set [MarketTypeSpot, MarketTypeMargin, MarketTypeSwap, MarketTypeFuture]
     then Err (invalidConfig ''market_type must be spot, margin, swap, or future'')
     else if ea_position_mode a \<notin> set [PositionModeOneWay, PositionModeHedge]
     then Err (invalidConfig ''position_mode must be one_way or hedge'')
     else if ea_margin_mode a \<notin> set [MarginModeCross, MarginModeIsolated]
     then Err (invalidConfig ''margin_mode must be cross or isolated'')
     else if ea_status a \<notin> set [ExchangeAccountStatusActive, ExchangeAccountStatusDisabled]
     then Err (invalidConfig ''status must be active or disabled'')
     else if ea_name a = '''' then Err (invalidConfig ''name is required'')
     else if ea_recv_window_ms a < 0 \<or> ea_recv_window_ms a > 60000
     then Err (invalidConfig ''recv_window_ms must be between 0 and 60000'')
     else if ea_rate_limit_ms a < 0 \<or> ea_rate_limit_ms a > 60000
     then Err (invalidConfig ''rate_limit_ms must be between 0 and 60000'')
     else rbind (validateJSONArray (ea_allowed_symbols a) ''allowed_symbols'')
       (\<lambda>_. validateJSONObject (ea_metadata a) ''metadata''))"

definition PrepareExchangeAccountForSave :: "ExchangeAccount \<Rightarrow> ExchangeAccount result" where
  "PrepareExchangeAccountForSave account =
    (let a = trimExchangeAccount account
     in rbind (defaultsForAccount (ea_exchange a) (ea_ccxt_id a)) (\<lambda>d.
        let a = a\<lparr>ea_exchange := ed_exchange d,
                  ea_ccxt_id := (if ea_ccxt_id a = '''' then ed_ccxt_id d else ToLower (ea_ccxt_id a))\<rparr>
        in if ea_ccxt_id a \<notin> set (ed_supported_ccxt_ids d)
           then Err (invalidConfig (''unsupported ccxt_id '' @ quoted (ea_ccxt_id a) @ '' for '' @ ed_exchange d))
           else rbind (checkAccount (fillAccount d a)) (\<lambda>_. Ok (fillAccount d a))))"

record ExchangeAccountPatch =
  pt_exchange :: "string option"
  pt_name :: "string option"
  pt_ccxt_id :: "string option"
  pt_market_type :: "string option"
  pt_sandbox :: "bool option"
  pt_default_settle :: "string option"
  pt_account_type :: "string option"
  pt_product_type :: "string option"
  pt_category :: "string option"
  pt_position_mode :: "string option"
  pt_margin_mode :: "string option"
  pt_recv_window_ms :: "int option"
  pt_rate_limit_ms :: "int option"
  pt_allowed_symbols :: "string option"
  pt_api_key_encrypted :: "string option"
  pt_api_key_hint :: "string option"
  pt_api_secret_encrypted :: "string option"
  pt_passphrase_encrypted :: "string option"
  pt_status :: "string option"
  pt_is_primary :: "bool option"
  pt_metadata :: "string option"

text \<open>\<open>if p != nil { x = *p }\<close>, and its form for credentials, where an empty text changes nothing.\<close>

definition patched :: "'a option \<Rightarrow> 'a \<Rightarrow> 'a" where
  "patched p x = (case p of Some v \<Rightarrow> v | None \<Rightarrow> x)"

definition patchedSecret :: "string option \<Rightarrow> string \<Rightarrow> string" where
  "patchedSecret p x = (case p of Some v \<Rightarrow> if v \<noteq> '''' then v else x | None \<Rightarrow> x)"

definition patchAccount :: "ExchangeAccountPatch \<Rightarrow> ExchangeAccount \<Rightarrow> ExchangeAccount" where
  "patchAccount p a = a\<lparr>
     ea_exchange := patched (pt_exchange p) (ea_exchange a),
     ea_name := patched (pt_name p) (ea_name a),
     ea_ccxt_id := patched (pt_ccxt_id p) (ea_ccxt_id a),
     ea_market_type := patched (pt_market_type p) (ea_market_type a),
     ea_sandbox := patched (pt_sandbox p) (ea_sandbox a),
     ea_default_settle := patched (pt_default_settle p) (ea_default_settle a),
     ea_account_type := patched (pt_account_type p) (ea_account_type a),
     ea_product_type := patched (pt_product_type p) (ea_product_type a),
     ea_category := patched (pt_category p) (ea_category a),
     ea_position_mode := patched (pt_position_mode p) (ea_position_mode a),
     ea_margin_mode := patched (pt_margin_mode p) (ea_margin_mode a),
     ea_recv_window_ms := patched (pt_recv_window_ms p) (ea_recv_window_ms a),
     ea_rate_limit_ms := patched (pt_rate_limit_ms p) (ea_rate_limit_ms a),
     ea_allowed_symbols := patched (pt_allowed_symbols p) (ea_allowed_symbols a),
     ea_api_key_encrypted := patchedSecret (pt_api_key_encrypted p) (ea_api_key_encrypted a),
     ea_api_key_hint := patched (pt_api_key_hint p)
       (case pt_api_key_encrypted p of
          Some k \<Rightarrow> if k \<noteq> '''' then lastVisible k 4 else ea_api_key_hint a
        | None \<Rightarrow> ea_api_key_hint a),
     ea_api_secret_encrypted := patchedSecret (pt_api_secret_encrypted p) (ea_api_secret_encrypted a),
     ea_passphrase_encrypted := patchedSecret (pt_passphrase_encrypted p) (ea_passphrase_encrypted a),
     ea_status := patched (pt_status p) (ea_status a),
     ea_is_primary := patched (pt_is_primary p) (ea_is_primary a),
     ea_metadata := patched (pt_metadata p) (ea_metadata a)\<rparr>"

definition ApplyExchangeAccountPatch :: "ExchangeAccount \<Rightarrow> ExchangeAccountPatch \<Rightarrow> ExchangeAccount result" where
  "ApplyExchangeAccountPatch account patch = PrepareExchangeAccountForSave (patchAccount patch account)"

definition PassphraseRequired :: "ExchangeAccount \<Rightarrow> bool" where
  "PassphraseRequired account = (case defaultsForAccount (ea_exchange account) (ea_ccxt_id account) of
     Ok d \<Rightarrow> ed_passphrase_required d | _ \<Rightarrow> False)"

definition CredentialStatus :: "ExchangeAccount \<Rightarrow> string" where
  "CredentialStatus account =
    (if ea_api_key_encrypted account = '''' \<or> ea_api_secret_encrypted account = '''' then ''incomplete''
     else if PassphraseRequired account \<and> ea_passphrase_encrypted account = '''' then ''incomplete''
     else ''ready'')"

text \<open>The loop of \<open>BuildAllowedSymbolsJSON\<close>; \<open>cleaned\<close> are the symbols kept so far, which is also what
  \<open>seen\<close> holds.\<close>

fun cleanSymbols :: "string list \<Rightarrow> string list \<Rightarrow> string list result" where
  "cleanSymbols cleaned [] = Ok cleaned"
| "cleanSymbols cleaned (s # ss) =
    (let symbol = TrimSpace s
     in if symbol = '''' then Err (invalidConfig ''allowed_symbols contains empty symbol'')
        else if symbol \<in> set cleaned then cleanSymbols cleaned ss
        else cleanSymbols (cleaned @ [symbol]) ss)"

definition BuildAllowedSymbolsJSON :: "string list \<Rightarrow> string result" where
  "BuildAllowedSymbolsJSON symbols = rbind (cleanSymbols [] symbols) (\<lambda>cleaned. Ok (jsonStrings cleaned))"

section \<open>The account table\<close>

definition accountChecks :: "ExchangeAccount \<Rightarrow> bool" where
  "accountChecks a \<longleftrightarrow>
     ea_status a \<in> set [ExchangeAccountStatusActive, ExchangeAccountStatusDisabled] \<and>
     ea_market_type a \<in> set [MarketTypeSpot, MarketTypeMargin, MarketTypeSwap, MarketTypeFuture] \<and>
     ea_position_mode a \<in> set [PositionModeOneWay, PositionModeHedge] \<and>
     ea_margin_mode a \<in> set [MarginModeCross, MarginModeIsolated] \<and>
     0 \<le> ea_recv_window_ms a \<and> ea_recv_window_ms a \<le> 60000 \<and>
     0 \<le> ea_rate_limit_ms a \<and> ea_rate_limit_ms a \<le> 60000 \<and>
     jsonKind (ea_allowed_symbols a) = Some JsonArray \<and> jsonKind (ea_metadata a) = Some JsonObject"

text \<open>The unique indexes: agent, exchange and name; and the agent of a primary account.\<close>

definition accountIdentity :: "ExchangeAccount \<Rightarrow> nat \<times> string \<times> string" where
  "accountIdentity a = (ea_agent_id a, ea_exchange a, ea_name a)"

definition primaryOf :: "nat \<Rightarrow> ExchangeAccount \<Rightarrow> bool" where
  "primaryOf agent a \<longleftrightarrow> ea_agent_id a = agent \<and> ea_is_primary a"

definition acceptsAccount :: "ExchangeAccount list \<Rightarrow> ExchangeAccount \<Rightarrow> unit result" where
  "acceptsAccount others a =
    (if \<not> accountChecks a then Err (ErrExternal ''exchange_accounts check'')
     else if list_ex (\<lambda>r. accountIdentity r = accountIdentity a) others
     then Err (ErrExternal ''exchange_accounts_agent_exchange_name_active_uidx'')
     else if ea_is_primary a \<and> list_ex (primaryOf (ea_agent_id a)) others
     then Err (ErrExternal ''exchange_accounts_agent_primary_active_uidx'')
     else Ok ())"

text \<open>\<open>Update("is_primary", false)\<close> on the agent's other primary accounts\<close>

definition clearPrimary :: "nat \<Rightarrow> nat \<Rightarrow> ExchangeAccount list \<Rightarrow> ExchangeAccount list" where
  "clearPrimary agent keep =
     updateRows (\<lambda>a. primaryOf agent a \<and> ea_id a \<noteq> keep) (\<lambda>a. a\<lparr>ea_is_primary := False\<rparr>)"

definition othersThan :: "nat \<Rightarrow> ExchangeAccount list \<Rightarrow> ExchangeAccount list" where
  "othersThan i = filter (\<lambda>a. ea_id a \<noteq> i)"

text \<open>\<open>tx.Save(&account)\<close>\<close>

definition saveAccount :: "ExchangeAccount \<Rightarrow> ExchangeAccount list \<Rightarrow> ExchangeAccount list result" where
  "saveAccount a rows = rbind (acceptsAccount (othersThan (ea_id a) rows) a)
     (\<lambda>_. Ok (updateRows (\<lambda>r. ea_id r = ea_id a) (\<lambda>_. a) rows))"

text \<open>The end of both updating transactions: the agent's other primary accounts are cleared when the
  account is primary, and its row is saved. \<open>keep\<close> is the id the clearing statement excludes (0 for none).\<close>

definition clearedFor :: "ExchangeAccount \<Rightarrow> nat \<Rightarrow> MgmtDB \<Rightarrow> ExchangeAccount list" where
  "clearedFor a keep db =
     (if ea_is_primary a then clearPrimary (ea_agent_id a) keep (md_accounts db) else md_accounts db)"

definition persistAccount :: "string \<Rightarrow> nat \<Rightarrow> ExchangeAccount \<Rightarrow> (MgmtDB, ExchangeAccount) io" where
  "persistAccount message keep a db = (case saveAccount a (clearedFor a keep db) of
     Ok rows \<Rightarrow> (Ok a, db\<lparr>md_accounts := rows\<rparr>)
   | Err e \<Rightarrow> (Err (ErrWrap message e), db)
   | Panic \<Rightarrow> (Panic, db))"

text \<open>The id of a created row comes from the sequence, also when the insert is then refused; no row has
  the id 0, so clearing keeps none.\<close>

definition CreateExchangeAccount :: "ExchangeAccount \<Rightarrow> (MgmtDB, ExchangeAccount) io" where
  "CreateExchangeAccount account db = (case PrepareExchangeAccountForSave account of
     Err e \<Rightarrow> (Err e, db)
   | Panic \<Rightarrow> (Panic, db)
   | Ok a \<Rightarrow>
      (let rows = clearedFor a 0 db;
           n = sq_md_accounts db + 1;
           row = a\<lparr>ea_id := n\<rparr>
       in case wrapErr ''create exchange account'' (acceptsAccount rows row) of
            Ok _ \<Rightarrow> (Ok row, db\<lparr>md_accounts := rows @ [row], sq_md_accounts := n\<rparr>)
          | Err e \<Rightarrow> (Err e, db\<lparr>sq_md_accounts := n\<rparr>)
          | Panic \<Rightarrow> (Panic, db)))"

definition ListExchangeAccounts :: "(MgmtDB, ExchangeAccount list) io" where
  "ListExchangeAccounts db = (Ok (md_accounts db), db)"

definition ListActiveExchangeAccounts :: "(MgmtDB, ExchangeAccount list) io" where
  "ListActiveExchangeAccounts db =
     (Ok (filter (\<lambda>a. ea_status a = ExchangeAccountStatusActive) (md_accounts db)), db)"

definition GetExchangeAccount :: "nat \<Rightarrow> (MgmtDB, ExchangeAccount) io" where
  "GetExchangeAccount i db =
     (case accountById i db of Some a \<Rightarrow> Ok a | None \<Rightarrow> Err ErrNotFound, db)"

definition FindExchangeAccount :: "string \<Rightarrow> string \<Rightarrow> (MgmtDB, ExchangeAccount) io" where
  "FindExchangeAccount exchange name db =
    (rbind (PrepareExchangeAccountForSave (zeroAccount\<lparr>ea_exchange := exchange, ea_name := name\<rparr>)) (\<lambda>q.
       case findRow (\<lambda>a. ea_exchange a = ea_exchange q \<and> ea_name a = ea_name q) (md_accounts db) of
         Some a \<Rightarrow> Ok a | None \<Rightarrow> Err ErrNotFound), db)"

definition FindUniqueActiveExchangeAccountByIdentity ::
    "string \<Rightarrow> string \<Rightarrow> string \<Rightarrow> (MgmtDB, ExchangeAccount) io" where
  "FindUniqueActiveExchangeAccountByIdentity exchange name ccxtID db =
    (let normalized = ToLower (TrimSpace ccxtID);
         found = filter (\<lambda>a. ToLower (ea_exchange a) = ToLower (TrimSpace exchange) \<and>
                    ea_name a = TrimSpace name \<and> ea_status a = ExchangeAccountStatusActive \<and>
                    (normalized = '''' \<or> ToLower (ea_ccxt_id a) = normalized)) (md_accounts db)
     in (case take 2 found of
          [] \<Rightarrow> Err ErrNotFound
        | [a] \<Rightarrow> Ok a
        | _ \<Rightarrow> Err (invalidConfig ''exchange account identity is ambiguous''), db))"

definition UpdateExchangeAccount :: "nat \<Rightarrow> ExchangeAccountPatch \<Rightarrow> (MgmtDB, ExchangeAccount) io" where
  "UpdateExchangeAccount i patch db = (case accountById i db of
     None \<Rightarrow> (Err ErrNotFound, db)
   | Some old \<Rightarrow> (case ApplyExchangeAccountPatch old patch of
       Err e \<Rightarrow> (Err e, db)
     | Panic \<Rightarrow> (Panic, db)
     | Ok a \<Rightarrow> persistAccount ''update exchange account'' (ea_id a) a db))"

definition DeleteExchangeAccount :: "nat \<Rightarrow> (MgmtDB, unit) io" where
  "DeleteExchangeAccount i db = (case accountById i db of
     None \<Rightarrow> (Err ErrNotFound, db)
   | Some a \<Rightarrow> (Ok (), db\<lparr>md_accounts := othersThan i (md_accounts db),
                          md_deleted_accounts := md_deleted_accounts db @ [a]\<rparr>))"

definition SetPrimaryExchangeAccount :: "nat \<Rightarrow> (MgmtDB, ExchangeAccount) io" where
  "SetPrimaryExchangeAccount i db = (case accountById i db of
     None \<Rightarrow> (Err ErrNotFound, db)
   | Some a \<Rightarrow>
      if ea_status a = ExchangeAccountStatusDisabled
      then (Err (invalidConfig ''disabled account cannot be primary''), db)
      else persistAccount ''set primary exchange account'' 0 (a\<lparr>ea_is_primary := True\<rparr>) db)"

section \<open>Prepared accounts\<close>

lemma last_TrimSpace: "TrimSpace s \<noteq> [] \<Longrightarrow> \<not> isSpaceChar (last (TrimSpace s))"
  by (simp add: TrimSpace_def last_rev hd_dropWhile)

lemma TrimSpace_eq_Nil: "TrimSpace s = [] \<longleftrightarrow> (\<forall>c \<in> set s. isSpaceChar c)"
  by (auto simp: TrimSpace_def dropWhile_eq_Nil_conv dest: set_dropWhileD)
    (metis dropWhile_eq_Nil_conv hd_dropWhile hd_in_set)

lemma lastVisible_visible:
  assumes "TrimSpace k \<noteq> []"
  shows "TrimSpace (lastVisible (TrimSpace k) 4) \<noteq> []"
proof -
  have "last (TrimSpace k) \<in> set (lastVisible (TrimSpace k) 4)"
    using assms by (auto simp: lastVisible_def) (metis diff_less last_drop last_in_set drop_eq_Nil not_le
      zero_less_numeral length_greater_0_conv)
  then show ?thesis using last_TrimSpace [OF assms] by (auto simp: TrimSpace_eq_Nil)
qed

lemma table_entries:
  "list_all (\<lambda>(k, d). normalizeExchangeKey (ed_exchange d) = k \<and> k \<noteq> '''' \<and> ed_exchange d \<noteq> '''' \<and>
     list_all (\<lambda>t. TrimSpace t = t) [ed_exchange d, ed_market_type d, ed_default_settle d,
       ed_account_type d, ed_product_type d, ed_category d, ed_position_mode d, ed_margin_mode d] \<and>
     list_all (\<lambda>c. c \<noteq> '''' \<and> TrimSpace c = c \<and> ToLower c = c) (ed_supported_ccxt_ids d) \<and>
     ed_ccxt_id d \<in> set (ed_supported_ccxt_ids d)) exchangeTable"
  by code_simp

lemma defaultsForAccount_entry:
  assumes "defaultsForAccount exchange c = Ok d"
  obtains k where "(k, d) \<in> set exchangeTable"
  using assms map_of_SomeD
  by (fastforce simp: defaultsForAccount_def exchangeDefaultsByKey_def Let_def split: if_splits option.splits)

lemma table_distinct: "distinct (map fst exchangeTable)"
  by code_simp

text \<open>The name an exchange is stored under finds its entry again.\<close>

lemma defaults_of_entry:
  assumes "(k, d) \<in> set exchangeTable"
  shows "defaultsForAccount (ed_exchange d) c = Ok d"
proof -
  have "normalizeExchangeKey (ed_exchange d) = k" "k \<noteq> ''''"
    using table_entries assms by (auto simp: list_all_iff)
  moreover have "exchangeDefaultsByKey k = Some d"
    using assms table_distinct by (simp add: exchangeDefaultsByKey_def)
  ultimately show ?thesis by (simp add: defaultsForAccount_def)
qed

lemma TrimSpace_orDefault:
  "TrimSpace d = d \<Longrightarrow> TrimSpace (orDefault '''' d (TrimSpace x)) = orDefault '''' d (TrimSpace x)"
  by (simp add: orDefault_def)

lemma orDefault_case [simp]:
  "ToLower (orDefault '''' d (ToLower (orDefault '''' d x))) = ToLower (orDefault '''' d x)"
  "ToUpper (orDefault '''' d (ToUpper (orDefault '''' d x))) = ToUpper (orDefault '''' d x)"
  by (simp_all add: orDefault_def)

lemma checkAccount_ok:
  assumes "checkAccount a = Ok u"
  shows "accountChecks a" "ea_name a \<noteq> ''''"
  using assms
  by (auto simp: checkAccount_def accountChecks_def validateJSONArray_def validateJSONObject_def
      rbind_Ok_iff split: if_splits option.splits)

text \<open>The checks do not look at the hint.\<close>

lemma checkAccount_hint: "checkAccount (a\<lparr>ea_api_key_hint := h\<rparr>) = checkAccount a"
  by (simp add: checkAccount_def)

lemma Prepare_cases:
  assumes "PrepareExchangeAccountForSave a = Ok b"
  obtains k d c where "(k, d) \<in> set exchangeTable" "c \<in> set (ed_supported_ccxt_ids d)"
    "b = fillAccount d ((trimExchangeAccount a)\<lparr>ea_exchange := ed_exchange d, ea_ccxt_id := c\<rparr>)"
    "checkAccount b = Ok ()"
  using assms
  by (auto simp: PrepareExchangeAccountForSave_def Let_def rbind_Ok_iff split: if_splits
      elim!: defaultsForAccount_entry)


lemma fillAccount_simps [simp]:
  "ea_exchange (fillAccount d a) = ea_exchange a" "ea_ccxt_id (fillAccount d a) = ea_ccxt_id a"
  "ea_name (fillAccount d a) = ea_name a" "ea_id (fillAccount d a) = ea_id a"
  "ea_agent_id (fillAccount d a) = ea_agent_id a" "ea_is_primary (fillAccount d a) = ea_is_primary a"
  by (simp_all add: fillAccount_def)

lemma trimExchangeAccount_simps [simp]:
  "ea_id (trimExchangeAccount a) = ea_id a" "ea_agent_id (trimExchangeAccount a) = ea_agent_id a"
  "ea_is_primary (trimExchangeAccount a) = ea_is_primary a"
  "ea_name (trimExchangeAccount a) = TrimSpace (ea_name a)"
  "ea_api_key_encrypted (trimExchangeAccount a) = TrimSpace (ea_api_key_encrypted a)"
  by (simp_all add: trimExchangeAccount_def)

text \<open>Trimming a filled account changes at most its hint, and filling it again nothing.\<close>

lemma trim_filled:
  assumes "(k, d) \<in> set exchangeTable" "c \<in> set (ed_supported_ccxt_ids d)"
    and b: "b = fillAccount d ((trimExchangeAccount a)\<lparr>ea_exchange := ed_exchange d, ea_ccxt_id := c\<rparr>)"
  shows "trimExchangeAccount b = b\<lparr>ea_api_key_hint := TrimSpace (ea_api_key_hint b)\<rparr>"
proof -
  have status: "TrimSpace ExchangeAccountStatusActive = ExchangeAccountStatusActive" by code_simp
  have "TrimSpace t = t" if "t \<in> {ed_exchange d, ed_market_type d, ed_default_settle d,
       ed_account_type d, ed_product_type d, ed_category d, ed_position_mode d, ed_margin_mode d, c}" for t
    using table_entries assms(1,2) that by (fastforce simp: list_all_iff)
  then show ?thesis
    by (simp add: b fillAccount_def trimExchangeAccount_def TrimSpace_orDefault status)
qed

lemma fill_filled:
  assumes b: "b = fillAccount d ((trimExchangeAccount a)\<lparr>ea_exchange := ed_exchange d, ea_ccxt_id := c\<rparr>)"
  shows "fillAccount d (b\<lparr>ea_api_key_hint := TrimSpace (ea_api_key_hint b)\<rparr>) =
    b\<lparr>ea_api_key_hint := TrimSpace (ea_api_key_hint b)\<rparr>"
proof -
  let ?k = "TrimSpace (ea_api_key_encrypted a)"
  have "orDefault '''' (lastVisible ?k 4) (TrimSpace (ea_api_key_hint b)) = TrimSpace (ea_api_key_hint b)"
    using lastVisible_visible [of "ea_api_key_encrypted a"]
    by (cases "?k = ''''") (auto simp: b fillAccount_def trimExchangeAccount_def orDefault_def lastVisible_def)
  then show ?thesis
    by (simp add: b fillAccount_def trimExchangeAccount_def)
qed

text \<open>C24: preparing an account gives one the table's CHECK constraints accept, with a ccxt id its exchange
  supports, of the same agent, id and primary flag; preparing it again changes nothing but blanks at
  the front of the key hint (the last four characters of a credential may begin with a blank, and
  only the second preparation trims them).\<close>

theorem prepared_accounts_are_stable:
  assumes "PrepareExchangeAccountForSave a = Ok b"
  shows "accountChecks b \<and> ea_name b \<noteq> '''' \<and>
    ea_id b = ea_id a \<and> ea_agent_id b = ea_agent_id a \<and> ea_is_primary b = ea_is_primary a \<and>
    (\<exists>d \<in> set (map snd exchangeTable). ea_exchange b = ed_exchange d \<and>
       ea_ccxt_id b \<in> set (ed_supported_ccxt_ids d)) \<and>
    PrepareExchangeAccountForSave b = Ok (b\<lparr>ea_api_key_hint := TrimSpace (ea_api_key_hint b)\<rparr>)"
proof -
  from assms obtain k d c where entry: "(k, d) \<in> set exchangeTable" "c \<in> set (ed_supported_ccxt_ids d)"
    and b: "b = fillAccount d ((trimExchangeAccount a)\<lparr>ea_exchange := ed_exchange d, ea_ccxt_id := c\<rparr>)"
    and ok: "checkAccount b = Ok ()"
    by (rule Prepare_cases)
  have c: "c \<noteq> ''''" "ToLower c = c"
    using table_entries entry by (auto simp: list_all_iff)
  let ?b = "b\<lparr>ea_api_key_hint := TrimSpace (ea_api_key_hint b)\<rparr>"
  have names: "ea_exchange ?b = ed_exchange d" "ea_ccxt_id ?b = c" by (simp_all add: b)
  then have same: "?b\<lparr>ea_exchange := ed_exchange d, ea_ccxt_id := c\<rparr> = ?b" by simp
  have "PrepareExchangeAccountForSave b = rbind (checkAccount ?b) (\<lambda>_. Ok ?b)"
    unfolding PrepareExchangeAccountForSave_def trim_filled [OF entry b] Let_def names
      defaults_of_entry [OF entry(1)] rbind.simps if_not_P [OF c(1)] c(2) same fill_filled [OF b]
    using entry(2) by simp
  with ok have again: "PrepareExchangeAccountForSave b = Ok ?b" by (simp add: checkAccount_hint)
  have "\<exists>d \<in> set (map snd exchangeTable). ea_exchange b = ed_exchange d \<and>
      ea_ccxt_id b \<in> set (ed_supported_ccxt_ids d)"
    using entry by (force simp: b)
  with again checkAccount_ok [OF ok] show ?thesis by (simp add: b)
qed

definition newAccount :: ExchangeAccount where
  "newAccount = zeroAccount\<lparr>ea_agent_id := 7, ea_exchange := '' okex '', ea_name := ''main'',
     ea_api_key_encrypted := ''ab cde'', ea_is_primary := True\<rparr>"

definition preparedAccount :: ExchangeAccount where
  "preparedAccount = newAccount\<lparr>ea_exchange := ''OKX'', ea_ccxt_id := ''okx'', ea_market_type := ''swap'',
     ea_default_settle := ''USDT'', ea_position_mode := ''one_way'', ea_margin_mode := ''cross'',
     ea_recv_window_ms := 5000, ea_status := ''active'', ea_allowed_symbols := ''[]'',
     ea_metadata := ''{}'', ea_api_key_hint := '' cde''\<rparr>"

lemma newAccount_prepared: "PrepareExchangeAccountForSave newAccount = Ok preparedAccount"
  by code_simp

theorem prepared_accounts_are_stable_witness:
  "PrepareExchangeAccountForSave newAccount = Ok preparedAccount \<and>
   PrepareExchangeAccountForSave preparedAccount = Ok (preparedAccount\<lparr>ea_api_key_hint := ''cde''\<rparr>)"
proof -
  have "TrimSpace (ea_api_key_hint preparedAccount) = ''cde''" by code_simp
  with prepared_accounts_are_stable [OF newAccount_prepared] newAccount_prepared show ?thesis by simp
qed


section \<open>The list of allowed symbols\<close>

lemma cleanSymbols_eq:
  assumes "distinct cleaned"
  shows "cleanSymbols cleaned ss = (if '''' \<in> TrimSpace ` set ss
    then Err (invalidConfig ''allowed_symbols contains empty symbol'')
    else Ok (rev (remdups (rev (cleaned @ map TrimSpace ss)))))"
  using assms
proof (induction ss arbitrary: cleaned)
  case (Cons s ss)
  have "remdups (us @ t # vs) = remdups (us @ vs)" if "t \<in> set vs" for us vs and t :: string
    using that by (induction us) auto
  with Cons show ?case by (auto simp: Let_def)
qed (simp add: distinct_remdups_id)

text \<open>The stored list has every trimmed symbol once, in the order of first occurrence, and passes the
  validation of the account; an empty symbol is an error.\<close>

lemma BuildAllowedSymbolsJSON_eq:
  "BuildAllowedSymbolsJSON symbols = (if '''' \<in> TrimSpace ` set symbols
    then Err (invalidConfig ''allowed_symbols contains empty symbol'')
    else Ok (jsonStrings (rev (remdups (rev (map TrimSpace symbols))))))"
  by (simp add: BuildAllowedSymbolsJSON_def cleanSymbols_eq)

lemma BuildAllowedSymbolsJSON_valid:
  "BuildAllowedSymbolsJSON symbols = Ok j \<Longrightarrow> validateJSONArray j field = Ok ()"
  by (auto simp: BuildAllowedSymbolsJSON_eq validateJSONArray_def jsonKind_jsonStrings split: if_splits)

text \<open>Whether an account needs a passphrase depends on its exchange only, so a prepared OKX or Bitget
  account is ready only with one.\<close>

lemma CredentialStatus_ready:
  assumes "PrepareExchangeAccountForSave a = Ok b"
  shows "CredentialStatus b = ''ready'' \<longleftrightarrow> ea_api_key_encrypted b \<noteq> '''' \<and> ea_api_secret_encrypted b \<noteq> '''' \<and>
    (ea_exchange b \<in> {''OKX'', ''Bitget''} \<longrightarrow> ea_passphrase_encrypted b \<noteq> '''')"
proof -
  from assms obtain k d c where entry: "(k, d) \<in> set exchangeTable" and b: "ea_exchange b = ed_exchange d"
    by (auto elim!: Prepare_cases)
  have "list_all (\<lambda>(k, d). ed_passphrase_required d \<longleftrightarrow> ed_exchange d \<in> {''OKX'', ''Bitget''}) exchangeTable"
    by code_simp
  with entry have "ed_passphrase_required d \<longleftrightarrow> ed_exchange d \<in> {''OKX'', ''Bitget''}"
    by (auto simp: list_all_iff)
  then show ?thesis
    by (auto simp: CredentialStatus_def PassphraseRequired_def b defaults_of_entry [OF entry])
qed

end
