(* ===== verification/AccountTables.thy ===== *)
theory AccountTables
  imports Accounts
begin

text \<open>
  The account table under any sequence of the repository's operations: the constraints of its indexes are
  an invariant, and the primary account of an agent is handed over in one transaction.
\<close>

section \<open>The account table under any operations\<close>

datatype accountOp =
    OpCreate ExchangeAccount | OpUpdate nat ExchangeAccountPatch | OpPrimary nat | OpDelete nat

fun runAccountOp :: "accountOp \<Rightarrow> (MgmtDB, ExchangeAccount option) io" where
  "runAccountOp (OpCreate a) = bnd (CreateExchangeAccount a) (\<lambda>r. ret (Some r))"
| "runAccountOp (OpUpdate i p) = bnd (UpdateExchangeAccount i p) (\<lambda>r. ret (Some r))"
| "runAccountOp (OpPrimary i) = bnd (SetPrimaryExchangeAccount i) (\<lambda>r. ret (Some r))"
| "runAccountOp (OpDelete i) = bnd (DeleteExchangeAccount i) (\<lambda>_. ret None)"

definition goodRows :: "ExchangeAccount list \<Rightarrow> bool" where
  "goodRows rows \<longleftrightarrow> distinct (map ea_id rows) \<and> distinct (map accountIdentity rows) \<and>
     (\<forall>agent. length (filter (primaryOf agent) rows) \<le> 1) \<and> (\<forall>a \<in> set rows. accountChecks a)"

definition accountIds :: "MgmtDB \<Rightarrow> nat list" where
  "accountIds db = map ea_id (md_accounts db @ md_deleted_accounts db)"

definition wfAccounts :: "MgmtDB \<Rightarrow> bool" where
  "wfAccounts db \<longleftrightarrow> goodRows (md_accounts db) \<and> distinct (accountIds db) \<and>
     (\<forall>n \<in> set (accountIds db). 0 < n \<and> n \<le> sq_md_accounts db)"

lemma accountChecks_flags [simp]:
  "accountChecks (a\<lparr>ea_is_primary := p\<rparr>) = accountChecks a"
  "accountChecks (a\<lparr>ea_id := n\<rparr>) = accountChecks a"
  by (simp_all add: accountChecks_def)

lemma accountIdentity_flags [simp]:
  "accountIdentity (a\<lparr>ea_is_primary := p\<rparr>) = accountIdentity a"
  "accountIdentity (a\<lparr>ea_id := n\<rparr>) = accountIdentity a"
  by (simp_all add: accountIdentity_def)

lemma primaryOf_cleared [simp]:
  "primaryOf agent (a\<lparr>ea_is_primary := False\<rparr>) = False"
  "primaryOf agent (a\<lparr>ea_id := n\<rparr>) = primaryOf agent a"
  by (simp_all add: primaryOf_def)

text \<open>Clearing the primary flags.\<close>

lemma clearPrimary_maps [simp]:
  "map ea_id (clearPrimary agent keep rows) = map ea_id rows"
  "map accountIdentity (clearPrimary agent keep rows) = map accountIdentity rows"
  "map ea_agent_id (clearPrimary agent keep rows) = map ea_agent_id rows"
  by (simp_all add: clearPrimary_def map_updateRows)

lemma set_ids_clear [simp]: "ea_id ` set (clearPrimary agent keep rows) = ea_id ` set rows"
  using clearPrimary_maps(1) [of agent keep rows] by (metis list.set_map)

lemma clearPrimary_filter_eq:
  "filter (primaryOf g) (clearPrimary agent keep rows) =
   filter (primaryOf g) (filter (\<lambda>a. \<not> (primaryOf agent a \<and> ea_id a \<noteq> keep)) rows)"
  by (induction rows) (simp_all add: clearPrimary_def updateRows_def)

lemma clearPrimary_filter:
  "length (filter (primaryOf g) (clearPrimary agent keep rows)) \<le> length (filter (primaryOf g) rows)"
  unfolding clearPrimary_filter_eq by (induction rows) simp_all

lemma othersThan_clear:
  "othersThan i (clearPrimary agent keep rows) = clearPrimary agent keep (othersThan i rows)"
  by (induction rows) (simp_all add: clearPrimary_def updateRows_def othersThan_def)

lemma clearPrimary_all:
  assumes "\<forall>a \<in> set rows. ea_id a \<noteq> keep"
  shows "filter (primaryOf agent) (clearPrimary agent keep rows) = []"
  using assms by (simp add: clearPrimary_filter_eq filter_empty_conv)

lemma clearPrimary_none:
  "filter (primaryOf agent) (othersThan keep (clearPrimary agent keep rows)) = []"
  unfolding othersThan_clear by (rule clearPrimary_all) (simp add: othersThan_def)

lemma clearPrimary_others:
  "filter (\<lambda>r. ea_agent_id r \<noteq> agent) (clearPrimary agent keep rows) =
   filter (\<lambda>r. ea_agent_id r \<noteq> agent) rows"
  by (induction rows) (simp_all add: clearPrimary_def updateRows_def primaryOf_def)

lemma clearPrimary_good:
  assumes "goodRows rows"
  shows "goodRows (clearPrimary agent keep rows)"
proof -
  have "accountChecks a" if "a \<in> set (clearPrimary agent keep rows)" for a
    using assms that by (auto simp: goodRows_def clearPrimary_def set_updateRows split: if_splits)
  moreover have "length (filter (primaryOf g) (clearPrimary agent keep rows)) \<le> 1" for g
    using assms clearPrimary_filter [of g agent keep rows] le_trans unfolding goodRows_def by blast
  ultimately show ?thesis
    using assms by (simp add: goodRows_def)
qed

text \<open>Adding and replacing a row the constraints accept.\<close>

lemma acceptsAccount_ok:
  "acceptsAccount others a = Ok u \<longleftrightarrow> accountChecks a \<and>
     (\<forall>r \<in> set others. accountIdentity r \<noteq> accountIdentity a) \<and>
     (ea_is_primary a \<longrightarrow> filter (primaryOf (ea_agent_id a)) others = [])"
  by (auto simp: acceptsAccount_def list_ex_iff filter_empty_conv)

lemma goodRows_split: "goodRows (xs @ a # ys) \<longleftrightarrow> goodRows (a # xs @ ys)"
proof -
  have d: "distinct (map ea_id (xs @ a # ys)) \<longleftrightarrow> distinct (map ea_id (a # xs @ ys))"
    "distinct (map accountIdentity (xs @ a # ys)) \<longleftrightarrow> distinct (map accountIdentity (a # xs @ ys))"
    by auto
  have l: "length (filter P (xs @ a # ys)) = length (filter P (a # xs @ ys))" for P by simp
  have s: "set (xs @ a # ys) = set (a # xs @ ys)" by simp
  show ?thesis unfolding goodRows_def by (simp only: d l s)
qed

lemma goodRows_sub:
  assumes "goodRows (a # rows)"
  shows "goodRows rows"
proof -
  have "length (filter (primaryOf g) rows) \<le> length (filter (primaryOf g) (a # rows))" for g by simp
  then have "length (filter (primaryOf g) rows) \<le> 1" for g
    using assms le_trans unfolding goodRows_def by blast
  with assms show ?thesis by (simp add: goodRows_def)
qed

lemma goodRows_add:
  assumes "goodRows rows" "acceptsAccount rows a = Ok u" "ea_id a \<notin> ea_id ` set rows"
  shows "goodRows (a # rows)"
proof -
  have "length (filter (primaryOf g) (a # rows)) \<le> 1" for g
  proof (cases "primaryOf g a")
    case True
    then have "filter (primaryOf g) rows = []"
      using assms(2) by (simp add: acceptsAccount_ok primaryOf_def)
    then show ?thesis by simp
  next
    case False
    then show ?thesis using assms(1) by (simp add: goodRows_def)
  qed
  then show ?thesis
    using assms by (auto simp: goodRows_def acceptsAccount_ok)
qed

lemma row_split:
  assumes "distinct (map ea_id rows)" "r \<in> set rows" "ea_id r = ea_id a"
  obtains xs ys where "rows = xs @ r # ys" "othersThan (ea_id a) rows = xs @ ys"
    "updateRows (\<lambda>r. ea_id r = ea_id a) (\<lambda>_. a) rows = xs @ a # ys"
proof -
  from assms(2) obtain xs ys where rows: "rows = xs @ r # ys" by (meson split_list)
  have "ea_id r \<notin> ea_id ` set xs \<and> ea_id r \<notin> ea_id ` set ys"
    using assms(1) by (simp add: rows)
  then have other: "\<forall>x \<in> set xs. ea_id x \<noteq> ea_id a" "\<forall>x \<in> set ys. ea_id x \<noteq> ea_id a"
    using assms(3) by (metis imageI)+
  have "othersThan (ea_id a) rows = xs @ ys"
    using other assms(3) by (simp add: rows othersThan_def filter_id_conv)
  moreover have "updateRows (\<lambda>r. ea_id r = ea_id a) (\<lambda>_. a) rows = xs @ a # ys"
    using other assms(3) by (simp add: rows updateRows_def map_idI)
  ultimately show ?thesis using rows that by blast
qed


lemma saveAccount_ok:
  assumes "goodRows rows" "saveAccount a rows = Ok rows'"
  shows "goodRows rows'" "map ea_id rows' = map ea_id rows"
    "\<exists>r \<in> set rows. ea_id r = ea_id a \<Longrightarrow> ea_is_primary a \<Longrightarrow> filter (primaryOf (ea_agent_id a)) rows' = [a]"
proof -
  have rows': "rows' = updateRows (\<lambda>r. ea_id r = ea_id a) (\<lambda>_. a) rows"
    and acc: "acceptsAccount (othersThan (ea_id a) rows) a = Ok ()"
    using assms(2) by (auto simp: saveAccount_def rbind_Ok_iff)
  show "map ea_id rows' = map ea_id rows" by (simp add: rows' updateRows_def)
  have "goodRows rows' \<and> (ea_is_primary a \<longrightarrow> filter (primaryOf (ea_agent_id a)) rows' = [a])"
    if r: "r \<in> set rows" "ea_id r = ea_id a" for r
  proof -
    have ids: "distinct (map ea_id rows)" using assms(1) by (simp add: goodRows_def)
    from row_split [OF ids r] obtain xs ys where e: "rows = xs @ r # ys"
      "othersThan (ea_id a) rows = xs @ ys" "rows' = xs @ a # ys"
      unfolding rows' by metis
    have "goodRows (xs @ ys)" using assms(1) by (auto simp: e(1) goodRows_split intro: goodRows_sub)
    moreover have "ea_id a \<notin> ea_id ` set (xs @ ys)" using ids r(2) by (auto simp: e(1))
    ultimately have "goodRows rows'"
      using goodRows_add acc by (simp add: e(2,3) goodRows_split)
    moreover have "filter (primaryOf (ea_agent_id a)) rows' = [a]" if "ea_is_primary a"
      using acc that by (simp add: e(2,3) acceptsAccount_ok) (simp add: primaryOf_def)
    ultimately show ?thesis by simp
  qed
  moreover have "rows' = rows" if "\<forall>r \<in> set rows. ea_id r \<noteq> ea_id a"
    using that by (simp add: rows' updateRows_def map_idI)
  ultimately show "goodRows rows'"
    "\<exists>r \<in> set rows. ea_id r = ea_id a \<Longrightarrow> ea_is_primary a \<Longrightarrow> filter (primaryOf (ea_agent_id a)) rows' = [a]"
    using assms(1) by blast+
qed

text \<open>The primary index never refuses a row whose agent was cleared before.\<close>

lemma acceptsAccount_refusal:
  assumes "ea_is_primary a \<Longrightarrow> filter (primaryOf (ea_agent_id a)) others = []"
  shows "acceptsAccount others a \<noteq> Err (ErrExternal ''exchange_accounts_agent_primary_active_uidx'')"
  using assms by (auto simp: acceptsAccount_def list_ex_iff filter_empty_conv)

lemma accountById_row:
  assumes "wfAccounts db" "accountById i db = Some a"
  shows "a \<in> set (md_accounts db)" "ea_id a = i" "0 < i"
  using findRow_SomeD [of "\<lambda>a. ea_id a = i" "md_accounts db" a] assms
  by (auto simp: accountById_def wfAccounts_def accountIds_def)

lemma wfAccounts_rows:
  assumes "wfAccounts db" "goodRows rows" "map ea_id rows = map ea_id (md_accounts db)"
  shows "wfAccounts (db\<lparr>md_accounts := rows\<rparr>)"
proof -
  have "accountIds (db\<lparr>md_accounts := rows\<rparr>) = accountIds db"
    using assms(3) by (simp add: accountIds_def)
  with assms show ?thesis by (simp add: wfAccounts_def)
qed

lemma wfAccounts_sequence:
  "wfAccounts db \<Longrightarrow> wfAccounts (db\<lparr>sq_md_accounts := Suc (sq_md_accounts db)\<rparr>)"
proof -
  have "accountIds (db\<lparr>sq_md_accounts := Suc (sq_md_accounts db)\<rparr>) = accountIds db"
    by (simp add: accountIds_def)
  then show "wfAccounts db \<Longrightarrow> ?thesis" by (auto simp: wfAccounts_def)
qed

lemma CreateExchangeAccount_wf:
  assumes "wfAccounts db"
  shows "wfAccounts (snd (CreateExchangeAccount account db))"
proof (cases "PrepareExchangeAccountForSave account")
  case (Ok a)
  define rows where "rows = clearedFor a 0 db"
  define row where "row = a\<lparr>ea_id := Suc (sq_md_accounts db)\<rparr>"
  have good: "goodRows rows" using assms clearPrimary_good by (simp add: rows_def clearedFor_def wfAccounts_def)
  have ids: "map ea_id rows = map ea_id (md_accounts db)" by (simp add: rows_def clearedFor_def)
  have fresh: "Suc (sq_md_accounts db) \<notin> set (accountIds db)"
    using assms by (auto simp: wfAccounts_def)
  show ?thesis
  proof (cases "acceptsAccount rows row")
    case (Ok u)
    have "ea_id row \<notin> set (map ea_id rows)"
      using fresh unfolding ids by (simp add: row_def accountIds_def)
    then have "goodRows (rows @ [row])"
      using goodRows_split [of rows row "[]"] goodRows_add [OF good Ok] by simp
    moreover let ?db = "db\<lparr>md_accounts := rows @ [row], sq_md_accounts := Suc (sq_md_accounts db)\<rparr>"
    have e: "accountIds ?db = map ea_id (md_accounts db) @ Suc (sq_md_accounts db) #
        map ea_id (md_deleted_accounts db)"
      by (simp add: accountIds_def ids row_def)
    have "distinct (accountIds ?db)" "set (accountIds ?db) = insert (Suc (sq_md_accounts db)) (set (accountIds db))"
      using assms fresh unfolding e by (auto simp: wfAccounts_def accountIds_def)
    ultimately have "wfAccounts ?db"
      using assms by (auto simp: wfAccounts_def)
    with Ok \<open>PrepareExchangeAccountForSave account = Ok a\<close> show ?thesis
      by (simp add: CreateExchangeAccount_def Let_def rows_def [symmetric] row_def [symmetric])
  qed (use assms \<open>PrepareExchangeAccountForSave account = Ok a\<close> in
      \<open>simp_all add: CreateExchangeAccount_def Let_def rows_def [symmetric] row_def [symmetric] wfAccounts_sequence\<close>)
qed (use assms in \<open>simp_all add: CreateExchangeAccount_def\<close>)


lemma persistAccount_wf:
  assumes "wfAccounts db"
  shows "wfAccounts (snd (persistAccount m k a db))"
proof (cases "saveAccount a (clearedFor a k db)")
  case (Ok rows)
  have "goodRows (clearedFor a k db)"
    using assms clearPrimary_good by (simp add: wfAccounts_def clearedFor_def)
  from saveAccount_ok(1,2) [OF this Ok] have "wfAccounts (db\<lparr>md_accounts := rows\<rparr>)"
    by (intro wfAccounts_rows [OF assms]) (auto simp: clearedFor_def split: if_splits)
  with Ok show ?thesis by (simp add: persistAccount_def)
qed (use assms in \<open>simp_all add: persistAccount_def\<close>)

lemma UpdateExchangeAccount_wf:
  assumes "wfAccounts db"
  shows "wfAccounts (snd (UpdateExchangeAccount i patch db))"
  using assms persistAccount_wf
  by (simp add: UpdateExchangeAccount_def split: option.splits result.splits)

lemma SetPrimaryExchangeAccount_wf:
  assumes "wfAccounts db"
  shows "wfAccounts (snd (SetPrimaryExchangeAccount i db))"
  using assms persistAccount_wf
  by (simp add: SetPrimaryExchangeAccount_def split: option.splits)

lemma DeleteExchangeAccount_wf:
  assumes "wfAccounts db"
  shows "wfAccounts (snd (DeleteExchangeAccount i db))"
proof (cases "accountById i db")
  case (Some a)
  note row = accountById_row [OF assms Some]
  have "distinct (map ea_id (md_accounts db))" using assms by (simp add: wfAccounts_def goodRows_def)
  from row_split [OF this row(1) refl] obtain xs ys where e: "md_accounts db = xs @ a # ys"
    "othersThan i (md_accounts db) = xs @ ys"
    unfolding row(2) by metis
  let ?db = "snd (DeleteExchangeAccount i db)"
  have "goodRows (md_accounts ?db)"
    using assms goodRows_sub [of a "xs @ ys"]
    by (simp add: DeleteExchangeAccount_def Some e(2)) (simp add: e(1) wfAccounts_def goodRows_split)
  moreover have "distinct (accountIds ?db)" "set (accountIds ?db) = set (accountIds db)"
    using assms unfolding wfAccounts_def accountIds_def DeleteExchangeAccount_def Some
    by (simp_all add: e(2)) (auto simp: e(1) row(2))
  moreover have "sq_md_accounts ?db = sq_md_accounts db" by (simp add: DeleteExchangeAccount_def Some)
  ultimately show ?thesis using assms by (simp add: wfAccounts_def)
qed (use assms in \<open>simp add: DeleteExchangeAccount_def\<close>)

lemma runAccountOp_snd:
  "snd (runAccountOp (OpCreate a) db) = snd (CreateExchangeAccount a db)"
  "snd (runAccountOp (OpUpdate i p) db) = snd (UpdateExchangeAccount i p db)"
  "snd (runAccountOp (OpPrimary i) db) = snd (SetPrimaryExchangeAccount i db)"
  "snd (runAccountOp (OpDelete i) db) = snd (DeleteExchangeAccount i db)"
  by (simp_all add: bnd_def ret_def split: prod.splits result.splits)

definition afterOps :: "accountOp list \<Rightarrow> MgmtDB \<Rightarrow> MgmtDB" where
  "afterOps ops db = foldl (\<lambda>d op. snd (runAccountOp op d)) db ops"

lemma runAccountOp_wf: "wfAccounts db \<Longrightarrow> wfAccounts (snd (runAccountOp op db))"
  by (cases op) (simp_all only: runAccountOp_snd CreateExchangeAccount_wf UpdateExchangeAccount_wf
      SetPrimaryExchangeAccount_wf DeleteExchangeAccount_wf)

lemma wfAccounts_empty: "wfAccounts emptyMgmtDB"
  by (simp add: emptyMgmtDB_def wfAccounts_def goodRows_def accountIds_def)

lemma afterOps_wf: "wfAccounts db \<Longrightarrow> wfAccounts (afterOps ops db)"
  by (induction ops rule: rev_induct) (simp_all add: afterOps_def runAccountOp_wf)



section \<open>One primary account per agent\<close>

lemma filter_updateRows_out:
  "\<forall>r \<in> set rows. Q r \<longrightarrow> \<not> P r \<and> \<not> P (f r) \<Longrightarrow> filter P (updateRows Q f rows) = filter P rows"
  by (induction rows) (auto simp: updateRows_def)

lemma persistAccount_result: "persistAccount m k a db = (Ok b, db') \<Longrightarrow> b = a"
  by (auto simp: persistAccount_def split: result.splits)

lemma persistAccount_primary:
  assumes "wfAccounts db" "persistAccount m k a db = (Ok b, db')" "ea_is_primary a"
    "old \<in> set (md_accounts db)" "ea_id old = ea_id a" "ea_agent_id old = ea_agent_id a"
  shows "b = a \<and> filter (primaryOf (ea_agent_id a)) (md_accounts db') = [a] \<and>
    filter (\<lambda>r. ea_agent_id r \<noteq> ea_agent_id a) (md_accounts db') =
    filter (\<lambda>r. ea_agent_id r \<noteq> ea_agent_id a) (md_accounts db)"
proof -
  let ?cleared = "clearPrimary (ea_agent_id a) k (md_accounts db)"
  from assms(2,3) obtain rows where rows: "saveAccount a ?cleared = Ok rows"
    "b = a" "db' = db\<lparr>md_accounts := rows\<rparr>"
    by (auto simp: persistAccount_def clearedFor_def split: result.splits)
  have good: "goodRows ?cleared" using assms(1) clearPrimary_good by (simp add: wfAccounts_def)
  have ids: "distinct (map ea_id (md_accounts db))" using assms(1) by (simp add: wfAccounts_def goodRows_def)
  have same: "r = old" if "r \<in> set (md_accounts db)" "ea_id r = ea_id a" for r
    using ids that assms(4,5) by (metis distinct_map inj_onD)
  have "\<exists>r \<in> set ?cleared. ea_id r = ea_id a"
    using set_ids_clear [of "ea_agent_id a" k "md_accounts db"] assms(4,5) by (metis imageE imageI)
  with saveAccount_ok(3) [OF good rows(1)] assms(3)
  have one: "filter (primaryOf (ea_agent_id a)) rows = [a]" by blast
  have "rows = updateRows (\<lambda>r. ea_id r = ea_id a) (\<lambda>_. a) ?cleared"
    using rows(1) by (auto simp: saveAccount_def rbind_Ok_iff)
  also have "filter (\<lambda>r. ea_agent_id r \<noteq> ea_agent_id a) \<dots> =
      filter (\<lambda>r. ea_agent_id r \<noteq> ea_agent_id a) ?cleared"
  proof -
    have "ea_agent_id r = ea_agent_id a" if r: "r \<in> set ?cleared" "ea_id r = ea_id a" for r
      using r assms(6) same by (auto simp: clearPrimary_def set_updateRows split: if_splits)
    then show ?thesis by (intro filter_updateRows_out) auto
  qed
  finally show ?thesis using rows(2,3) one clearPrimary_others by simp
qed

lemma persistAccount_not_refused:
  assumes "k = ea_id a \<or> (\<forall>r \<in> set (md_accounts db). ea_id r \<noteq> k)"
  shows "fst (persistAccount m k a db) \<noteq>
    Err (ErrWrap m' (ErrExternal ''exchange_accounts_agent_primary_active_uidx''))"
proof -
  have "filter (primaryOf (ea_agent_id a)) (othersThan (ea_id a) (clearedFor a k db)) = []"
    if "ea_is_primary a"
  proof (cases "k = ea_id a")
    case True
    then show ?thesis using that clearPrimary_none by (simp add: clearedFor_def)
  next
    case False
    then have "filter (primaryOf (ea_agent_id a)) (clearedFor a k db) = []"
      using assms that clearPrimary_all by (simp add: clearedFor_def)
    then show ?thesis by (auto simp: othersThan_def filter_empty_conv)
  qed
  then show ?thesis
    using acceptsAccount_refusal [of a "othersThan (ea_id a) (clearedFor a k db)"]
    by (auto simp: persistAccount_def saveAccount_def split: result.splits
        elim!: rbind.elims)
qed


lemma patchAccount_simps [simp]:
  "ea_id (patchAccount p a) = ea_id a" "ea_agent_id (patchAccount p a) = ea_agent_id a"
  by (simp_all add: patchAccount_def)

lemma Prepare_keeps:
  assumes "PrepareExchangeAccountForSave a = Ok b"
  shows "ea_id b = ea_id a" "ea_agent_id b = ea_agent_id a"
  using assms by (auto elim!: Prepare_cases)

text \<open>Every error of the preparation is an invalid configuration.\<close>

lemma rbind_Err_iff: "rbind r f = Err e \<longleftrightarrow> r = Err e \<or> (\<exists>x. r = Ok x \<and> f x = Err e)"
  by (cases r) auto

lemma defaultsForAccount_Err:
  "defaultsForAccount exchange c = Err e \<Longrightarrow> \<exists>t. e = invalidConfig t"
  by (auto simp: defaultsForAccount_def Let_def split: if_splits option.splits)

lemma checkAccount_Err: "checkAccount a = Err e \<Longrightarrow> \<exists>t. e = invalidConfig t"
  by (auto simp: checkAccount_def validateJSONArray_def validateJSONObject_def rbind_Err_iff
      split: if_splits option.splits)

lemma Prepare_Err:
  "PrepareExchangeAccountForSave a = Err e \<Longrightarrow> \<exists>t. e = invalidConfig t"
  using defaultsForAccount_Err checkAccount_Err
  by (auto simp: PrepareExchangeAccountForSave_def Let_def rbind_Err_iff split: if_splits)

lemma CreateExchangeAccount_primary:
  assumes "CreateExchangeAccount account db = (Ok a, db')" "ea_is_primary a"
    "\<forall>r \<in> set (md_accounts db). ea_id r \<noteq> 0"
  shows "filter (primaryOf (ea_agent_id a)) (md_accounts db') = [a] \<and>
    filter (\<lambda>r. ea_agent_id r \<noteq> ea_agent_id a) (md_accounts db') =
    filter (\<lambda>r. ea_agent_id r \<noteq> ea_agent_id a) (md_accounts db)"
proof -
  from assms(1,2) obtain b where b: "a = b\<lparr>ea_id := Suc (sq_md_accounts db)\<rparr>"
    and rows: "md_accounts db' = clearPrimary (ea_agent_id a) 0 (md_accounts db) @ [a]"
    by (auto simp: CreateExchangeAccount_def clearedFor_def Let_def wrapErr_Ok_iff split: result.splits)
  show ?thesis
    using assms(2) clearPrimary_all [OF assms(3)] clearPrimary_others
    by (simp add: rows) (simp add: primaryOf_def)
qed

lemma CreateExchangeAccount_not_refused:
  assumes "\<forall>r \<in> set (md_accounts db). ea_id r \<noteq> 0"
  shows "fst (CreateExchangeAccount account db) \<noteq>
    Err (ErrWrap m (ErrExternal ''exchange_accounts_agent_primary_active_uidx''))"
proof (cases "PrepareExchangeAccountForSave account")
  case (Ok a)
  let ?row = "a\<lparr>ea_id := Suc (sq_md_accounts db)\<rparr>"
  have "ea_is_primary ?row \<Longrightarrow> filter (primaryOf (ea_agent_id ?row)) (clearedFor a 0 db) = []"
    using clearPrimary_all [OF assms] by (simp add: clearedFor_def)
  from acceptsAccount_refusal [OF this] show ?thesis
    by (cases "acceptsAccount (clearedFor a 0 db) ?row") (auto simp: CreateExchangeAccount_def Ok Let_def)
next
  case (Err e)
  with Prepare_Err show ?thesis by (fastforce simp: CreateExchangeAccount_def invalidConfig_def)
qed (simp add: CreateExchangeAccount_def)


lemma invalidConfig_neq [simp]: "invalidConfig t \<noteq> ErrWrap m e"
  by (simp add: invalidConfig_def)

text \<open>What both saving transactions promise.\<close>

definition handsOver :: "(MgmtDB, ExchangeAccount) io \<Rightarrow> MgmtDB \<Rightarrow> bool" where
  "handsOver m db \<longleftrightarrow> (\<forall>a db'. m db = (Ok a, db') \<longrightarrow> ea_is_primary a \<longrightarrow>
      filter (primaryOf (ea_agent_id a)) (md_accounts db') = [a] \<and>
      filter (\<lambda>r. ea_agent_id r \<noteq> ea_agent_id a) (md_accounts db') =
      filter (\<lambda>r. ea_agent_id r \<noteq> ea_agent_id a) (md_accounts db)) \<and>
    (\<forall>m'. fst (m db) \<noteq> Err (ErrWrap m' (ErrExternal ''exchange_accounts_agent_primary_active_uidx'')))"

lemma persistAccount_hands_over:
  assumes "wfAccounts db" "accountById i db = Some old" "ea_id a = ea_id old" "ea_agent_id a = ea_agent_id old"
    "k = 0 \<or> k = ea_id a"
  shows "handsOver (persistAccount m k a) db"
proof -
  note row = accountById_row [OF assms(1,2)]
  have "\<forall>r \<in> set (md_accounts db). ea_id r \<noteq> 0"
    using assms(1) by (auto simp: wfAccounts_def accountIds_def)
  then have "k = ea_id a \<or> (\<forall>r \<in> set (md_accounts db). ea_id r \<noteq> k)" using assms(5) by blast
  note refused = persistAccount_not_refused [OF this]
  show ?thesis
    unfolding handsOver_def
  proof (intro conjI allI impI)
    fix b db' assume p: "persistAccount m k a db = (Ok b, db')" "ea_is_primary b"
    have b: "b = a" using p(1) by (rule persistAccount_result)
    show "filter (primaryOf (ea_agent_id b)) (md_accounts db') = [b]"
      "filter (\<lambda>r. ea_agent_id r \<noteq> ea_agent_id b) (md_accounts db') =
       filter (\<lambda>r. ea_agent_id r \<noteq> ea_agent_id b) (md_accounts db)"
      using persistAccount_primary [OF assms(1) p(1) _ row(1)] p(2) assms(3,4) by (simp_all add: b)
  qed (rule refused)
qed

lemma handsOver_error:
  "fst (m db) = Err e \<Longrightarrow> (\<And>m'. e \<noteq> ErrWrap m' (ErrExternal ''exchange_accounts_agent_primary_active_uidx''))
   \<Longrightarrow> handsOver m db"
  by (auto simp: handsOver_def)

lemma bnd_some:
  "bnd m (\<lambda>r. ret (Some r)) db = (Ok (Some a), db') \<longleftrightarrow> m db = (Ok a, db')"
  by (auto simp: bnd_def ret_def split: prod.splits result.splits)

lemma bnd_some_fst:
  "fst (bnd m (\<lambda>r. ret (f r)) db) = Err e \<longleftrightarrow> fst (m db) = Err e"
  by (auto simp: bnd_def ret_def split: prod.splits result.splits)

text \<open>C40: when an operation makes an account its agent's primary one (by creating it, patching it or
  choosing it), that account is the agent's only primary account afterwards and no row of another agent
  has changed; and no operation is ever refused by the primary index, since the previous primary account
  is cleared in the same transaction.\<close>

theorem primary_is_handed_over:
  assumes "wfAccounts db"
  shows "(\<forall>a db'. runAccountOp op db = (Ok (Some a), db') \<longrightarrow> ea_is_primary a \<longrightarrow>
      filter (primaryOf (ea_agent_id a)) (md_accounts db') = [a] \<and>
      filter (\<lambda>r. ea_agent_id r \<noteq> ea_agent_id a) (md_accounts db') =
      filter (\<lambda>r. ea_agent_id r \<noteq> ea_agent_id a) (md_accounts db)) \<and>
    (\<forall>m. fst (runAccountOp op db) \<noteq>
      Err (ErrWrap m (ErrExternal ''exchange_accounts_agent_primary_active_uidx'')))"
proof (cases op)
  case (OpCreate account)
  have "\<forall>r \<in> set (md_accounts db). ea_id r \<noteq> 0"
    using assms by (auto simp: wfAccounts_def accountIds_def)
  then show ?thesis
    using CreateExchangeAccount_primary CreateExchangeAccount_not_refused
    by (simp add: OpCreate bnd_some bnd_some_fst)
next
  case (OpUpdate i p)
  have "handsOver (UpdateExchangeAccount i p) db"
  proof (cases "accountById i db")
    case (Some old)
    show ?thesis
    proof (cases "ApplyExchangeAccountPatch old p")
      case (Ok a)
      then have "handsOver (persistAccount ''update exchange account'' (ea_id a) a) db"
        by (intro persistAccount_hands_over [OF assms Some])
          (auto simp: ApplyExchangeAccountPatch_def dest: Prepare_keeps)
      then show ?thesis by (simp add: handsOver_def UpdateExchangeAccount_def Some Ok)
    next
      case (Err e)
      then obtain t where "e = invalidConfig t"
        using Prepare_Err by (auto simp: ApplyExchangeAccountPatch_def)
      with Err show ?thesis
        by (intro handsOver_error [where e = e]) (simp add: UpdateExchangeAccount_def Some, simp)
    qed (simp add: handsOver_def UpdateExchangeAccount_def Some)
  qed (simp add: handsOver_def UpdateExchangeAccount_def)
  then show ?thesis by (simp add: OpUpdate bnd_some bnd_some_fst handsOver_def)
next
  case (OpPrimary i)
  have "handsOver (SetPrimaryExchangeAccount i) db"
  proof (cases "accountById i db")
    case (Some old)
    have "handsOver (persistAccount ''set primary exchange account'' 0 (old\<lparr>ea_is_primary := True\<rparr>)) db"
      by (intro persistAccount_hands_over [OF assms Some]) simp_all
    then show ?thesis
      by (simp add: handsOver_def SetPrimaryExchangeAccount_def Some)
  qed (simp add: handsOver_def SetPrimaryExchangeAccount_def)
  then show ?thesis by (simp add: OpPrimary bnd_some bnd_some_fst handsOver_def)
next
  case (OpDelete i)
  then show ?thesis
    by (cases "accountById i db") (simp_all add: DeleteExchangeAccount_def bnd_def ret_def)
qed

definition oneAccount :: MgmtDB where
  "oneAccount = afterOps [OpCreate newAccount] emptyMgmtDB"

lemma oneAccount_rows: "md_accounts oneAccount = [preparedAccount\<lparr>ea_id := 1\<rparr>]"
proof -
  have "accountChecks preparedAccount" by code_simp
  moreover have "ea_is_primary preparedAccount" by code_simp
  ultimately show ?thesis
    by (simp add: oneAccount_def afterOps_def runAccountOp_snd CreateExchangeAccount_def newAccount_prepared
        clearedFor_def acceptsAccount_def clearPrimary_def updateRows_def emptyMgmtDB_def Let_def
        del: runAccountOp.simps)
qed

lemma saveAccount_single:
  assumes "accountChecks a" "ea_id a = ea_id old"
  shows "saveAccount a [old] = Ok [a]"
  using assms by (simp add: saveAccount_def othersThan_def acceptsAccount_def updateRows_def)

lemma oneAccount_primary:
  "SetPrimaryExchangeAccount 1 oneAccount = (Ok (preparedAccount\<lparr>ea_id := 1\<rparr>), oneAccount)"
proof -
  have p: "accountChecks preparedAccount" "ea_is_primary preparedAccount"
    "ea_status preparedAccount \<noteq> ExchangeAccountStatusDisabled" by code_simp+
  then have "preparedAccount\<lparr>ea_id := 1, ea_is_primary := True\<rparr> = preparedAccount\<lparr>ea_id := 1\<rparr>" by simp
  then have "SetPrimaryExchangeAccount 1 oneAccount = (Ok (preparedAccount\<lparr>ea_id := 1\<rparr>),
      oneAccount\<lparr>md_accounts := [preparedAccount\<lparr>ea_id := 1\<rparr>]\<rparr>)"
    using p by (simp add: SetPrimaryExchangeAccount_def accountById_def oneAccount_rows findRow_Cons
        persistAccount_def clearedFor_def clearPrimary_def updateRows_def primaryOf_def saveAccount_single)
  moreover have "oneAccount\<lparr>md_accounts := md_accounts oneAccount\<rparr> = oneAccount" by simp
  ultimately show ?thesis by (simp only: oneAccount_rows)
qed

theorem primary_is_handed_over_witness:
  "SetPrimaryExchangeAccount 1 oneAccount = (Ok (preparedAccount\<lparr>ea_id := 1\<rparr>), oneAccount) \<and>
   filter (primaryOf 7) (md_accounts oneAccount) = [preparedAccount\<lparr>ea_id := 1\<rparr>]"
proof -
  have p: "ea_is_primary preparedAccount" "ea_agent_id preparedAccount = 7" by code_simp+
  have "wfAccounts oneAccount" unfolding oneAccount_def by (rule afterOps_wf [OF wfAccounts_empty])
  from primary_is_handed_over [OF this, of "OpPrimary 1"] p oneAccount_primary
  show ?thesis by (simp add: bnd_some)
qed

definition disablePatch :: ExchangeAccountPatch where
  "disablePatch = \<lparr>pt_exchange = None, pt_name = None, pt_ccxt_id = None, pt_market_type = None,
     pt_sandbox = None, pt_default_settle = None, pt_account_type = None, pt_product_type = None,
     pt_category = None, pt_position_mode = None, pt_margin_mode = None, pt_recv_window_ms = None,
     pt_rate_limit_ms = None, pt_allowed_symbols = None, pt_api_key_encrypted = None,
     pt_api_key_hint = None, pt_api_secret_encrypted = None, pt_passphrase_encrypted = None,
     pt_status = Some ''disabled'', pt_is_primary = None, pt_metadata = None\<rparr>"

text \<open>A patch can disable the primary account and leave it primary, although choosing a disabled account
  as primary is refused.\<close>

lemma patch_leaves_disabled_primary:
  "\<exists>a db'. UpdateExchangeAccount 1 disablePatch oneAccount = (Ok a, db') \<and>
     ea_status a = ExchangeAccountStatusDisabled \<and> filter (primaryOf 7) (md_accounts db') = [a] \<and>
     fst (SetPrimaryExchangeAccount 1 db') = Err (invalidConfig ''disabled account cannot be primary'')"
proof -
  define a where "a = preparedAccount\<lparr>ea_id := 1, ea_status := ''disabled'', ea_api_key_hint := ''cde''\<rparr>"
  have p: "ApplyExchangeAccountPatch (preparedAccount\<lparr>ea_id := 1\<rparr>) disablePatch = Ok a"
    "accountChecks a" "ea_status a = ExchangeAccountStatusDisabled" "primaryOf 7 a" "ea_id a = 1"
    unfolding a_def by code_simp+
  then have "UpdateExchangeAccount 1 disablePatch oneAccount = (Ok a, oneAccount\<lparr>md_accounts := [a]\<rparr>)"
    by (simp add: UpdateExchangeAccount_def accountById_def oneAccount_rows findRow_Cons persistAccount_def
        clearedFor_def clearPrimary_def updateRows_def saveAccount_single)
  with p show ?thesis
    by (simp add: SetPrimaryExchangeAccount_def accountById_def findRow_Cons)
qed

end
