(* ===== verification/Markets.thy ===== *)
theory Markets
  imports Accounts Symbols "HOL-Library.Product_Lexorder"
begin

text \<open>
  The market catalogue (\<open>internal/db/mgmt/exchange_market.go\<close>): normalisation and validation of a market,
  the deduplication of a batch, and the upsert, prune and list statements on \<open>exchange_markets\<close> with the
  constraints of migrations 000005 and 000006. The clock readings of a batch are a function of the position;
  the row's update trigger is taken to read the same clock as the writer. The table is an interpretation of
  \<open>keyed_table\<close>.
\<close>

definition ExchangeEnvPaper :: string where "ExchangeEnvPaper = ''paper''"
definition ExchangeEnvLive :: string where "ExchangeEnvLive = ''live''"

record ExchangeMarket =
  em_id :: nat
  em_exchange :: string
  em_ccxt_id :: string
  em_exchange_env :: string
  em_market_type :: string
  em_symbol :: string
  em_normalized_symbol :: string
  em_base_asset :: string
  em_quote_asset :: string
  em_settle_asset :: string
  em_active :: bool
  em_contract :: bool
  em_linear :: bool
  em_inverse :: bool
  em_spot :: bool
  em_swap :: bool
  em_future :: bool
  em_option :: bool
  em_price_precision :: decimal
  em_amount_precision :: decimal
  em_min_amount :: decimal
  em_min_cost :: decimal
  em_contract_size :: decimal
  em_raw_response :: string
  em_fetched_at :: time
  em_created_at :: time
  em_updated_at :: time

section \<open>Preparation\<close>

definition normalizeExchangeMarketEnv :: "string \<Rightarrow> string" where
  "normalizeExchangeMarketEnv value =
    (let v = ToLower (TrimSpace value) in if v \<in> {ExchangeEnvPaper, ExchangeEnvLive} then v else '''')"

definition inferMarketType :: "ExchangeMarket \<Rightarrow> string" where
  "inferMarketType m =
    (if em_swap m then MarketTypeSwap else if em_future m then MarketTypeFuture
     else if em_spot m then MarketTypeSpot else if em_option m then ''option'' else '''')"

text \<open>The normalised symbol: the given one, else from the symbol, else from base and quote.\<close>

definition preparedSymbol :: "ExchangeMarket \<Rightarrow> string" where
  "preparedSymbol m =
    (let n1 = NormalizeMarketSymbol (em_normalized_symbol m);
         n2 = (if n1 = '''' then NormalizeMarketSymbol (TrimSpace (em_symbol m)) else n1);
         base = ToUpper (TrimSpace (em_base_asset m)); quote = ToUpper (TrimSpace (em_quote_asset m))
     in if n2 = '''' \<and> base \<noteq> '''' \<and> quote \<noteq> '''' then NormalizeMarketSymbol (base @ quote) else n2)"

text \<open>The assignments of \<open>PrepareExchangeMarketForSave\<close>; the environment stays as normalised when it
  is neither empty nor known, which the caller reports.\<close>

definition fillMarket :: "time \<Rightarrow> ExchangeMarket \<Rightarrow> ExchangeMarket" where
  "fillMarket now m = m\<lparr>
     em_exchange := TrimSpace (em_exchange m),
     em_ccxt_id := ToLower (TrimSpace (em_ccxt_id m)),
     em_exchange_env := (if TrimSpace (em_exchange_env m) = '''' then ExchangeEnvPaper
       else normalizeExchangeMarketEnv (TrimSpace (em_exchange_env m))),
     em_market_type := (let t = ToLower (TrimSpace (em_market_type m))
       in if t = '''' then inferMarketType m else t),
     em_symbol := TrimSpace (em_symbol m),
     em_base_asset := ToUpper (TrimSpace (em_base_asset m)),
     em_quote_asset := ToUpper (TrimSpace (em_quote_asset m)),
     em_settle_asset := ToUpper (TrimSpace (em_settle_asset m)),
     em_normalized_symbol := preparedSymbol m,
     em_fetched_at := orDefault 0 now (em_fetched_at m),
     em_created_at := orDefault 0 now (em_created_at m),
     em_updated_at := now,
     em_raw_response := orDefault '''' ''{}'' (em_raw_response m)\<rparr>"

definition PrepareExchangeMarketForSave :: "time \<Rightarrow> ExchangeMarket \<Rightarrow> ExchangeMarket result" where
  "PrepareExchangeMarketForSave now market =
    (let m = fillMarket now market
     in if em_exchange_env m = '''' then Err (invalidConfig ''exchange_env must be paper or live'')
        else if em_exchange m = '''' then Err (invalidConfig ''exchange is required'')
        else if em_symbol m = '''' then Err (invalidConfig ''symbol is required'')
        else if em_normalized_symbol m = '''' then Err (invalidConfig ''normalized_symbol is required'')
        else if em_exchange_env m \<notin> set [ExchangeEnvPaper, ExchangeEnvLive]
        then Err (invalidConfig ''exchange_env must be paper or live'')
        else if em_market_type m \<notin>
            set ['''', MarketTypeSpot, MarketTypeMargin, MarketTypeSwap, MarketTypeFuture, ''option'']
        then Err (invalidConfig ''market_type must be spot, margin, swap, future, option, or empty'')
        else rbind (validateJSONObject (em_raw_response m) ''raw_response'') (\<lambda>_. Ok m))"

fun joinStrings :: "string \<Rightarrow> string list \<Rightarrow> string" where
  "joinStrings sep [] = ''''"
| "joinStrings sep [s] = s"
| "joinStrings sep (s # t # ss) = s @ sep @ joinStrings sep (t # ss)"

definition exchangeMarketIdentityKey :: "ExchangeMarket \<Rightarrow> string" where
  "exchangeMarketIdentityKey m = joinStrings [CHR 0x00] [em_exchange m, em_ccxt_id m, em_exchange_env m,
     em_market_type m, em_settle_asset m, em_normalized_symbol m]"

text \<open>A later market takes the place of an earlier one with the same key.\<close>

definition dedupeStep :: "ExchangeMarket \<Rightarrow> ExchangeMarket list \<Rightarrow> ExchangeMarket list" where
  "dedupeStep m = upsertRow (\<lambda>r. exchangeMarketIdentityKey r = exchangeMarketIdentityKey m) (\<lambda>_. m) m"

definition dedupeExchangeMarkets :: "ExchangeMarket list \<Rightarrow> ExchangeMarket list" where
  "dedupeExchangeMarkets markets = (if length markets < 2 then markets else fold dedupeStep markets [])"

text \<open>The loop of \<open>PrepareExchangeMarketsForSave\<close>; \<open>clock i\<close> is the reading for the \<open>i\<close>-th market.\<close>

fun prepareMarkets :: "(nat \<Rightarrow> time) \<Rightarrow> ExchangeMarket list \<Rightarrow> ExchangeMarket list result" where
  "prepareMarkets clock [] = Ok []"
| "prepareMarkets clock (m # ms) =
     rbind (PrepareExchangeMarketForSave (clock 0) m) (\<lambda>p.
     rbind (prepareMarkets (\<lambda>i. clock (Suc i)) ms) (\<lambda>ps. Ok (p # ps)))"

definition PrepareExchangeMarketsForSave ::
    "(nat \<Rightarrow> time) \<Rightarrow> ExchangeMarket list \<Rightarrow> ExchangeMarket list result" where
  "PrepareExchangeMarketsForSave clock markets =
     rbind (prepareMarkets clock markets) (\<lambda>ps. Ok (dedupeExchangeMarkets ps))"

section \<open>The table\<close>

record MarketDB =
  mt_rows :: "ExchangeMarket list"
  mt_sequence :: nat

type_synonym marketKey = "string \<times> string \<times> string \<times> string \<times> string \<times> string"

definition marketIdentity :: "ExchangeMarket \<Rightarrow> marketKey" where
  "marketIdentity m = (em_exchange m, em_ccxt_id m, em_exchange_env m, em_market_type m,
     em_settle_asset m, em_normalized_symbol m)"

text \<open>\<open>btrim\<close> with its default removes blanks only.\<close>

definition onlyBlanks :: "string \<Rightarrow> bool" where
  "onlyBlanks s \<longleftrightarrow> list_all (\<lambda>c. c = CHR '' '') s"

definition marketChecks :: "ExchangeMarket \<Rightarrow> bool" where
  "marketChecks m \<longleftrightarrow> em_exchange_env m \<in> set [''paper'', ''live''] \<and>
     em_market_type m \<in> set ['''', ''spot'', ''margin'', ''swap'', ''future'', ''option''] \<and>
     \<not> onlyBlanks (em_symbol m) \<and> jsonKind (em_raw_response m) = Some JsonObject \<and>
     \<not> onlyBlanks (em_normalized_symbol m)"

text \<open>\<open>ON CONFLICT ... DO UPDATE\<close> on the identity columns: the row keeps its id, identity and
  \<open>created_at\<close>.\<close>

definition updatedMarket :: "ExchangeMarket \<Rightarrow> ExchangeMarket \<Rightarrow> ExchangeMarket" where
  "updatedMarket new old = new\<lparr>em_id := em_id old, em_created_at := em_created_at old\<rparr>"

definition putMarket :: "ExchangeMarket \<Rightarrow> MarketDB \<Rightarrow> MarketDB" where
  "putMarket m db = db\<lparr>
     mt_rows := upsertRow (\<lambda>r. marketIdentity r = marketIdentity m) (updatedMarket m)
       (m\<lparr>em_id := Suc (mt_sequence db)\<rparr>) (mt_rows db),
     mt_sequence := Suc (mt_sequence db)\<rparr>"

definition getMarket :: "MarketDB \<Rightarrow> marketKey \<Rightarrow> ExchangeMarket option" where
  "getMarket db k = findRow (\<lambda>r. marketIdentity r = k) (mt_rows db)"

text \<open>One \<open>INSERT\<close> statement cannot touch a row twice.\<close>

definition insertBatch :: "ExchangeMarket list \<Rightarrow> MarketDB \<Rightarrow> MarketDB result" where
  "insertBatch ms db =
    (if \<not> list_all marketChecks ms then Err (ErrExternal ''exchange_markets check'')
     else if \<not> distinct (map marketIdentity ms)
     then Err (ErrExternal ''ON CONFLICT DO UPDATE command cannot affect row a second time'')
     else Ok (fold putMarket ms db))"

text \<open>\<open>CreateInBatches(prepared, n)\<close>: the batches of one transaction.\<close>

function insertBatches :: "nat \<Rightarrow> ExchangeMarket list \<Rightarrow> MarketDB \<Rightarrow> MarketDB result" where
  "insertBatches n ms db = (if ms = [] \<or> n = 0 then Ok db
     else rbind (insertBatch (take n ms) db) (insertBatches n (drop n ms)))"
  by auto
termination by (relation "measure (\<lambda>(n, ms, db). length ms)") auto

declare insertBatches.simps [simp del]

definition UpsertExchangeMarkets :: "(nat \<Rightarrow> time) \<Rightarrow> ExchangeMarket list \<Rightarrow> (MarketDB, unit) io" where
  "UpsertExchangeMarkets clock markets db =
    (if markets = [] then (Ok (), db)
     else case PrepareExchangeMarketsForSave clock markets of
         Err e \<Rightarrow> (Err e, db)
       | Panic \<Rightarrow> (Panic, db)
       | Ok prepared \<Rightarrow> (case insertBatches 500 prepared db of
           Ok db' \<Rightarrow> (Ok (), db')
         | Err e \<Rightarrow> (Err (ErrWrap ''upsert exchange markets'' e), db)
         | Panic \<Rightarrow> (Panic, db)))"

record ExchangeMarketPruneFilter =
  pf_exchange :: string
  pf_ccxt_id :: string
  pf_exchange_env :: string
  pf_market_type :: string
  pf_settle_asset :: string
  pf_allowed_normalized_symbols :: "string list"
  pf_use_allowlist :: bool

fun normalizeMarketSymbolList :: "string list \<Rightarrow> string list \<Rightarrow> string list" where
  "normalizeMarketSymbolList seen [] = []"
| "normalizeMarketSymbolList seen (s # ss) =
    (let value = NormalizeMarketSymbol s
     in if value = '''' \<or> value \<in> set seen then normalizeMarketSymbolList seen ss
        else value # normalizeMarketSymbolList (value # seen) ss)"

text \<open>The rows the \<open>DELETE\<close> of \<open>PruneExchangeMarkets\<close> selects: the scope, and in it what the switch adds.\<close>

definition inPruneScope :: "ExchangeMarketPruneFilter \<Rightarrow> ExchangeMarket \<Rightarrow> bool" where
  "inPruneScope f m \<longleftrightarrow> em_exchange m = TrimSpace (pf_exchange f) \<and>
     em_ccxt_id m = ToLower (TrimSpace (pf_ccxt_id f)) \<and>
     em_exchange_env m = normalizeExchangeMarketEnv (pf_exchange_env f) \<and>
     em_settle_asset m = ToUpper (TrimSpace (pf_settle_asset f))"

definition pruneSelects :: "ExchangeMarketPruneFilter \<Rightarrow> ExchangeMarket \<Rightarrow> bool" where
  "pruneSelects f m =
    (let t = ToLower (TrimSpace (pf_market_type f));
         allowed = normalizeMarketSymbolList [] (pf_allowed_normalized_symbols f)
     in inPruneScope f m \<and>
        (if t \<noteq> '''' \<and> pf_use_allowlist f \<and> allowed \<noteq> []
         then em_market_type m \<noteq> t \<or> em_normalized_symbol m \<notin> set allowed
         else if t \<noteq> '''' \<and> pf_use_allowlist f then True
         else if t \<noteq> '''' then em_market_type m \<noteq> t
         else if pf_use_allowlist f \<and> allowed \<noteq> [] then em_normalized_symbol m \<notin> set allowed
         else True))"

definition PruneExchangeMarkets :: "ExchangeMarketPruneFilter \<Rightarrow> (MarketDB, int) io" where
  "PruneExchangeMarkets f db =
    (if TrimSpace (pf_exchange f) = '''' \<or> ToLower (TrimSpace (pf_ccxt_id f)) = '''' \<or>
        normalizeExchangeMarketEnv (pf_exchange_env f) = '''' \<or> ToUpper (TrimSpace (pf_settle_asset f)) = ''''
     then (Ok 0, db)
     else if ToLower (TrimSpace (pf_market_type f)) = '''' \<and> \<not> pf_use_allowlist f then (Ok 0, db)
     else (Ok (int (length (filter (pruneSelects f) (mt_rows db)))),
           db\<lparr>mt_rows := filter (\<lambda>m. \<not> pruneSelects f m) (mt_rows db)\<rparr>))"

record ExchangeMarketFilter =
  ef_exchange :: string
  ef_ccxt_id :: string
  ef_exchange_env :: string
  ef_market_type :: string
  ef_settle_asset :: string
  ef_symbol :: string
  ef_normalized_symbol :: string
  ef_active :: "bool option"
  ef_limit :: int

text \<open>\<open>if value != "" { query = query.Where(column = value) }\<close>\<close>

definition whereGiven :: "string \<Rightarrow> string \<Rightarrow> bool" where
  "whereGiven value column \<longleftrightarrow> value = '''' \<or> column = value"

definition listSelects :: "ExchangeMarketFilter \<Rightarrow> ExchangeMarket \<Rightarrow> bool" where
  "listSelects f m \<longleftrightarrow> whereGiven (TrimSpace (ef_exchange f)) (em_exchange m) \<and>
     whereGiven (ToLower (TrimSpace (ef_ccxt_id f))) (em_ccxt_id m) \<and>
     whereGiven (normalizeExchangeMarketEnv (ef_exchange_env f)) (em_exchange_env m) \<and>
     whereGiven (ToLower (TrimSpace (ef_market_type f))) (em_market_type m) \<and>
     whereGiven (ToUpper (TrimSpace (ef_settle_asset f))) (em_settle_asset m) \<and>
     whereGiven (TrimSpace (ef_symbol f)) (em_symbol m) \<and>
     whereGiven (NormalizeMarketSymbol (ef_normalized_symbol f)) (em_normalized_symbol m) \<and>
     (case ef_active f of None \<Rightarrow> True | Some a \<Rightarrow> em_active m = a)"

definition clampLimit :: "int \<Rightarrow> nat" where
  "clampLimit n = nat (let l = (if n \<le> 0 then 500 else n) in if l > 5000 then 5000 else l)"

definition ListExchangeMarkets :: "ExchangeMarketFilter \<Rightarrow> (MarketDB, ExchangeMarket list) io" where
  "ListExchangeMarkets f db =
     (Ok (take (clampLimit (ef_limit f)) (sort_key (\<lambda>m. (em_exchange m, em_ccxt_id m, em_exchange_env m,
        em_market_type m, em_settle_asset m, em_normalized_symbol m, em_symbol m))
        (filter (listSelects f) (mt_rows db)))), db)"


section \<open>Prepared markets\<close>

lemma env_facts:
  "e \<in> {ExchangeEnvPaper, ExchangeEnvLive} \<Longrightarrow> TrimSpace e = e \<and> normalizeExchangeMarketEnv e = e \<and> e \<noteq> ''''"
proof -
  have "list_all (\<lambda>e. TrimSpace e = e \<and> normalizeExchangeMarketEnv e = e \<and> e \<noteq> '''')
      [ExchangeEnvPaper, ExchangeEnvLive]" by code_simp
  then show "e \<in> {ExchangeEnvPaper, ExchangeEnvLive} \<Longrightarrow> ?thesis" by auto
qed

lemma inferMarketType_trimmed: "ToLower (TrimSpace (inferMarketType m)) = inferMarketType m"
proof -
  have "list_all (\<lambda>t. ToLower (TrimSpace t) = t) [MarketTypeSwap, MarketTypeFuture, MarketTypeSpot, ''option'']"
    by code_simp
  then show ?thesis by (simp add: inferMarketType_def)
qed

lemma preparedSymbol_normal: "NormalizeMarketSymbol (preparedSymbol m) = preparedSymbol m"
  by (simp add: preparedSymbol_def Let_def)

lemma Prepare_market_ok:
  "PrepareExchangeMarketForSave now m = Ok p \<longleftrightarrow> p = fillMarket now m \<and> em_exchange p \<noteq> '''' \<and>
     em_symbol p \<noteq> '''' \<and> em_normalized_symbol p \<noteq> '''' \<and> em_exchange_env p \<in> {ExchangeEnvPaper, ExchangeEnvLive} \<and>
     em_market_type p \<in> {'''', ''spot'', ''margin'', ''swap'', ''future'', ''option''} \<and>
     jsonKind (em_raw_response p) = Some JsonObject"
proof -
  have "'''' \<noteq> ExchangeEnvPaper" "'''' \<noteq> ExchangeEnvLive" by code_simp+
  then show ?thesis
    by (auto simp: PrepareExchangeMarketForSave_def Let_def rbind_Ok_iff validateJSONObject_def mode_defs
        split: option.splits if_splits)
qed

lemma fillMarket_simps [simp]:
  "em_exchange (fillMarket now m) = TrimSpace (em_exchange m)"
  "em_ccxt_id (fillMarket now m) = ToLower (TrimSpace (em_ccxt_id m))"
  "em_symbol (fillMarket now m) = TrimSpace (em_symbol m)"
  "em_settle_asset (fillMarket now m) = ToUpper (TrimSpace (em_settle_asset m))"
  "em_normalized_symbol (fillMarket now m) = preparedSymbol m"
  by (simp_all add: fillMarket_def)

lemma fillMarket_type: "ToLower (TrimSpace (em_market_type (fillMarket now m))) = em_market_type (fillMarket now m)"
  by (simp add: fillMarket_def Let_def inferMarketType_trimmed)

text \<open>Preparing a prepared market again only stamps it anew.\<close>

lemma Prepare_market_again:
  assumes p: "PrepareExchangeMarketForSave now m = Ok p" and now: "0 < now"
  shows "PrepareExchangeMarketForSave now' p = Ok (p\<lparr>em_updated_at := now'\<rparr>)"
proof -
  have e: "p = fillMarket now m" and ok: "em_normalized_symbol p \<noteq> ''''"
    "em_exchange_env p \<in> {ExchangeEnvPaper, ExchangeEnvLive}"
    using p unfolding Prepare_market_ok by blast+
  have env: "(if TrimSpace (em_exchange_env p) = '''' then ExchangeEnvPaper
      else normalizeExchangeMarketEnv (TrimSpace (em_exchange_env p))) = em_exchange_env p"
    using env_facts [OF ok(2)] by simp
  have type: "(let t = ToLower (TrimSpace (em_market_type p)) in if t = '''' then inferMarketType p else t) =
      em_market_type p"
    unfolding e fillMarket_type by (simp add: fillMarket_def Let_def) (simp add: inferMarketType_def)
  have symbol: "preparedSymbol p = em_normalized_symbol p"
    using ok(1) by (simp add: preparedSymbol_def [of p] Let_def) (simp add: e preparedSymbol_normal)
  have fill: "fillMarket now' p = p\<lparr>em_updated_at := now'\<rparr>"
    unfolding fillMarket_def [of now' p] env type symbol
    using now by (simp add: e fillMarket_def orDefault_def)
  have "em_exchange p \<noteq> ''''" "em_symbol p \<noteq> ''''" "jsonKind (em_raw_response p) = Some JsonObject"
    "em_market_type p \<in> {'''', ''spot'', ''margin'', ''swap'', ''future'', ''option''}"
    using p unfolding Prepare_market_ok by blast+
  with ok show ?thesis unfolding Prepare_market_ok fill by simp
qed

lemma marketChecks_prepared:
  assumes "PrepareExchangeMarketForSave now m = Ok p"
  shows "marketChecks p"
proof -
  have blank: "TrimSpace s = ''''" if "onlyBlanks s" for s
    using that by (auto simp: TrimSpace_eq_Nil onlyBlanks_def list_all_iff isSpaceChar_def)
  have e: "p = fillMarket now m" using assms unfolding Prepare_market_ok by blast
  have "\<not> onlyBlanks (em_symbol p)" "\<not> onlyBlanks (em_normalized_symbol p)"
  proof -
    have "TrimSpace (em_symbol p) = em_symbol p" by (simp add: e)
    moreover have "TrimSpace (em_normalized_symbol p) = em_normalized_symbol p"
      using TrimSpace_normal by (metis e fillMarket_simps(5) preparedSymbol_normal)
    ultimately show "\<not> onlyBlanks (em_symbol p)" "\<not> onlyBlanks (em_normalized_symbol p)"
      using assms blank unfolding Prepare_market_ok by metis+
  qed
  then show ?thesis
    using assms unfolding Prepare_market_ok
    by (auto simp: marketChecks_def ExchangeEnvPaper_def ExchangeEnvLive_def)
qed


section \<open>Batches\<close>

lemma prepareMarkets_ok:
  "prepareMarkets clock ms = Ok ps \<Longrightarrow>
   list_all2 (\<lambda>m p. \<exists>i < length ms. PrepareExchangeMarketForSave (clock i) m = Ok p) ms ps"
proof (induction ms arbitrary: clock ps)
  case (Cons m ms)
  then obtain p qs where p: "PrepareExchangeMarketForSave (clock 0) m = Ok p"
    "prepareMarkets (\<lambda>i. clock (Suc i)) ms = Ok qs" "ps = p # qs"
    by (auto simp: rbind_Ok_iff)
  from Cons.IH [OF p(2)] have
    "list_all2 (\<lambda>m p. \<exists>i < length (a # ms). PrepareExchangeMarketForSave (clock i) m = Ok p) ms qs" for a
    by (rule list_all2_mono) auto
  with p show ?case by auto
qed simp

lemma dedupe_fold:
  assumes "distinct (map exchangeMarketIdentityKey acc)"
  shows "distinct (map exchangeMarketIdentityKey (fold dedupeStep ms acc)) \<and>
    set (fold dedupeStep ms acc) \<subseteq> set acc \<union> set ms \<and>
    exchangeMarketIdentityKey ` set (fold dedupeStep ms acc) =
      exchangeMarketIdentityKey ` (set acc \<union> set ms)"
  using assms
proof (induction ms arbitrary: acc)
  case (Cons m ms)
  have "distinct (map exchangeMarketIdentityKey (dedupeStep m acc))"
    unfolding dedupeStep_def by (rule distinct_upsertRow) (use Cons.prems in auto)
  moreover have "set (dedupeStep m acc) \<subseteq> insert m (set acc)"
    by (auto simp: dedupeStep_def upsertRow_def set_updateRows)
  moreover have "exchangeMarketIdentityKey ` set (dedupeStep m acc) =
      insert (exchangeMarketIdentityKey m) (exchangeMarketIdentityKey ` set acc)"
    by (auto simp: dedupeStep_def upsertRow_def set_updateRows image_iff)
  ultimately show ?case using Cons.IH [of "dedupeStep m acc"] by auto
qed simp

text \<open>Deduplication keeps one market per key, each one of the given markets, and no key is lost.\<close>

lemma dedupe_keys:
  "distinct (map exchangeMarketIdentityKey (dedupeExchangeMarkets ms))"
  "set (dedupeExchangeMarkets ms) \<subseteq> set ms"
  "exchangeMarketIdentityKey ` set (dedupeExchangeMarkets ms) = exchangeMarketIdentityKey ` set ms"
proof -
  have "distinct (map exchangeMarketIdentityKey ms)" if "length ms < 2"
    using that by (cases ms; cases "tl ms") auto
  then show "distinct (map exchangeMarketIdentityKey (dedupeExchangeMarkets ms))"
    "set (dedupeExchangeMarkets ms) \<subseteq> set ms"
    "exchangeMarketIdentityKey ` set (dedupeExchangeMarkets ms) = exchangeMarketIdentityKey ` set ms"
    using dedupe_fold [of "[]" ms] by (auto simp: dedupeExchangeMarkets_def)
qed

lemma dedupe_distinct:
  assumes "distinct (map exchangeMarketIdentityKey ms)"
  shows "dedupeExchangeMarkets ms = ms"
proof -
  have "fold dedupeStep ms acc = acc @ ms" if "distinct (map exchangeMarketIdentityKey (acc @ ms))" for acc
    using that
  proof (induction ms arbitrary: acc)
    case (Cons m ms)
    then have "exchangeMarketIdentityKey m \<notin> exchangeMarketIdentityKey ` set acc" by auto
    then have "\<not> (\<exists>r \<in> set acc. exchangeMarketIdentityKey r = exchangeMarketIdentityKey m)"
      by (metis imageI)
    then have "dedupeStep m acc = acc @ [m]" by (simp add: dedupeStep_def upsertRow_def)
    with Cons.IH [of "acc @ [m]"] Cons.prems show ?case by simp
  qed simp
  from this [of "[]"] assms show ?thesis by (simp add: dedupeExchangeMarkets_def)
qed

lemma identity_key: "marketIdentity m = marketIdentity n \<Longrightarrow> exchangeMarketIdentityKey m = exchangeMarketIdentityKey n"
  by (simp add: marketIdentity_def exchangeMarketIdentityKey_def)

lemma distinct_identities:
  "distinct (map exchangeMarketIdentityKey ms) \<Longrightarrow> distinct (map marketIdentity ms)"
proof (induction ms)
  case (Cons m ms)
  then have "\<forall>r \<in> set ms. exchangeMarketIdentityKey m \<noteq> exchangeMarketIdentityKey r"
    by (simp add: image_iff)
  then have "\<forall>r \<in> set ms. marketIdentity m \<noteq> marketIdentity r" using identity_key by blast
  with Cons show ?case by (simp add: image_iff)
qed simp

text \<open>Batches of distinct markets the table accepts are one long upsert, whatever the batch size.\<close>

lemma insertBatches_fold:
  assumes "0 < n" "\<forall>m \<in> set ms. marketChecks m" "distinct (map marketIdentity ms)"
  shows "insertBatches n ms db = Ok (fold putMarket ms db)"
  using assms
proof (induction n ms db rule: insertBatches.induct)
  case (1 n ms db)
  show ?case
  proof (cases "ms = []")
    case False
    have split: "ms = take n ms @ drop n ms" by simp
    have "distinct (map marketIdentity (take n ms))" "distinct (map marketIdentity (drop n ms))"
      using "1.prems"(3) by (simp_all add: take_map drop_map flip: take_map drop_map)
    moreover have "\<forall>m \<in> set (take n ms). marketChecks m" "\<forall>m \<in> set (drop n ms). marketChecks m"
      using "1.prems"(2) by (auto dest: in_set_takeD in_set_dropD)
    ultimately show ?thesis
      using "1.IH" "1.prems"(1) False fold_append [of putMarket "take n ms" "drop n ms"]
      by (subst insertBatches.simps) (simp add: insertBatch_def list_all_iff)
  qed (simp add: insertBatches.simps)
qed


section \<open>The table as an interface\<close>

lemma marketIdentity_updated [simp]:
  "marketIdentity (updatedMarket m r) = marketIdentity m" "marketIdentity (m\<lparr>em_id := n\<rparr>) = marketIdentity m"
  "marketIdentity (m\<lparr>em_updated_at := t\<rparr>) = marketIdentity m"
  by (simp_all add: marketIdentity_def updatedMarket_def)

text \<open>A row carries a market when it has all its columns but the id and the creation time, which are
  the row's own.\<close>

definition carriesMarket :: "ExchangeMarket \<Rightarrow> ExchangeMarket \<Rightarrow> bool" where
  "carriesMarket m r \<longleftrightarrow> r = m\<lparr>em_id := em_id r, em_created_at := em_created_at r\<rparr>"

lemma getMarket_put_same: "\<exists>r. getMarket (putMarket m db) (marketIdentity m) = Some r \<and> carriesMarket m r"
proof -
  have "carriesMarket m (updatedMarket m r)" "carriesMarket m (m\<lparr>em_id := n\<rparr>)" for r n
    by (simp_all add: carriesMarket_def updatedMarket_def)
  then show ?thesis
    by (simp add: getMarket_def putMarket_def findRow_upsertRow_same split: option.split)
qed

lemma getMarket_put_other: "k \<noteq> marketIdentity m \<Longrightarrow> getMarket (putMarket m db) k = getMarket db k"
  by (simp add: getMarket_def putMarket_def findRow_upsertRow_other)

interpretation markets: keyed_table marketIdentity putMarket getMarket carriesMarket
  by unfold_locales (fact getMarket_put_same, fact getMarket_put_other)

lemma findRow_filter_key:
  "(\<And>r. k r = x \<Longrightarrow> P r) \<Longrightarrow> findRow (\<lambda>r. k r = x) (filter P rows) = findRow (\<lambda>r. k r = x) rows"
  by (induction rows) (auto simp: findRow_Cons)

text \<open>Pruning looks at identities only.\<close>

lemma pruneSelects_identity:
  "marketIdentity m = marketIdentity r \<Longrightarrow> pruneSelects f m = pruneSelects f r"
  by (simp add: pruneSelects_def inPruneScope_def marketIdentity_def)

lemma getMarket_prune:
  assumes "\<not> pruneSelects f m"
  shows "getMarket (db\<lparr>mt_rows := filter (\<lambda>r. \<not> pruneSelects f r) (mt_rows db)\<rparr>) (marketIdentity m) =
    getMarket db (marketIdentity m)"
  unfolding getMarket_def
  by (simp, rule findRow_filter_key) (use assms pruneSelects_identity in blast)

lemma set_normalizeMarketSymbolList:
  "set (normalizeMarketSymbolList seen ss) = (NormalizeMarketSymbol ` set ss) - {''''} - set seen"
  by (induction seen ss rule: normalizeMarketSymbolList.induct) (auto simp: Let_def)

text \<open>An upsert of prepared markets with distinct keys writes exactly those markets.\<close>

lemma Upsert_prepared:
  assumes "distinct (map exchangeMarketIdentityKey ms)"
    and "\<forall>p \<in> set ms. \<exists>now m. 0 < now \<and> PrepareExchangeMarketForSave now m = Ok p"
  shows "\<exists>ps. UpsertExchangeMarkets clock ms db = (Ok (), fold putMarket ps db) \<and>
    distinct (map marketIdentity ps) \<and>
    list_all2 (\<lambda>p q. \<exists>t \<in> range clock. q = p\<lparr>em_updated_at := t\<rparr>) ms ps"
proof -
  have again: "\<exists>ps. prepareMarkets clock ms = Ok ps \<and>
      list_all2 (\<lambda>p q. \<exists>t \<in> range clock. q = p\<lparr>em_updated_at := t\<rparr>) ms ps"
    using assms(2)
  proof (induction ms arbitrary: clock)
    case (Cons p ms)
    then have "PrepareExchangeMarketForSave (clock 0) p = Ok (p\<lparr>em_updated_at := clock 0\<rparr>)"
      using Prepare_market_again by auto
    moreover from Cons.IH [of "\<lambda>i. clock (Suc i)"] Cons.prems obtain qs where
      "prepareMarkets (\<lambda>i. clock (Suc i)) ms = Ok qs"
      "list_all2 (\<lambda>p q. \<exists>t \<in> range (\<lambda>i. clock (Suc i)). q = p\<lparr>em_updated_at := t\<rparr>) ms qs" by auto
    moreover from this(2) have "list_all2 (\<lambda>p q. \<exists>t \<in> range clock. q = p\<lparr>em_updated_at := t\<rparr>) ms qs"
      by (rule list_all2_mono) auto
    ultimately show ?case by auto
  qed simp
  then obtain ps where ps: "prepareMarkets clock ms = Ok ps"
    and stamped: "list_all2 (\<lambda>p q. \<exists>t \<in> range clock. q = p\<lparr>em_updated_at := t\<rparr>) ms ps" by blast
  have "map exchangeMarketIdentityKey ps = map exchangeMarketIdentityKey ms"
    using stamped by (induction rule: list_all2_induct) (auto simp: exchangeMarketIdentityKey_def)
  then have keys: "distinct (map exchangeMarketIdentityKey ps)" using assms(1) by simp
  have "list_all2 (\<lambda>m q. marketChecks q) ms ps"
    using prepareMarkets_ok [OF ps] by (rule list_all2_mono) (use marketChecks_prepared in blast)
  then have checks: "\<forall>q \<in> set ps. marketChecks q"
    by (auto simp: list_all2_conv_all_nth in_set_conv_nth)
  have "UpsertExchangeMarkets clock ms db = (Ok (), fold putMarket ps db)"
    using ps insertBatches_fold [OF _ checks distinct_identities [OF keys], of 500 db]
    by (cases "ms = []") (simp_all add: UpsertExchangeMarkets_def PrepareExchangeMarketsForSave_def
        dedupe_distinct [OF keys])
  with stamped distinct_identities [OF keys] show ?thesis by blast
qed

end
