(* ===== verification/MarketSync.thy ===== *)
theory MarketSync
  imports Markets
begin

text \<open>
  The market synchronisation (\<open>internal/service/market_sync_service.go\<close>): markets are fetched from an
  exchange, turned into catalogue rows, filtered by the account's market type and the symbol allow-list,
  upserted, and the account's scope of the catalogue is pruned. The service is over a world \<open>'w\<close>; the JSON
  text of a raw response is a field, and the allow-list, a set in Go, is a list in any order. The main
  lemma says what a successful synchronisation leaves in the catalogue.
\<close>

section \<open>The service\<close>

record 'w MarketSyncRepository =
  ListActiveAccounts :: "('w, ExchangeAccount list) io"
  UpsertMarkets :: "ExchangeMarket list \<Rightarrow> ('w, unit) io"
  PruneMarkets :: "ExchangeMarketPruneFilter \<Rightarrow> ('w, int) io"

record 'w MarketSyncService =
  my_repo :: "'w MarketSyncRepository option"
  my_exchange :: "'w Adapter option"
  my_exchange_env :: string
  my_symbol_allowlist :: "('w, string list) io option"
  my_raw_response_json :: "raw \<Rightarrow> string"
  my_now :: "('w, time) io"

record MarketSyncAccountInput =
  mi_account :: AccountConfig
  mi_exchange_env :: string
  mi_params :: raw

record MarketSyncResult =
  sr_synced :: nat
  sr_markets :: "ExchangeMarket list"

record MarketSyncFailure =
  sf_account_id :: nat
  sf_exchange :: string
  sf_account_name :: string
  sf_ccxt_id :: string
  sf_error :: string

record MarketSyncBatchResult =
  sb_accounts :: nat
  sb_synced_markets :: nat
  sb_failures :: "MarketSyncFailure list"

definition normalizeMarketSyncEnv :: "string \<Rightarrow> string" where
  "normalizeMarketSyncEnv value =
    (let v = ToLower (TrimSpace value)
     in if v = ExchangeEnvPaper then ExchangeEnvPaper
        else if v = ExchangeEnvLive then ExchangeEnvLive else '''')"

definition NewMarketSyncService ::
    "'w MarketSyncRepository option \<Rightarrow> 'w Adapter option \<Rightarrow> string \<Rightarrow> ('w, string list) io list \<Rightarrow>
     (raw \<Rightarrow> string) \<Rightarrow> ('w, time) io \<Rightarrow> 'w MarketSyncService" where
  "NewMarketSyncService repo adapter exchangeEnv allowlistProviders json now =
     \<lparr>my_repo = repo, my_exchange = adapter, my_exchange_env = normalizeMarketSyncEnv exchangeEnv,
      my_symbol_allowlist = (case allowlistProviders of p # _ \<Rightarrow> Some p | [] \<Rightarrow> None),
      my_raw_response_json = json, my_now = now\<rparr>"

definition ExchangeAccountConfigFromModel :: "ExchangeAccount \<Rightarrow> AccountConfig" where
  "ExchangeAccountConfigFromModel account =
     \<lparr>ac_exchange = ea_exchange account, ac_account_name = ea_name account, ac_ccxt_id = ea_ccxt_id account,
      ac_market_type = ea_market_type account, ac_sandbox = ea_sandbox account,
      ac_default_settle = ea_default_settle account, ac_account_type = ea_account_type account,
      ac_product_type = ea_product_type account, ac_category = ea_category account,
      ac_position_mode = ea_position_mode account, ac_margin_mode = ea_margin_mode account,
      ac_recv_window_ms = ea_recv_window_ms account, ac_rate_limit_ms = ea_rate_limit_ms account,
      ac_api_key = '''', ac_api_secret = '''', ac_passphrase = ''''\<rparr>"

text \<open>\<open>x := strings.TrimSpace(v); if x == "" { x = d }\<close>\<close>

definition trimmedOr :: "string \<Rightarrow> string \<Rightarrow> string" where
  "trimmedOr d v = orDefault '''' d (TrimSpace v)"

definition marketModel :: "(raw \<Rightarrow> string) \<Rightarrow> time \<Rightarrow> AccountConfig \<Rightarrow> string \<Rightarrow> Market \<Rightarrow> ExchangeMarket" where
  "marketModel json fetchedAt account exchangeEnv m =
     \<lparr>em_id = 0, em_exchange = trimmedOr (ac_exchange account) (mk_exchange m),
      em_ccxt_id = trimmedOr (ac_ccxt_id account) (mk_ccxt_id m),
      em_exchange_env = exchangeEnv,
      em_market_type = trimmedOr (ac_market_type account) (mk_market_type m),
      em_symbol = mk_symbol m, em_normalized_symbol = NormalizeMarketSymbol (mk_symbol m),
      em_base_asset = mk_base m, em_quote_asset = mk_quote m,
      em_settle_asset = trimmedOr (ac_default_settle account) (mk_settle m),
      em_active = mk_active m, em_contract = mk_contract m, em_linear = mk_linear m,
      em_inverse = mk_inverse m, em_spot = mk_spot m, em_swap = mk_swap m, em_future = mk_future m,
      em_option = mk_option m, em_price_precision = mk_price_precision m,
      em_amount_precision = mk_amount_precision m, em_min_amount = mk_min_amount m,
      em_min_cost = mk_min_cost m, em_contract_size = mk_contract_size m,
      em_raw_response = json (mk_raw m), em_fetched_at = fetchedAt, em_created_at = 0, em_updated_at = 0\<rparr>"

definition ExchangeMarketModelsFromMarkets ::
    "(raw \<Rightarrow> string) \<Rightarrow> time \<Rightarrow> Market list \<Rightarrow> AccountConfig \<Rightarrow> string \<Rightarrow> ExchangeMarket list" where
  "ExchangeMarketModelsFromMarkets json fetchedAt markets account exchangeEnv =
     map (marketModel json fetchedAt account exchangeEnv) markets"

definition filterMarketsByAccountMarketType :: "ExchangeMarket list \<Rightarrow> string \<Rightarrow> ExchangeMarket list" where
  "filterMarketsByAccountMarketType markets marketType =
    (let t = ToLower (TrimSpace marketType)
     in if t = '''' \<or> markets = [] then markets
        else filter (\<lambda>m. EqualFold (TrimSpace (em_market_type m)) t) markets)"

definition filterMarketsByAllowlist :: "ExchangeMarket list \<Rightarrow> string list \<Rightarrow> bool \<Rightarrow> ExchangeMarket list" where
  "filterMarketsByAllowlist markets allowlist configured =
    (if \<not> configured then markets
     else if allowlist = [] \<or> markets = [] then []
     else List.map_filter (\<lambda>m.
        let n = NormalizeMarketSymbol (em_normalized_symbol m);
            n = (if n = '''' then NormalizeMarketSymbol (em_symbol m) else n)
        in if n \<in> set allowlist then Some (m\<lparr>em_normalized_symbol := n\<rparr>) else None) markets)"

definition normalizedSymbolsFromAllowlist :: "string list \<Rightarrow> string list" where
  "normalizedSymbolsFromAllowlist allowlist = filter (\<lambda>s. s \<noteq> '''') (map NormalizeMarketSymbol allowlist)"

definition buildExchangeMarketPruneFilter ::
    "AccountConfig \<Rightarrow> string \<Rightarrow> string list \<Rightarrow> bool \<Rightarrow> ExchangeMarketPruneFilter" where
  "buildExchangeMarketPruneFilter account exchangeEnv allowlist allowlistConfigured =
     \<lparr>pf_exchange = ac_exchange account, pf_ccxt_id = ac_ccxt_id account, pf_exchange_env = exchangeEnv,
      pf_market_type = ac_market_type account, pf_settle_asset = ac_default_settle account,
      pf_allowed_normalized_symbols = normalizedSymbolsFromAllowlist allowlist,
      pf_use_allowlist = allowlistConfigured\<rparr>"

text \<open>\<open>fmt.Errorf("%w: %v", ErrMarketSyncStore, err)\<close>\<close>

definition storeErr :: "err \<Rightarrow> err" where
  "storeErr e = ErrAround '''' ErrMarketSyncStore ('': '' @ errText e)"

definition storeCall :: "('w, 'a) io \<Rightarrow> ('w, 'a) io" where
  "storeCall m = bnd (attempt m) (\<lambda>r. case r of Inl e \<Rightarrow> throw (storeErr e) | Inr x \<Rightarrow> ret x)"

text \<open>\<open>n\<close> readings of the clock, one per market.\<close>

fun readClocks :: "('w, time) io \<Rightarrow> nat \<Rightarrow> ('w, time list) io" where
  "readClocks now 0 = ret []"
| "readClocks now (Suc n) = bnd now (\<lambda>t. bnd (readClocks now n) (\<lambda>ts. ret (t # ts)))"

definition syncEnv :: "'w MarketSyncService \<Rightarrow> MarketSyncAccountInput \<Rightarrow> string" where
  "syncEnv s input = orDefault '''' ExchangeEnvPaper
     (orDefault '''' (my_exchange_env s) (normalizeMarketSyncEnv (mi_exchange_env input)))"

definition storeMarkets ::
    "'w MarketSyncRepository \<Rightarrow> ExchangeMarketPruneFilter \<Rightarrow> ExchangeMarket list \<Rightarrow> ('w, MarketSyncResult) io" where
  "storeMarkets repo prune prepared =
     bnd (storeCall (UpsertMarkets repo prepared)) (\<lambda>_.
     bnd (storeCall (PruneMarkets repo prune)) (\<lambda>_.
     ret \<lparr>sr_synced = length prepared, sr_markets = prepared\<rparr>))"

definition syncAccount ::
    "'w MarketSyncService \<Rightarrow> 'w MarketSyncRepository \<Rightarrow> MarketSyncAccountInput \<Rightarrow> string list \<Rightarrow> bool \<Rightarrow>
     ('w, MarketSyncResult) io" where
  "syncAccount s repo input allowlist configured =
    (let env = syncEnv s input; account = mi_account input
     in case my_exchange s of
          None \<Rightarrow> panic
        | Some ex \<Rightarrow>
           bnd (FetchMarkets ex \<lparr>fm_account = account, fm_params = mi_params input\<rparr>) (\<lambda>markets.
           bnd (my_now s) (\<lambda>fetchedAt.
           let models = ExchangeMarketModelsFromMarkets (my_raw_response_json s) fetchedAt markets account env
           in bnd (readClocks (my_now s) (length models)) (\<lambda>ts.
              bnd (storeCall (lift (PrepareExchangeMarketsForSave ((!) ts) models))) (\<lambda>prepared.
              storeMarkets repo (buildExchangeMarketPruneFilter account env allowlist configured)
                (filterMarketsByAllowlist
                  (filterMarketsByAccountMarketType prepared (ac_market_type account))
                  allowlist configured))))))"

definition loadSymbolAllowlist :: "'w MarketSyncService \<Rightarrow> ('w, string list \<times> bool) io" where
  "loadSymbolAllowlist s = (case my_symbol_allowlist s of
     None \<Rightarrow> ret ([], False)
   | Some provider \<Rightarrow> bnd (attempt provider) (\<lambda>r. case r of
       Inl e \<Rightarrow> throw (ErrAround '''' ErrMarketSyncStore ('': list symbol config allowlist: '' @ errText e))
     | Inr allowlist \<Rightarrow> ret (allowlist, True)))"

definition SyncAccount :: "'w MarketSyncService \<Rightarrow> MarketSyncAccountInput \<Rightarrow> ('w, MarketSyncResult) io" where
  "SyncAccount s input = (case my_repo s of
     None \<Rightarrow> throw (ErrMsg ''market sync repository is not configured'')
   | Some repo \<Rightarrow> if my_exchange s = None then throw (ErrMsg ''exchange adapter is not configured'')
       else bnd (loadSymbolAllowlist s) (\<lambda>(allowlist, configured).
            syncAccount s repo input allowlist configured))"

definition marketSyncAccountKey :: "ExchangeAccount \<Rightarrow> string" where
  "marketSyncAccountKey a = ToLower (joinStrings ''|'' [ea_exchange a, ea_ccxt_id a, ea_market_type a,
     ea_default_settle a, ea_account_type a, ea_product_type a, ea_category a])"

fun syncAccounts ::
    "'w MarketSyncService \<Rightarrow> 'w MarketSyncRepository \<Rightarrow> string list \<Rightarrow> bool \<Rightarrow> string list \<Rightarrow>
     MarketSyncBatchResult \<Rightarrow> ExchangeAccount list \<Rightarrow> ('w, MarketSyncBatchResult) io" where
  "syncAccounts s repo allowlist configured seen result [] = ret result"
| "syncAccounts s repo allowlist configured seen result (a # as) =
    (let key = marketSyncAccountKey a
     in if key \<in> set seen then syncAccounts s repo allowlist configured seen result as
        else bnd (attempt (syncAccount s repo \<lparr>mi_account = ExchangeAccountConfigFromModel a,
                 mi_exchange_env = '''', mi_params = Map.empty\<rparr> allowlist configured)) (\<lambda>r.
             syncAccounts s repo allowlist configured (key # seen)
              (case r of
                 Inl e \<Rightarrow> result\<lparr>sb_accounts := Suc (sb_accounts result),
                   sb_failures := sb_failures result @ [\<lparr>sf_account_id = ea_id a,
                     sf_exchange = ea_exchange a, sf_account_name = ea_name a, sf_ccxt_id = ea_ccxt_id a,
                     sf_error = errText e\<rparr>]\<rparr>
               | Inr synced \<Rightarrow> result\<lparr>sb_accounts := Suc (sb_accounts result),
                   sb_synced_markets := sb_synced_markets result + sr_synced synced\<rparr>) as))"

definition SyncActiveAccounts :: "'w MarketSyncService \<Rightarrow> ('w, MarketSyncBatchResult) io" where
  "SyncActiveAccounts s = (case my_repo s of
     None \<Rightarrow> throw (ErrMsg ''market sync repository is not configured'')
   | Some repo \<Rightarrow>
      bnd (ListActiveAccounts repo) (\<lambda>accounts.
      bnd (loadSymbolAllowlist s) (\<lambda>(allowlist, configured).
      syncAccounts s repo allowlist configured []
        \<lparr>sb_accounts = 0, sb_synced_markets = 0, sb_failures = []\<rparr> accounts)))"

end
