(* ===== verification/MarketRuns.thy ===== *)
theory MarketRuns
  imports MarketSync
begin

text \<open>
  The market synchronisation on its own catalogue: a world holds the management tables, the catalogue, a
  clock that advances with every reading, and everything outside as a state \<open>'x\<close> that the exchange and the
  allow-list act on. The properties say what a successful synchronisation leaves in the catalogue and how
  a batch over all accounts treats failures.
\<close>

record 'x MarketWorld =
  mw_accounts :: MgmtDB
  mw_markets :: MarketDB
  mw_clock :: time
  mw_outside :: 'x

definition marketClock :: "('x MarketWorld, time) io" where
  "marketClock w = (Ok (mw_clock w), w\<lparr>mw_clock := mw_clock w + 1\<rparr>)"

definition outside :: "('x, 'a) io \<Rightarrow> ('x MarketWorld, 'a) io" where
  "outside m w = (case m (mw_outside w) of (r, x) \<Rightarrow> (r, w\<lparr>mw_outside := x\<rparr>))"

definition onMarkets :: "(MarketDB, 'a) io \<Rightarrow> ('x MarketWorld, 'a) io" where
  "onMarkets m w = (case m (mw_markets w) of (r, d) \<Rightarrow> (r, w\<lparr>mw_markets := d\<rparr>))"

definition liveMarketRepo :: "'x MarketWorld MarketSyncRepository" where
  "liveMarketRepo = \<lparr>
     ListActiveAccounts = (\<lambda>w. (fst (ListActiveExchangeAccounts (mw_accounts w)), w)),
     UpsertMarkets = (\<lambda>ms w. onMarkets (UpsertExchangeMarkets (\<lambda>i. mw_clock w + int i) ms)
       (w\<lparr>mw_clock := mw_clock w + int (length ms)\<rparr>)),
     PruneMarkets = (\<lambda>f. onMarkets (PruneExchangeMarkets f))\<rparr>"

definition outsideAdapter :: "'x Adapter \<Rightarrow> 'x MarketWorld Adapter" where
  "outsideAdapter a = \<lparr>FetchBalance = (\<lambda>r. outside (FetchBalance a r)),
     FetchPositions = (\<lambda>r. outside (FetchPositions a r)), FetchTicker = (\<lambda>r. outside (FetchTicker a r)),
     FetchMarkets = (\<lambda>r. outside (FetchMarkets a r)), PlaceOrder = (\<lambda>r. outside (PlaceOrder a r)),
     FetchOrder = (\<lambda>r. outside (FetchOrder a r)), CancelOrder = (\<lambda>r. outside (CancelOrder a r)),
     SetLeverage = (\<lambda>r. outside (SetLeverage a r)), SetMarginMode = (\<lambda>r. outside (SetMarginMode a r))\<rparr>"

definition liveMarketSync ::
    "'x Adapter \<Rightarrow> string \<Rightarrow> ('x, string list) io list \<Rightarrow> (raw \<Rightarrow> string) \<Rightarrow> 'x MarketWorld MarketSyncService" where
  "liveMarketSync adapter env providers json =
     NewMarketSyncService (Some liveMarketRepo) (Some (outsideAdapter adapter)) env
       (map outside providers) json marketClock"

section \<open>What is written\<close>

lemma readClocks_market:
  "readClocks marketClock n w =
    (Ok (map (\<lambda>i. mw_clock w + int i) [0..<n]), w\<lparr>mw_clock := mw_clock w + int n\<rparr>)"
proof (induction n arbitrary: w)
  case (Suc n)
  have "map (\<lambda>i. mw_clock w + 1 + int i) [0..<n] = map (\<lambda>i. mw_clock w + int i) [Suc 0..<Suc n]"
    by (simp add: map_Suc_upt [symmetric] comp_def del: upt_Suc)
  with Suc [of "w\<lparr>mw_clock := mw_clock w + 1\<rparr>"] show ?case
    by (simp add: bnd_def ret_def marketClock_def upt_conv_Cons del: upt_Suc)
qed (simp add: ret_def)

lemma filterMarketsByAllowlist_prepared:
  assumes "\<forall>m \<in> set ms. em_normalized_symbol m \<noteq> '''' \<and>
    NormalizeMarketSymbol (em_normalized_symbol m) = em_normalized_symbol m"
  shows "filterMarketsByAllowlist ms allowlist configured =
    filter (\<lambda>m. configured \<longrightarrow> em_normalized_symbol m \<in> set allowlist) ms"
proof -
  have "List.map_filter (\<lambda>m.
        let n = NormalizeMarketSymbol (em_normalized_symbol m);
            n = (if n = '''' then NormalizeMarketSymbol (em_symbol m) else n)
        in if n \<in> set allowlist then Some (m\<lparr>em_normalized_symbol := n\<rparr>) else None) ms =
      filter (\<lambda>m. em_normalized_symbol m \<in> set allowlist) ms"
    using assms by (induction ms) (auto simp: map_filter_simps Let_def)
  then show ?thesis by (auto simp: filterMarketsByAllowlist_def)
qed

text \<open>What reaches the repository: prepared markets of the account's type and the allow-list, one per
  key.\<close>

definition syncable :: "AccountConfig \<Rightarrow> string list \<Rightarrow> bool \<Rightarrow> ExchangeMarket \<Rightarrow> bool" where
  "syncable account allowlist configured m \<longleftrightarrow>
     (ToLower (TrimSpace (ac_market_type account)) \<noteq> '''' \<longrightarrow>
        em_market_type m = ToLower (TrimSpace (ac_market_type account))) \<and>
     (configured \<longrightarrow> em_normalized_symbol m \<in> set allowlist)"

definition preparedMarket :: "ExchangeMarket \<Rightarrow> bool" where
  "preparedMarket p \<longleftrightarrow> (\<exists>now m. 0 < now \<and> PrepareExchangeMarketForSave now m = Ok p)"

lemma preparedMarket_facts:
  assumes "preparedMarket p"
  shows "em_normalized_symbol p \<noteq> ''''" "NormalizeMarketSymbol (em_normalized_symbol p) = em_normalized_symbol p"
    "ToLower (TrimSpace (em_market_type p)) = em_market_type p"
  using assms preparedSymbol_normal fillMarket_type
  by (auto simp: preparedMarket_def Prepare_market_ok)

lemma filtered_markets:
  assumes "\<forall>m \<in> set ms. preparedMarket m"
  shows "filterMarketsByAllowlist (filterMarketsByAccountMarketType ms (ac_market_type account))
      allowlist configured = filter (syncable account allowlist configured) ms"
proof -
  have type: "filterMarketsByAccountMarketType ms (ac_market_type account) =
      filter (\<lambda>m. ToLower (TrimSpace (ac_market_type account)) \<noteq> '''' \<longrightarrow>
        em_market_type m = ToLower (TrimSpace (ac_market_type account))) ms"
    using assms preparedMarket_facts(3)
    by (auto simp: filterMarketsByAccountMarketType_def Let_def EqualFold_def intro!: filter_cong)
  show ?thesis
    unfolding type
    by (subst filterMarketsByAllowlist_prepared)
      (use assms preparedMarket_facts in \<open>auto simp: syncable_def filter_filter intro!: filter_cong\<close>)
qed


lemma storeCall_Ok_iff: "storeCall m w = (Ok x, w') \<longleftrightarrow> m w = (Ok x, w')"
  by (auto simp: storeCall_def bnd_def attempt_def throw_def ret_def split: prod.splits result.splits)

lemma liveMarketSync_simps [simp]:
  "my_now (liveMarketSync adapter env providers json) = marketClock"
  "my_exchange (liveMarketSync adapter env providers json) = Some (outsideAdapter adapter)"
  "my_raw_response_json (liveMarketSync adapter env providers json) = json"
  "my_repo (liveMarketSync adapter env providers json) = Some liveMarketRepo"
  by (simp_all add: liveMarketSync_def NewMarketSyncService_def)

lemma syncEnv_known: "syncEnv (liveMarketSync adapter env providers json) input \<in> {ExchangeEnvPaper, ExchangeEnvLive}"
  by (auto simp: syncEnv_def liveMarketSync_def NewMarketSyncService_def normalizeMarketSyncEnv_def orDefault_def
      ExchangeEnvPaper_def ExchangeEnvLive_def Let_def)

text \<open>A successful synchronisation stores a list of syncable prepared markets, one per key, into the
  catalogue it found.\<close>

lemma syncAccount_stores:
  assumes "syncAccount (liveMarketSync adapter env providers json) liveMarketRepo input allowlist configured w =
      (Ok r, w')" "0 < mw_clock w"
  obtains v where "mw_markets v = mw_markets w" "distinct (map exchangeMarketIdentityKey (sr_markets r))"
    "\<forall>m \<in> set (sr_markets r). preparedMarket m \<and> syncable (mi_account input) allowlist configured m"
    "storeMarkets liveMarketRepo (buildExchangeMarketPruneFilter (mi_account input)
       (syncEnv (liveMarketSync adapter env providers json) input) allowlist configured) (sr_markets r) v = (Ok r, w')"
proof -
  let ?s = "liveMarketSync adapter env providers json"
  let ?f = "buildExchangeMarketPruneFilter (mi_account input) (syncEnv ?s input) allowlist configured"
  from assms(1) obtain fetched u models v ps where
    u: "outside (FetchMarkets adapter \<lparr>fm_account = mi_account input, fm_params = mi_params input\<rparr>) w = (Ok fetched, u)"
    and models: "models = ExchangeMarketModelsFromMarkets json (mw_clock u) fetched (mi_account input) (syncEnv ?s input)"
    and v: "v = u\<lparr>mw_clock := mw_clock u + 1 + int (length models)\<rparr>"
    and ps: "PrepareExchangeMarketsForSave ((!) (map (\<lambda>i. mw_clock u + 1 + int i) [0..<length models])) models = Ok ps"
    and store: "storeMarkets liveMarketRepo ?f (filterMarketsByAllowlist
      (filterMarketsByAccountMarketType ps (ac_market_type (mi_account input))) allowlist configured) v = (Ok r, w')"
    by (auto simp: syncAccount_def bnd_Ok_iff Let_def outsideAdapter_def marketClock_def readClocks_market
        storeCall_Ok_iff lift_def)
  have clock: "mw_clock u = mw_clock w" "mw_markets v = mw_markets w"
    using u by (auto simp: outside_def v split: prod.splits)
  from ps obtain qs where qs: "prepareMarkets ((!) (map (\<lambda>i. mw_clock u + 1 + int i) [0..<length models])) models = Ok qs"
    and ps': "ps = dedupeExchangeMarkets qs"
    by (auto simp: PrepareExchangeMarketsForSave_def rbind_Ok_iff)
  have "list_all2 (\<lambda>m q. preparedMarket q) models qs"
    using prepareMarkets_ok [OF qs]
  proof (rule list_all2_mono)
    fix m q
    assume "\<exists>i < length models. PrepareExchangeMarketForSave
      (map (\<lambda>i. mw_clock u + 1 + int i) [0..<length models] ! i) m = Ok q"
    then obtain i where "i < length models"
      "PrepareExchangeMarketForSave (mw_clock u + 1 + int i) m = Ok q" by auto
    moreover have "0 < mw_clock u + 1 + int i" using assms(2) clock(1) by simp
    ultimately show "preparedMarket q" unfolding preparedMarket_def by blast
  qed
  then have "\<forall>q \<in> set qs. preparedMarket q" by (auto simp: list_all2_conv_all_nth in_set_conv_nth)
  then have prepared: "\<forall>q \<in> set ps. preparedMarket q" using dedupe_keys(2) by (auto simp: ps')
  have r: "sr_markets r = filter (syncable (mi_account input) allowlist configured) ps"
    using store unfolding filtered_markets [OF prepared]
    by (auto simp: storeMarkets_def bnd_Ok_iff ret_def)
  have "distinct (map exchangeMarketIdentityKey (sr_markets r))"
    using dedupe_keys(1) unfolding r ps' by (rule distinct_map_filter)
  moreover have "storeMarkets liveMarketRepo ?f (sr_markets r) v = (Ok r, w')"
    using store unfolding filtered_markets [OF prepared] r .
  moreover have "\<forall>m \<in> set (sr_markets r). preparedMarket m \<and> syncable (mi_account input) allowlist configured m"
    unfolding r using prepared by simp
  ultimately show ?thesis using that [OF clock(2)] by blast
qed

text \<open>A market that was synchronised is never selected by the pruning that follows.\<close>

lemma synced_not_pruned:
  assumes "preparedMarket m" "syncable account allowlist configured m" "ToLower (TrimSpace (ac_market_type account)) \<noteq> ''''"
  shows "\<not> pruneSelects (buildExchangeMarketPruneFilter account env allowlist configured) m"
proof -
  have "em_normalized_symbol m \<in> set (normalizeMarketSymbolList []
      (normalizedSymbolsFromAllowlist allowlist))" if configured
  proof -
    have "em_normalized_symbol m \<in> NormalizeMarketSymbol ` set allowlist"
      using assms(2) preparedMarket_facts(2) [OF assms(1)] that
      by (intro image_eqI [where x = "em_normalized_symbol m"]) (simp_all add: syncable_def)
    then have "em_normalized_symbol m \<in> set (normalizedSymbolsFromAllowlist allowlist)"
      using preparedMarket_facts(1) [OF assms(1)] by (simp add: normalizedSymbolsFromAllowlist_def)
    then have "NormalizeMarketSymbol (em_normalized_symbol m) \<in>
        NormalizeMarketSymbol ` set (normalizedSymbolsFromAllowlist allowlist)" by (rule imageI)
    then show ?thesis
      using preparedMarket_facts(1,2) [OF assms(1)] by (simp add: set_normalizeMarketSymbolList)
  qed
  then show ?thesis
    using assms(2,3) by (auto simp: pruneSelects_def buildExchangeMarketPruneFilter_def syncable_def Let_def)
qed


text \<open>The scope an account's pruning works on is never empty for a prepared account.\<close>

definition prunable :: "AccountConfig \<Rightarrow> bool" where
  "prunable account \<longleftrightarrow> TrimSpace (ac_exchange account) \<noteq> '''' \<and> TrimSpace (ac_ccxt_id account) \<noteq> '''' \<and>
     TrimSpace (ac_default_settle account) \<noteq> '''' \<and> TrimSpace (ac_market_type account) \<noteq> ''''"

lemma Prune_live:
  assumes "prunable account" "env \<in> {ExchangeEnvPaper, ExchangeEnvLive}"
    and f: "f = buildExchangeMarketPruneFilter account env allowlist configured"
  shows "snd (PruneExchangeMarkets f db) = db\<lparr>mt_rows := filter (\<lambda>r. \<not> pruneSelects f r) (mt_rows db)\<rparr>"
  using assms env_facts [OF assms(2)]
  by (simp add: PruneExchangeMarkets_def prunable_def buildExchangeMarketPruneFilter_def)

text \<open>A catalogue after upserting \<open>ms\<close> and pruning with \<open>f\<close>.\<close>

lemma stored_catalogue:
  assumes store: "storeMarkets liveMarketRepo f ms v = (Ok r, w')"
    and keys: "distinct (map exchangeMarketIdentityKey ms)" and prepared: "\<forall>m \<in> set ms. preparedMarket m"
  obtains ps where "distinct (map marketIdentity ps)"
    "list_all2 (\<lambda>p q. \<exists>t. q = p\<lparr>em_updated_at := t\<rparr>) ms ps"
    "mw_markets w' = snd (PruneExchangeMarkets f (fold putMarket ps (mw_markets v)))"
proof -
  from Upsert_prepared [OF keys, of "\<lambda>i. mw_clock v + int i" "mw_markets v"] prepared
  obtain ps where ps: "UpsertExchangeMarkets (\<lambda>i. mw_clock v + int i) ms (mw_markets v) =
      (Ok (), fold putMarket ps (mw_markets v))" "distinct (map marketIdentity ps)"
    "list_all2 (\<lambda>p q. \<exists>t \<in> range (\<lambda>i. mw_clock v + int i). q = p\<lparr>em_updated_at := t\<rparr>) ms ps"
    by (auto simp: preparedMarket_def)
  have "mw_markets w' = snd (PruneExchangeMarkets f (fold putMarket ps (mw_markets v)))"
    using store ps(1)
    by (auto simp: storeMarkets_def bnd_Ok_iff storeCall_Ok_iff liveMarketRepo_def onMarkets_def ret_def
        split: prod.splits)
  moreover have "list_all2 (\<lambda>p q. \<exists>t. q = p\<lparr>em_updated_at := t\<rparr>) ms ps"
    using ps(3) by (rule list_all2_mono) auto
  ultimately show ?thesis using that ps(2) by blast
qed



text \<open>A synchronisation succeeds when the exchange answers and its markets pass the preparation.\<close>

lemma storeMarkets_succeeds:
  fixes v :: "'x MarketWorld"
  assumes "distinct (map exchangeMarketIdentityKey ms)" "\<forall>m \<in> set ms. preparedMarket m"
  shows "\<exists>w'. storeMarkets liveMarketRepo f ms v = (Ok \<lparr>sr_synced = length ms, sr_markets = ms\<rparr>, w')"
proof -
  from Upsert_prepared [OF assms(1), of "\<lambda>i. mw_clock v + int i" "mw_markets v"] assms(2) obtain ps where
    "UpsertExchangeMarkets (\<lambda>i. mw_clock v + int i) ms (mw_markets v) = (Ok (), fold putMarket ps (mw_markets v))"
    by (auto simp: preparedMarket_def)
  then have up: "\<exists>x. UpsertMarkets liveMarketRepo ms v = (Ok (), x)"
    by (simp add: liveMarketRepo_def onMarkets_def)
  have "\<exists>n. fst (PruneExchangeMarkets f db) = Ok n" for db
    by (simp add: PruneExchangeMarkets_def)
  then have "\<exists>y n. PruneMarkets liveMarketRepo f x = (Ok n, y)" for x :: "'x MarketWorld"
    by (auto simp: liveMarketRepo_def onMarkets_def split: prod.split) (metis fst_conv)
  with up show ?thesis
    by (auto simp: storeMarkets_def bnd_Ok_iff storeCall_Ok_iff ret_def)
qed

lemma prepared_list:
  assumes "PrepareExchangeMarketsForSave clock models = Ok ps" "\<forall>i < length models. 0 < clock i"
  shows "\<forall>p \<in> set ps. preparedMarket p" "distinct (map exchangeMarketIdentityKey ps)"
proof -
  from assms(1) obtain qs where qs: "prepareMarkets clock models = Ok qs" and ps: "ps = dedupeExchangeMarkets qs"
    by (auto simp: PrepareExchangeMarketsForSave_def rbind_Ok_iff)
  have "list_all2 (\<lambda>m q. preparedMarket q) models qs"
    using prepareMarkets_ok [OF qs] by (rule list_all2_mono) (use assms(2) in \<open>auto simp: preparedMarket_def\<close>)
  then have "\<forall>q \<in> set qs. preparedMarket q" by (auto simp: list_all2_conv_all_nth in_set_conv_nth)
  with dedupe_keys [of qs] show "\<forall>p \<in> set ps. preparedMarket p" "distinct (map exchangeMarketIdentityKey ps)"
    unfolding ps by auto
qed

lemma syncAccount_succeeds:
  fixes adapter env providers json input
  defines "s \<equiv> liveMarketSync adapter env providers json"
  assumes fetched: "outside (FetchMarkets adapter \<lparr>fm_account = mi_account input, fm_params = mi_params input\<rparr>) w =
      (Ok fetched, u)"
    and models: "models = ExchangeMarketModelsFromMarkets json (mw_clock u) fetched (mi_account input) (syncEnv s input)"
    and prepared: "PrepareExchangeMarketsForSave ((!) (map (\<lambda>i. mw_clock u + 1 + int i) [0..<length models])) models = Ok ps"
    and clock: "0 < mw_clock w"
  shows "\<exists>w'. syncAccount s liveMarketRepo input allowlist configured w =
    (Ok \<lparr>sr_synced = length (filter (syncable (mi_account input) allowlist configured) ps),
         sr_markets = filter (syncable (mi_account input) allowlist configured) ps\<rparr>, w')"
proof -
  have "mw_clock u = mw_clock w" using fetched by (auto simp: outside_def split: prod.splits)
  with clock have pos: "\<forall>i < length models. 0 < map (\<lambda>i. mw_clock u + 1 + int i) [0..<length models] ! i" by simp
  note ps = prepared_list [OF prepared pos]
  have "distinct (map exchangeMarketIdentityKey (filter (syncable (mi_account input) allowlist configured) ps))"
    using ps(2) by (rule distinct_map_filter)
  from storeMarkets_succeeds [OF this] ps(1)
  have store: "\<exists>w'. storeMarkets liveMarketRepo f (filter (syncable (mi_account input) allowlist configured) ps) v =
    (Ok \<lparr>sr_synced = length (filter (syncable (mi_account input) allowlist configured) ps),
         sr_markets = filter (syncable (mi_account input) allowlist configured) ps\<rparr>, w')" for f v
    by simp
  show ?thesis
    unfolding syncAccount_def Let_def bnd_Ok_iff s_def [symmetric]
    using fetched prepared models store
    by (simp add: s_def outsideAdapter_def bnd_Ok_iff marketClock_def readClocks_market storeCall_Ok_iff
        lift_def filtered_markets [OF ps(1)])
qed

section \<open>A synchronisation\<close>

definition syncedAccount :: AccountConfig where
  "syncedAccount = ExchangeAccountConfigFromModel preparedAccount"

definition oneMarket :: Market where
  "oneMarket = \<lparr>mk_exchange = '''', mk_ccxt_id = '''', mk_symbol = ''BTC/USDT:USDT'', mk_base = ''BTC'',
     mk_quote = ''USDT'', mk_settle = '''', mk_market_type = ''Swap '', mk_active = True, mk_contract = True,
     mk_linear = True, mk_inverse = False, mk_spot = False, mk_swap = True, mk_future = False,
     mk_option = False, mk_price_precision = 1, mk_amount_precision = 1, mk_min_amount = 1,
     mk_min_cost = 5, mk_contract_size = 1, mk_created_at = 1, mk_raw = Map.empty\<rparr>"

definition oneModel :: ExchangeMarket where
  "oneModel = marketModel (\<lambda>_. ''{}'') 10 syncedAccount ''paper'' oneMarket"

text \<open>An exchange that lists one market and does nothing else.\<close>

definition oneMarketExchange :: "unit Adapter" where
  "oneMarketExchange = \<lparr>FetchBalance = (\<lambda>_. panic), FetchPositions = (\<lambda>_. panic), FetchTicker = (\<lambda>_. panic),
     FetchMarkets = (\<lambda>_. ret [oneMarket]), PlaceOrder = (\<lambda>_. panic), FetchOrder = (\<lambda>_. panic),
     CancelOrder = (\<lambda>_. panic), SetLeverage = (\<lambda>_. panic), SetMarginMode = (\<lambda>_. panic)\<rparr>"

definition catalogueWorld :: "unit MarketWorld" where
  "catalogueWorld = \<lparr>mw_accounts = emptyMgmtDB, mw_markets = \<lparr>mt_rows = [], mt_sequence = 0\<rparr>,
     mw_clock = 10, mw_outside = ()\<rparr>"

definition oneSync :: "unit MarketWorld MarketSyncService" where
  "oneSync = liveMarketSync oneMarketExchange ''paper'' [] (\<lambda>_. ''{}'')"

definition oneInput :: MarketSyncAccountInput where
  "oneInput = \<lparr>mi_account = syncedAccount, mi_exchange_env = '''', mi_params = Map.empty\<rparr>"

lemma oneModel_prepared:
  "case PrepareExchangeMarketForSave 11 oneModel of
     Ok p \<Rightarrow> marketIdentity p = (''OKX'', ''okx'', ''paper'', ''swap'', ''USDT'', ''BTCUSDT'')
   | _ \<Rightarrow> False"
  by code_simp

lemma syncedAccount_prunable: "prunable syncedAccount"
  by code_simp

lemma oneSync_stores:
  "\<exists>p w'. PrepareExchangeMarketForSave 11 oneModel = Ok p \<and>
     syncAccount oneSync liveMarketRepo oneInput [''BTCUSDT''] True catalogueWorld =
       (Ok \<lparr>sr_synced = 1, sr_markets = [p]\<rparr>, w')"
proof -
  from oneModel_prepared obtain p where p: "PrepareExchangeMarketForSave 11 oneModel = Ok p"
    "marketIdentity p = (''OKX'', ''okx'', ''paper'', ''swap'', ''USDT'', ''BTCUSDT'')"
    by (auto split: result.splits)
  have type: "ToLower (TrimSpace (ac_market_type syncedAccount)) = ''swap''" by code_simp
  have env: "syncEnv (liveMarketSync oneMarketExchange ''paper'' [] (\<lambda>_. ''{}'')) oneInput = ''paper''"
    by code_simp
  have fetch: "outside (FetchMarkets oneMarketExchange r) catalogueWorld = (Ok [oneMarket], catalogueWorld)" for r
    by (simp add: outside_def oneMarketExchange_def ret_def)
  have models: "[oneModel] = ExchangeMarketModelsFromMarkets (\<lambda>_. ''{}'') (mw_clock catalogueWorld) [oneMarket]
      (mi_account oneInput) (syncEnv (liveMarketSync oneMarketExchange ''paper'' [] (\<lambda>_. ''{}'')) oneInput)"
    unfolding env by (simp add: ExchangeMarketModelsFromMarkets_def oneModel_def oneInput_def catalogueWorld_def)
  have "PrepareExchangeMarketsForSave ((!) (map (\<lambda>i. mw_clock catalogueWorld + 1 + int i) [0..<length [oneModel]]))
      [oneModel] = Ok [p]"
    using p(1) by (simp add: PrepareExchangeMarketsForSave_def catalogueWorld_def dedupeExchangeMarkets_def)
  from syncAccount_succeeds [OF fetch models this, of "[''BTCUSDT'']" True]
  obtain w' where "syncAccount oneSync liveMarketRepo oneInput [''BTCUSDT''] True catalogueWorld =
    (Ok \<lparr>sr_synced = length (filter (syncable syncedAccount [''BTCUSDT''] True) [p]),
         sr_markets = filter (syncable syncedAccount [''BTCUSDT''] True) [p]\<rparr>, w')"
    by (auto simp: catalogueWorld_def oneSync_def oneInput_def)
  moreover have "syncable syncedAccount [''BTCUSDT''] True p"
    using p(2) by (simp add: syncable_def type marketIdentity_def)
  ultimately show ?thesis using p(1) by auto
qed


end
