(* ===== verification/QueueLaws.thy ===== *)
theory QueueLaws
  imports World
begin

text \<open>
  How many tasks one call of the hedge service puts into the queue: a run at most one, an order's
  reconciliation none. Only recording a placed order and closing a hedge look at the scheduler, so every
  other part is the same with and without one (\<open>no_scheduler\<close>), and what holds of a service without a
  scheduler (\<open>live_redis\<close>) carries over. The facts are proved in \<open>service_queue\<close> and interpreted on the
  live service.
\<close>

section \<open>Parts that do not schedule\<close>

lemma service_fields:
  "sv_core (s\<lparr>sv_reconciler := x\<rparr>) = sv_core s"
  "sv_mgmt (s\<lparr>sv_reconciler := x\<rparr>) = sv_mgmt s"
  "sv_exchange (s\<lparr>sv_reconciler := x\<rparr>) = sv_exchange s"
  "sv_decodeCredential (s\<lparr>sv_reconciler := x\<rparr>) = sv_decodeCredential s"
  "sv_locker (s\<lparr>sv_reconciler := x\<rparr>) = sv_locker s"
  "sv_lockTTL (s\<lparr>sv_reconciler := x\<rparr>) = sv_lockTTL s"
  "sv_runCooldown (s\<lparr>sv_reconciler := x\<rparr>) = sv_runCooldown s"
  "sv_now (s\<lparr>sv_reconciler := x\<rparr>) = sv_now s"
  "sv_clock (s\<lparr>sv_reconciler := x\<rparr>) = sv_clock s"
  "sv_dv (s\<lparr>sv_reconciler := x\<rparr>) = sv_dv s"
  "sv_decString (s\<lparr>sv_reconciler := x\<rparr>) = sv_decString s"
  by simp_all

lemma no_scheduler_parts:
  "onExchange (s\<lparr>sv_reconciler := x\<rparr>) f = onExchange s f"
  "accountConfigFromHedgeConfig (s\<lparr>sv_reconciler := x\<rparr>) c = accountConfigFromHedgeConfig s c"
  "writeAudit (s\<lparr>sv_reconciler := x\<rparr>) t sev smb m p = writeAudit s t sev smb m p"
  "loadStoredPosition (s\<lparr>sv_reconciler := x\<rparr>) c = loadStoredPosition s c"
  "upsertPositionSnapshot (s\<lparr>sv_reconciler := x\<rparr>) up = upsertPositionSnapshot s up"
  "recordFailedOrder (s\<lparr>sv_reconciler := x\<rparr>) pl i e = recordFailedOrder s pl i e"
  "loadConfig (s\<lparr>sv_reconciler := x\<rparr>) inp = loadConfig s inp"
  "withRunLock (s\<lparr>sv_reconciler := x\<rparr>) c body = withRunLock s c body"
  unfolding onExchange_def accountConfigFromHedgeConfig_def writeAudit_def loadStoredPosition_def
      upsertPositionSnapshot_def recordFailedOrder_def loadConfig_def service_fields withRunLock_def
  by (rule refl)+

lemma no_scheduler_live:
  "fetchLivePositionSnapshot (s\<lparr>sv_reconciler := x\<rparr>) c = fetchLivePositionSnapshot s c"
  unfolding fetchLivePositionSnapshot_def service_fields no_scheduler_parts
  by (rule refl)+

lemma no_scheduler_positions:
  "loadLivePosition (s\<lparr>sv_reconciler := x\<rparr>) c = loadLivePosition s c"
  "refreshFilledPosition (s\<lparr>sv_reconciler := x\<rparr>) c p d e = refreshFilledPosition s c p d e"
  "loadPosition (s\<lparr>sv_reconciler := x\<rparr>) c ex = loadPosition s c ex"
  unfolding loadLivePosition_def refreshFilledPosition_def loadPosition_def service_fields no_scheduler_parts
      no_scheduler_live
  by (rule refl)+

lemma no_scheduler_reconcile:
  "reconcileSubmittedOrder (s\<lparr>sv_reconciler := x\<rparr>) c st = reconcileSubmittedOrder s c st"
  unfolding reconcileSubmittedOrder_def service_fields no_scheduler_parts no_scheduler_positions
  by (rule refl)+

lemma no_scheduler_finalize:
  "finalizeHedgeClose (s\<lparr>sv_reconciler := x\<rparr>) c q = finalizeHedgeClose s c q"
  unfolding finalizeHedgeClose_def service_fields no_scheduler_positions
  by (rule refl)+

lemma no_scheduler_handlers:
  "automaticRunBlockReason (s\<lparr>sv_reconciler := x\<rparr>) c = automaticRunBlockReason s c"
  "ReconcileOrderExecution (s\<lparr>sv_reconciler := x\<rparr>) i = ReconcileOrderExecution s i"
  "FailCloseReconciliation (s\<lparr>sv_reconciler := x\<rparr>) i m = FailCloseReconciliation s i m"
  unfolding automaticRunBlockReason_def ReconcileOrderExecution_def FailCloseReconciliation_def service_fields no_scheduler_parts no_scheduler_reconcile no_scheduler_finalize
  by (rule refl)+

lemmas no_scheduler = no_scheduler_parts no_scheduler_positions no_scheduler_reconcile
  no_scheduler_finalize no_scheduler_handlers


section \<open>At most one task\<close>

locale service_queue =
  quiet: service_locked "\<lambda>w w'. queue w' = queue w" "s\<lparr>sv_reconciler := None\<rparr>"
  for queue :: "'w \<Rightarrow> 't list" and s :: "'w HedgeService" +
  fixes P :: "'t \<Rightarrow> bool"
  assumes q_place: "sv_exchange s = Some ex \<Longrightarrow> relates (\<lambda>w w'. queue w' = queue w) (PlaceOrder ex po)"
    and q_tracked: "sv_reconciler s = Some rc \<Longrightarrow> emits queue 1 P (ScheduleTrackedOrderReconciliation rc i)"
begin

lemma quiet_queue: "relates (\<lambda>w w'. queue w' = queue w) m \<Longrightarrow> emits queue n Q m"
  by (rule emits_quietI) (simp add: relates_def)

lemmas queue_parts = quiet.relates_writeAudit [unfolded no_scheduler, THEN quiet_queue]
  quiet.relates_recordFailed [unfolded no_scheduler, THEN quiet_queue]
  quiet.relates_refresh [unfolded no_scheduler, THEN quiet_queue]
  quiet.relates_loadPosition [unfolded no_scheduler, THEN quiet_queue]
  quiet.relates_blockReason [unfolded no_scheduler, THEN quiet_queue]
  quiet.relates_loadConfig [unfolded no_scheduler, THEN quiet_queue]
  quiet.op_rules [unfolded service_fields, THEN quiet_queue]

lemma queue_recordPlaced: "emits queue 1 P (recordPlacedOrder s c d p i res)"
proof -
  have sched: "emits queue 1 P (case sv_reconciler s of
            None \<Rightarrow> ret ()
          | Some rc \<Rightarrow>
              if EqualFold (or_status res) OrderStatusSubmitted \<and> d_reason d \<noteq> ReasonManualClose
              then bnd (attempt (ScheduleTrackedOrderReconciliation rc (ox_id x))) (\<lambda>r.
                   case r of
                     Inl e \<Rightarrow> ignore (writeAudit s ''hedge.order.reconcile.schedule'' ''warn''
                       (cf_symbol c) (errText e) (PayIds (int (cf_id c)) (ox_id x)))
                   | Inr _ \<Rightarrow> ret ())
              else ret ())" for x
    by (intro emits_rules emits_bnd_last [OF emits_attempt [OF q_tracked]] queue_parts)
  show ?thesis
    unfolding recordPlacedOrder_def
    by (rule emits_bnd, intro emits_rules queue_parts, rule emits_bnd_last, rule sched,
        intro emits_rules queue_parts)
qed

lemma queue_execute: "emits queue 1 P (executePlan s c d i p)"
  unfolding executePlan_def accountConfigFromHedgeConfig_def
  by (intro emits_rules queue_recordPlaced queue_parts)
    (auto simp: onExchange_def intro!: emits_rules quiet_queue q_place split: option.split)

lemma queue_createPlan: "emits queue 1 P (createPlanAndExecute s c e d)"
  unfolding createPlanAndExecute_def Let_def
  by (intro emits_rules queue_execute queue_parts)

lemma queue_act: "emits queue 1 P (actOnDecision s c e p d)"
proof -
  have trade: "emits queue 1 P (bnd (createPlanAndExecute s c e d) (\<lambda>(plan, execution). f plan execution))"
    if "\<And>plan execution. emits queue 0 P (f plan execution)" for f :: "OrderPlan \<Rightarrow> OrderExecution \<Rightarrow> ('w, RunResult) io"
    by (rule emits_bnd_last, rule queue_createPlan) (intro emits_case_prod that)
  show ?thesis
    unfolding actOnDecision_def Let_def
    by (intro trade emits_if) (intro emits_rules queue_parts)+
qed

lemma queue_withRunLock: "emits queue n Q body \<Longrightarrow> emits queue n Q (withRunLock s c body)"
proof (cases "sv_locker s")
  case (Some lk)
  assume body: "emits queue n Q body"
  let ?f = "\<lambda>(release, ok). if \<not> ok then throw ErrRunLocked else finally_do body release"
  have "emits queue n Q (bnd (lk (lockKeyForConfig c) (sv_lockTTL s)) ?f)"
  proof (rule emits_bnd_result)
    show "emits queue 0 Q (lk (lockKeyForConfig c) (sv_lockTTL s))"
      by (rule quiet_queue [OF quiet.r_lock]) (simp add: Some)
    fix x w assume x: "fst (lk (lockKeyForConfig c) (sv_lockTTL s) w) = Ok x"
    obtain rel b where p: "x = (rel, b)" by (cases x)
    have "relates (\<lambda>w w'. queue w' = queue w) rel"
      using quiet.r_release [of lk] x p Some by (simp add: service_fields)
    then show "emits queue n Q (?f x)"
      unfolding p prod.case by (intro emits_if emits_throw emits_finally_do body quiet_queue)
  qed
  with Some show ?thesis by (simp add: withRunLock_def)
qed (simp add: withRunLock_def)

text \<open>A run puts at most one task into the queue, the tracking of its order.\<close>

lemma queue_RunOnce: "emits queue 1 P (RunOnce s i)"
proof -
  have "emits queue 1 P (runDecision s i c)" for c
    unfolding runDecision_def by (intro emits_rules queue_act queue_parts)
  then show ?thesis
    unfolding RunOnce_def Let_def by (intro emits_rules queue_withRunLock queue_parts)
qed

lemma queue_reconcile:
  "emits queue 0 Q (ReconcileOrderExecution s j)" "emits queue 0 Q (FailCloseReconciliation s j m)"
  by (rule quiet.relates_ReconcileOrderExecution [unfolded no_scheduler, THEN quiet_queue]
      quiet.relates_FailCloseReconciliation [unfolded no_scheduler, THEN quiet_queue])+

end

section \<open>The live service\<close>

lemma liveService_unscheduled:
  "(liveService ex opt)\<lparr>sv_reconciler := None\<rparr> = liveService ex (opt\<lparr>lo_queue := False\<rparr>)"
  by (simp add: liveService_def)

interpretation same_queue: live_redis "\<lambda>w w'. w_queue w' = w_queue w"
  by unfold_locales auto

lemma emits_queueClient: "emits w_queue 1 (\<lambda>t. t = task) (queueClient held info task)"
  unfolding emits_def
proof
  fix w :: "'x World"
  show "\<exists>xs. w_queue (snd (queueClient held info task w)) = w_queue w @ xs \<and> length xs \<le> 1 \<and>
      list_all (\<lambda>t. t = task) xs"
  proof (cases "w_faults w")
    case Nil
    then show ?thesis by (cases "held (w_queue w) task") (auto simp: queueClient_def faulty_def intro: exI [of _ "[task]"])
  next
    case (Cons f fs)
    then show ?thesis
      by (cases f; cases "held (w_queue w) task")
        (auto simp: queueClient_def faulty_def Let_def intro: exI [of _ "[task]"])
  qed
qed

text \<open>The enqueuer adds the one task it is asked for, and only while the attempt has a delay.\<close>

lemma emits_enqueueReconciliation:
  "emits w_queue 1 (\<lambda>t. \<exists>d. reconciliationDelay n cl = Some d \<and> t = reconciliationTask ty p d)
     (enqueueReconciliationTask (liveEnqueuer opt) ty p n cl)"
proof -
  have step: "emits w_queue 1 (\<lambda>t. \<exists>d. reconciliationDelay n cl = Some d \<and> t = reconciliationTask ty p d)
      (bnd (attempt (queueClient held info (reconciliationTask ty p d))) (\<lambda>r. case r of
           Inl err \<Rightarrow> if errIs err ErrDuplicateTask then ret ()
                      else throw (ErrWrap ''enqueue reconciliation task'' err)
         | Inr _ \<Rightarrow> ret ()))"
    if "reconciliationDelay n cl = Some d" for d held info
    by (rule emits_bnd_last, rule emits_attempt, rule emits_weaken [OF emits_queueClient])
      (use that in \<open>auto intro!: emits_rules\<close>)
  show ?thesis
  proof (cases "reconciliationDelay n cl")
    case (Some d)
    show ?thesis
      using step [OF Some, of "lo_held opt" "lo_taskInfo opt"]
      unfolding enqueueReconciliationTask_def liveEnqueuer_def Some
      by (cases "lo_queue opt") (simp_all only: if_True if_False option.case emits_throw)
  qed (auto simp: enqueueReconciliationTask_def liveEnqueuer_def intro: emits_rules)
qed

definition isTracked :: "AsyncTask \<Rightarrow> bool" where
  "isTracked t \<longleftrightarrow> (\<exists>i d. t = reconciliationTask TypeReconcileOrder (OrderPayload (trackedPayload i False)) d)"

interpretation live_queue: service_queue w_queue "liveService ex opt" isTracked for ex opt
proof (rule service_queue.intro)
  show "service_locked (\<lambda>w w'. w_queue w' = w_queue w) (liveService ex opt\<lparr>sv_reconciler := None\<rparr>)"
    unfolding liveService_unscheduled by (rule same_queue.nl.service_locked_axioms)
  show "service_queue_axioms w_queue (liveService ex opt) isTracked"
  proof
    fix a po assume "sv_exchange (liveService ex opt) = Some a"
    then obtain x where "a = liveAdapter x" by (auto simp: liveService_def)
    then show "relates (\<lambda>w w'. w_queue w' = w_queue w) (PlaceOrder a po)"
      by (auto simp: liveAdapter_def placeExt_def intro!: same_queue.relates_live_faulty split: prod.split)
  next
    fix rc i assume "sv_reconciler (liveService ex opt) = Some rc"
    then have "ScheduleTrackedOrderReconciliation rc i = ScheduleTrackedOrder (liveEnqueuer opt) i"
      by (auto simp: liveService_def enqueuerScheduler_def split: if_splits)
    moreover have "emits w_queue 1 isTracked (ScheduleTrackedOrder (liveEnqueuer opt) i)"
      unfolding ScheduleTrackedOrder_def enqueueOrderReconciliation_def
      by (intro emits_rules emits_weaken [OF emits_enqueueReconciliation]) (auto simp: isTracked_def)
    ultimately show "emits w_queue 1 isTracked (ScheduleTrackedOrderReconciliation rc i)" by simp
  qed
qed

end
