(* ===== verification/Workers.thy ===== *)
theory Workers
  imports QueueLaws Accounts HedgeRuns
begin

text \<open>
  The worker that runs the queued tasks (\<open>internal/tasks\<close> on \<open>asynq\<close>): the handlers of both packages on the
  live services, and a step that takes any task of the queue, runs it, and puts it back when it failed and
  has retries left. Every step uses up work, so the worker comes to an end whatever the exchange, the
  database and the queue answer: a chain of reconciliations has at most as many attempts as checkpoints.
\<close>

section \<open>The reconciliation service on the live stores\<close>

definition liveReconRepo :: "'x World ReconciliationRepo" where
  "liveReconRepo = \<lparr>rr_GetExchangeAccount = (\<lambda>i. onMgmt (\<lambda>_. GetExchangeAccount i)),
     rr_FindUniqueActiveExchangeAccountByIdentity =
       (\<lambda>e n c. onMgmt (\<lambda>_. FindUniqueActiveExchangeAccountByIdentity e n c))\<rparr>"

definition liveReconciliation :: "'x Adapter option \<Rightarrow> options \<Rightarrow> 'x World ExchangeReconciliationService" where
  "liveReconciliation ex opt = SetCredentialDecoder (Some (lo_decode opt))
     (NewExchangeReconciliationService (Some (\<lambda>a. onCore (\<lambda>now. CreateAuditEvent now a))) liveReconRepo
        (map_option liveAdapter ex) (lo_decString opt))"

text \<open>What the service needs of its collaborators for a relation on worlds to hold across its calls.\<close>

locale reconciliation_quiet = world_preorder R
  for R :: "'w \<Rightarrow> 'w \<Rightarrow> bool" +
  fixes x :: "'w ExchangeReconciliationService"
  assumes x_audit: "xs_core x = Some create \<Longrightarrow> relates R (create au)"
    and x_get: "relates R (rr_GetExchangeAccount (xs_mgmt x) n)"
    and x_find: "relates R (rr_FindUniqueActiveExchangeAccountByIdentity (xs_mgmt x) e name c)"
    and x_positions: "xs_exchange x = Some ex \<Longrightarrow> relates R (FetchPositions ex fp)"
    and x_order: "xs_exchange x = Some ex \<Longrightarrow> relates R (FetchOrder ex fo)"
begin

lemma relates_reconAudit: "relates R (reconciliationAudit x t sev smb m p)"
  unfolding reconciliationAudit_def by (intro io_rules relates_rules x_audit)

lemma relates_settingAudit: "relates R (writeSettingAudit x t i smb b m p)"
  unfolding writeSettingAudit_def by (rule relates_reconAudit)

lemma relates_loadAccount: "relates R (loadAccount x n)"
  unfolding loadAccount_def by (intro io_rules relates_rules x_get)

lemma relates_reconExchange:
  "(\<And>ex. xs_exchange x = Some ex \<Longrightarrow> relates R (f ex)) \<Longrightarrow> relates R (onReconciliationExchange x f)"
  by (auto simp: onReconciliationExchange_def relates_panic split: option.split)

lemma relates_ResolveAccountID: "relates R (ResolveAccountID x identity)"
  unfolding ResolveAccountID_def by (intro io_rules relates_rules x_get x_find)

lemma relates_ReconcileExternalOrder: "relates R (ReconcileExternalOrder x input)"
  unfolding ReconcileExternalOrder_def
  by (intro io_rules relates_rules relates_loadAccount relates_reconExchange relates_reconAudit x_order)

lemma relates_VerifyPositionSetting: "relates R (VerifyPositionSetting x setting)"
  unfolding VerifyPositionSetting_def
  by (intro io_rules relates_rules relates_loadAccount relates_reconExchange relates_settingAudit x_positions)

end

lemma account_reads:
  "snd (GetExchangeAccount i db) = db" "snd (FindUniqueActiveExchangeAccountByIdentity e n c db) = db"
  by (simp_all add: GetExchangeAccount_def FindUniqueActiveExchangeAccountByIdentity_def Let_def)

sublocale live_stores \<subseteq> xr: reconciliation_quiet R "liveReconciliation ex opt" for ex opt
  by unfold_locales
    (auto simp: liveReconciliation_def NewExchangeReconciliationService_def SetCredentialDecoder_def
      liveReconRepo_def liveAdapter_def account_reads
      intro!: relates_onCore relates_onMgmt relates_onExt core_audit mgmt_stay)

section \<open>The worker\<close>

definition liveHandler :: "'x Adapter option \<Rightarrow> options \<Rightarrow> 'x World ReconciliationHandler" where
  "liveHandler ex opt =
     NewReconciliationHandler (liveService ex opt) (liveReconciliation ex opt) (liveEnqueuer opt)"

text \<open>What \<open>json.Unmarshal\<close> makes of a body; a task carries the payload of its type.\<close>

fun hedgeBody :: "taskPayload \<Rightarrow> RunHedgePayload result" where
  "hedgeBody (HedgePayload p) = Ok p"
| "hedgeBody _ = Err (ErrExternal ''unexpected body'')"

fun orderBody :: "taskPayload \<Rightarrow> ReconcileOrderPayload result" where
  "orderBody (OrderPayload p) = Ok p"
| "orderBody _ = Err (ErrExternal ''unexpected body'')"

fun settingBody :: "taskPayload \<Rightarrow> VerifyPositionSettingPayload result" where
  "settingBody (SettingPayload p) = Ok p"
| "settingBody _ = Err (ErrExternal ''unexpected body'')"

definition runTask :: "'x Adapter option \<Rightarrow> options \<Rightarrow> AsyncTask \<Rightarrow> ('x World, unit) io" where
  "runTask ex opt t =
    (if at_type t = TypeRunHedge
     then handleRunHedge (RunOnce (liveService ex opt)) (hedgeBody (at_payload t))
     else if at_type t = TypeReconcileOrder
     then handleOrder (liveHandler ex opt) (orderBody (at_payload t))
     else if at_type t = TypeVerifyPositionSetting
     then handlePositionSetting (liveHandler ex opt) (settingBody (at_payload t))
     else throw (ErrExternal ''handler not found for task''))"

text \<open>A failed or panicking task is retried while it has retries left, unless its error wraps
  \<open>SkipRetry\<close>.\<close>

definition requeue :: "AsyncTask \<Rightarrow> unit result \<Rightarrow> 'x World \<Rightarrow> 'x World" where
  "requeue t r w =
    (let again = w\<lparr>w_queue := w_queue w @ [t\<lparr>at_max_retry := at_max_retry t - 1\<rparr>]\<rparr>
     in case r of
          Ok _ \<Rightarrow> w
        | Err e \<Rightarrow> if at_max_retry t > 0 \<and> \<not> errIs e ErrSkipRetry then again else w
        | Panic \<Rightarrow> if at_max_retry t > 0 then again else w)"

inductive workerStep :: "'x Adapter option \<Rightarrow> options \<Rightarrow> 'x World \<Rightarrow> 'x World \<Rightarrow> bool"
  for ex :: "'x Adapter option" and opt :: options where
  take: "w_queue w = us @ t # vs \<Longrightarrow> runTask ex opt t (w\<lparr>w_queue := us @ vs\<rparr>) = (r, w1) \<Longrightarrow>
     workerStep ex opt w (requeue t r w1)"

inductive_cases workerStepE: "workerStep ex opt w w'"

section \<open>Work\<close>

text \<open>The handler runs a task and its successors can still cause.\<close>

definition attemptsLeft :: "bool \<Rightarrow> int \<Rightarrow> nat" where
  "attemptsLeft closeRequest a =
    (let n = (if closeRequest then 6 else 4); b = nextAttempt a
     in if 0 \<le> b \<and> b < n then Suc (nat (n - b)) else 1)"

fun payloadWork :: "taskPayload \<Rightarrow> nat" where
  "payloadWork (OrderPayload p) = attemptsLeft (rp_close_request p) (rp_attempt p)"
| "payloadWork (SettingPayload p) = attemptsLeft False (vp_attempt p)"
| "payloadWork (HedgePayload p) = 5"

definition taskWork :: "AsyncTask \<Rightarrow> nat" where
  "taskWork t = Suc (at_max_retry t) * payloadWork (at_payload t)"

definition queueWork :: "'x World \<Rightarrow> nat" where
  "queueWork w = sum_list (map taskWork (w_queue w))"

lemma nextAttempt_small: "0 \<le> a \<Longrightarrow> a < 6 \<Longrightarrow> nextAttempt a = a + 1"
  unfolding nextAttempt_def by (rule signed_take_bit_int_eq_self) simp_all

lemma attemptsLeft_pos: "0 < attemptsLeft cl a"
  by (simp add: attemptsLeft_def Let_def)

lemma attemptsLeft_next:
  assumes "reconciliationDelay (nextAttempt a) cl = Some d"
  shows "attemptsLeft cl (nextAttempt a) < attemptsLeft cl a"
proof -
  let ?n = "if cl then 6 else 4 :: int"
  let ?b = "nextAttempt a"
  have "\<not> (?b < 0 \<or> ?n \<le> ?b)"
    using assms reconciliationDelay_None_iff [of ?b cl] by auto
  then have b: "0 \<le> ?b" "?b < ?n" by auto
  then have "nextAttempt ?b = ?b + 1" by (intro nextAttempt_small) (auto split: if_splits)
  then show ?thesis
    using b unfolding attemptsLeft_def Let_def by (cases "?b + 1 < ?n") auto
qed

lemma attemptsLeft_first: "attemptsLeft cl 0 = (if cl then 6 else 4)"
  by (simp add: attemptsLeft_def Let_def nextAttempt_small)

lemma payloadWork_pos: "0 < payloadWork p"
  by (cases p) (simp_all add: attemptsLeft_pos)

text \<open>Running a task adds at most one task, and one with less work than a run of its own.\<close>

lemma task_work:
  "taskWork (reconciliationTask ty p d) = payloadWork p"
  by (simp add: taskWork_def reconciliationTask_def)

lemma order_adds:
  "emits w_queue 1 (\<lambda>u. taskWork u < attemptsLeft (rp_close_request p) (rp_attempt p))
     (handleOrder (liveHandler ex opt) (Ok p))"
proof -
  let ?P = "\<lambda>u. taskWork u < attemptsLeft (rp_close_request p) (rp_attempt p)"
  have calls: "emits w_queue 0 ?P (hd_ReconcileOrderExecution (liveHandler ex opt) i)"
    "emits w_queue n ?P (hd_FailCloseReconciliation (liveHandler ex opt) i m)"
    "emits w_queue 0 ?P (hd_ReconcileExternalOrder (liveHandler ex opt) input)" for i m input n
    unfolding liveHandler_def NewReconciliationHandler_def ReconciliationHandler.simps
    by (rule live_queue.queue_reconcile emits_0_any [OF live_queue.queue_reconcile(2)]
        live_queue.quiet_queue [OF same_queue.xr.relates_ReconcileExternalOrder])+
  have "hd_enqueuer (liveHandler ex opt) = liveEnqueuer opt"
    by (simp add: liveHandler_def NewReconciliationHandler_def)
  moreover have "emits w_queue 1 ?P (enqueueReconciliationTask (liveEnqueuer opt) TypeReconcileOrder
      (OrderPayload (p\<lparr>rp_attempt := nextAttempt (rp_attempt p)\<rparr>)) (nextAttempt (rp_attempt p))
      (rp_close_request p))"
    by (rule emits_weaken [OF emits_enqueueReconciliation]) (auto simp: task_work attemptsLeft_next)
  ultimately have more: "emits w_queue 1 ?P (scheduleNextOrder (liveHandler ex opt) p)"
    unfolding scheduleNextOrder_def Let_def enqueueOrderReconciliation_def
    by (intro emits_case_option emits_if emits_ignore emits_ret calls) (simp del: One_nat_def)
  show ?thesis
    unfolding handleOrder_def result.case
    by (intro emits_rules calls more)
qed

lemma setting_adds:
  "emits w_queue 1 (\<lambda>u. taskWork u < attemptsLeft False (vp_attempt p))
     (handlePositionSetting (liveHandler ex opt) (Ok p))"
proof -
  let ?P = "\<lambda>u. taskWork u < attemptsLeft False (vp_attempt p)"
  have call: "emits w_queue 0 ?P (hd_VerifyPositionSetting (liveHandler ex opt) input)" for input
    unfolding liveHandler_def NewReconciliationHandler_def ReconciliationHandler.simps
    by (rule live_queue.quiet_queue [OF same_queue.xr.relates_VerifyPositionSetting])
  have "hd_enqueuer (liveHandler ex opt) = liveEnqueuer opt"
    by (simp add: liveHandler_def NewReconciliationHandler_def)
  moreover have "emits w_queue 1 ?P (enqueueReconciliationTask (liveEnqueuer opt) TypeVerifyPositionSetting
      (SettingPayload (p\<lparr>vp_attempt := nextAttempt (vp_attempt p)\<rparr>)) (nextAttempt (vp_attempt p)) False)"
    by (rule emits_weaken [OF emits_enqueueReconciliation]) (auto simp: task_work attemptsLeft_next)
  ultimately have more: "emits w_queue 1 ?P (scheduleNextPositionSetting (liveHandler ex opt) p)"
    unfolding scheduleNextPositionSetting_def Let_def enqueuePositionSettingVerification_def
    by (intro emits_case_option emits_if emits_throw emits_ret) (simp del: One_nat_def)
  show ?thesis
    unfolding handlePositionSetting_def result.case
    by (intro emits_rules call more)
qed

lemma isTracked_work: "isTracked u \<Longrightarrow> taskWork u < 5"
  by (auto simp: isTracked_def task_work trackedPayload_def attemptsLeft_first)

lemma hedge_adds:
  "emits w_queue 1 (\<lambda>u. taskWork u < 5) (handleRunHedge (RunOnce (liveService ex opt)) (Ok p))"
  unfolding handleRunHedge_def result.case
  by (rule emits_bnd_last, rule emits_attempt, rule emits_weaken [OF live_queue.queue_RunOnce],
      erule isTracked_work, intro emits_rules)

lemma runTask_adds:
  "emits w_queue 1 (\<lambda>u. taskWork u < payloadWork (at_payload t)) (runTask ex opt t)"
proof -
  have "emits w_queue n P (handleRunHedge f (Err e))" "emits w_queue n P (handleOrder h (Err e))"
    "emits w_queue n P (handlePositionSetting h (Err e))" for n P f h e
    by (simp_all add: handleRunHedge_def handleOrder_def handlePositionSetting_def emits_throw)
  then show ?thesis
    unfolding runTask_def
    by (cases "at_payload t")
      (auto simp del: One_nat_def intro!: emits_if emits_throw order_adds setting_adds hedge_adds)
qed

text \<open>C27: the worker comes to an end. Whatever the exchange answers, whichever calls fail and whatever the
  queue holds back as duplicates, every task a worker takes uses up work: \<open>n\<close> steps need \<open>n\<close> units of the
  work the queue held (an attempt of a chain counts one, so a close order is asked for at most six times and
  any other order or setting four times; a hedge run counts five, its own and the four of the order it may
  track, for the first try and each retry). And as long as the queue holds a task, a worker can take it.\<close>

theorem workers_finish:
  assumes "(workerStep ex opt ^^ n) w w'"
  shows "n + queueWork w' \<le> queueWork w \<and> (w_queue w' \<noteq> [] \<longrightarrow> (\<exists>v. workerStep ex opt w' v))"
proof
  have step: "Suc (queueWork v) \<le> queueWork u" if "workerStep ex opt u v" for u v
  proof -
    from that obtain us t vs r w1 where q: "w_queue u = us @ t # vs"
      and run: "runTask ex opt t (u\<lparr>w_queue := us @ vs\<rparr>) = (r, w1)" and v: "v = requeue t r w1"
      by (auto elim: workerStepE)
    obtain ts where ts': "w_queue (snd (runTask ex opt t (u\<lparr>w_queue := us @ vs\<rparr>))) =
        w_queue (u\<lparr>w_queue := us @ vs\<rparr>) @ ts" "length ts \<le> 1"
      "list_all (\<lambda>x. taskWork x < payloadWork (at_payload t)) ts"
      using runTask_adds [of t ex opt] unfolding emits_def by blast
    then have ts: "w_queue w1 = us @ vs @ ts" by (simp add: run)
    have "sum_list (map taskWork ts) < payloadWork (at_payload t)"
      using ts'(2,3) payloadWork_pos [of "at_payload t"] by (cases ts) auto
    then show ?thesis
      unfolding v requeue_def queueWork_def q
      by (cases r) (auto simp: ts taskWork_def Let_def dest!: gr0_implies_Suc)
  qed
  show "n + queueWork w' \<le> queueWork w"
    using assms
  proof (induction n arbitrary: w')
    case (Suc n)
    then obtain v where "(workerStep ex opt ^^ n) w v" "workerStep ex opt v w'" by auto
    with Suc.IH [of v] step [of v w'] show ?case by simp
  qed simp
  show "w_queue w' \<noteq> [] \<longrightarrow> (\<exists>v. workerStep ex opt w' v)"
  proof
    assume "w_queue w' \<noteq> []"
    then obtain t vs where "w_queue w' = [] @ t # vs" by (auto simp: neq_Nil_conv)
    then show "\<exists>v. workerStep ex opt w' v"
      by (cases "runTask ex opt t (w'\<lparr>w_queue := [] @ vs\<rparr>)") (blast intro: take)
  qed
qed

text \<open>A close order and nothing to answer about it: one attempt, and the next is queued or the chain is over.\<close>

definition queuedClose :: AsyncTask where
  "queuedClose = reconciliationTask TypeReconcileOrder (OrderPayload (trackedPayload 5 True)) (1 * second)"

theorem workers_finish_witness:
  "\<exists>v. workerStep None exampleOptions (exampleWorld\<lparr>w_queue := [queuedClose]\<rparr>) v \<and> queueWork v \<le> 5"
proof -
  let ?w = "exampleWorld\<lparr>w_queue := [queuedClose]\<rparr>"
  have work: "queueWork ?w = 6"
    by (simp add: queueWork_def queuedClose_def task_work trackedPayload_def attemptsLeft_first)
  have "(workerStep None exampleOptions ^^ 0) ?w ?w" by simp
  from workers_finish [OF this] obtain v where v: "workerStep None exampleOptions ?w v" by auto
  then have "(workerStep None exampleOptions ^^ 1) ?w v" by (simp del: One_nat_def)
  from workers_finish [OF this] v work show ?thesis by auto
qed

end
