(* ===== verification/Startup.thy ===== *)
theory Startup
  imports Workers
begin

text \<open>
  What the process does with close requests a previous run left open (\<open>cmd/hedging-bot/main.go\<close>, after the
  queue is connected): a request without an order is failed, every other one has its order's
  reconciliation scheduled again; errors of single requests are logged and skipped. The rest of \<open>main\<close> is
  wiring.
\<close>

fun recoverRequests :: "'w HedgeRepo \<Rightarrow> 'w Enqueuer \<Rightarrow> HedgeCloseRequest list \<Rightarrow> ('w, unit) io" where
  "recoverRequests repo e [] = ret ()"
| "recoverRequests repo e (request # requests) =
     bnd (ignore (case cq_order_execution_id request of
            None \<Rightarrow> rp_FailHedgeClose repo (cq_id request) ''service restarted before close order submission''
          | Some i \<Rightarrow> ScheduleCloseOrder e i)) (\<lambda>_.
     recoverRequests repo e requests)"

definition recoverCloseRequests ::
    "('w, HedgeCloseRequest list) io \<Rightarrow> 'w HedgeRepo \<Rightarrow> 'w Enqueuer \<Rightarrow> ('w, unit) io" where
  "recoverCloseRequests listActive repo e = bnd listActive (recoverRequests repo e)"

definition recoverLive :: "options \<Rightarrow> ('x World, unit) io" where
  "recoverLive opt = recoverCloseRequests (onMgmt (\<lambda>_. ListActiveHedgeCloseRequests)) liveRepo (liveEnqueuer opt)"

section \<open>Without faults\<close>

definition closeTask :: "int \<Rightarrow> AsyncTask" where
  "closeTask i = reconciliationTask TypeReconcileOrder (OrderPayload (trackedPayload i True)) (1 * second)"

definition scheduled :: "options \<Rightarrow> 'x World \<Rightarrow> int \<Rightarrow> bool" where
  "scheduled opt w i \<longleftrightarrow> closeTask i \<in> set (w_queue w) \<or> (\<exists>ts. lo_held opt ts (closeTask i))"

lemma delay_first: "reconciliationDelay 0 cl = Some (1 * second)"
  by (simp add: reconciliationDelay_def closeReconciliationCheckpoints_def reconciliationCheckpoints_def)

lemma ScheduleClose_run:
  assumes "w_faults w = []" "lo_queue opt" "0 < i"
  shows "ScheduleCloseOrder (liveEnqueuer opt) i w =
    (if lo_held opt (w_queue w) (closeTask i) then (Ok (), w)
     else (Ok (), w\<lparr>w_queue := w_queue w @ [closeTask i]\<rparr>))"
  using assms
  by (simp add: ScheduleCloseOrder_def enqueueOrderReconciliation_def enqueueReconciliationTask_def
      liveEnqueuer_def trackedPayload_def delay_first queueClient_def faulty_def bnd_def attempt_def
      closeTask_def ret_def)

lemma ScheduleClose_effect:
  fixes i :: int
  assumes "w_faults w = []" "lo_queue opt"
  defines "v \<equiv> snd (ScheduleCloseOrder (liveEnqueuer opt) i w)"
  shows "fst (ScheduleCloseOrder (liveEnqueuer opt) i w) \<noteq> Panic" "w_faults v = []" "w_mgmt v = w_mgmt w"
    "set (w_queue w) \<subseteq> set (w_queue v)" "0 < i \<Longrightarrow> scheduled opt v i"
proof -
  have low: "\<not> 0 < i \<Longrightarrow> ScheduleCloseOrder (liveEnqueuer opt) i w = (Err (ErrMsg ''execution id is required''), w)"
    by (simp add: ScheduleCloseOrder_def throw_def)
  show "fst (ScheduleCloseOrder (liveEnqueuer opt) i w) \<noteq> Panic" "w_faults v = []" "w_mgmt v = w_mgmt w"
    "set (w_queue w) \<subseteq> set (w_queue v)" "0 < i \<Longrightarrow> scheduled opt v i"
    unfolding v_def scheduled_def
    by (cases "0 < i"; auto simp: ScheduleClose_run [OF assms(1,2)] low assms(1))+
qed

lemma FailClose_effect:
  fixes n :: nat and msg :: string
  assumes "w_faults w = []"
  defines "v \<equiv> snd (rp_FailHedgeClose liveRepo n msg w)"
  shows "fst (rp_FailHedgeClose liveRepo n msg w) \<noteq> Panic" "w_faults v = []" "w_queue v = w_queue w"
    "w_mgmt v = snd (FailHedgeClose (w_clock w) n msg (w_mgmt w))"
  using assms(1)
  by (auto simp: v_def liveRepo_def onMgmt_def faulty_def FailHedgeClose_def finishHedgeClose_def
      split: prod.split option.split)

lemma scheduled_mono: "scheduled opt w i \<Longrightarrow> set (w_queue w) \<subseteq> set (w_queue v) \<Longrightarrow> scheduled opt v i"
  by (auto simp: scheduled_def)

lemma FailClose_rows:
  "md_requests (snd (FailHedgeClose now n msg db)) =
     map (\<lambda>q. if cq_id q = n then q\<lparr>cq_status := HedgeCloseFailed, cq_error_message := msg\<rparr> else q) (md_requests db)"
proof (cases "requestById n db")
  case None
  then have "\<forall>q \<in> set (md_requests db). cq_id q \<noteq> n" by (auto simp: requestById_def findRow_None_iff)
  then show ?thesis by (auto simp: FailHedgeClose_def finishHedgeClose_def None intro!: map_idI [symmetric])
next
  case (Some q)
  have "HedgeCloseFailed \<noteq> HedgeCloseCompleted" by (simp add: close_status_defs)
  then show ?thesis
    by (auto simp: FailHedgeClose_def finishHedgeClose_def Some setConfig_def setRequest_def updateRows_def)
qed

text \<open>One request after the other: only the requests without an order change, each as one guarded step;
  \<open>resumed\<close> is what a list of active requests leaves behind.\<close>

definition resumed :: "options \<Rightarrow> HedgeCloseRequest list \<Rightarrow> 'x World \<Rightarrow> 'x World \<Rightarrow> bool" where
  "resumed opt rs w v \<longleftrightarrow> (closeStep True)\<^sup>*\<^sup>* (w_mgmt w) (w_mgmt v) \<and> set (w_queue w) \<subseteq> set (w_queue v) \<and>
     (\<forall>q \<in> set (md_requests (w_mgmt v)). isActiveRequest q \<longrightarrow> q \<in> set (md_requests (w_mgmt w)) \<and>
        (\<forall>r \<in> set rs. cq_id r = cq_id q \<longrightarrow> cq_order_execution_id r \<noteq> None)) \<and>
     (\<forall>r \<in> set rs. \<forall>i. cq_order_execution_id r = Some i \<longrightarrow> 0 < i \<longrightarrow> scheduled opt v i)"

lemma resumed_failed:
  assumes "resumed opt rs v u" "closeStep True (w_mgmt w) (w_mgmt v)" "w_queue v = w_queue w"
    "cq_order_execution_id r = None"
    "\<And>q. q \<in> set (md_requests (w_mgmt v)) \<Longrightarrow> isActiveRequest q \<Longrightarrow>
       q \<in> set (md_requests (w_mgmt w)) \<and> cq_id q \<noteq> cq_id r"
  shows "resumed opt (r # rs) w u"
  using assms unfolding resumed_def
  by (metis converse_rtranclp_into_rtranclp list.set_cases option.distinct(1) set_ConsD)

lemma recoverRequests_resumed:
  assumes "w_faults w = []" "lo_queue opt" "distinct (map cq_id rs)"
    and "set rs \<subseteq> set (filter isActiveRequest (md_requests (w_mgmt w)))" and "wfRequests (w_mgmt w)"
  shows "resumed opt rs w (snd (recoverRequests liveRepo (liveEnqueuer opt) rs w))"
  using assms
proof (induction rs arbitrary: w)
  case Nil
  then show ?case by (simp add: ret_def resumed_def)
next
  case (Cons r rs)
  have r: "r \<in> set (md_requests (w_mgmt w))" "isActiveRequest r" using Cons.prems(4) by auto
  show ?case
  proof (cases "cq_order_execution_id r")
    case (Some i)
    let ?v = "snd (ScheduleCloseOrder (liveEnqueuer opt) i w)"
    note eff = ScheduleClose_effect [OF Cons.prems(1,2), of i]
    have run: "recoverRequests liveRepo (liveEnqueuer opt) (r # rs) w =
        recoverRequests liveRepo (liveEnqueuer opt) rs ?v"
      using eff(1) by (simp add: Some bnd_def ignore_apply_Ok)
    have "resumed opt rs ?v (snd (recoverRequests liveRepo (liveEnqueuer opt) rs ?v))"
      using Cons.prems eff(2,3) by (intro Cons.IH) auto
    then show ?thesis
      unfolding run resumed_def eff(3) using eff(4,5) Some by (auto intro: scheduled_mono)
  next
    case None
    let ?msg = "''service restarted before close order submission''"
    let ?v = "snd (rp_FailHedgeClose liveRepo (cq_id r) ?msg w)"
    note eff = FailClose_effect [OF Cons.prems(1), of "cq_id r" ?msg]
    have run: "recoverRequests liveRepo (liveEnqueuer opt) (r # rs) w =
        recoverRequests liveRepo (liveEnqueuer opt) rs ?v"
      using eff(1) by (simp add: None bnd_def ignore_apply_Ok)
    have step: "closeStep True (w_mgmt w) (w_mgmt ?v)"
      unfolding eff(4) using r by (intro fail_step) (auto simp: requestById_iff [OF Cons.prems(5)])
    have rows: "md_requests (w_mgmt ?v) = map (\<lambda>q. if cq_id q = cq_id r
        then q\<lparr>cq_status := HedgeCloseFailed, cq_error_message := ?msg\<rparr> else q) (md_requests (w_mgmt w))"
      unfolding eff(4) by (rule FailClose_rows)
    have others: "cq_id q \<noteq> cq_id r" if "q \<in> set rs" for q
      using that Cons.prems(3) by (simp, metis imageI)
    have "q \<in> set (filter isActiveRequest (md_requests (w_mgmt ?v)))" if "q \<in> set rs" for q
      using others [OF that] that Cons.prems(4) unfolding rows by (auto intro!: image_eqI [of _ _ q])
    then have tail: "resumed opt rs ?v (snd (recoverRequests liveRepo (liveEnqueuer opt) rs ?v))"
      using Cons.prems(2,3) eff(2) closeStep_wf [OF step Cons.prems(5)] by (intro Cons.IH) auto
    have left: "q \<in> set (md_requests (w_mgmt w)) \<and> cq_id q \<noteq> cq_id r"
      if "q \<in> set (md_requests (w_mgmt ?v))" "isActiveRequest q" for q
      using that unfolding rows by (auto simp: isActiveRequest_def split: if_splits)
    show ?thesis
      unfolding run by (rule resumed_failed [OF tail step eff(3) None left])
  qed
qed

lemma closing_matches:
  assumes "(closeStep True)\<^sup>*\<^sup>* db db'" "wfRequests db" "lifecycleMatches db"
  shows "lifecycleMatches db' \<and> wfRequests db'"
  using assms by (induction rule: rtranclp_induct) (auto intro: closeStep_matches closeStep_wf)


text \<open>A process that died between creating a close request and placing its order.\<close>

definition interruptedWorld :: "unit World" where
  "interruptedWorld = exampleWorld\<lparr>w_mgmt := snd (BeginHedgeCloseRequest 9 7 ''close_7_9'' exampleMgmt)\<rparr>"


end
