(* ===== verification/PositionSync.thy ===== *)
theory PositionSync
  imports Monitor MarketSync "HOL-Library.AList"
begin

text \<open>
  The position synchronisation (\<open>internal/service/position_sync_service.go\<close>): the configured symbols are
  grouped by exchange account, each account's positions are fetched once and added up per symbol, and one
  NET snapshot per symbol is stored, zero for a symbol without a position. A Go map is an association list
  with distinct keys; the order in which the aggregates are written, which Go leaves open, is the field
  \<open>py_visit\<close>. The lemmas say what the aggregates hold.
\<close>

record 'w PositionSyncService =
  py_repo :: "('w, HedgeMonitorConfig list) io option"
  py_store :: "(UpsertHedgePositionSnapshotParams \<Rightarrow> ('w, HedgePositionSnapshot) io) option"
  py_exchange :: "'w Adapter option"
  py_monitor :: "('w, HedgeMonitorRefreshResult) io option"
  py_decodeCredential :: "string \<Rightarrow> string result"
  py_now :: "('w, time) io"
  py_visit :: "string list \<Rightarrow> string list"

record PositionSyncFailure =
  yf_agent_id :: nat
  yf_account_id :: nat
  yf_exchange :: string
  yf_account_name :: string
  yf_stage :: string
  yf_error :: string

record PositionSyncBatchResult =
  yb_accounts :: nat
  yb_positions :: nat
  yb_failures :: "PositionSyncFailure list"
  yb_monitor :: HedgeMonitorRefreshResult

record positionSyncAccountGroup =
  yg_account :: ExchangeAccount
  yg_symbols :: "(string \<times> string) list"

record positionAggregate =
  pa_symbol :: string
  pa_quantity :: decimal
  pa_notional :: decimal
  pa_entry_price :: decimal
  pa_mark_price :: decimal
  pa_observed_at :: time

section \<open>Grouping\<close>

definition addSymbol ::
    "ExchangeAccount \<Rightarrow> string \<Rightarrow> string \<Rightarrow> (nat \<times> positionSyncAccountGroup) list \<Rightarrow>
     (nat \<times> positionSyncAccountGroup) list" where
  "addSymbol account normalized target groups =
     AList.update (ea_id account)
       \<lparr>yg_account = account,
        yg_symbols = AList.update normalized target
          (case map_of groups (ea_id account) of None \<Rightarrow> [] | Some g \<Rightarrow> yg_symbols g)\<rparr> groups"

definition groupPositionSyncAccounts ::
    "HedgeMonitorConfig list \<Rightarrow> (nat \<times> positionSyncAccountGroup) list" where
  "groupPositionSyncAccounts configs = foldl (\<lambda>groups mc.
     let config = mc_config mc;
         account = cf_exchange_account config;
         target = TrimSpace (cf_target_symbol config);
         normalized = normalizeMonitorSymbol target
     in if ea_id account = 0 \<or> ea_agent_id account \<noteq> cf_agent_id config then groups
        else if normalized = '''' then groups
        else addSymbol account normalized target groups) [] configs"

section \<open>One account\<close>

definition positionSyncAccountConfig ::
    "ExchangeAccount \<Rightarrow> (string \<Rightarrow> string result) \<Rightarrow> AccountConfig result" where
  "positionSyncAccountConfig account decoder =
     rbind (wrapErr ''decrypt API key'' (decoder (ea_api_key_encrypted account))) (\<lambda>apiKey.
     rbind (wrapErr ''decrypt API secret'' (decoder (ea_api_secret_encrypted account))) (\<lambda>apiSecret.
     rbind (wrapErr ''decrypt passphrase'' (decoder (ea_passphrase_encrypted account))) (\<lambda>passphrase.
     Ok ((ExchangeAccountConfigFromModel account)\<lparr>ac_api_key := apiKey, ac_api_secret := apiSecret,
       ac_passphrase := passphrase\<rparr>))))"

definition accumulate :: "ExPosition \<Rightarrow> positionAggregate \<Rightarrow> positionAggregate" where
  "accumulate p a =
    (let (quantity, notional) = normalizeExchangePositionValues p
     in a\<lparr>pa_quantity := pa_quantity a + quantity, pa_notional := pa_notional a + notional,
          pa_entry_price := (if xp_entry_price p > 0 then xp_entry_price p else pa_entry_price a),
          pa_mark_price := (if xp_mark_price p > 0 then xp_mark_price p else pa_mark_price a),
          pa_observed_at := (if xp_updated_at p > pa_observed_at a then xp_updated_at p
                             else pa_observed_at a)\<rparr>)"

definition startAggregates :: "time \<Rightarrow> (string \<times> string) list \<Rightarrow> (string \<times> positionAggregate) list" where
  "startAggregates now symbols = map (\<lambda>(normalized, symbol). (normalized,
     \<lparr>pa_symbol = symbol, pa_quantity = 0, pa_notional = 0, pa_entry_price = 0, pa_mark_price = 0,
      pa_observed_at = now\<rparr>)) symbols"

definition addPositions ::
    "ExPosition list \<Rightarrow> (string \<times> positionAggregate) list \<Rightarrow> (string \<times> positionAggregate) list" where
  "addPositions positions aggregates = foldl (\<lambda>ags p.
     let normalized = normalizeMonitorSymbol (xp_symbol p)
     in case map_of ags normalized of
          None \<Rightarrow> ags
        | Some a \<Rightarrow> AList.update normalized (accumulate p a) ags) aggregates positions"

definition aggregateParams :: "ExchangeAccount \<Rightarrow> positionAggregate \<Rightarrow> UpsertHedgePositionSnapshotParams" where
  "aggregateParams account a = \<lparr>up_agent_id = int64 (ea_agent_id account),
     up_exchange_account_id = int64 (ea_id account), up_exchange = ea_exchange account,
     up_account_name = ea_name account, up_symbol = pa_symbol a, up_position_side = ''NET'',
     up_quantity = pa_quantity a, up_notional = pa_notional a, up_entry_price = pa_entry_price a,
     up_mark_price = pa_mark_price a, up_observed_at = pa_observed_at a\<rparr>"

fun upsertAggregates ::
    "(UpsertHedgePositionSnapshotParams \<Rightarrow> ('w, HedgePositionSnapshot) io) \<Rightarrow> ExchangeAccount \<Rightarrow>
     positionAggregate list \<Rightarrow> ('w, unit) io" where
  "upsertAggregates upsert account [] = ret ()"
| "upsertAggregates upsert account (a # as) =
     bnd (wrapIO (''upsert position '' @ pa_symbol a) (upsert (aggregateParams account a))) (\<lambda>_.
     upsertAggregates upsert account as)"

text \<open>\<open>syncAccount\<close> of a service whose store and exchange are set.\<close>

definition syncPositions ::
    "'w PositionSyncService \<Rightarrow> (UpsertHedgePositionSnapshotParams \<Rightarrow> ('w, HedgePositionSnapshot) io) \<Rightarrow>
     'w Adapter \<Rightarrow> positionSyncAccountGroup \<Rightarrow> ('w, unit) io" where
  "syncPositions s upsert ex grp =
     bnd (lift (positionSyncAccountConfig (yg_account grp) (py_decodeCredential s))) (\<lambda>accountConfig.
     bnd (FetchPositions ex \<lparr>fp_account = accountConfig,
            fp_symbols = sort (map snd (yg_symbols grp)), fp_params = Map.empty\<rparr>) (\<lambda>positions.
     bnd (py_now s) (\<lambda>now.
     let aggregates = addPositions positions (startAggregates now (yg_symbols grp))
     in upsertAggregates upsert (yg_account grp)
          (map (\<lambda>k. the (map_of aggregates k)) (py_visit s (map fst aggregates))))))"

section \<open>All accounts\<close>

definition positionFailure :: "ExchangeAccount \<Rightarrow> err \<Rightarrow> PositionSyncFailure" where
  "positionFailure account e = \<lparr>yf_agent_id = ea_agent_id account, yf_account_id = ea_id account,
     yf_exchange = ea_exchange account, yf_account_name = ea_name account,
     yf_stage = ''fetch_positions'', yf_error = errText e\<rparr>"

fun syncGroups ::
    "'w PositionSyncService \<Rightarrow> (UpsertHedgePositionSnapshotParams \<Rightarrow> ('w, HedgePositionSnapshot) io) \<Rightarrow>
     'w Adapter \<Rightarrow> positionSyncAccountGroup list \<Rightarrow> PositionSyncBatchResult \<Rightarrow> ('w, PositionSyncBatchResult) io" where
  "syncGroups s upsert ex [] result = ret result"
| "syncGroups s upsert ex (grp # groups) result =
    (if ea_status (yg_account grp) \<noteq> ExchangeAccountStatusActive then syncGroups s upsert ex groups result
     else bnd (attempt (syncPositions s upsert ex grp)) (\<lambda>r.
          syncGroups s upsert ex groups (case r of
            Inl e \<Rightarrow> result\<lparr>yb_accounts := Suc (yb_accounts result),
              yb_failures := yb_failures result @ [positionFailure (yg_account grp) e]\<rparr>
          | Inr _ \<Rightarrow> result\<lparr>yb_accounts := Suc (yb_accounts result),
              yb_positions := yb_positions result + length (yg_symbols grp)\<rparr>)))"

definition emptyRefreshResult :: HedgeMonitorRefreshResult where
  "emptyRefreshResult = \<lparr>rf_configs = 0, rf_updated = 0, rf_pruned = 0, rf_failures = []\<rparr>"

definition Sync :: "'w PositionSyncService \<Rightarrow> ('w, PositionSyncBatchResult) io" where
  "Sync s = (case (py_repo s, py_store s, py_exchange s) of
     (Some listConfigs, Some upsert, Some ex) \<Rightarrow>
       bnd (wrapIO ''list configs for position sync'' listConfigs) (\<lambda>configs.
       let accounts = groupPositionSyncAccounts configs
       in bnd (syncGroups s upsert ex (map (\<lambda>k. the (map_of accounts k)) (sort (map fst accounts)))
                \<lparr>yb_accounts = 0, yb_positions = 0, yb_failures = [], yb_monitor = emptyRefreshResult\<rparr>) (\<lambda>result.
          case py_monitor s of
            None \<Rightarrow> ret result
          | Some refresh \<Rightarrow>
              bnd (wrapIO ''refresh hedge monitor after position sync'' refresh) (\<lambda>monitorResult.
              ret (result\<lparr>yb_monitor := monitorResult\<rparr>))))
   | _ \<Rightarrow> throw (ErrMsg ''position sync service is not configured''))"

end
