(* ===== verification/PositionRuns.thy ===== *)
theory PositionRuns
  imports PositionSync HedgeRuns "HOL-Library.Multiset"
begin

text \<open>
  The position synchronisation on the stores of \<open>World\<close>: what an account's synchronisation leaves in the
  position table when it succeeds.
\<close>

section \<open>Grouping\<close>

definition groupOk :: "positionSyncAccountGroup \<Rightarrow> bool" where
  "groupOk g \<longleftrightarrow> distinct (map fst (yg_symbols g)) \<and>
     (\<forall>(n, t) \<in> set (yg_symbols g). normalizeMonitorSymbol t = n \<and> n \<noteq> '''')"

lemma update_pairs: "set (AList.update k v al) \<subseteq> insert (k, v) (set al)"
  by (induction al) auto

lemma groupOk_update:
  assumes "groupOk \<lparr>yg_account = a, yg_symbols = xs\<rparr>" "normalizeMonitorSymbol t = n" "n \<noteq> ''''"
  shows "groupOk \<lparr>yg_account = b, yg_symbols = AList.update n t xs\<rparr>"
  using assms update_pairs [of n t xs] by (auto simp: groupOk_def distinct_update)

lemma addSymbol_ok:
  assumes "\<forall>g \<in> set groups. groupOk (snd g)" "normalizeMonitorSymbol target = normalized" "normalized \<noteq> ''''"
  shows "\<forall>g \<in> set (addSymbol account normalized target groups). groupOk (snd g)"
proof -
  let ?old = "case map_of groups (ea_id account) of None \<Rightarrow> [] | Some g \<Rightarrow> yg_symbols g"
  have "groupOk \<lparr>yg_account = account, yg_symbols = ?old\<rparr>"
  proof (cases "map_of groups (ea_id account)")
    case (Some g)
    then have "groupOk g" using assms(1) map_of_SomeD [OF Some] by auto
    then show ?thesis by (simp add: Some groupOk_def)
  qed (simp add: groupOk_def)
  then have "groupOk \<lparr>yg_account = account, yg_symbols = AList.update normalized target ?old\<rparr>"
    by (rule groupOk_update [OF _ assms(2,3)])
  then show ?thesis
    using assms(1) update_pairs [of "ea_id account"
      "\<lparr>yg_account = account, yg_symbols = AList.update normalized target ?old\<rparr>" groups]
    unfolding addSymbol_def by auto
qed

lemma groups_ok: "\<forall>g \<in> set (groupPositionSyncAccounts configs). groupOk (snd g)"
  unfolding groupPositionSyncAccounts_def
  by (induction configs rule: rev_induct) (simp_all add: Let_def addSymbol_ok)

lemma groupOk_targets: "groupOk g \<Longrightarrow> distinct (map snd (yg_symbols g))"
proof -
  assume ok: "groupOk g"
  then have "map fst (yg_symbols g) = map normalizeMonitorSymbol (map snd (yg_symbols g))"
    by (auto simp: groupOk_def)
  with ok have "distinct (map normalizeMonitorSymbol (map snd (yg_symbols g)))" by (simp add: groupOk_def)
  then show ?thesis by (simp add: distinct_map inj_on_def comp_def)
qed

section \<open>Adding up\<close>

lemma keys_addPositions [simp]: "map fst (addPositions ps ags) = map fst ags"
  unfolding addPositions_def
proof (induction ps arbitrary: ags)
  case (Cons p ps)
  have "(k, x) \<in> set ags \<Longrightarrow> map fst (AList.update k v ags) = map fst ags" for k v x
    by (force simp: update_keys)
  with Cons show ?case by (auto simp: Let_def split: option.split dest!: map_of_SomeD)
qed simp

lemma map_of_addPositions:
  "map_of (addPositions ps ags) k =
     map_option (fold accumulate (filter (\<lambda>p. normalizeMonitorSymbol (xp_symbol p) = k) ps)) (map_of ags k)"
  unfolding addPositions_def
proof (induction ps arbitrary: ags)
  case Nil
  then show ?case by (cases "map_of ags k") simp_all
next
  case (Cons p ps)
  let ?n = "normalizeMonitorSymbol (xp_symbol p)"
  show ?case
  proof (cases "map_of ags ?n")
    case None
    with Cons [of ags] show ?thesis by (cases "?n = k") (auto simp: Let_def)
  next
    case (Some a)
    with Cons [of "AList.update ?n (accumulate p a) ags"] show ?thesis
      by (cases "?n = k") (auto simp: Let_def update_conv)
  qed
qed

lemma accumulate_total:
  "pa_quantity (fold accumulate ps a) = pa_quantity a + (\<Sum>p\<leftarrow>ps. fst (normalizeExchangePositionValues p))"
  "pa_notional (fold accumulate ps a) = pa_notional a + (\<Sum>p\<leftarrow>ps. snd (normalizeExchangePositionValues p))"
  "pa_symbol (fold accumulate ps a) = pa_symbol a"
  "0 \<le> pa_mark_price a \<Longrightarrow> 0 \<le> pa_mark_price (fold accumulate ps a)"
  by (induction ps arbitrary: a) (auto simp: accumulate_def Let_def split: prod.split)

lemma accumulate_observed: "pa_observed_at a \<le> pa_observed_at (fold accumulate ps a)"
proof (induction ps arbitrary: a)
  case (Cons p ps)
  have "pa_observed_at a \<le> pa_observed_at (accumulate p a)"
    by (simp add: accumulate_def split: prod.split)
  with Cons [of "accumulate p a"] show ?case by simp
qed simp


section \<open>On the live stores\<close>

definition livePositionStore :: "UpsertHedgePositionSnapshotParams \<Rightarrow> ('x World, HedgePositionSnapshot) io" where
  "livePositionStore a = onCore (\<lambda>_. UpsertHedgePositionSnapshot a)"

definition livePositionSync ::
    "'x Adapter option \<Rightarrow> options \<Rightarrow> ('x World, HedgeMonitorRefreshResult) io option \<Rightarrow>
     (string list \<Rightarrow> string list) \<Rightarrow> 'x World PositionSyncService" where
  "livePositionSync ex opt monitor visit = \<lparr>py_repo = Some (onMgmt (\<lambda>_. ListHedgeMonitorConfigs)),
     py_store = Some livePositionStore, py_exchange = map_option liveAdapter ex, py_monitor = monitor,
     py_decodeCredential = lo_decode opt, py_now = readClock, py_visit = visit\<rparr>"

lemma upsert_stored:
  assumes "livePositionStore arg w = (Ok r, w')"
  shows "w_core w' = putPosition arg (w_core w)"
  using assms unfolding livePositionStore_def
  by (rule onCore_OkE) (auto simp: UpsertHedgePositionSnapshot_def Let_def split: if_splits option.splits)

lemma upsertAggregates_stored:
  "upsertAggregates livePositionStore account as w = (Ok (), w') \<Longrightarrow>
   w_core w' = fold putPosition (map (aggregateParams account) as) (w_core w)"
proof (induction as arbitrary: w)
  case (Cons a as)
  then obtain r v where "livePositionStore (aggregateParams account a) w = (Ok r, v)"
      "upsertAggregates livePositionStore account as v = (Ok (), w')"
    by (auto simp: bnd_Ok_iff wrapIO_Ok_iff)
  with Cons.IH [of v] upsert_stored [of "aggregateParams account a" w r v] show ?case by simp
qed (simp add: ret_def)

definition netOf :: "string \<Rightarrow> ExPosition list \<Rightarrow> decimal \<times> decimal" where
  "netOf n positions =
    (let mine = map normalizeExchangePositionValues
       (filter (\<lambda>p. normalizeMonitorSymbol (xp_symbol p) = n) positions)
     in (sum_list (map fst mine), sum_list (map snd mine)))"

lemma aggregate_of:
  assumes "groupOk g" and "(n, t) \<in> set (yg_symbols g)"
  shows "\<exists>a. map_of (addPositions positions (startAggregates now (yg_symbols g))) n = Some a \<and>
     pa_symbol a = t \<and> (pa_quantity a, pa_notional a) = netOf n positions"
proof -
  have "map_of (startAggregates now (yg_symbols g)) n = Some \<lparr>pa_symbol = t, pa_quantity = 0,
      pa_notional = 0, pa_entry_price = 0, pa_mark_price = 0, pa_observed_at = now\<rparr>"
    using assms by (force simp: startAggregates_def groupOk_def comp_def case_prod_unfold)
  then show ?thesis
    by (simp add: map_of_addPositions accumulate_total netOf_def Let_def comp_def)
qed

text \<open>C29: when the positions of an account are synchronised, every configured symbol gets one NET snapshot
  whose quantity and notional are the signed sums of all positions the exchange reported for that symbol,
  whatever their spelling and however many legs there are, and zero when it reported none; no other
  snapshot changes, and the order in which Go walks its map does not matter.\<close>

theorem position_sync_totals:
  assumes "(k, g) \<in> set (groupPositionSyncAccounts configs)"
    and "\<And>ks. mset (visit ks) = mset ks"
    and "syncPositions (livePositionSync ex opt monitor visit) livePositionStore (liveAdapter a) g w = (Ok (), w')"
  shows "\<exists>account positions v. positionSyncAccountConfig (yg_account g) (lo_decode opt) = Ok account \<and>
     FetchPositions (liveAdapter a) \<lparr>fp_account = account, fp_symbols = sort (map snd (yg_symbols g)),
       fp_params = Map.empty\<rparr> w = (Ok positions, v) \<and>
     (\<forall>(n, t) \<in> set (yg_symbols g). \<exists>row.
        getPosition (w_core w') (int64 (ea_agent_id (yg_account g)), int64 (ea_id (yg_account g)), t) = Some row \<and>
        ps_position_side row = ''NET'' \<and> (ps_quantity row, ps_notional row) = netOf n positions) \<and>
     (\<forall>key. (\<forall>t \<in> snd ` set (yg_symbols g).
          key \<noteq> (int64 (ea_agent_id (yg_account g)), int64 (ea_id (yg_account g)), t)) \<longrightarrow>
        getPosition (w_core w') key = getPosition (w_core w) key)"
proof -
  have ok: "groupOk g" using groups_ok assms(1) by fastforce
  let ?s = "livePositionSync ex opt monitor visit"
  from assms(3) obtain account positions v t where
      account: "positionSyncAccountConfig (yg_account g) (lo_decode opt) = Ok account"
    and fetch: "FetchPositions (liveAdapter a) \<lparr>fp_account = account,
        fp_symbols = sort (map snd (yg_symbols g)), fp_params = Map.empty\<rparr> w = (Ok positions, v)"
    and upsert: "upsertAggregates livePositionStore (yg_account g)
        (map (\<lambda>k. the (map_of (addPositions positions (startAggregates t (yg_symbols g))) k))
          (visit (map fst (addPositions positions (startAggregates t (yg_symbols g))))))
        (v\<lparr>w_clock := w_clock v + 1\<rparr>) = (Ok (), w')"
    by (auto simp: syncPositions_def livePositionSync_def bnd_Ok_iff lift_def readClock_def Let_def)
  let ?ags = "addPositions positions (startAggregates t (yg_symbols g))"
  let ?ks = "visit (map fst ?ags)"
  let ?params = "map (\<lambda>k. aggregateParams (yg_account g) (the (map_of ?ags k))) ?ks"
  have core: "w_core w' = fold putPosition ?params (w_core w)"
    using upsertAggregates_stored [OF upsert] onExt_core [OF fetch [unfolded liveAdapter_def Adapter.simps]]
    by (simp add: comp_def)
  have keys: "map fst ?ags = map fst (yg_symbols g)"
    by (simp add: startAggregates_def case_prod_unfold)
  have ks: "set ?ks = fst ` set (yg_symbols g)" "distinct ?ks"
    using assms(2) [of "map fst ?ags"] ok unfolding keys groupOk_def
    by (metis list.set_map set_mset_mset, metis mset_eq_imp_distinct_iff)
  have agg: "\<exists>a. map_of ?ags n = Some a \<and> pa_symbol a = t \<and> (pa_quantity a, pa_notional a) = netOf n positions"
    if "(n, t) \<in> set (yg_symbols g)" for n t
    by (rule aggregate_of [OF ok that])
  let ?acc = "yg_account g"
  let ?key = "\<lambda>t. (int64 (ea_agent_id ?acc), int64 (ea_id ?acc), t)"
  have target: "normalizeMonitorSymbol (pa_symbol (the (map_of ?ags n))) = n \<and>
      (n, pa_symbol (the (map_of ?ags n))) \<in> set (yg_symbols g)" if "n \<in> set ?ks" for n
  proof -
    from that ks obtain t where nt: "(n, t) \<in> set (yg_symbols g)" by auto
    with agg [OF nt] ok show ?thesis by (auto simp: groupOk_def)
  qed
  have param_key: "positionParamKey (aggregateParams ?acc (the (map_of ?ags n))) =
      ?key (pa_symbol (the (map_of ?ags n)))" for n
    by (simp add: positionParamKey_def aggregateParams_def)
  have "inj_on (\<lambda>n. ?key (pa_symbol (the (map_of ?ags n)))) (set ?ks)"
    by (rule inj_onI) (metis prod.inject target)
  with ks(2) have distinct: "distinct (map positionParamKey ?params)"
    by (simp add: distinct_map comp_def param_key inj_on_def)
  have "\<exists>row. getPosition (w_core w') (?key t) = Some row \<and> ps_position_side row = ''NET'' \<and>
      (ps_quantity row, ps_notional row) = netOf n positions" if nt: "(n, t) \<in> set (yg_symbols g)" for n t
  proof -
    from agg [OF nt] obtain a where a: "map_of ?ags n = Some a" "pa_symbol a = t"
        "(pa_quantity a, pa_notional a) = netOf n positions" by blast
    have "n \<in> set ?ks" using nt ks(1) by force
    then have "aggregateParams ?acc a \<in> set ?params" using a(1) by force
    from positions.get_fold_distinct [OF distinct this, of "w_core w"] obtain row where
        "getPosition (w_core w') (positionParamKey (aggregateParams ?acc a)) = Some row"
        "row = positionRow (ps_id row) (aggregateParams ?acc a)"
      unfolding core by blast
    moreover have "positionParamKey (aggregateParams ?acc a) = ?key t"
      using a(2) by (simp add: positionParamKey_def aggregateParams_def)
    moreover have "ps_position_side (positionRow i (aggregateParams ?acc a)) = ''NET''"
      "ps_quantity (positionRow i (aggregateParams ?acc a)) = pa_quantity a"
      "ps_notional (positionRow i (aggregateParams ?acc a)) = pa_notional a" for i
      by (simp_all add: positionRow_def aggregateParams_def)
    ultimately show ?thesis using a(3) by metis
  qed
  moreover have "getPosition (w_core w') key = getPosition (w_core w) key"
    if "\<forall>t \<in> snd ` set (yg_symbols g). key \<noteq> ?key t" for key
  proof -
    have "key \<notin> positionParamKey ` set ?params"
      using that target by (force simp: param_key)
    then show ?thesis unfolding core by (rule positions.get_fold_other)
  qed
  ultimately show ?thesis
    using account fetch by blast
qed

text \<open>An exchange that reports two legs of one symbol in its own spelling.\<close>

definition leg :: "string \<Rightarrow> decimal \<Rightarrow> ExPosition" where
  "leg side quantity = examplePosition'\<lparr>xp_symbol := '' btc/usdt:usdt'', xp_position_side := side,
     xp_quantity := quantity\<rparr>"

definition twoLegs :: "unit Adapter" where
  "twoLegs = \<lparr>FetchBalance = (\<lambda>_. throw ErrNotFound),
     FetchPositions = (\<lambda>_. ret [leg ''SHORT'' 2, leg ''LONG'' 1]), FetchTicker = (\<lambda>_. throw ErrNotFound),
     FetchMarkets = (\<lambda>_. throw ErrNotFound), PlaceOrder = (\<lambda>_. throw ErrNotFound),
     FetchOrder = (\<lambda>_. throw ErrNotFound), CancelOrder = (\<lambda>_. throw ErrNotFound),
     SetLeverage = (\<lambda>_. throw ErrNotFound), SetMarginMode = (\<lambda>_. throw ErrNotFound)\<rparr>"

definition twoLegConfigs :: "HedgeMonitorConfig list" where
  "twoLegConfigs = [\<lparr>mc_config = exampleHedge\<lparr>cf_exchange_account := exampleAccount\<rparr>,
     mc_global_enabled = True\<rparr>]"

definition twoLegGroup :: positionSyncAccountGroup where
  "twoLegGroup = \<lparr>yg_account = exampleAccount, yg_symbols = [(''BTC/USDT:USDT'', ''BTC/USDT:USDT'')]\<rparr>"

lemma twoLeg_symbols:
  "TrimSpace ''BTC/USDT:USDT'' = ''BTC/USDT:USDT''"
  "normalizeMonitorSymbol ''BTC/USDT:USDT'' = ''BTC/USDT:USDT''"
  "normalizeMonitorSymbol '' btc/usdt:usdt'' = ''BTC/USDT:USDT''"
  "ToUpper (TrimSpace ''SHORT'') = ''SHORT''" "ToUpper (TrimSpace ''LONG'') = ''LONG''"
  by code_simp+

lemma twoLeg_group: "groupPositionSyncAccounts twoLegConfigs = [(5, twoLegGroup)]"
  by (simp add: groupPositionSyncAccounts_def twoLegConfigs_def twoLegGroup_def exampleHedge_def
      exampleAccount_def twoLeg_symbols addSymbol_def Let_def)

lemma twoLeg_values:
  "normalizeExchangePositionValues (leg ''SHORT'' 2) = (-2, -200)"
  "normalizeExchangePositionValues (leg ''LONG'' 1) = (1, 100)"
  by (simp_all add: leg_def examplePosition'_def normalizeExchangePositionValues_def Let_def
      signedExchangePositionQuantity_def signedExchangePositionNotional_def twoLeg_symbols)

lemma twoLeg_run:
  "\<exists>w'. syncPositions (livePositionSync (Some twoLegs) exampleOptions None id) livePositionStore
     (liveAdapter twoLegs) twoLegGroup exampleWorld = (Ok (), w')"
proof -
  have account: "\<exists>c. positionSyncAccountConfig exampleAccount Ok = Ok c"
    by (simp add: positionSyncAccountConfig_def)
  have aggs: "addPositions [leg ''SHORT'' 2, leg ''LONG'' 1] (startAggregates t [(''BTC/USDT:USDT'', ''BTC/USDT:USDT'')]) =
      [(''BTC/USDT:USDT'', accumulate (leg ''LONG'' 1) (accumulate (leg ''SHORT'' 2)
        \<lparr>pa_symbol = ''BTC/USDT:USDT'', pa_quantity = 0, pa_notional = 0, pa_entry_price = 0, pa_mark_price = 0,
         pa_observed_at = t\<rparr>))]" for t
    by (simp add: addPositions_def startAggregates_def twoLegGroup_def leg_def twoLeg_symbols Let_def)
  have store: "\<exists>r v. livePositionStore (aggregateParams exampleAccount (accumulate (leg ''LONG'' 1)
      (accumulate (leg ''SHORT'' 2) \<lparr>pa_symbol = ''BTC/USDT:USDT'', pa_quantity = 0, pa_notional = 0,
        pa_entry_price = 0, pa_mark_price = 0, pa_observed_at = 100\<rparr>)))
      (exampleWorld\<lparr>w_ext := (), w_clock := 101\<rparr>) = (Ok r, v)"
  proof -
    let ?p = "aggregateParams exampleAccount (accumulate (leg ''LONG'' 1)
      (accumulate (leg ''SHORT'' 2) \<lparr>pa_symbol = ''BTC/USDT:USDT'', pa_quantity = 0, pa_notional = 0,
        pa_entry_price = 0, pa_mark_price = 0, pa_observed_at = 100\<rparr>))"
    have "positionChecks ?p"
      by (simp add: positionChecks_def aggregateParams_def accumulate_def twoLeg_values leg_def examplePosition'_def
          split: prod.split)
    from UpsertHedgePositionSnapshot_ok [OF this, of emptyCoreDB] show ?thesis
      by (auto simp: livePositionStore_def onCore_def faulty_def)
  qed
  from account store show ?thesis
    by (auto simp: syncPositions_def livePositionSync_def bnd_def lift_def readClock_def liveAdapter_def
        onExt_def faulty_def twoLegs_def ret_def aggs Let_def twoLegGroup_def wrapIO_def exampleOptions_def)
qed

theorem position_sync_totals_witness:
  "\<exists>(w' :: unit World) row. getPosition (w_core w') (3, 5, ''BTC/USDT:USDT'') = Some row \<and>
     (ps_quantity row, ps_notional row) = (-1, -100)"
proof -
  from twoLeg_run obtain w' where run: "syncPositions (livePositionSync (Some twoLegs) exampleOptions None id)
      livePositionStore (liveAdapter twoLegs) twoLegGroup exampleWorld = (Ok (), w')" by blast
  have "(5, twoLegGroup) \<in> set (groupPositionSyncAccounts twoLegConfigs)" by (simp add: twoLeg_group)
  from position_sync_totals [OF this _ run] obtain account positions v row where
    fetch: "FetchPositions (liveAdapter twoLegs) \<lparr>fp_account = account,
        fp_symbols = sort (map snd (yg_symbols twoLegGroup)), fp_params = Map.empty\<rparr> exampleWorld = (Ok positions, v)"
    and row: "getPosition (w_core w') (int64 (ea_agent_id (yg_account twoLegGroup)),
        int64 (ea_id (yg_account twoLegGroup)), ''BTC/USDT:USDT'') = Some row"
      "(ps_quantity row, ps_notional row) = netOf ''BTC/USDT:USDT'' positions"
    by (auto simp: twoLegGroup_def)
  from fetch have "positions = [leg ''SHORT'' 2, leg ''LONG'' 1]"
    by (simp add: liveAdapter_def onExt_def faulty_def twoLegs_def ret_def)
  then have "netOf ''BTC/USDT:USDT'' positions = (-1, -100)"
    by (simp add: netOf_def twoLeg_values Let_def) (simp add: leg_def twoLeg_symbols)
  moreover have "int64 (ea_agent_id (yg_account twoLegGroup)) = 3" "int64 (ea_id (yg_account twoLegGroup)) = 5"
    by (simp_all add: twoLegGroup_def exampleAccount_def int64_small maxInt64_def)
  ultimately show ?thesis using row by auto
qed

end
