(* ===== verification/ExposureCache.thy ===== *)
theory ExposureCache
  imports Symbols GoTime GoJson
begin

text \<open>
  The exposure cache (\<open>internal/service/redis_exposure_store.go\<close>): mark prices are read from hashes that
  another service writes, net exposures are written to hashes with a time to live. The Redis client is a
  record of the three commands; a field of a reply is a string or nil. What the decimal package makes of a
  text, and the text of a decimal, are fields. The lemmas say that a price that is returned is positive and
  fresh, and what a saved exposure puts into its hash.
\<close>

section \<open>Numbers and durations as text\<close>

text \<open>\<open>strconv.ParseInt(s, 10, 64)\<close>: an optional sign, digits, and the range of 64 bits.\<close>

definition ParseInt64 :: "string \<Rightarrow> int result" where
  "ParseInt64 s =
    (let (sign, digits) = (case s of
           c # cs \<Rightarrow> if c = CHR ''-'' then (-1, cs) else if c = CHR ''+'' then (1, cs) else (1, s)
         | [] \<Rightarrow> (1, []));
         n = sign * int (readDigits digits)
     in if digits = '''' \<or> \<not> list_all isDigit digits then Err (ErrExternal ''invalid syntax'')
        else if n < - (2 ^ 63) \<or> 2 ^ 63 \<le> n then Err (ErrExternal ''value out of range'')
        else Ok n)"

text \<open>\<open>strconv.ParseUint(s, 10, 64)\<close>\<close>

definition ParseUint64 :: "string \<Rightarrow> nat result" where
  "ParseUint64 s =
    (if s = '''' \<or> \<not> list_all isDigit s then Err (ErrExternal ''invalid syntax'')
     else if 2 ^ 64 \<le> readDigits s then Err (ErrExternal ''value out of range'')
     else Ok (readDigits s))"

text \<open>\<open>d.Round(time.Second)\<close>, halves away from zero; the largest duration is not exceeded.\<close>

definition roundSecond :: "duration \<Rightarrow> duration" where
  "roundSecond d =
    (let r = (\<bar>d\<bar> + second div 2) div second * second
     in if d < 0 then - r else min r (2 ^ 63 - 1))"

text \<open>\<open>d.String()\<close>; the unit of microseconds is written with the micro sign.\<close>

definition durationText :: "duration \<Rightarrow> string" where
  "durationText d =
    (let u = \<bar>d\<bar>; sign = (if d < 0 then ''-'' else '''');
         below = (\<lambda>unit. showInt (u div unit) @ fractionText (u mod unit * (second div unit)));
         secs = u div second; mins = secs div 60; hours = mins div 60;
         tail = showInt (secs mod 60) @ fractionText (u mod second) @ ''s''
     in if u = 0 then ''0s''
        else sign @
          (if u < 1000 then showInt u @ ''ns''
           else if u < 1000000 then below 1000 @ [CHR 0xC2, CHR 0xB5] @ ''s''
           else if u < second then below 1000000 @ ''ms''
           else if mins = 0 then tail
           else if hours = 0 then showInt mins @ ''m'' @ tail
           else showInt hours @ ''h'' @ showInt (mins mod 60) @ ''m'' @ tail))"

text \<open>\<open>t.UnixMilli()\<close> and \<open>time.UnixMilli(ms)\<close>\<close>

definition UnixMilli :: "time \<Rightarrow> int" where
  "UnixMilli t = signed_take_bit 63 ((t - unixEpoch) div 1000000)"

definition fromUnixMilli :: "int \<Rightarrow> time" where
  "fromUnixMilli ms = unixEpoch + ms * 1000000"

section \<open>The store\<close>

record MarkPrice =
  mp_symbol :: string
  mp_value :: decimal
  mp_observed_at :: time

record NetExposureCache =
  nc_agent_id :: nat
  nc_source :: string
  nc_symbol :: string
  nc_net_quantity :: decimal
  nc_position_rows :: int
  nc_source_event_time :: time
  nc_synced_at :: time

record RedisExposureStoreOptions =
  xo_market_price_key_prefix :: string
  xo_exposure_key_prefix :: string
  xo_price_max_age :: duration
  xo_exposure_ttl :: duration

record 'w RedisHashClient =
  rd_HMGet :: "string \<Rightarrow> string list \<Rightarrow> ('w, string option list) io"
  rd_HSet :: "string \<Rightarrow> (string \<times> string) list \<Rightarrow> ('w, unit) io"
  rd_Expire :: "string \<Rightarrow> duration \<Rightarrow> ('w, unit) io"

record 'w RedisExposureStore =
  xe_client :: "'w RedisHashClient option"
  xe_market_price_key_prefix :: string
  xe_exposure_key_prefix :: string
  xe_price_max_age :: duration
  xe_exposure_ttl :: duration
  xe_now :: "('w, time) io"
  xe_decParse :: "string \<Rightarrow> decimal result"
  xe_decString :: "decimal \<Rightarrow> string"

definition NewRedisExposureStore ::
    "'w RedisHashClient option \<Rightarrow> RedisExposureStoreOptions \<Rightarrow> ('w, time) io \<Rightarrow> (string \<Rightarrow> decimal result) \<Rightarrow>
     (decimal \<Rightarrow> string) \<Rightarrow> 'w RedisExposureStore" where
  "NewRedisExposureStore client opts now parse decString = \<lparr>xe_client = client,
     xe_market_price_key_prefix = (if xo_market_price_key_prefix opts = '''' then ''market_price:6mm:''
       else xo_market_price_key_prefix opts),
     xe_exposure_key_prefix = (if xo_exposure_key_prefix opts = '''' then ''hedge:exposure:6mm:''
       else xo_exposure_key_prefix opts),
     xe_price_max_age = (if xo_price_max_age opts \<le> 0 then 2 * minute else xo_price_max_age opts),
     xe_exposure_ttl = (if xo_exposure_ttl opts \<le> 0 then 2 * minute else xo_exposure_ttl opts),
     xe_now = now, xe_decParse = parse, xe_decString = decString\<rparr>"

text \<open>A reply has the length of the request; \<open>fmt.Sprint\<close> of a string field is the string.\<close>

definition decodeMarkPriceValues ::
    "(string \<Rightarrow> decimal result) \<Rightarrow> string option list \<Rightarrow> (decimal \<times> time) result" where
  "decodeMarkPriceValues parse values = (case values of
     Some mark # stamp # _ \<Rightarrow>
       (case parse (TrimSpace mark) of
          Panic \<Rightarrow> Panic
        | Err _ \<Rightarrow> Err (ErrMsg (''invalid mark field '' @ quoted mark))
        | Ok price \<Rightarrow>
            if \<not> price > 0 then Err (ErrMsg (''invalid mark field '' @ quoted mark))
            else (case stamp of
              None \<Rightarrow> Err (ErrMsg ''ts_mark field is missing'')
            | Some ts \<Rightarrow> (case ParseInt64 (TrimSpace ts) of
                Ok ms \<Rightarrow> if ms \<le> 0 then Err (ErrMsg (''invalid ts_mark field '' @ quoted ts))
                         else Ok (price, fromUnixMilli ms)
              | _ \<Rightarrow> Err (ErrMsg (''invalid ts_mark field '' @ quoted ts)))))
   | _ \<Rightarrow> Err (ErrMsg ''mark field is missing''))"

definition FetchMarkPrice :: "'w RedisExposureStore \<Rightarrow> string \<Rightarrow> ('w, MarkPrice) io" where
  "FetchMarkPrice s symbol0 = (case xe_client s of
     None \<Rightarrow> throw (ErrMsg ''redis exposure store is not configured'')
   | Some client \<Rightarrow>
      let symbol = normalizeExposureSymbol symbol0; context = ''read redis mark price for '' @ symbol
      in if symbol = '''' then throw (ErrMsg ''symbol is required'')
         else
           bnd (wrapIO context (rd_HMGet client (xe_market_price_key_prefix s @ symbol) [''mark'', ''ts_mark''])) (\<lambda>values.
           bnd (wrapIO context (lift (decodeMarkPriceValues (xe_decParse s) values))) (\<lambda>(markPrice, observedAt).
           bnd (xe_now s) (\<lambda>now.
           if observedAt > now + 30 * second
           then throw (ErrMsg (''redis mark price for '' @ symbol @ '' has a future timestamp: '' @
                  formatRFC3339Nano observedAt))
           else bnd (xe_now s) (\<lambda>now'.
             let age = timeSub now' observedAt
             in if age > xe_price_max_age s
                then throw (ErrMsg (''redis mark price for '' @ symbol @ '' is stale: age='' @
                       durationText (roundSecond age) @ '' max_age='' @ durationText (xe_price_max_age s)))
                else ret \<lparr>mp_symbol = symbol, mp_value = markPrice, mp_observed_at = observedAt\<rparr>)))))"

definition unixMilliOrZero :: "time \<Rightarrow> int" where
  "unixMilliOrZero value = (if value = 0 then 0 else UnixMilli value)"

definition exposureCacheKey :: "string \<Rightarrow> NetExposureCache \<Rightarrow> string" where
  "exposureCacheKey pre e =
     pre @ showNat (nc_agent_id e) @ '':'' @ nc_source e @ '':'' @ nc_symbol e"

definition exposureFields :: "(decimal \<Rightarrow> string) \<Rightarrow> NetExposureCache \<Rightarrow> (string \<times> string) list" where
  "exposureFields decString e = [(''agent_id'', showNat (nc_agent_id e)), (''source'', nc_source e),
     (''symbol'', nc_symbol e), (''net_quantity'', decString (nc_net_quantity e)),
     (''position_rows'', showInt (nc_position_rows e)),
     (''source_event_time_ms'', showInt (unixMilliOrZero (nc_source_event_time e))),
     (''synced_at_ms'', showInt (UnixMilli (nc_synced_at e)))]"

definition SaveNetExposure :: "'w RedisExposureStore \<Rightarrow> NetExposureCache \<Rightarrow> ('w, unit) io" where
  "SaveNetExposure s exposure0 = (case xe_client s of
     None \<Rightarrow> throw (ErrMsg ''redis exposure store is not configured'')
   | Some client \<Rightarrow>
      let exposure1 = exposure0\<lparr>nc_source := normalizeExposureSource (nc_source exposure0),
            nc_symbol := normalizeExposureSymbol (nc_symbol exposure0)\<rparr>;
          whose = ''agent='' @ showNat (nc_agent_id exposure1) @ '' symbol='' @ nc_symbol exposure1
      in if nc_agent_id exposure1 = 0 \<or> nc_symbol exposure1 = ''''
         then throw (ErrMsg ''agent_id and symbol are required'')
         else
           bnd (if nc_synced_at exposure1 = 0
                then bnd (xe_now s) (\<lambda>now. ret (exposure1\<lparr>nc_synced_at := now\<rparr>)) else ret exposure1) (\<lambda>exposure.
           let key = exposureCacheKey (xe_exposure_key_prefix s) exposure
           in bnd (wrapIO (''write redis net exposure for '' @ whose)
                (rd_HSet client key (exposureFields (xe_decString s) exposure))) (\<lambda>_.
              if xe_exposure_ttl s > 0
              then wrapIO (''expire redis net exposure for '' @ whose) (rd_Expire client key (xe_exposure_ttl s))
              else ret ())))"

section \<open>What the store returns\<close>

lemma decodeMarkPriceValues_ok:
  "decodeMarkPriceValues parse values = Ok (price, seen) \<Longrightarrow> 0 < price \<and> unixEpoch < seen"
  by (auto simp: decodeMarkPriceValues_def fromUnixMilli_def Let_def
      split: list.splits option.splits result.splits if_splits)

lemma timeSub_bound: "0 \<le> m \<Longrightarrow> m < 2 ^ 63 - 1 \<Longrightarrow> timeSub t u \<le> m \<longleftrightarrow> t - u \<le> m"
  by (rule timeSub_le_iff) simp_all

text \<open>C30: a mark price is used only while it is usable: what \<open>FetchMarkPrice\<close> returns belongs to the symbol
  asked for in its normal form, is positive, is not from more than 30 seconds in the future, and is not
  older than the configured age at the second reading of the clock.\<close>

theorem mark_price_is_fresh:
  assumes "FetchMarkPrice s symbol w = (Ok mp, w')" and "0 \<le> xe_price_max_age s" and "xe_price_max_age s < 2 ^ 63 - 1"
  shows "mp_symbol mp = normalizeExposureSymbol symbol \<and> mp_symbol mp \<noteq> '''' \<and> 0 < mp_value mp \<and>
    (\<exists>v now v' now'. xe_now s v = (Ok now, v') \<and> xe_now s v' = (Ok now', w') \<and>
       mp_observed_at mp \<le> now + 30 * second \<and> now' - mp_observed_at mp \<le> xe_price_max_age s)"
proof -
  let ?sym = "normalizeExposureSymbol symbol"
  from assms(1) obtain client where client: "xe_client s = Some client"
    by (cases "xe_client s") (auto simp: FetchMarkPrice_def throw_def)
  from assms(1) have sym: "?sym \<noteq> ''''"
    by (auto simp: FetchMarkPrice_def client Let_def throw_def)
  from assms(1) obtain vals v price seen now v' where
      decode: "decodeMarkPriceValues (xe_decParse s) vals = Ok (price, seen)"
    and now: "xe_now s v = (Ok now, v')"
    and rest: "(if seen > now + 30 * second
           then throw (ErrMsg (''redis mark price for '' @ ?sym @ '' has a future timestamp: '' @
                  formatRFC3339Nano seen))
           else bnd (xe_now s) (\<lambda>now'.
             let age = timeSub now' seen
             in if age > xe_price_max_age s
                then throw (ErrMsg (''redis mark price for '' @ ?sym @ '' is stale: age='' @
                       durationText (roundSecond age) @ '' max_age='' @ durationText (xe_price_max_age s)))
                else ret \<lparr>mp_symbol = ?sym, mp_value = price, mp_observed_at = seen\<rparr>)) v' = (Ok mp, w')"
    by (auto simp: FetchMarkPrice_def client Let_def sym bnd_Ok_iff wrapIO_Ok_iff lift_apply)
  have early: "\<not> seen > now + 30 * second" using rest by (auto simp: throw_def)
  with rest obtain now' where "xe_now s v' = (Ok now', w')" "\<not> timeSub now' seen > xe_price_max_age s"
      "mp = \<lparr>mp_symbol = ?sym, mp_value = price, mp_observed_at = seen\<rparr>"
    by (auto simp: bnd_Ok_iff Let_def throw_def ret_def split: if_splits)
  then show ?thesis
    using now early sym decodeMarkPriceValues_ok [OF decode] timeSub_bound [OF assms(2,3)] by fastforce
qed


text \<open>A price five seconds old, under a symbol in another spelling.\<close>

definition exampleCache :: "unit RedisExposureStore" where
  "exampleCache = NewRedisExposureStore
     (Some \<lparr>rd_HMGet = (\<lambda>_ _. ret [Some '' 690 '', Some ''1788243790394'']), rd_HSet = (\<lambda>_ _. ret ()),
        rd_Expire = (\<lambda>_ _. ret ())\<rparr>)
     \<lparr>xo_market_price_key_prefix = '''', xo_exposure_key_prefix = '''', xo_price_max_age = 0,
      xo_exposure_ttl = 0\<rparr>
     (ret (fromUnixMilli 1788243795394)) (\<lambda>s. Ok (of_nat (readDigits s))) (\<lambda>d. showInt \<lfloor>d\<rfloor>)"

lemma exampleCache_fetch:
  "FetchMarkPrice exampleCache '' btcusdt '' () =
    (Ok \<lparr>mp_symbol = ''BTCUSDT'', mp_value = 690, mp_observed_at = fromUnixMilli 1788243790394\<rparr>, ())"
proof -
  have texts: "normalizeExposureSymbol '' btcusdt '' = ''BTCUSDT''" "TrimSpace '' 690 '' = ''690''"
    "TrimSpace ''1788243790394'' = ''1788243790394''" by code_simp+
  have numbers: "readDigits ''690'' = 690" "readDigits ''1788243790394'' = 1788243790394"
    by (simp_all add: readDigits_def)
  have stamp: "ParseInt64 ''1788243790394'' = Ok 1788243790394"
    by (simp add: ParseInt64_def numbers isDigit_def Let_def)
  have times: "fromUnixMilli 1788243790394 \<le> fromUnixMilli 1788243795394 + 30 * second"
    "timeSub (fromUnixMilli 1788243795394) (fromUnixMilli 1788243790394) = 5000000000"
    by (simp_all add: fromUnixMilli_def second_def timeSub_def)
  show ?thesis
    using times
    by (simp add: FetchMarkPrice_def exampleCache_def NewRedisExposureStore_def Let_def texts numbers stamp
        bnd_def ret_def wrapIO_def lift_def decodeMarkPriceValues_def second_def minute_def)
qed

theorem mark_price_is_fresh_witness:
  "\<exists>mp. FetchMarkPrice exampleCache '' btcusdt '' () = (Ok mp, ()) \<and> 0 < mp_value mp \<and>
     mp_symbol mp = normalizeExposureSymbol '' btcusdt ''"
  using mark_price_is_fresh [OF exampleCache_fetch] exampleCache_fetch
  by (simp add: exampleCache_def NewRedisExposureStore_def minute_def second_def)

end
