(* ===== verification/ExposureSync.thy ===== *)
theory ExposureSync
  imports ExposureCache Tasks Monitor "HOL-Library.AList" "HOL-Library.List_Lexorder" "HOL-Library.Char_ord"
begin

text \<open>
  The exposure synchronisation (\<open>internal/service/exposure_sync_service.go\<close>) and the keys of its reader
  (\<open>internal/db/clickhousehist/client.go\<close>): the configurations are grouped by agent, source and symbol, the
  net exposure of every group is cached, priced and stored, and a hedge run is enqueued for every
  configuration of the group that can execute. The keys are linearly ordered types, with the order the code
  sorts them by. A Go map is an association list; the order in which Go walks one is the field \<open>xv_visit\<close>.
  Cancelled contexts are left out.
\<close>

section \<open>Keys\<close>

datatype ExposureKey = ExposureKey (ek_agent_id: nat) (ek_symbol: string)

datatype exposureGroupKey =
  ExposureGroupKey (gk_agent_id: nat) (gk_source: string) (gk_symbol: string)

text \<open>The comparison handed to \<open>sort.Slice\<close>; it is the strict part of a linear order, so \<open>sort\<close> is the
  sort by it.\<close>

definition exposureGroupKeyLess :: "exposureGroupKey \<Rightarrow> exposureGroupKey \<Rightarrow> bool" where
  "exposureGroupKeyLess a b =
    (if gk_agent_id a \<noteq> gk_agent_id b then gk_agent_id a < gk_agent_id b
     else if gk_source a \<noteq> gk_source b then gk_source a < gk_source b
     else gk_symbol a < gk_symbol b)"

instantiation exposureGroupKey :: linorder
begin

definition less_exposureGroupKey :: "exposureGroupKey \<Rightarrow> exposureGroupKey \<Rightarrow> bool" where
  "less_exposureGroupKey a b = exposureGroupKeyLess a b"

definition less_eq_exposureGroupKey :: "exposureGroupKey \<Rightarrow> exposureGroupKey \<Rightarrow> bool" where
  "less_eq_exposureGroupKey a b = (a = b \<or> exposureGroupKeyLess a b)"

instance
  by standard
    (auto simp: less_eq_exposureGroupKey_def less_exposureGroupKey_def exposureGroupKeyLess_def
      exposureGroupKey.expand split: if_splits)

end

record NetExposure =
  ne_agent_id :: nat
  ne_symbol :: string
  ne_net_quantity :: decimal
  ne_position_rows :: int
  ne_source_event_time :: time

definition zeroNetExposure :: NetExposure where
  "zeroNetExposure = \<lparr>ne_agent_id = 0, ne_symbol = '''', ne_net_quantity = 0, ne_position_rows = 0,
     ne_source_event_time = 0\<rparr>"

section \<open>The service\<close>

record 'w ExposureCacheClient =
  ca_FetchMarkPrice :: "string \<Rightarrow> ('w, MarkPrice) io"
  ca_SaveNetExposure :: "NetExposureCache \<Rightarrow> ('w, unit) io"

record 'w ExposureSyncService =
  xv_repo :: "('w, HedgeMonitorConfig list) io option"
  xv_reader :: "(ExposureKey list \<Rightarrow> ('w, ExposureKey \<rightharpoonup> NetExposure) io) option"
  xv_cache :: "'w ExposureCacheClient option"
  xv_core :: "(UpsertExposureSnapshotParams \<Rightarrow> ('w, ExposureSnapshot) io) option"
  xv_queue :: "(RunInput \<Rightarrow> ('w, TaskInfo) io) option"
  xv_monitor :: "('w, HedgeMonitorRefreshResult) io option"
  xv_now :: "('w, time) io"
  xv_visit :: "ExposureKey list \<Rightarrow> ExposureKey list"

record ExposureSyncFailure =
  xf_agent_id :: nat
  xf_source :: string
  xf_symbol :: string
  xf_config_id :: nat
  xf_stage :: string
  xf_error :: string

record ExposureSyncBatchResult =
  xb_configs :: nat
  xb_exposure_groups :: nat
  xb_snapshots :: nat
  xb_enqueued :: nat
  xb_skipped :: nat
  xb_failures :: "ExposureSyncFailure list"
  xb_monitor :: HedgeMonitorRefreshResult

definition newExposureSyncFailure :: "exposureGroupKey \<Rightarrow> nat \<Rightarrow> string \<Rightarrow> err \<Rightarrow> ExposureSyncFailure" where
  "newExposureSyncFailure key configID stage e = \<lparr>xf_agent_id = gk_agent_id key, xf_source = gk_source key,
     xf_symbol = gk_symbol key, xf_config_id = configID, xf_stage = stage, xf_error = errText e\<rparr>"

text \<open>\<open>validate\<close>: the error of the first missing collaborator.\<close>

definition validateSync :: "'w ExposureSyncService \<Rightarrow> err option" where
  "validateSync s =
    (if xv_repo s = None then Some (ErrMsg ''exposure sync repository is not configured'')
     else if xv_reader s = None then Some (ErrMsg ''clickhouse exposure reader is not configured'')
     else if xv_cache s = None then Some (ErrMsg ''redis exposure cache is not configured'')
     else if xv_core s = None then Some (ErrMsg ''exposure snapshot store is not configured'')
     else if xv_queue s = None then Some (ErrMsg ''hedge queue is not configured'') else None)"

section \<open>Grouping\<close>

definition exposureKeyOf :: "HedgeMonitorConfig \<Rightarrow> exposureGroupKey" where
  "exposureKeyOf mc = ExposureGroupKey (cf_agent_id (mc_config mc))
     (normalizeExposureSource (cf_source (mc_config mc))) (normalizeExposureSymbol (cf_symbol (mc_config mc)))"

definition validExposureKey :: "exposureGroupKey \<Rightarrow> bool" where
  "validExposureKey key \<longleftrightarrow> \<not> (gk_agent_id key = 0 \<or> gk_agent_id key > maxInt64 \<or> gk_symbol key = '''')"

type_synonym exposureGroups = "(exposureGroupKey \<times> HedgeMonitorConfig list) list"

definition addToGroup :: "exposureGroups \<Rightarrow> HedgeMonitorConfig \<Rightarrow> exposureGroups" where
  "addToGroup groups mc =
    (let key = exposureKeyOf mc;
         old = (case map_of groups key of None \<Rightarrow> [] | Some mcs \<Rightarrow> mcs)
     in AList.update key (old @ [mc]) groups)"

text \<open>The groups, the distinct reader keys in order of their first appearance, and the failures.\<close>

definition groupExposureConfigs ::
    "HedgeMonitorConfig list \<Rightarrow> exposureGroups \<times> ExposureKey list \<times> ExposureSyncFailure list" where
  "groupExposureConfigs configs =
    (let good = filter (\<lambda>mc. validExposureKey (exposureKeyOf mc)) configs;
         bad = filter (\<lambda>mc. \<not> validExposureKey (exposureKeyOf mc)) configs
     in (foldl addToGroup [] good,
         rev (remdups (rev (map (\<lambda>mc. ExposureKey (gk_agent_id (exposureKeyOf mc)) (gk_symbol (exposureKeyOf mc))) good))),
         map (\<lambda>mc. newExposureSyncFailure (exposureKeyOf mc) (cf_id (mc_config mc)) ''validate_config''
                (ErrMsg ''valid agent_id and symbol are required'')) bad))"

section \<open>One group\<close>

fun enqueueGroup ::
    "(RunInput \<Rightarrow> ('w, TaskInfo) io) \<Rightarrow> exposureGroupKey \<Rightarrow> HedgeMonitorConfig list \<Rightarrow>
     ExposureSyncBatchResult \<Rightarrow> ('w, ExposureSyncBatchResult) io" where
  "enqueueGroup enqueue key [] result = ret result"
| "enqueueGroup enqueue key (mc # mcs) result =
    (if \<not> CanExecute mc then enqueueGroup enqueue key mcs (result\<lparr>xb_skipped := Suc (xb_skipped result)\<rparr>)
     else bnd (attempt (enqueue \<lparr>ri_config_id = cf_id (mc_config mc), ri_source = '''', ri_symbol = '''',
                          ri_reason = ''''\<rparr>)) (\<lambda>r.
          enqueueGroup enqueue key mcs (case r of
            Inl e \<Rightarrow> if errIs e ErrDuplicateTask then result\<lparr>xb_skipped := Suc (xb_skipped result)\<rparr>
                     else result\<lparr>xb_failures := xb_failures result @
                       [newExposureSyncFailure key (cf_id (mc_config mc)) ''enqueue_hedge'' e]\<rparr>
          | Inr _ \<Rightarrow> result\<lparr>xb_enqueued := Suc (xb_enqueued result)\<rparr>)))"

text \<open>A group is given up at the stage that fails; all its configurations are skipped.\<close>

definition groupFailed ::
    "exposureGroupKey \<Rightarrow> HedgeMonitorConfig list \<Rightarrow> string \<Rightarrow> err \<Rightarrow> ExposureSyncBatchResult \<Rightarrow> ExposureSyncBatchResult" where
  "groupFailed key mcs stage e result = result\<lparr>xb_failures := xb_failures result @
     [newExposureSyncFailure key 0 stage e], xb_skipped := xb_skipped result + length mcs\<rparr>"

definition exposureParams :: "exposureGroupKey \<Rightarrow> NetExposure \<Rightarrow> decimal \<Rightarrow> time \<Rightarrow> UpsertExposureSnapshotParams" where
  "exposureParams key net markPrice syncedAt = \<lparr>ue_agent_id = int64 (gk_agent_id key),
     ue_source = gk_source key, ue_symbol = gk_symbol key, ue_net_quantity = ne_net_quantity net,
     ue_net_notional = ne_net_quantity net * markPrice, ue_mark_price = markPrice, ue_observed_at = syncedAt\<rparr>"

text \<open>The body of the loop over the groups; the collaborators are those of a validated service.\<close>

definition syncExposureGroup ::
    "'w ExposureSyncService \<Rightarrow> 'w ExposureCacheClient \<Rightarrow>
     (UpsertExposureSnapshotParams \<Rightarrow> ('w, ExposureSnapshot) io) \<Rightarrow> (RunInput \<Rightarrow> ('w, TaskInfo) io) \<Rightarrow>
     (ExposureKey \<rightharpoonup> NetExposure) \<Rightarrow> exposureGroupKey \<Rightarrow> HedgeMonitorConfig list \<Rightarrow>
     ExposureSyncBatchResult \<Rightarrow> ('w, ExposureSyncBatchResult) io" where
  "syncExposureGroup s cache upsert enqueue netExposures key mcs result =
    (let net = (case netExposures (ExposureKey (gk_agent_id key) (gk_symbol key)) of
                  None \<Rightarrow> zeroNetExposure | Some n \<Rightarrow> n)
     in bnd (xv_now s) (\<lambda>syncedAt.
        bnd (attempt (ca_SaveNetExposure cache \<lparr>nc_agent_id = gk_agent_id key, nc_source = gk_source key,
               nc_symbol = gk_symbol key, nc_net_quantity = ne_net_quantity net,
               nc_position_rows = ne_position_rows net, nc_source_event_time = ne_source_event_time net,
               nc_synced_at = syncedAt\<rparr>)) (\<lambda>saved. case saved of
          Inl e \<Rightarrow> ret (groupFailed key mcs ''cache_net_quantity'' e result)
        | Inr _ \<Rightarrow> bnd (attempt (ca_FetchMarkPrice cache (gk_symbol key))) (\<lambda>priced. case priced of
          Inl e \<Rightarrow> ret (groupFailed key mcs ''read_mark_price'' e result)
        | Inr mark \<Rightarrow> bnd (attempt (upsert (exposureParams key net (mp_value mark) syncedAt))) (\<lambda>stored. case stored of
          Inl e \<Rightarrow> ret (groupFailed key mcs ''upsert_snapshot'' e result)
        | Inr _ \<Rightarrow> enqueueGroup enqueue key mcs (result\<lparr>xb_snapshots := Suc (xb_snapshots result)\<rparr>))))))"

fun syncExposureGroups ::
    "(exposureGroupKey \<Rightarrow> ExposureSyncBatchResult \<Rightarrow> ('w, ExposureSyncBatchResult) io) \<Rightarrow>
     exposureGroupKey list \<Rightarrow> ExposureSyncBatchResult \<Rightarrow> ('w, ExposureSyncBatchResult) io" where
  "syncExposureGroups one [] result = ret result"
| "syncExposureGroups one (key # keys) result = bnd (one key result) (syncExposureGroups one keys)"

definition refreshMonitor ::
    "string \<Rightarrow> ('w, HedgeMonitorRefreshResult) io option \<Rightarrow> ExposureSyncBatchResult \<Rightarrow>
     ('w, ExposureSyncBatchResult) io" where
  "refreshMonitor context monitor result = (case monitor of
     None \<Rightarrow> ret result
   | Some refresh \<Rightarrow> bnd (wrapIO context refresh) (\<lambda>m. ret (result\<lparr>xb_monitor := m\<rparr>)))"

definition emptySyncResult :: ExposureSyncBatchResult where
  "emptySyncResult = \<lparr>xb_configs = 0, xb_exposure_groups = 0, xb_snapshots = 0, xb_enqueued = 0, xb_skipped = 0,
     xb_failures = [], xb_monitor = \<lparr>rf_configs = 0, rf_updated = 0, rf_pruned = 0, rf_failures = []\<rparr>\<rparr>"

text \<open>What follows the list of the configurations.\<close>

definition syncConfigs :: "'w ExposureSyncService \<Rightarrow> HedgeMonitorConfig list \<Rightarrow> ('w, ExposureSyncBatchResult) io" where
  "syncConfigs s configs =
    (let result = emptySyncResult\<lparr>xb_configs := length configs\<rparr>
     in if configs = [] then refreshMonitor ''refresh hedge monitor without configs'' (xv_monitor s) result
        else
          let (groups, keys, invalid) = groupExposureConfigs configs;
              result = result\<lparr>xb_failures := invalid, xb_skipped := length invalid,
                         xb_exposure_groups := length groups\<rparr>
          in bnd (wrapIO ''aggregate clickhouse net exposures'' (the (xv_reader s) (xv_visit s keys))) (\<lambda>netExposures.
             bnd (syncExposureGroups (\<lambda>key. syncExposureGroup s (the (xv_cache s)) (the (xv_core s))
                    (the (xv_queue s)) netExposures key (the (map_of groups key)))
                    (sort (map fst groups)) result) (\<lambda>result.
             refreshMonitor ''refresh hedge monitor after exposure sync'' (xv_monitor s) result)))"

definition SyncEnabledConfigs :: "'w ExposureSyncService \<Rightarrow> ('w, ExposureSyncBatchResult) io" where
  "SyncEnabledConfigs s = (case validateSync s of
     Some e \<Rightarrow> throw e
   | None \<Rightarrow>
      bnd (wrapIO ''list hedge configs for exposure sync'' (the (xv_repo s))) (syncConfigs s))"

end
