(* ===== verification/ExposureRuns.thy ===== *)
theory ExposureRuns
  imports ExposureSync MonitorRuns HedgeRuns
begin

text \<open>
  Properties of the exposure synchronisation. Every configuration is accounted for exactly once, whatever
  fails; and on the live stores a hedge run is put into the queue only for a configuration that can execute
  and whose exposure has been priced: the stored snapshot has a positive mark price and a notional that is
  quantity times price.
\<close>

section \<open>Accounting\<close>

definition failedEnqueues :: "ExposureSyncFailure list \<Rightarrow> nat" where
  "failedEnqueues fs = length (filter (\<lambda>f. xf_stage f = ''enqueue_hedge'') fs)"

definition accounted :: "ExposureSyncBatchResult \<Rightarrow> nat" where
  "accounted r = xb_enqueued r + xb_skipped r + failedEnqueues (xb_failures r)"

lemma failedEnqueues_append [simp]:
  "failedEnqueues (fs @ gs) = failedEnqueues fs + failedEnqueues gs"
  by (simp add: failedEnqueues_def)

lemma stage_new [simp]: "xf_stage (newExposureSyncFailure key i stage e) = stage"
  by (simp add: newExposureSyncFailure_def)

lemma failedEnqueues_one [simp]:
  "failedEnqueues [newExposureSyncFailure key i stage e] = (if stage = ''enqueue_hedge'' then 1 else 0)"
  by (simp add: failedEnqueues_def)

lemma accounted_groupFailed:
  "stage \<noteq> ''enqueue_hedge'' \<Longrightarrow> accounted (groupFailed key mcs stage e r) = accounted r + length mcs"
  "xb_configs (groupFailed key mcs stage e r) = xb_configs r"
  by (simp_all add: groupFailed_def accounted_def)

lemma enqueueGroup_accounts:
  "enqueueGroup enqueue key mcs r w = (Ok r', w') \<Longrightarrow>
   accounted r' = accounted r + length mcs \<and> xb_configs r' = xb_configs r"
proof (induction mcs arbitrary: r w)
  case (Cons mc mcs)
  show ?case
  proof (cases "CanExecute mc")
    case True
    with Cons.prems obtain x :: "err + TaskInfo" and v where "enqueueGroup enqueue key mcs (case x of
            Inl e \<Rightarrow> if errIs e ErrDuplicateTask then r\<lparr>xb_skipped := Suc (xb_skipped r)\<rparr>
                     else r\<lparr>xb_failures := xb_failures r @
                       [newExposureSyncFailure key (cf_id (mc_config mc)) ''enqueue_hedge'' e]\<rparr>
          | Inr _ \<Rightarrow> r\<lparr>xb_enqueued := Suc (xb_enqueued r)\<rparr>) v = (Ok r', w')"
      by (auto simp: bnd_Ok_iff)
    from Cons.IH [OF this] show ?thesis
      by (cases x) (auto simp: accounted_def)
  next
    case False
    with Cons.prems have "enqueueGroup enqueue key mcs (r\<lparr>xb_skipped := Suc (xb_skipped r)\<rparr>) w = (Ok r', w')"
      by simp
    from Cons.IH [OF this] show ?thesis by (simp add: accounted_def)
  qed
qed (simp add: ret_def)

lemma syncExposureGroup_accounts:
  assumes "syncExposureGroup s cache upsert enqueue nets key mcs r w = (Ok r', w')"
  shows "accounted r' = accounted r + length mcs \<and> xb_configs r' = xb_configs r"
proof -
  let ?net = "case nets (ExposureKey (gk_agent_id key) (gk_symbol key)) of None \<Rightarrow> zeroNetExposure | Some n \<Rightarrow> n"
  from assms obtain t v x w1 where body: "(case x :: err + unit of
          Inl e \<Rightarrow> ret (groupFailed key mcs ''cache_net_quantity'' e r)
        | Inr _ \<Rightarrow> bnd (attempt (ca_FetchMarkPrice cache (gk_symbol key))) (\<lambda>priced. case priced of
          Inl e \<Rightarrow> ret (groupFailed key mcs ''read_mark_price'' e r)
        | Inr mark \<Rightarrow> bnd (attempt (upsert (exposureParams key ?net (mp_value mark) t))) (\<lambda>stored. case stored of
          Inl e \<Rightarrow> ret (groupFailed key mcs ''upsert_snapshot'' e r)
        | Inr _ \<Rightarrow> enqueueGroup enqueue key mcs (r\<lparr>xb_snapshots := Suc (xb_snapshots r)\<rparr>)))) w1 = (Ok r', w')"
    unfolding syncExposureGroup_def Let_def bnd_Ok_iff by blast
  then consider (failed) e stage where "r' = groupFailed key mcs stage e r" "stage \<noteq> ''enqueue_hedge''"
    | (stored) w2 where "enqueueGroup enqueue key mcs (r\<lparr>xb_snapshots := Suc (xb_snapshots r)\<rparr>) w2 = (Ok r', w')"
    by (cases x) (force simp: ret_def dest!: bnd_attempt_Ok)+
  then show ?thesis
  proof cases
    case failed
    then show ?thesis by (simp add: accounted_groupFailed)
  next
    case stored
    from enqueueGroup_accounts [OF this] show ?thesis by (simp add: accounted_def)
  qed
qed

lemma syncExposureGroups_accounts:
  assumes "\<And>key r w r' w'. one key r w = (Ok r', w') \<Longrightarrow>
      accounted r' = accounted r + size_of key \<and> xb_configs r' = xb_configs r"
  shows "syncExposureGroups one keys r w = (Ok r', w') \<Longrightarrow>
     accounted r' = accounted r + sum_list (map size_of keys) \<and> xb_configs r' = xb_configs r"
proof (induction keys arbitrary: r w)
  case (Cons key keys)
  then obtain r1 v where "one key r w = (Ok r1, v)" "syncExposureGroups one keys r1 v = (Ok r', w')"
    by (auto simp: bnd_Ok_iff)
  with assms [of key r w r1 v] Cons.IH [of r1 v] show ?case by simp
qed (simp add: ret_def)

text \<open>The groups hold every configuration with a valid key once.\<close>

definition groupTotal :: "exposureGroups \<Rightarrow> nat" where
  "groupTotal gs = sum_list (map (length \<circ> snd) gs)"

lemma groupTotal_Nil: "groupTotal [] = 0"
  by (simp add: groupTotal_def)

lemma groupTotal_update:
  "groupTotal (AList.update k v gs) + (case map_of gs k of None \<Rightarrow> 0 | Some old \<Rightarrow> length old) =
   groupTotal gs + length v"
  by (induction gs) (auto simp: groupTotal_def)

lemma groupTotal_add: "groupTotal (addToGroup gs mc) = Suc (groupTotal gs)"
proof -
  let ?old = "case map_of gs (exposureKeyOf mc) of None \<Rightarrow> [] | Some mcs \<Rightarrow> mcs"
  have "(case map_of gs (exposureKeyOf mc) of None \<Rightarrow> 0 | Some old \<Rightarrow> length old) = length ?old"
    by (simp split: option.split)
  with groupTotal_update [of "exposureKeyOf mc" "?old @ [mc]" gs] show ?thesis
    by (simp add: addToGroup_def Let_def)
qed

lemma groupTotal_foldl: "groupTotal (foldl addToGroup gs mcs) = groupTotal gs + length mcs"
  by (induction mcs arbitrary: gs) (simp_all add: groupTotal_add)

lemma distinct_groups: "distinct (map fst gs) \<Longrightarrow> distinct (map fst (foldl addToGroup gs mcs))"
  by (induction mcs arbitrary: gs) (simp_all add: addToGroup_def Let_def distinct_update)

lemma sum_list_insort: "sum_list (map f (insort k ks)) = f k + sum_list (map (f :: 'k :: linorder \<Rightarrow> nat) ks)"
  by (induction ks) simp_all

lemma sum_list_sort: "sum_list (map f (sort ks)) = sum_list (map (f :: 'k :: linorder \<Rightarrow> nat) ks)"
  by (induction ks) (simp_all add: sum_list_insort)

lemma groupTotal_keys:
  assumes "distinct (map fst gs)"
  shows "sum_list (map (\<lambda>k. length (the (map_of gs k))) (sort (map fst gs))) = groupTotal gs"
proof -
  have "map (\<lambda>k. length (the (map_of gs k))) (map fst gs) = map (length \<circ> snd) gs"
    using assms unfolding map_map by (intro map_cong) (auto simp: map_of_is_SomeI)
  then show ?thesis unfolding groupTotal_def sum_list_sort by (rule arg_cong)
qed

lemma group_members:
  assumes "map_of (foldl addToGroup gs mcs) key = Some ms" and "mc \<in> set ms"
    and "\<And>k ms mc. map_of gs k = Some ms \<Longrightarrow> mc \<in> set ms \<Longrightarrow> exposureKeyOf mc = k \<and> mc \<in> C"
    and "set mcs \<subseteq> C"
  shows "exposureKeyOf mc = key \<and> mc \<in> C"
  using assms
proof (induction mcs arbitrary: gs)
  case (Cons m mcs)
  show ?case
  proof (rule Cons.IH [of "addToGroup gs m"])
    fix k ms mc assume "map_of (addToGroup gs m) k = Some ms" "mc \<in> set ms"
    with Cons.prems(3) [of k] Cons.prems(3) [of "exposureKeyOf m"] Cons.prems(4)
    show "exposureKeyOf mc = k \<and> mc \<in> C"
      by (auto simp: addToGroup_def Let_def update_conv' split: if_splits option.splits)
  qed (use Cons.prems in simp_all)
qed simp


lemma refreshMonitor_accounts:
  "refreshMonitor c m r0 v = (Ok r, w') \<Longrightarrow> accounted r = accounted r0 \<and> xb_configs r = xb_configs r0"
  by (auto simp: refreshMonitor_def bnd_Ok_iff ret_def accounted_def split: option.splits)

lemma syncConfigs_accounts:
  assumes "syncConfigs s configs v = (Ok r, w')"
  shows "accounted r = length configs \<and> xb_configs r = length configs"
proof -
  show ?thesis
  proof (cases "configs = []")
    case True
    with assms show ?thesis
      by (auto simp: syncConfigs_def Let_def emptySyncResult_def accounted_def failedEnqueues_def dest!: refreshMonitor_accounts)
  next
    case False
    obtain groups keys invalid where g: "groupExposureConfigs configs = (groups, keys, invalid)"
      by (cases "groupExposureConfigs configs")
    let ?start = "emptySyncResult\<lparr>xb_configs := length configs, xb_failures := invalid,
        xb_skipped := length invalid, xb_exposure_groups := length groups\<rparr>"
    from assms False obtain nets v1 r1 v2 where
        loop: "syncExposureGroups (\<lambda>key. syncExposureGroup s (the (xv_cache s)) (the (xv_core s))
                     (the (xv_queue s)) nets key (the (map_of groups key)))
                     (sort (map fst groups)) ?start v1 = (Ok r1, v2)"
      and last: "refreshMonitor ''refresh hedge monitor after exposure sync'' (xv_monitor s) r1 v2 = (Ok r, w')"
      by (auto simp: syncConfigs_def Let_def g bnd_Ok_iff)
    have "accounted r1 = accounted ?start +
        sum_list (map (\<lambda>k. length (the (map_of groups k))) (sort (map fst groups))) \<and>
        xb_configs r1 = xb_configs ?start"
      by (rule syncExposureGroups_accounts [OF _ loop]) (rule syncExposureGroup_accounts)
    moreover have "distinct (map fst groups)"
      "groupTotal groups = length (filter (\<lambda>mc. validExposureKey (exposureKeyOf mc)) configs)"
      using g by (auto simp: groupExposureConfigs_def Let_def groupTotal_foldl distinct_groups groupTotal_Nil)
    moreover have "accounted ?start = length (filter (\<lambda>mc. \<not> validExposureKey (exposureKeyOf mc)) configs)"
      using g by (auto simp: groupExposureConfigs_def Let_def accounted_def emptySyncResult_def
          failedEnqueues_def filter_map comp_def)
    moreover have "accounted r = accounted r1 \<and> xb_configs r = xb_configs r1"
      by (rule refreshMonitor_accounts [OF last])
    ultimately show ?thesis
      using sum_length_filter_compl [of "\<lambda>mc. validExposureKey (exposureKeyOf mc)" configs]
      by (simp add: groupTotal_keys emptySyncResult_def)
  qed
qed


section \<open>The live service\<close>

text \<open>The cache's Redis server and the ClickHouse reader belong to the external state of the world.\<close>

definition liveHashClient :: "'x RedisHashClient \<Rightarrow> 'x World RedisHashClient" where
  "liveHashClient c = \<lparr>rd_HMGet = (\<lambda>k fs. onExt (rd_HMGet c k fs)), rd_HSet = (\<lambda>k vs. onExt (rd_HSet c k vs)),
     rd_Expire = (\<lambda>k ttl. onExt (rd_Expire c k ttl))\<rparr>"

definition liveExposureSync ::
    "(ExposureKey list \<Rightarrow> ('x, ExposureKey \<rightharpoonup> NetExposure) io) \<Rightarrow> 'x RedisHashClient \<Rightarrow> RedisExposureStoreOptions \<Rightarrow>
     (string \<Rightarrow> decimal result) \<Rightarrow> options \<Rightarrow> (duration \<times> duration) option \<Rightarrow> (ExposureKey list \<Rightarrow> ExposureKey list) \<Rightarrow>
     'x World ExposureSyncService" where
  "liveExposureSync reader client copt parse opt monitor visit =
     (let store = NewRedisExposureStore (Some (liveHashClient client)) copt readClock parse (lo_decString opt)
      in \<lparr>xv_repo = Some (onMgmt (\<lambda>_. ListHedgeMonitorConfigs)),
          xv_reader = Some (\<lambda>ks. onExt (reader ks)),
          xv_cache = Some \<lparr>ca_FetchMarkPrice = FetchMarkPrice store, ca_SaveNetExposure = SaveNetExposure store\<rparr>,
          xv_core = Some (\<lambda>a. onCore (\<lambda>_. UpsertExposureSnapshot a)),
          xv_queue = Some (EnqueueRunHedge (liveEnqueuer opt)),
          xv_monitor = map_option (\<lambda>(es, ps). Refresh (liveMonitor es ps)) monitor,
          xv_now = readClock, xv_visit = visit\<rparr>)"

definition runTaskFor :: "HedgeMonitorConfig \<Rightarrow> AsyncTask" where
  "runTaskFor mc = \<lparr>at_type = TypeRunHedge,
     at_payload = HedgePayload \<lparr>rh_config_id = cf_id (mc_config mc), rh_source = '''', rh_symbol = '''', rh_reason = ''''\<rparr>,
     at_queue = QueueHedge, at_delay = 0, at_max_retry = 3, at_timeout = 2 * minute, at_unique = 30 * second\<rparr>"

text \<open>The snapshot of a key is there, with a usable price and a consistent notional.\<close>

definition pricedSnapshot :: "CoreDB \<Rightarrow> exposureGroupKey \<Rightarrow> bool" where
  "pricedSnapshot db key \<longleftrightarrow> (\<exists>row. getExposure db (int64 (gk_agent_id key), gk_source key, gk_symbol key) = Some row \<and>
     es_mark_price row > 0 \<and> es_net_notional row = es_net_quantity row * es_mark_price row)"

text \<open>The tasks that are added are runs of configurations of \<open>C\<close> that can execute and are priced.\<close>

definition pricedRuns :: "HedgeMonitorConfig set \<Rightarrow> 'x World \<Rightarrow> 'x World \<Rightarrow> bool" where
  "pricedRuns C w w' \<longleftrightarrow> (\<forall>k. pricedSnapshot (w_core w) k \<longrightarrow> pricedSnapshot (w_core w') k) \<and>
     (\<exists>ts. w_queue w' = w_queue w @ ts \<and> (\<forall>t \<in> set ts. \<exists>mc \<in> C. CanExecute mc \<and> t = runTaskFor mc \<and>
        pricedSnapshot (w_core w') (exposureKeyOf mc)))"

lemma pricedRuns_trans: "pricedRuns C u v \<Longrightarrow> pricedRuns C v w \<Longrightarrow> pricedRuns C u w"
  unfolding pricedRuns_def by (elim conjE exE) (auto, metis)

interpretation priced: world_preorder "pricedRuns C" for C
  by unfold_locales (simp add: pricedRuns_def, rule pricedRuns_trans)

lemma pricedRuns_still:
  "w_queue w' = w_queue w \<Longrightarrow> db_exposures (w_core w') = db_exposures (w_core w) \<Longrightarrow> pricedRuns C w w'"
  by (simp add: pricedRuns_def pricedSnapshot_def getExposure_def)

lemma relates_priced_faulty:
  "(\<And>w. pricedRuns C w (snd (m w))) \<Longrightarrow> relates (pricedRuns C) (faulty m)"
  by (rule relates_faulty [OF priced.R_refl priced.R_trans]) (simp_all add: pricedRuns_still)

lemma relates_priced_ext: "relates (pricedRuns C) (onExt m)"
  unfolding onExt_def by (rule relates_priced_faulty) (simp add: case_prod_unfold pricedRuns_still)

lemma relates_priced_mgmt: "relates (pricedRuns C) (onMgmt m)"
  unfolding onMgmt_def by (rule relates_priced_faulty) (simp add: case_prod_unfold pricedRuns_still)

lemma relates_priced_clock: "relates (pricedRuns C) readClock"
  by (simp add: relates_def readClock_def pricedRuns_still)

lemma relates_priced_core:
  "(\<And>now db. db_exposures (snd (m now db)) = db_exposures db) \<Longrightarrow> relates (pricedRuns C) (onCore m)"
  unfolding onCore_def by (rule relates_priced_faulty) (simp add: case_prod_unfold pricedRuns_still)

lemmas relates_priced = relates_priced_ext relates_priced_mgmt relates_priced_clock

lemma monitor_queries_keep:
  "db_exposures (snd (ListAllExposureSnapshots db)) = db_exposures db"
  "db_exposures (snd (ListAllHedgePositionSnapshots db)) = db_exposures db"
  "db_exposures (snd (ListLatestOrderExecutionStates db)) = db_exposures db"
  "db_exposures (snd (UpsertHedgeMonitorSnapshot now a db)) = db_exposures db"
  "db_exposures (snd (PruneHedgeMonitorSnapshots f db)) = db_exposures db"
  by (simp_all add: ListAllExposureSnapshots_def ListAllHedgePositionSnapshots_def Let_def
      ListLatestOrderExecutionStates_def UpsertHedgeMonitorSnapshot_def PruneHedgeMonitorSnapshots_def
      putMonitor_def split: option.split)

lemma relates_priced_refreshConfigs:
  "mv_store s = liveMonitorStore \<Longrightarrow> relates (pricedRuns C) (refreshConfigs s params mcs r)"
proof (induction mcs arbitrary: r)
  case (Cons mc mcs)
  have "relates (pricedRuns C) (mo_UpsertHedgeMonitorSnapshot (mv_store s) (params mc))"
    by (simp add: Cons.prems liveMonitorStore_def relates_priced_core monitor_queries_keep)
  with Cons show ?case by (auto intro!: priced.io_rules relates_rules)
qed (simp add: priced.relates_ret)

lemma relates_priced_Refresh: "relates (pricedRuns C) (Refresh (liveMonitor es ps))"
proof -
  have prune: "relates (pricedRuns C) (mo_PruneHedgeMonitorSnapshots liveMonitorStore)"
    by (simp add: liveMonitorStore_def, rule relates_priced_faulty)
      (simp add: case_prod_unfold pricedRuns_still monitor_queries_keep)
  have store: "mv_store (liveMonitor es ps) = liveMonitorStore"
    by (simp add: liveMonitor_def NewHedgeMonitorService_def)
  show ?thesis
    unfolding Refresh_def store
    by (intro priced.io_rules relates_rules prune relates_priced_refreshConfigs store)
      (simp_all add: liveMonitor_def NewHedgeMonitorService_def liveMonitorStore_def relates_priced
        relates_priced_core monitor_queries_keep)
qed


lemma exposure_key_of_params:
  "exposureParamKey (exposureParams key n p t) = (int64 (gk_agent_id key), gk_source key, gk_symbol key)"
  by (simp add: exposureParamKey_def exposureParams_def)

lemma pricedSnapshot_put_same:
  assumes "p > 0"
  shows "pricedSnapshot (putExposure (exposureParams key n p t) db) key"
proof -
  from getExposure_put_same [of "exposureParams key n p t" db] obtain i where
    "getExposure (putExposure (exposureParams key n p t) db) (exposureParamKey (exposureParams key n p t)) =
       Some (exposureRow i (exposureParams key n p t))" by metis
  then show ?thesis
    using assms by (simp add: pricedSnapshot_def exposure_key_of_params exposureRow_def) (simp add: exposureParams_def)
qed

lemma pricedSnapshot_put:
  assumes "p > 0" and "pricedSnapshot db k"
  shows "pricedSnapshot (putExposure (exposureParams key n p t) db) k"
proof (cases "(int64 (gk_agent_id k), gk_source k, gk_symbol k) = exposureParamKey (exposureParams key n p t)")
  case True
  with pricedSnapshot_put_same [OF assms(1), of key n t db] show ?thesis
    by (simp add: pricedSnapshot_def exposure_key_of_params)
next
  case False
  with assms(2) show ?thesis by (simp add: pricedSnapshot_def getExposure_put_other)
qed

lemma relates_priced_upsert:
  "relates (pricedRuns C) (onCore (\<lambda>_. UpsertExposureSnapshot (exposureParams key n p t)))"
proof -
  have "pricedRuns C w (snd (case UpsertExposureSnapshot (exposureParams key n p t) (w_core w) of
      (r, db) \<Rightarrow> (r, w\<lparr>w_core := db\<rparr>)))" for w :: "'x World"
  proof (cases "p > 0")
    case True
    then have "snd (UpsertExposureSnapshot (exposureParams key n p t) db) = putExposure (exposureParams key n p t) db" for db
      by (simp add: UpsertExposureSnapshot_def Let_def exposureParams_def split: option.split)
    then show ?thesis
      using pricedSnapshot_put [OF True] by (simp add: case_prod_unfold pricedRuns_def)
  next
    case False
    then show ?thesis
      by (simp add: UpsertExposureSnapshot_def exposureParams_def pricedRuns_still)
  qed
  then show ?thesis unfolding onCore_def by (rule relates_priced_faulty)
qed

lemma upsert_priced:
  assumes "onCore (\<lambda>_. UpsertExposureSnapshot (exposureParams key n p t)) w = (Ok r, w')"
  shows "pricedSnapshot (w_core w') key"
  using assms
proof (rule onCore_OkE)
  assume "UpsertExposureSnapshot (exposureParams key n p t) (w_core w) = (Ok r, w_core w')"
  then have "p > 0" "w_core w' = putExposure (exposureParams key n p t) (w_core w)"
    by (auto simp: UpsertExposureSnapshot_def Let_def exposureParams_def split: if_splits option.splits)
  then show ?thesis by (simp add: pricedSnapshot_put_same)
qed

lemma pricedSnapshot_after: "pricedRuns C w w' \<Longrightarrow> pricedSnapshot (w_core w) k \<Longrightarrow> pricedSnapshot (w_core w') k"
  by (simp add: pricedRuns_def)

lemma enqueue_priced:
  assumes "mc \<in> C" "CanExecute mc" "pricedSnapshot (w_core w) (exposureKeyOf mc)"
  shows "pricedRuns C w (snd (EnqueueRunHedge (liveEnqueuer opt)
     \<lparr>ri_config_id = cf_id (mc_config mc), ri_source = '''', ri_symbol = '''', ri_reason = ''''\<rparr> w))"
proof -
  let ?q = "\<lambda>w. if lo_held opt (w_queue w) (runTaskFor mc) then (Err ErrDuplicateTask, w)
     else (Ok (lo_taskInfo opt (runTaskFor mc)), w\<lparr>w_queue := w_queue w @ [runTaskFor mc]\<rparr>)"
  have one: "pricedRuns C w (snd (?q w))" if "pricedSnapshot (w_core w) (exposureKeyOf mc)" for w :: "'a World"
    using assms(1,2) that by (auto simp: pricedRuns_def)
  have "pricedRuns C w (snd (faulty ?q w))"
  proof (cases "w_faults w")
    case Nil
    with one [OF assms(3)] show ?thesis by (simp add: faulty_def)
  next
    case (Cons f fs)
    have pop: "pricedRuns C w (w\<lparr>w_faults := fs\<rparr>)" by (simp add: pricedRuns_still)
    moreover have "pricedRuns C w (snd (?q (w\<lparr>w_faults := fs\<rparr>)))"
      by (rule pricedRuns_trans [OF pop one]) (simp add: assms(3))
    ultimately show ?thesis by (cases f) (simp_all add: faulty_def Cons Let_def)
  qed
  then have "pricedRuns C w (snd (queueClient (lo_held opt) (lo_taskInfo opt) (runTaskFor mc) w))"
    by (simp only: queueClient_def)
  then show ?thesis
    by (simp add: EnqueueRunHedge_def liveEnqueuer_def runTaskFor_def [symmetric] priced.R_refl)
qed

lemma enqueueGroup_priced:
  assumes "\<And>mc. mc \<in> set mcs \<Longrightarrow> mc \<in> C \<and> exposureKeyOf mc = key"
  shows "pricedSnapshot (w_core w) key \<Longrightarrow>
    pricedRuns C w (snd (enqueueGroup (EnqueueRunHedge (liveEnqueuer opt)) key mcs r w))"
  using assms
proof (induction mcs arbitrary: r w)
  case (Cons mc mcs)
  show ?case
  proof (cases "CanExecute mc")
    case False
    with Cons show ?thesis by simp
  next
    case True
    let ?m = "attempt (EnqueueRunHedge (liveEnqueuer opt)
       \<lparr>ri_config_id = cf_id (mc_config mc), ri_source = '''', ri_symbol = '''', ri_reason = ''''\<rparr>)"
    have step: "pricedRuns C w (snd (?m w))"
      using enqueue_priced [of mc C w opt] True Cons.prems by simp
    have rest: "pricedRuns C (snd (?m w)) (snd (enqueueGroup (EnqueueRunHedge (liveEnqueuer opt)) key mcs r' (snd (?m w))))" for r'
      by (rule Cons.IH [OF pricedSnapshot_after [OF step Cons.prems(1)]]) (simp add: Cons.prems(2))
    have "enqueueGroup (EnqueueRunHedge (liveEnqueuer opt)) key (mc # mcs) r w = bnd ?m (\<lambda>x.
        enqueueGroup (EnqueueRunHedge (liveEnqueuer opt)) key mcs (case x of
            Inl e \<Rightarrow> if errIs e ErrDuplicateTask then r\<lparr>xb_skipped := Suc (xb_skipped r)\<rparr>
                     else r\<lparr>xb_failures := xb_failures r @
                       [newExposureSyncFailure key (cf_id (mc_config mc)) ''enqueue_hedge'' e]\<rparr>
          | Inr _ \<Rightarrow> r\<lparr>xb_enqueued := Suc (xb_enqueued r)\<rparr>)) w"
      using True by simp
    then show ?thesis by (simp only:) (rule priced.step_bnd, rule step, rule rest)
  qed
qed (simp add: priced.R_refl)


lemma relates_priced_cache:
  "relates (pricedRuns C) (FetchMarkPrice (NewRedisExposureStore (Some (liveHashClient client)) copt readClock parse ds) smb)"
  "relates (pricedRuns C) (SaveNetExposure (NewRedisExposureStore (Some (liveHashClient client)) copt readClock parse ds) e)"
  unfolding FetchMarkPrice_def SaveNetExposure_def NewRedisExposureStore_def liveHashClient_def
  by (auto simp: Let_def intro!: priced.io_rules relates_rules relates_priced split: prod.split)

lemma syncExposureGroup_priced:
  fixes s :: "'x World ExposureSyncService"
  assumes "s = liveExposureSync reader client copt parse opt monitor visit"
    and "\<And>mc. mc \<in> set mcs \<Longrightarrow> mc \<in> C \<and> exposureKeyOf mc = key"
  shows "relates (pricedRuns C) (syncExposureGroup s (the (xv_cache s)) (the (xv_core s)) (the (xv_queue s)) nets key mcs r)"
proof -
  have upsert: "relates (pricedRuns C :: 'x World \<Rightarrow> _) (bnd (attempt (onCore (\<lambda>_. UpsertExposureSnapshot (exposureParams key n p t)))) (\<lambda>stored.
      case stored of Inl e \<Rightarrow> ret (groupFailed key mcs ''upsert_snapshot'' e r)
      | Inr _ \<Rightarrow> enqueueGroup (EnqueueRunHedge (liveEnqueuer opt)) key mcs r'))" for n p t r'
    unfolding relates_def
  proof
    fix w :: "'x World"
    let ?m = "onCore (\<lambda>_. UpsertExposureSnapshot (exposureParams key n p t))"
    show "pricedRuns C w (snd (bnd (attempt ?m) (\<lambda>stored.
      case stored of Inl e \<Rightarrow> ret (groupFailed key mcs ''upsert_snapshot'' e r)
      | Inr _ \<Rightarrow> enqueueGroup (EnqueueRunHedge (liveEnqueuer opt)) key mcs r') w))"
    proof (rule priced.step_bnd, goal_cases)
      case 1
      show ?case by (simp add: relatesD [OF relates_priced_upsert])
    next
      case (2 x)
      show ?case
      proof (cases x)
        case (Inl e)
        then show ?thesis by (simp add: priced.R_refl)
      next
        case (Inr y)
        with 2 have "?m w = (Ok y, snd (?m w))" by (simp add: attempt_Inr prod_eq_iff)
        from upsert_priced [OF this] enqueueGroup_priced [OF assms(2)] Inr show ?thesis by simp
      qed
    qed
  qed
  show ?thesis
    unfolding syncExposureGroup_def Let_def assms(1) liveExposureSync_def ExposureSyncService.simps option.sel
      ExposureCacheClient.simps
    by (intro priced.io_rules relates_rules relates_priced_cache relates_priced upsert)
qed

lemma syncExposureGroups_priced:
  "(\<And>key r. key \<in> set keys \<Longrightarrow> relates (pricedRuns C) (one key r)) \<Longrightarrow>
   relates (pricedRuns C) (syncExposureGroups one keys r)"
  by (induction keys arbitrary: r) (simp_all add: priced.relates_ret priced.relates_bnd)

lemma refreshMonitor_priced:
  "relates (pricedRuns C) (refreshMonitor c (map_option (\<lambda>(es, ps). Refresh (liveMonitor es ps)) monitor) r)"
  unfolding refreshMonitor_def
  by (cases monitor) (auto intro!: priced.io_rules relates_rules relates_priced_Refresh)


lemma syncConfigs_priced:
  fixes s :: "'x World ExposureSyncService"
  assumes "s = liveExposureSync reader client copt parse opt monitor visit"
  shows "relates (pricedRuns (set configs)) (syncConfigs s configs)"
proof -
  obtain groups keys invalid where g: "groupExposureConfigs configs = (groups, keys, invalid)"
    by (cases "groupExposureConfigs configs")
  have members: "exposureKeyOf mc = key \<and> mc \<in> set configs"
    if "map_of groups key = Some ms" "mc \<in> set ms" for key ms mc
    using g that group_members [of "[]" "filter (\<lambda>mc. validExposureKey (exposureKeyOf mc)) configs" key ms mc "set configs"]
    by (auto simp: groupExposureConfigs_def Let_def)
  have group_ok: "relates (pricedRuns (set configs)) (syncExposureGroup s (the (xv_cache s)) (the (xv_core s))
      (the (xv_queue s)) nets key (the (map_of groups key)) r)" if "key \<in> set (sort (map fst groups))" for nets key r
  proof (rule syncExposureGroup_priced [OF assms])
    fix mc assume "mc \<in> set (the (map_of groups key))"
    moreover from that obtain ms where "map_of groups key = Some ms" by (auto dest: weak_map_of_SomeI)
    ultimately show "mc \<in> set configs \<and> exposureKeyOf mc = key" using members by auto
  qed
  have monitor: "xv_monitor s = map_option (\<lambda>(es, ps). Refresh (liveMonitor es ps)) monitor"
      "the (xv_reader s) = (\<lambda>ks. onExt (reader ks))"
    by (simp_all add: assms liveExposureSync_def Let_def)
  show ?thesis
    unfolding syncConfigs_def Let_def g prod.case monitor
    by (intro priced.io_rules relates_rules relates_priced refreshMonitor_priced syncExposureGroups_priced group_ok)
qed

text \<open>C28: whatever fails during an exposure synchronisation, every task it adds to the queue is the run of a
  listed configuration that can execute and whose exposure snapshot is stored with a positive mark price and a
  notional of quantity times price; and when it returns, every configuration is accounted for exactly once:
  enqueued, skipped, or failed at the queue.\<close>

theorem exposure_sync_enqueues_priced:
  assumes "fst (ListHedgeMonitorConfigs (w_mgmt w)) = Ok configs"
    and "SyncEnabledConfigs (liveExposureSync reader client copt parse opt monitor visit) w = (res, w')"
  shows "(\<exists>ts. w_queue w' = w_queue w @ ts \<and>
       (\<forall>t \<in> set ts. \<exists>mc \<in> set configs. CanExecute mc \<and> t = runTaskFor mc \<and>
          pricedSnapshot (w_core w') (exposureKeyOf mc))) \<and>
     (\<forall>r. res = Ok r \<longrightarrow> xb_configs r = length configs \<and>
        xb_enqueued r + xb_skipped r + failedEnqueues (xb_failures r) = length configs)"
proof -
  let ?s = "liveExposureSync reader client copt parse opt monitor visit"
  let ?list = "wrapIO ''list hedge configs for exposure sync'' (onMgmt (\<lambda>_. ListHedgeMonitorConfigs))"
  have "validateSync ?s = None"
    by (simp add: validateSync_def liveExposureSync_def Let_def)
  then have run: "SyncEnabledConfigs ?s = bnd ?list (syncConfigs ?s)"
    by (simp add: SyncEnabledConfigs_def) (simp add: liveExposureSync_def Let_def)
  have listed: "x = configs" if "onMgmt (\<lambda>_. ListHedgeMonitorConfigs) w = (Ok x, v)" for x v
    using that assms(1) unfolding onMgmt_def by (auto elim!: faulty_OkE split: prod.splits)
  have quiet: "relates (pricedRuns (set configs)) (syncConfigs ?s configs)"
    by (rule syncConfigs_priced [OF refl])
  have "pricedRuns (set configs) w (snd (bnd ?list (syncConfigs ?s) w))"
  proof (rule priced.step_bnd, goal_cases)
    case 1
    show ?case by (rule relatesD [OF relates_wrapIO [OF relates_priced_mgmt]])
  next
    case (2 x)
    then have "wrapIO ''list hedge configs for exposure sync'' (onMgmt (\<lambda>_. ListHedgeMonitorConfigs)) w =
        (Ok x, snd (?list w))" by (simp add: prod_eq_iff)
    then have "x = configs" unfolding wrapIO_Ok_iff by (rule listed)
    with relatesD [OF quiet] show ?case by simp
  qed
  then have priced: "pricedRuns (set configs) w w'"
    using assms(2) unfolding run by simp
  have "xb_configs r = length configs \<and> accounted r = length configs" if "res = Ok r" for r
  proof -
    from assms(2) that obtain x v where "onMgmt (\<lambda>_. ListHedgeMonitorConfigs) w = (Ok x, v)"
      and sync: "syncConfigs ?s x v = (Ok r, w')"
      unfolding run by (auto simp: bnd_Ok_iff wrapIO_Ok_iff)
    from syncConfigs_accounts [OF sync] listed [OF this(1)] show ?thesis by simp
  qed
  with priced show ?thesis unfolding pricedRuns_def accounted_def by blast
qed


text \<open>One configuration that can execute, a fresh price, and no position in ClickHouse.\<close>

definition pricedWorld :: "unit World" where
  "pricedWorld = exampleWorld\<lparr>w_clock := fromUnixMilli 1788243795394\<rparr>"

definition pricedSync :: "unit World ExposureSyncService" where
  "pricedSync = liveExposureSync (\<lambda>_. ret Map.empty)
     \<lparr>rd_HMGet = (\<lambda>_ _. ret [Some '' 690 '', Some ''1788243790394'']), rd_HSet = (\<lambda>_ _. ret ()),
      rd_Expire = (\<lambda>_ _. ret ())\<rparr>
     \<lparr>xo_market_price_key_prefix = '''', xo_exposure_key_prefix = '''', xo_price_max_age = 0, xo_exposure_ttl = 0\<rparr>
     (\<lambda>s. Ok (of_nat (readDigits s))) exampleOptions None id"

definition pricedConfig :: HedgeMonitorConfig where
  "pricedConfig = \<lparr>mc_config = exampleHedge\<lparr>cf_exchange_account := exampleAccount\<rparr>, mc_global_enabled = True\<rparr>"

lemma pricedWorld_configs: "ListHedgeMonitorConfigs (w_mgmt pricedWorld) = (Ok [pricedConfig], exampleMgmt)"
  by (simp add: pricedWorld_def pricedConfig_def ListHedgeMonitorConfigs_def ListHedgeConfigs_def bnd_def
      exampleMgmt_def emptyMgmtDB_def exampleHedge_def exampleAccount_def enabledByAgent_def preloadAccount_def
      accountById_def findRow_def)

lemma onExt_ret: "w_faults w = [] \<Longrightarrow> onExt (ret x) (w :: unit World) = (Ok x, w)"
  by (simp add: onExt_def faulty_def ret_def)

lemma priced_texts:
  "TrimSpace '' 690 '' = ''690''" "TrimSpace ''1788243790394'' = ''1788243790394''"
  "normalizeExposureSymbol ''BTCUSDT'' = ''BTCUSDT''" "normalizeExposureSource ''platform'' = ''platform''"
  by code_simp+

lemma priced_stamp: "ParseInt64 ''1788243790394'' = Ok 1788243790394" "readDigits ''690'' = 690"
proof -
  have "readDigits ''1788243790394'' = 1788243790394" by (simp add: readDigits_def)
  then show "ParseInt64 ''1788243790394'' = Ok 1788243790394" by (simp add: ParseInt64_def isDigit_def Let_def)
qed (simp add: readDigits_def)

lemma priced_key: "exposureKeyOf pricedConfig = ExposureGroupKey 3 ''platform'' ''BTCUSDT''"
  "CanExecute pricedConfig"
  by (simp_all add: exposureKeyOf_def pricedConfig_def exampleHedge_def priced_texts CanExecute_def
      exampleAccount_def)

lemma priced_save: "w_faults w = [] \<Longrightarrow> nc_agent_id e \<noteq> 0 \<Longrightarrow> nc_symbol e = ''BTCUSDT'' \<Longrightarrow> nc_synced_at e \<noteq> 0 \<Longrightarrow>
    ca_SaveNetExposure (the (xv_cache pricedSync)) e w = (Ok (), w)"
  by (simp add: pricedSync_def liveExposureSync_def SaveNetExposure_def NewRedisExposureStore_def Let_def
      liveHashClient_def priced_texts bnd_def wrapIO_def onExt_ret minute_def second_def ret_apply)

lemma priced_fetch:
  assumes "w_faults w = []" "fromUnixMilli 1788243795394 \<le> w_clock w" "w_clock w \<le> fromUnixMilli 1788243795394 + 10"
  shows "\<exists>v. ca_FetchMarkPrice (the (xv_cache pricedSync)) ''BTCUSDT'' w =
    (Ok \<lparr>mp_symbol = ''BTCUSDT'', mp_value = 690, mp_observed_at = fromUnixMilli 1788243790394\<rparr>, v) \<and>
    v = w\<lparr>w_clock := w_clock w + 2\<rparr>"
  using assms
  by (simp add: pricedSync_def liveExposureSync_def FetchMarkPrice_def NewRedisExposureStore_def Let_def
      liveHashClient_def priced_texts priced_stamp bnd_def wrapIO_def onExt_ret lift_def readClock_def
      decodeMarkPriceValues_def)
    (simp add: fromUnixMilli_def second_def minute_def timeSub_def ret_def)


lemma priced_groups:
  "groupExposureConfigs [pricedConfig] =
     ([(ExposureGroupKey 3 ''platform'' ''BTCUSDT'', [pricedConfig])], [ExposureKey 3 ''BTCUSDT''], [])"
  by (simp add: groupExposureConfigs_def Let_def priced_key validExposureKey_def addToGroup_def maxInt64_def)

lemma priced_upsert:
  assumes "w_faults w = []" "w_core w = emptyCoreDB"
  shows "\<exists>row db. the (xv_core pricedSync) (exposureParams key n 690 t) w = (Ok row, w\<lparr>w_core := db\<rparr>)"
proof -
  have "ue_mark_price (exposureParams key n 690 t) > 0" by (simp add: exposureParams_def)
  from UpsertExposureSnapshot_ok [OF this, of emptyCoreDB] show ?thesis
    by (auto simp: pricedSync_def liveExposureSync_def Let_def onCore_def faulty_def assms)
qed

lemma priced_enqueue:
  assumes "w_faults w = []"
  shows "\<exists>r'. enqueueGroup (the (xv_queue pricedSync)) key [pricedConfig] r w =
    (Ok r', w\<lparr>w_queue := w_queue w @ [runTaskFor pricedConfig]\<rparr>)"
  by (simp add: priced_key pricedSync_def liveExposureSync_def Let_def EnqueueRunHedge_def liveEnqueuer_def
      exampleOptions_def queueClient_def faulty_def assms runTaskFor_def bnd_def attempt_def wrapIO_def ret_def)

lemma priced_run:
  "\<exists>r w'. SyncEnabledConfigs pricedSync pricedWorld = (Ok r, w') \<and> w_queue w' = [runTaskFor pricedConfig]"
proof -
  let ?key = "ExposureGroupKey 3 ''platform'' ''BTCUSDT''"
  let ?t = "fromUnixMilli 1788243795394"
  have pos: "?t \<noteq> 0" by (simp add: fromUnixMilli_def unixEpoch_def second_def)
  have now: "xv_now pricedSync w = (Ok (w_clock w), w\<lparr>w_clock := w_clock w + 1\<rparr>)" for w
    by (simp add: pricedSync_def liveExposureSync_def Let_def readClock_def)
  let ?w = "pricedWorld\<lparr>w_clock := ?t + 1\<rparr>"
  have w: "w_faults ?w = []" "w_core ?w = emptyCoreDB" "w_queue ?w = []" "w_clock ?w = ?t + 1"
    by (simp_all add: pricedWorld_def) (simp add: exampleWorld_def)
  have w0: "w_faults pricedWorld = []" "w_clock pricedWorld = ?t"
    by (simp_all add: pricedWorld_def)
  from priced_fetch [of ?w] w obtain v where
    v: "ca_FetchMarkPrice (the (xv_cache pricedSync)) ''BTCUSDT'' ?w =
      (Ok \<lparr>mp_symbol = ''BTCUSDT'', mp_value = 690, mp_observed_at = fromUnixMilli 1788243790394\<rparr>, v)"
      "v = ?w\<lparr>w_clock := ?t + 3\<rparr>" by auto
  have vs: "w_faults v = []" "w_core v = emptyCoreDB" "w_queue v = []" using v(2) w by simp_all
  from priced_upsert [OF vs(1,2), of ?key zeroNetExposure ?t] obtain row db where
    up: "the (xv_core pricedSync) (exposureParams ?key zeroNetExposure 690 ?t) v = (Ok row, v\<lparr>w_core := db\<rparr>)" by blast
  have enq: "\<exists>r'. enqueueGroup (the (xv_queue pricedSync)) ?key [pricedConfig] r (v\<lparr>w_core := db\<rparr>) =
      (Ok r', v\<lparr>w_core := db, w_queue := [runTaskFor pricedConfig]\<rparr>)" for r
    using priced_enqueue [of "v\<lparr>w_core := db\<rparr>" ?key r] vs by simp
  have grp: "\<exists>r'. syncExposureGroup pricedSync (the (xv_cache pricedSync)) (the (xv_core pricedSync))
      (the (xv_queue pricedSync)) Map.empty ?key [pricedConfig] r pricedWorld =
      (Ok r', v\<lparr>w_core := db, w_queue := [runTaskFor pricedConfig]\<rparr>)" for r
    using enq [of "r\<lparr>xb_snapshots := Suc (xb_snapshots r)\<rparr>"]
    by (simp add: syncExposureGroup_def bnd_def now attempt_def priced_save w v(1) up pos w0 del: enqueueGroup.simps)
  then obtain r' where group: "syncExposureGroup pricedSync (the (xv_cache pricedSync)) (the (xv_core pricedSync))
      (the (xv_queue pricedSync)) Map.empty ?key [pricedConfig] (emptySyncResult\<lparr>xb_configs := 1, xb_failures := [],
         xb_skipped := 0, xb_exposure_groups := 1\<rparr>) pricedWorld =
      (Ok r', v\<lparr>w_core := db, w_queue := [runTaskFor pricedConfig]\<rparr>)" by blast
  have "validateSync pricedSync = None"
    by (simp add: validateSync_def pricedSync_def liveExposureSync_def Let_def)
  moreover have "the (xv_repo pricedSync) pricedWorld = (Ok [pricedConfig], pricedWorld)"
    using pricedWorld_configs
    by (simp add: pricedSync_def liveExposureSync_def Let_def onMgmt_def faulty_def w0)
      (simp add: pricedWorld_def)
  moreover have "the (xv_reader pricedSync) ks pricedWorld = (Ok Map.empty, pricedWorld)" for ks
    by (simp add: pricedSync_def liveExposureSync_def Let_def onExt_ret w0)
  moreover have "xv_monitor pricedSync = None"
    by (simp add: pricedSync_def liveExposureSync_def Let_def)
  ultimately show ?thesis
    using group by (simp add: SyncEnabledConfigs_def syncConfigs_def Let_def bnd_def wrapIO_def priced_groups
        refreshMonitor_def ret_def del: syncExposureGroup_def)
qed


theorem exposure_sync_enqueues_priced_witness:
  "\<exists>r w'. SyncEnabledConfigs pricedSync pricedWorld = (Ok r, w') \<and> w_queue w' = [runTaskFor pricedConfig] \<and>
     xb_enqueued r + xb_skipped r + failedEnqueues (xb_failures r) = 1 \<and>
     pricedSnapshot (w_core w') (ExposureGroupKey 3 ''platform'' ''BTCUSDT'')"
proof -
  from priced_run obtain r w' where run: "SyncEnabledConfigs pricedSync pricedWorld = (Ok r, w')"
    and queue: "w_queue w' = [runTaskFor pricedConfig]" by blast
  have "fst (ListHedgeMonitorConfigs (w_mgmt pricedWorld)) = Ok [pricedConfig]"
    by (simp add: pricedWorld_configs)
  note all = exposure_sync_enqueues_priced [OF this run [unfolded pricedSync_def]]
  have "w_queue pricedWorld = []" by (simp add: pricedWorld_def exampleWorld_def)
  with all queue have "\<forall>t \<in> {runTaskFor pricedConfig}. \<exists>mc \<in> {pricedConfig}.
      pricedSnapshot (w_core w') (exposureKeyOf mc)" by auto
  with all queue run show ?thesis by (simp add: priced_key)
qed

end
