(* ===== verification/HttpTypes.thy ===== *)
theory HttpTypes
  imports ExposureSync PositionSync MarketSync Accounts
begin

text \<open>
  The HTTP interface (\<open>internal/httpapi\<close>): the server with its collaborators, the requests the handlers bind
  and the responses they send, and the helpers the handlers share. A handler is given what gin made of the
  request: the bound body or the error of binding, path and query parameters as strings. A response is a status
  and a body; a body is the Go value handed to \<open>c.JSON\<close>. Routing is in \<open>HttpRoutes\<close>. Optional JSON fields are
  options; a raw JSON message is its text, the empty string when it is absent. The creation times of rows and the request context
  are left out.
\<close>

section \<open>Statuses\<close>

definition StatusOK :: nat where "StatusOK = 200"
definition StatusCreated :: nat where "StatusCreated = 201"
definition StatusAccepted :: nat where "StatusAccepted = 202"
definition StatusNoContent :: nat where "StatusNoContent = 204"
definition StatusBadRequest :: nat where "StatusBadRequest = 400"
definition StatusNotFound :: nat where "StatusNotFound = 404"
definition StatusConflict :: nat where "StatusConflict = 409"
definition StatusInternalServerError :: nat where "StatusInternalServerError = 500"
definition StatusBadGateway :: nat where "StatusBadGateway = 502"
definition StatusServiceUnavailable :: nat where "StatusServiceUnavailable = 503"

lemmas status_defs = StatusOK_def StatusCreated_def StatusAccepted_def StatusNoContent_def StatusBadRequest_def
  StatusNotFound_def StatusConflict_def StatusInternalServerError_def StatusBadGateway_def
  StatusServiceUnavailable_def

section \<open>Requests\<close>

record exchangeAdapterAccountRequest =
  aq_id :: nat
  aq_exchange :: string
  aq_account_name :: string
  aq_ccxt_id :: string
  aq_market_type :: string
  aq_sandbox :: bool
  aq_default_settle :: string
  aq_account_type :: string
  aq_product_type :: string
  aq_category :: string
  aq_position_mode :: string
  aq_margin_mode :: string
  aq_recv_window_ms :: int
  aq_rate_limit_ms :: int
  aq_api_key :: string
  aq_api_secret :: string
  aq_passphrase :: string

record fetchAdapterBalanceRequest =
  qb_account :: exchangeAdapterAccountRequest
  qb_assets :: "string list"
  qb_params :: raw

record fetchAdapterPositionsRequest =
  qp_account :: exchangeAdapterAccountRequest
  qp_symbols :: "string list"
  qp_params :: raw

record closeAdapterPositionsRequest =
  qc_account :: exchangeAdapterAccountRequest
  qc_symbols :: "string list"
  qc_params :: raw
  qc_exchange_order_params :: raw
  qc_confirm_close :: bool

record fetchAdapterTickerRequest =
  qt_account :: exchangeAdapterAccountRequest
  qt_symbol :: string
  qt_params :: raw

record fetchAdapterMarketsRequest =
  qk_account :: exchangeAdapterAccountRequest
  qk_params :: raw

record placeAdapterOrderRequest =
  ql_account :: exchangeAdapterAccountRequest
  ql_client_order_id :: string
  ql_symbol :: string
  ql_side :: string
  ql_position_side :: string
  ql_order_type :: string
  ql_quantity :: decimal
  ql_price :: decimal
  ql_reduce_only :: bool
  ql_exchange_order_params :: raw

text \<open>\<open>fetchAdapterOrderRequest\<close> and \<open>cancelAdapterOrderRequest\<close> have the same fields.\<close>

record fetchAdapterOrderRequest =
  qo_account :: exchangeAdapterAccountRequest
  qo_order_id :: string
  qo_client_order_id :: string
  qo_symbol :: string
  qo_params :: raw

type_synonym cancelAdapterOrderRequest = fetchAdapterOrderRequest

record setAdapterLeverageRequest =
  qv_account :: exchangeAdapterAccountRequest
  qv_symbol :: string
  qv_leverage :: int
  qv_params :: raw

record setAdapterMarginModeRequest =
  qm_account :: exchangeAdapterAccountRequest
  qm_symbol :: string
  qm_margin_mode :: string
  qm_params :: raw

record createHedgeConfigRequest =
  qh_exchange_account_id :: nat
  qh_source :: string
  qh_symbol :: string
  qh_target_symbol :: string
  qh_target_hedge_ratio :: decimal
  qh_first_trigger :: decimal
  qh_rebalance :: decimal
  qh_exit :: decimal
  qh_max_slippage_bps :: int
  qh_max_notional :: decimal
  qh_min_order :: decimal
  qh_leverage :: int
  qh_enabled :: "bool option"
  qh_dry_run :: "bool option"
  qh_metadata :: string

text \<open>A raw message that was absent is the empty string.\<close>

record createExchangeAccountRequest =
  qa_exchange :: string
  qa_name :: string
  qa_ccxt_id :: string
  qa_market_type :: string
  qa_sandbox :: "bool option"
  qa_default_settle :: string
  qa_account_type :: string
  qa_product_type :: string
  qa_category :: string
  qa_position_mode :: string
  qa_margin_mode :: string
  qa_recv_window_ms :: int
  qa_rate_limit_ms :: int
  qa_allowed_symbols :: "string list"
  qa_api_key_encrypted :: string
  qa_api_key_hint :: string
  qa_api_secret_encrypted :: string
  qa_passphrase_encrypted :: string
  qa_status :: string
  qa_is_primary :: bool
  qa_metadata :: string

record updateExchangeAccountRequest =
  qu_exchange :: "string option"
  qu_name :: "string option"
  qu_ccxt_id :: "string option"
  qu_market_type :: "string option"
  qu_sandbox :: "bool option"
  qu_default_settle :: "string option"
  qu_account_type :: "string option"
  qu_product_type :: "string option"
  qu_category :: "string option"
  qu_position_mode :: "string option"
  qu_margin_mode :: "string option"
  qu_recv_window_ms :: "int option"
  qu_rate_limit_ms :: "int option"
  qu_allowed_symbols :: "string list option"
  qu_api_key_encrypted :: "string option"
  qu_api_key_hint :: "string option"
  qu_api_secret_encrypted :: "string option"
  qu_passphrase_encrypted :: "string option"
  qu_status :: "string option"
  qu_is_primary :: "bool option"
  qu_metadata :: "string option"

record syncExchangeMarketsRequest =
  qs_account :: exchangeAdapterAccountRequest
  qs_exchange_env :: string
  qs_params :: raw

section \<open>Responses\<close>

record closeAdapterPositionResult =
  cp_item_symbol :: string
  cp_item_position_side :: string
  cp_item_position_quantity :: decimal
  cp_item_close_side :: string
  cp_item_close_quantity :: decimal
  cp_item_order :: "OrderResult option"
  cp_item_error :: string

record closeAdapterPositionsResponse =
  cl_success :: bool
  cl_fetched_positions :: nat
  cl_attempted_orders :: nat
  cl_successful_orders :: nat
  cl_failed_orders :: nat
  cl_items :: "closeAdapterPositionResult list"

record exchangeAccountResponse =
  va_id :: nat
  va_exchange :: string
  va_name :: string
  va_ccxt_id :: string
  va_market_type :: string
  va_sandbox :: bool
  va_default_settle :: string
  va_account_type :: string
  va_product_type :: string
  va_category :: string
  va_position_mode :: string
  va_margin_mode :: string
  va_recv_window_ms :: int
  va_rate_limit_ms :: int
  va_allowed_symbols :: string
  va_api_key_set :: bool
  va_api_secret_set :: bool
  va_passphrase_set :: bool
  va_passphrase_required :: bool
  va_api_key_hint :: string
  va_credential_status :: string
  va_status :: string
  va_is_primary :: bool
  va_metadata :: string

text \<open>The decimals of a market are sent as text; \<open>vm_market\<close> stands for the fields that are copied.\<close>

record exchangeMarketResponse =
  vm_market :: ExchangeMarket
  vm_price_precision :: string
  vm_amount_precision :: string
  vm_min_amount :: string
  vm_min_cost :: string
  vm_contract_size :: string
  vm_fetched_at :: string
  vm_created_at :: string
  vm_updated_at :: string

record syncExchangeMarketsResponse =
  vs_synced :: nat
  vs_preview :: "exchangeMarketResponse list"

datatype responseBody =
    NoBody
  | ErrorBody string
  | StatusBody string
  | PageBody string
  | ConfigBody HedgeConfig
  | ConfigsBody "HedgeConfig list"
  | ExposureBody ExposureSnapshot
  | PositionBody HedgePositionSnapshot
  | ExposureSyncBody ExposureSyncBatchResult
  | PositionSyncBody PositionSyncBatchResult
  | RefreshBody HedgeMonitorRefreshResult
  | MonitorBody HedgeMonitorList
  | RunBody RunResult
  | TaskBody TaskInfo
  | AuditBody "AuditEvent list"
  | BalanceBody BalanceResult
  | PositionsBody "ExPosition list"
  | CloseBody closeAdapterPositionsResponse
  | TickerBody Ticker
  | MarketsBody "Market list"
  | OrderBody OrderResult
  | CommandBody CommandResult
  | AccountBody exchangeAccountResponse
  | AccountsBody "exchangeAccountResponse list"
  | OptionsBody "ExchangeDefaults list"
  | CatalogueBody "exchangeMarketResponse list"
  | MarketSyncBody syncExchangeMarketsResponse

record HttpResponse =
  hr_status :: nat
  hr_body :: responseBody

section \<open>The server\<close>

text \<open>The methods of \<open>*mgmt.Repository\<close> the handlers call.\<close>

record 'w ManagementRepo =
  ma_CreateHedgeConfig :: "HedgeConfig \<Rightarrow> ('w, HedgeConfig) io"
  ma_ListHedgeConfigs :: "('w, HedgeConfig list) io"
  ma_CreateExchangeAccount :: "ExchangeAccount \<Rightarrow> ('w, ExchangeAccount) io"
  ma_ListExchangeAccounts :: "('w, ExchangeAccount list) io"
  ma_GetExchangeAccount :: "nat \<Rightarrow> ('w, ExchangeAccount) io"
  ma_UpdateExchangeAccount :: "nat \<Rightarrow> ExchangeAccountPatch \<Rightarrow> ('w, ExchangeAccount) io"
  ma_DeleteExchangeAccount :: "nat \<Rightarrow> ('w, unit) io"
  ma_SetPrimaryExchangeAccount :: "nat \<Rightarrow> ('w, ExchangeAccount) io"
  ma_ListExchangeMarkets :: "ExchangeMarketFilter \<Rightarrow> ('w, ExchangeMarket list) io"
  ma_markets :: "'w MarketSyncRepository"

text \<open>\<open>type Server struct\<close>; the last five fields are the environment: the clock, the variable \<open>EXCHANGE_ENV\<close>,
  the JSON text of a raw response, the text of a decimal, and reading a file.\<close>

record 'w HttpServer =
  sr_hedge :: "'w HedgeService"
  sr_mgmt :: "'w ManagementRepo option"
  sr_queue :: "'w Enqueuer option"
  sr_adapter :: "'w Adapter option"
  sr_symbolAllowlist :: "('w, string list) io option"
  sr_exposureSync :: "'w ExposureSyncService option"
  sr_positionSync :: "'w PositionSyncService option"
  sr_hedgeMonitor :: "'w HedgeMonitorService option"
  sr_reconciliation :: "'w ExchangeReconciliationService option"
  sr_clock :: "('w, time) io"
  sr_exchange_env :: string
  sr_rawJSON :: "raw \<Rightarrow> string"
  sr_decString :: "decimal \<Rightarrow> string"

  sr_readFile :: "string \<Rightarrow> ('w, string) io"

section \<open>Shared helpers\<close>

definition respondJSON :: "nat \<Rightarrow> responseBody \<Rightarrow> ('w, HttpResponse) io" where
  "respondJSON status body = ret \<lparr>hr_status = status, hr_body = body\<rparr>"

definition respondError :: "nat \<Rightarrow> err \<Rightarrow> ('w, HttpResponse) io" where
  "respondError status e = respondJSON status (ErrorBody (errText e))"

text \<open>\<open>if err := c.ShouldBindJSON(&req); err != nil { respondError(c, 400, err); return }\<close>, also
  \<open>bindAdapterJSON\<close>.\<close>

definition bindJSON :: "'a result \<Rightarrow> ('a \<Rightarrow> ('w, HttpResponse) io) \<Rightarrow> ('w, HttpResponse) io" where
  "bindJSON body handler = (case body of
     Err e \<Rightarrow> respondError StatusBadRequest e
   | Panic \<Rightarrow> panic
   | Ok req \<Rightarrow> handler req)"

text \<open>A call whose error becomes a response.\<close>

definition answer ::
    "('w, 'a) io \<Rightarrow> (err \<Rightarrow> ('w, HttpResponse) io) \<Rightarrow> ('a \<Rightarrow> ('w, HttpResponse) io) \<Rightarrow> ('w, HttpResponse) io" where
  "answer m failed ok = bnd (attempt m) (\<lambda>r. case r of Inl e \<Rightarrow> failed e | Inr x \<Rightarrow> ok x)"

text \<open>A method call on a nil repository panics.\<close>

definition onManagement ::
    "'w HttpServer \<Rightarrow> ('w ManagementRepo \<Rightarrow> ('w, 'a) io) \<Rightarrow> ('w, 'a) io" where
  "onManagement s f = (case sr_mgmt s of None \<Rightarrow> panic | Some m \<Rightarrow> f m)"

end
