(* ===== verification/HttpApi.thy ===== *)
theory HttpApi
  imports HttpTypes
begin

text \<open>
  The handlers of \<open>internal/httpapi/server.go\<close>: hedge configurations, snapshots, synchronisations, the monitor,
  hedge runs and exits, the queue, and the audit log. Each turns a bound request into a call of a service and
  the service's error into a status.
\<close>

section \<open>The start page\<close>

fun readFirst :: "(string \<Rightarrow> ('w, string) io) \<Rightarrow> string list \<Rightarrow> ('w, string) io" where
  "readFirst readFile [] = throw (ErrMsg ''index.html not found'')"
| "readFirst readFile (path # paths) =
     bnd (attempt (readFile path)) (\<lambda>r. case r of Inr body \<Rightarrow> ret body | Inl _ \<Rightarrow> readFirst readFile paths)"

definition readIndexHTML :: "'w HttpServer \<Rightarrow> ('w, string) io" where
  "readIndexHTML s = readFirst (sr_readFile s) [''index.html'', ''../../index.html'']"

definition serveIndexHTML :: "'w HttpServer \<Rightarrow> ('w, HttpResponse) io" where
  "serveIndexHTML s =
     answer (readIndexHTML s) (respondError StatusNotFound) (\<lambda>body. respondJSON StatusOK (PageBody body))"

section \<open>Hedge configurations\<close>

definition boolOrDefault :: "bool option \<Rightarrow> bool \<Rightarrow> bool" where
  "boolOrDefault value fallback = (case value of None \<Rightarrow> fallback | Some b \<Rightarrow> b)"

text \<open>The \<open>mgmt.HedgeConfig\<close> built from a request; the fields that are not set have Go's zero value.\<close>

definition hedgeConfigFor :: "createHedgeConfigRequest \<Rightarrow> HedgeConfig" where
  "hedgeConfigFor req = \<lparr>cf_id = 0, cf_agent_id = 0, cf_exchange_account_id = qh_exchange_account_id req,
     cf_exchange_account = zeroAccount, cf_source = qh_source req, cf_symbol = qh_symbol req,
     cf_target_symbol = qh_target_symbol req, cf_target_hedge_ratio = qh_target_hedge_ratio req,
     cf_first_trigger = qh_first_trigger req, cf_rebalance = qh_rebalance req, cf_exit = qh_exit req,
     cf_max_slippage_bps = qh_max_slippage_bps req, cf_max_notional = qh_max_notional req,
     cf_min_order = qh_min_order req, cf_leverage = qh_leverage req,
     cf_enabled = boolOrDefault (qh_enabled req) True, cf_lifecycle_status = '''',
     cf_dry_run = boolOrDefault (qh_dry_run req) False,
     cf_metadata = (if qh_metadata req = '''' then ''{}'' else qh_metadata req)\<rparr>"

definition createHedgeConfig :: "'w HttpServer \<Rightarrow> createHedgeConfigRequest result \<Rightarrow> ('w, HttpResponse) io" where
  "createHedgeConfig s body = bindJSON body (\<lambda>req.
     if qh_exchange_account_id req = 0 \<or> qh_symbol req = ''''
     then respondError StatusBadRequest (ErrMsg ''exchange_account_id and symbol are required'')
     else answer (onManagement s (\<lambda>m. ma_CreateHedgeConfig m (hedgeConfigFor req)))
            (respondError StatusInternalServerError) (\<lambda>config. respondJSON StatusCreated (ConfigBody config)))"

definition listHedgeConfigs :: "'w HttpServer \<Rightarrow> ('w, HttpResponse) io" where
  "listHedgeConfigs s = answer (onManagement s ma_ListHedgeConfigs) (respondError StatusInternalServerError)
     (\<lambda>configs. respondJSON StatusOK (ConfigsBody configs))"

section \<open>Snapshots and synchronisation\<close>

definition upsertExposure :: "'w HttpServer \<Rightarrow> UpsertExposureInput result \<Rightarrow> ('w, HttpResponse) io" where
  "upsertExposure s body = bindJSON body (\<lambda>req.
     answer (UpsertExposure (sr_hedge s) req) (respondError StatusBadRequest)
       (\<lambda>exposure. respondJSON StatusOK (ExposureBody exposure)))"

definition upsertPosition :: "'w HttpServer \<Rightarrow> UpsertPositionInput result \<Rightarrow> ('w, HttpResponse) io" where
  "upsertPosition s body = bindJSON body (\<lambda>req.
     answer (UpsertPosition (sr_hedge s) req) (respondError StatusBadRequest)
       (\<lambda>position. respondJSON StatusOK (PositionBody position)))"

definition syncExposuresHandler :: "'w HttpServer \<Rightarrow> ('w, HttpResponse) io" where
  "syncExposuresHandler s = (case sr_exposureSync s of
     None \<Rightarrow> respondError StatusServiceUnavailable (ErrMsg ''exposure sync is not configured'')
   | Some sync \<Rightarrow> answer (SyncEnabledConfigs sync) (respondError StatusBadGateway)
       (\<lambda>result. respondJSON StatusOK (ExposureSyncBody result)))"

definition syncPositionsHandler :: "'w HttpServer \<Rightarrow> ('w, HttpResponse) io" where
  "syncPositionsHandler s = (case sr_positionSync s of
     None \<Rightarrow> respondError StatusServiceUnavailable (ErrMsg ''position sync is not configured'')
   | Some sync \<Rightarrow> answer (Sync sync) (respondError StatusBadGateway)
       (\<lambda>result. respondJSON StatusOK (PositionSyncBody result)))"

section \<open>The monitor\<close>

definition refreshHedgeMonitor :: "'w HttpServer \<Rightarrow> ('w, HttpResponse) io" where
  "refreshHedgeMonitor s = (case sr_hedgeMonitor s of
     None \<Rightarrow> respondError StatusServiceUnavailable (ErrMsg ''hedge monitor is not configured'')
   | Some monitor \<Rightarrow> answer (Refresh monitor) (respondError StatusInternalServerError)
       (\<lambda>result. respondJSON StatusOK (RefreshBody result)))"

definition listHedgeMonitor :: "'w HttpServer \<Rightarrow> string \<Rightarrow> ('w, HttpResponse) io" where
  "listHedgeMonitor s agentQuery = (case sr_hedgeMonitor s of
     None \<Rightarrow> respondError StatusServiceUnavailable (ErrMsg ''hedge monitor is not configured'')
   | Some monitor \<Rightarrow> (case ParseUint64 agentQuery of
       Ok agentID \<Rightarrow>
         if agentID = 0 then respondError StatusBadRequest (ErrMsg ''valid agent_id is required'')
         else answer (ListMonitor monitor agentID) (respondError StatusInternalServerError)
                (\<lambda>result. respondJSON StatusOK (MonitorBody result))
     | _ \<Rightarrow> respondError StatusBadRequest (ErrMsg ''valid agent_id is required'')))"

section \<open>Runs and exits\<close>

definition runErrorStatus :: "err \<Rightarrow> nat" where
  "runErrorStatus e =
    (if errIs e ErrNotFound then StatusNotFound else if errIs e ErrRunLocked then StatusConflict
     else StatusInternalServerError)"

definition runHedge :: "'w HttpServer \<Rightarrow> RunInput result \<Rightarrow> ('w, HttpResponse) io" where
  "runHedge s body = bindJSON body (\<lambda>req.
     answer (RunOnce (sr_hedge s) req) (\<lambda>e. respondError (runErrorStatus e) e)
       (\<lambda>result. respondJSON StatusOK (RunBody result)))"

definition exitStatus :: "RunResult \<Rightarrow> nat" where
  "exitStatus result = (case rr_close_request result of
     None \<Rightarrow> StatusOK
   | Some request \<Rightarrow>
       if cq_status request \<in> {HedgeCloseRequested, HedgeCloseSubmitted, HedgeCloseVerifying}
       then StatusAccepted else StatusOK)"

definition exitHedge :: "'w HttpServer \<Rightarrow> ExitInput result \<Rightarrow> ('w, HttpResponse) io" where
  "exitHedge s body = bindJSON body (\<lambda>req.
     answer (ExitHedge (sr_hedge s) req) (\<lambda>e. respondError (runErrorStatus e) e)
       (\<lambda>result. respondJSON (exitStatus result) (RunBody result)))"

definition enqueueHedge :: "'w HttpServer \<Rightarrow> RunInput result \<Rightarrow> ('w, HttpResponse) io" where
  "enqueueHedge s body = bindJSON body (\<lambda>req. case sr_queue s of
     None \<Rightarrow> respondError StatusServiceUnavailable (ErrMsg ''async queue is not configured'')
   | Some queue \<Rightarrow> answer (EnqueueRunHedge queue req) (respondError StatusInternalServerError)
       (\<lambda>info. respondJSON StatusAccepted (TaskBody info)))"

section \<open>The audit log\<close>

text \<open>\<open>strconv.ParseInt(raw, 10, 32)\<close>\<close>

definition ParseInt32 :: "string \<Rightarrow> int result" where
  "ParseInt32 s = rbind (ParseInt64 s) (\<lambda>n.
     if n < - (2 ^ 31) \<or> 2 ^ 31 \<le> n then Err (ErrExternal ''value out of range'') else Ok n)"

definition listAuditEvents :: "'w HttpServer \<Rightarrow> string \<Rightarrow> ('w, HttpResponse) io" where
  "listAuditEvents s limitQuery =
    (let listed = (\<lambda>limit. answer (ListAuditEvents (sr_hedge s) limit) (respondError StatusInternalServerError)
           (\<lambda>events. respondJSON StatusOK (AuditBody events)))
     in if limitQuery = '''' then listed 50
        else case ParseInt32 limitQuery of
               Ok n \<Rightarrow> listed n
             | Err e \<Rightarrow> respondError StatusBadRequest e
             | Panic \<Rightarrow> panic)"

end
