(* ===== verification/HttpAdapter.thy ===== *)
theory HttpAdapter
  imports HttpTypes
begin

text \<open>
  The handlers of \<open>internal/httpapi/exchange_adapter.go\<close>: they pass a request to the exchange adapter, and after
  an order or a changed position setting they schedule its verification for the stored account that the request
  names. A failure to schedule is recorded and does not change the response.
\<close>

section \<open>Requests to the adapter\<close>

definition requireExchangeAdapter ::
    "'w HttpServer \<Rightarrow> ('w Adapter \<Rightarrow> ('w, HttpResponse) io) \<Rightarrow> ('w, HttpResponse) io" where
  "requireExchangeAdapter s handler = (case sr_adapter s of
     None \<Rightarrow> respondError StatusServiceUnavailable (ErrMsg ''exchange adapter is not configured'')
   | Some adapter \<Rightarrow> handler adapter)"

definition toAccountConfig :: "exchangeAdapterAccountRequest \<Rightarrow> AccountConfig" where
  "toAccountConfig req = \<lparr>ac_exchange = TrimSpace (aq_exchange req),
     ac_account_name = TrimSpace (aq_account_name req), ac_ccxt_id = ToLower (TrimSpace (aq_ccxt_id req)),
     ac_market_type = ToLower (TrimSpace (aq_market_type req)), ac_sandbox = aq_sandbox req,
     ac_default_settle = ToUpper (TrimSpace (aq_default_settle req)),
     ac_account_type = TrimSpace (aq_account_type req), ac_product_type = TrimSpace (aq_product_type req),
     ac_category = TrimSpace (aq_category req), ac_position_mode = ToLower (TrimSpace (aq_position_mode req)),
     ac_margin_mode = ToLower (TrimSpace (aq_margin_mode req)), ac_recv_window_ms = aq_recv_window_ms req,
     ac_rate_limit_ms = aq_rate_limit_ms req, ac_api_key = aq_api_key req, ac_api_secret = aq_api_secret req,
     ac_passphrase = aq_passphrase req\<rparr>"

definition toPlaceOrderRequest :: "placeAdapterOrderRequest \<Rightarrow> PlaceOrderRequest" where
  "toPlaceOrderRequest req =
    (let account = toAccountConfig (ql_account req)
     in \<lparr>po_client_order_id = TrimSpace (ql_client_order_id req), po_exchange = ac_exchange account,
         po_account_name = ac_account_name account, po_ccxt_id = ac_ccxt_id account,
         po_market_type = ac_market_type account, po_sandbox = ac_sandbox account,
         po_default_settle = ac_default_settle account, po_account_type = ac_account_type account,
         po_product_type = ac_product_type account, po_category = ac_category account,
         po_position_mode = ac_position_mode account, po_margin_mode = ac_margin_mode account,
         po_recv_window_ms = ac_recv_window_ms account, po_rate_limit_ms = ac_rate_limit_ms account,
         po_api_key = ac_api_key account, po_api_secret = ac_api_secret account,
         po_passphrase = ac_passphrase account, po_symbol = TrimSpace (ql_symbol req),
         po_side = TrimSpace (ql_side req), po_position_side = TrimSpace (ql_position_side req),
         po_order_type = TrimSpace (ql_order_type req), po_quantity = ql_quantity req, po_price = ql_price req,
         po_reduce_only = ql_reduce_only req, po_exchange_order_params = ql_exchange_order_params req\<rparr>)"

definition cleanStringSlice :: "string list \<Rightarrow> string list" where
  "cleanStringSlice values' = filter (\<lambda>v. v \<noteq> '''') (map TrimSpace values')"

text \<open>A new map with the entries of the given one.\<close>

definition copyAdapterParams :: "raw \<Rightarrow> raw" where
  "copyAdapterParams params = (\<lambda>key. params key)"

definition buildCloseAdapterOrderRequest ::
    "exchangeAdapterAccountRequest \<Rightarrow> ExPosition \<Rightarrow> string \<Rightarrow> raw \<Rightarrow> PlaceOrderRequest" where
  "buildCloseAdapterOrderRequest account position clientOrderID exchangeOrderParams =
    (let closeSide = (if xp_quantity position < 0 then ''BUY'' else ''SELL'');
         reported = ToUpper (TrimSpace (xp_position_side position));
         positionSide = (if EqualFold (aq_position_mode account) ''hedge''
           then if reported \<noteq> ''LONG'' \<and> reported \<noteq> ''SHORT''
                then if xp_quantity position < 0 then ''SHORT'' else ''LONG''
                else reported
           else ''NET'')
     in toPlaceOrderRequest \<lparr>ql_account = account, ql_client_order_id = clientOrderID,
          ql_symbol = xp_symbol position, ql_side = closeSide, ql_position_side = positionSide,
          ql_order_type = ''MARKET'', ql_quantity = \<bar>xp_quantity position\<bar>, ql_price = 0, ql_reduce_only = True,
          ql_exchange_order_params = copyAdapterParams exchangeOrderParams\<rparr>)"

text \<open>\<open>(value *adapterDecimal) UnmarshalJSON\<close>: null and empty strings are zero; \<open>unquote\<close> is
  \<open>strconv.Unquote\<close>, \<open>unmarshal\<close> is the \<open>UnmarshalJSON\<close> of the decimal package.\<close>

definition unmarshalAdapterDecimal ::
    "(string \<Rightarrow> string result) \<Rightarrow> (string \<Rightarrow> decimal result) \<Rightarrow> string \<Rightarrow> decimal result" where
  "unmarshalAdapterDecimal unquote unmarshal data =
    (let raw = TrimSpace data
     in if raw = '''' \<or> raw = ''null'' \<or> raw = [CHR 34, CHR 34] then Ok 0
        else if HasPrefix raw [CHR 34]
        then rbind (unquote raw) (\<lambda>unquoted. if TrimSpace unquoted = '''' then Ok 0 else unmarshal data)
        else unmarshal data)"

section \<open>Responses\<close>

definition adapterErrorStatus :: "err \<Rightarrow> nat" where
  "adapterErrorStatus e =
    (if errIs e ErrOrderNotFound then StatusNotFound
     else if errIs e ErrOrderAlreadyFinal then StatusConflict else StatusBadGateway)"

definition respondAdapterResult :: "(err + responseBody) \<Rightarrow> ('w, HttpResponse) io" where
  "respondAdapterResult result = (case result of
     Inr body \<Rightarrow> respondJSON StatusOK body
   | Inl e \<Rightarrow> respondError (adapterErrorStatus e) e)"

section \<open>Scheduling the verification\<close>

definition resolveReconciliationAccountID ::
    "'w ExchangeReconciliationService \<Rightarrow> exchangeAdapterAccountRequest \<Rightarrow> ('w, nat) io" where
  "resolveReconciliationAccountID reconciliation account = ResolveAccountID reconciliation
     \<lparr>id_account_id = aq_id account, id_exchange = aq_exchange account,
      id_account_name = aq_account_name account, id_ccxt_id = aq_ccxt_id account, id_api_key = aq_api_key account\<rparr>"

definition scheduleOrderReconciliation ::
    "'w HttpServer \<Rightarrow> exchangeAdapterAccountRequest \<Rightarrow> OrderResult \<Rightarrow> string \<Rightarrow> string \<Rightarrow> string \<Rightarrow> ('w, unit) io" where
  "scheduleOrderReconciliation s account result symbol fallbackOrderID fallbackClientOrderID =
    (case (sr_queue s, sr_reconciliation s) of
       (Some queue, Some reconciliation) \<Rightarrow>
         bnd (attempt (resolveReconciliationAccountID reconciliation account)) (\<lambda>resolved. case resolved of
           Inl e \<Rightarrow> RecordScheduleFailure reconciliation ''order'' symbol (Some e)
         | Inr accountID \<Rightarrow>
             let given = TrimSpace (or_exchange_order_id result);
                 orderID = (if given = '''' then TrimSpace fallbackOrderID else given);
                 givenClient = TrimSpace (or_client_order_id result);
                 clientOrderID = (if givenClient = '''' then TrimSpace fallbackClientOrderID else givenClient)
             in if orderID = '''' \<and> clientOrderID = '''' then ret ()
                else bnd (attempt (ScheduleExternalOrderReconciliation queue \<lparr>eo_account_id = accountID,
                       eo_order_id = orderID, eo_client_order_id = clientOrderID,
                       eo_symbol = TrimSpace symbol\<rparr>)) (\<lambda>r. case r of
                     Inl e \<Rightarrow> RecordScheduleFailure reconciliation ''order'' symbol (Some e)
                   | Inr _ \<Rightarrow> ret ()))
     | _ \<Rightarrow> ret ())"

definition schedulePositionSettingVerification ::
    "'w HttpServer \<Rightarrow> exchangeAdapterAccountRequest \<Rightarrow> string \<Rightarrow> int \<Rightarrow> string \<Rightarrow> ('w, unit) io" where
  "schedulePositionSettingVerification s account symbol leverage marginMode =
    (case (sr_queue s, sr_reconciliation s) of
       (Some queue, Some reconciliation) \<Rightarrow>
         bnd (attempt (resolveReconciliationAccountID reconciliation account)) (\<lambda>resolved. case resolved of
           Inl e \<Rightarrow> RecordScheduleFailure reconciliation ''position_setting'' symbol (Some e)
         | Inr accountID \<Rightarrow>
             if leverage > 0
             then bnd (attempt (ScheduleLeverageVerification queue accountID (TrimSpace symbol) leverage)) (\<lambda>r.
                    case r of Inl e \<Rightarrow> RecordScheduleFailure reconciliation ''set_leverage'' symbol (Some e)
                    | Inr _ \<Rightarrow> ret ())
             else bnd (attempt (ScheduleMarginModeVerification queue accountID (TrimSpace symbol)
                         (TrimSpace marginMode))) (\<lambda>r.
                    case r of Inl e \<Rightarrow> RecordScheduleFailure reconciliation ''set_margin_mode'' symbol (Some e)
                    | Inr _ \<Rightarrow> ret ()))
     | _ \<Rightarrow> ret ())"

section \<open>Reading\<close>

text \<open>A handler that only asks the adapter.\<close>

definition askAdapter ::
    "'w HttpServer \<Rightarrow> 'q result \<Rightarrow> ('w Adapter \<Rightarrow> 'q \<Rightarrow> ('w, 'a) io) \<Rightarrow> ('a \<Rightarrow> responseBody) \<Rightarrow> ('w, HttpResponse) io" where
  "askAdapter s body call wrap = requireExchangeAdapter s (\<lambda>adapter. bindJSON body (\<lambda>req.
     bnd (attempt (call adapter req)) (\<lambda>r. respondAdapterResult (map_sum id wrap r))))"

definition fetchAdapterBalance :: "'w HttpServer \<Rightarrow> fetchAdapterBalanceRequest result \<Rightarrow> ('w, HttpResponse) io" where
  "fetchAdapterBalance s body = askAdapter s body (\<lambda>adapter req. FetchBalance adapter
     \<lparr>fb_account = toAccountConfig (qb_account req), fb_assets = cleanStringSlice (qb_assets req),
      fb_params = qb_params req\<rparr>) BalanceBody"

definition fetchAdapterPositions :: "'w HttpServer \<Rightarrow> fetchAdapterPositionsRequest result \<Rightarrow> ('w, HttpResponse) io" where
  "fetchAdapterPositions s body = askAdapter s body (\<lambda>adapter req. FetchPositions adapter
     \<lparr>fp_account = toAccountConfig (qp_account req), fp_symbols = cleanStringSlice (qp_symbols req),
      fp_params = qp_params req\<rparr>) PositionsBody"

definition fetchAdapterTicker :: "'w HttpServer \<Rightarrow> fetchAdapterTickerRequest result \<Rightarrow> ('w, HttpResponse) io" where
  "fetchAdapterTicker s body = askAdapter s body (\<lambda>adapter req. FetchTicker adapter
     \<lparr>ft_account = toAccountConfig (qt_account req), ft_symbol = TrimSpace (qt_symbol req),
      ft_params = qt_params req\<rparr>) TickerBody"

definition fetchAdapterMarkets :: "'w HttpServer \<Rightarrow> fetchAdapterMarketsRequest result \<Rightarrow> ('w, HttpResponse) io" where
  "fetchAdapterMarkets s body = askAdapter s body (\<lambda>adapter req. FetchMarkets adapter
     \<lparr>fm_account = toAccountConfig (qk_account req), fm_params = qk_params req\<rparr>) MarketsBody"

definition fetchAdapterOrder :: "'w HttpServer \<Rightarrow> fetchAdapterOrderRequest result \<Rightarrow> ('w, HttpResponse) io" where
  "fetchAdapterOrder s body = askAdapter s body (\<lambda>adapter req. FetchOrder adapter
     \<lparr>fo_account = toAccountConfig (qo_account req), fo_order_id = TrimSpace (qo_order_id req),
      fo_client_order_id = TrimSpace (qo_client_order_id req), fo_symbol = TrimSpace (qo_symbol req),
      fo_params = qo_params req\<rparr>) OrderBody"

section \<open>Orders and settings\<close>

definition placeAdapterOrder :: "'w HttpServer \<Rightarrow> placeAdapterOrderRequest result \<Rightarrow> ('w, HttpResponse) io" where
  "placeAdapterOrder s body = requireExchangeAdapter s (\<lambda>adapter. bindJSON body (\<lambda>req.
     bnd (attempt (PlaceOrder adapter (toPlaceOrderRequest req))) (\<lambda>r.
     bnd (case r of Inl _ \<Rightarrow> ret ()
          | Inr result \<Rightarrow> scheduleOrderReconciliation s (ql_account req) result (ql_symbol req) ''''
              (ql_client_order_id req)) (\<lambda>_.
     respondAdapterResult (map_sum id OrderBody r)))))"

definition cancelAdapterOrder :: "'w HttpServer \<Rightarrow> cancelAdapterOrderRequest result \<Rightarrow> ('w, HttpResponse) io" where
  "cancelAdapterOrder s body = requireExchangeAdapter s (\<lambda>adapter. bindJSON body (\<lambda>req.
     bnd (attempt (CancelOrder adapter \<lparr>co_account = toAccountConfig (qo_account req),
            co_order_id = TrimSpace (qo_order_id req), co_client_order_id = TrimSpace (qo_client_order_id req),
            co_symbol = TrimSpace (qo_symbol req), co_params = qo_params req\<rparr>)) (\<lambda>r.
     bnd (case r of Inl _ \<Rightarrow> ret ()
          | Inr result \<Rightarrow> scheduleOrderReconciliation s (qo_account req) result (qo_symbol req)
              (qo_order_id req) (qo_client_order_id req)) (\<lambda>_.
     respondAdapterResult (map_sum id OrderBody r)))))"

definition setAdapterLeverage :: "'w HttpServer \<Rightarrow> setAdapterLeverageRequest result \<Rightarrow> ('w, HttpResponse) io" where
  "setAdapterLeverage s body = requireExchangeAdapter s (\<lambda>adapter. bindJSON body (\<lambda>req.
     bnd (attempt (SetLeverage adapter \<lparr>sl_account = toAccountConfig (qv_account req),
            sl_symbol = TrimSpace (qv_symbol req), sl_leverage = qv_leverage req,
            sl_params = qv_params req\<rparr>)) (\<lambda>r.
     bnd (case r of Inl _ \<Rightarrow> ret ()
          | Inr result \<Rightarrow> if cr_success result
              then schedulePositionSettingVerification s (qv_account req) (qv_symbol req) (qv_leverage req) ''''
              else ret ()) (\<lambda>_.
     respondAdapterResult (map_sum id CommandBody r)))))"

definition setAdapterMarginMode :: "'w HttpServer \<Rightarrow> setAdapterMarginModeRequest result \<Rightarrow> ('w, HttpResponse) io" where
  "setAdapterMarginMode s body = requireExchangeAdapter s (\<lambda>adapter. bindJSON body (\<lambda>req.
     bnd (attempt (SetMarginMode adapter \<lparr>sm_account = toAccountConfig (qm_account req),
            sm_symbol = TrimSpace (qm_symbol req), sm_margin_mode = TrimSpace (qm_margin_mode req),
            sm_params = qm_params req\<rparr>)) (\<lambda>r.
     bnd (case r of Inl _ \<Rightarrow> ret ()
          | Inr result \<Rightarrow> if cr_success result
              then schedulePositionSettingVerification s (qm_account req) (qm_symbol req) 0 (qm_margin_mode req)
              else ret ()) (\<lambda>_.
     respondAdapterResult (map_sum id CommandBody r)))))"

section \<open>Closing every position\<close>

definition closeItem :: "PlaceOrderRequest \<Rightarrow> ExPosition \<Rightarrow> (err + OrderResult) \<Rightarrow> closeAdapterPositionResult" where
  "closeItem order position r = \<lparr>cp_item_symbol = xp_symbol position,
     cp_item_position_side = po_position_side order, cp_item_position_quantity = xp_quantity position,
     cp_item_close_side = po_side order, cp_item_close_quantity = po_quantity order,
     cp_item_order = (case r of Inl _ \<Rightarrow> None | Inr x \<Rightarrow> Some x),
     cp_item_error = (case r of Inl e \<Rightarrow> errText e | Inr _ \<Rightarrow> '''')\<rparr>"

definition countClose ::
    "PlaceOrderRequest \<Rightarrow> ExPosition \<Rightarrow> (err + OrderResult) \<Rightarrow> closeAdapterPositionsResponse \<Rightarrow>
     closeAdapterPositionsResponse" where
  "countClose order position r response =
    (let response = response\<lparr>cl_attempted_orders := cl_attempted_orders response + 1,
           cl_items := cl_items response @ [closeItem order position r]\<rparr>
     in case r of
          Inl _ \<Rightarrow> response\<lparr>cl_failed_orders := cl_failed_orders response + 1, cl_success := False\<rparr>
        | Inr _ \<Rightarrow> response\<lparr>cl_successful_orders := cl_successful_orders response + 1\<rparr>)"

fun closeEach ::
    "'w HttpServer \<Rightarrow> 'w Adapter \<Rightarrow> closeAdapterPositionsRequest \<Rightarrow> string \<Rightarrow> nat \<Rightarrow> ExPosition list \<Rightarrow>
     closeAdapterPositionsResponse \<Rightarrow> ('w, closeAdapterPositionsResponse) io" where
  "closeEach s adapter req requestID index [] response = ret response"
| "closeEach s adapter req requestID index (position # positions) response =
    (if xp_quantity position = 0 then closeEach s adapter req requestID (Suc index) positions response
     else
       let order = buildCloseAdapterOrderRequest (qc_account req) position
             (''close_'' @ requestID @ ''_'' @ showNat (index + 1)) (qc_exchange_order_params req)
       in bnd (attempt (PlaceOrder adapter order)) (\<lambda>r.
          bnd (case r of Inl _ \<Rightarrow> ret ()
               | Inr result \<Rightarrow> scheduleOrderReconciliation s (qc_account req) result (xp_symbol position) ''''
                   (po_client_order_id order)) (\<lambda>_.
          closeEach s adapter req requestID (Suc index) positions (countClose order position r response))))"

definition startClose :: "ExPosition list \<Rightarrow> closeAdapterPositionsResponse" where
  "startClose positions = \<lparr>cl_success = True, cl_fetched_positions = length positions, cl_attempted_orders = 0,
     cl_successful_orders = 0, cl_failed_orders = 0, cl_items = []\<rparr>"

definition closeAdapterPositions :: "'w HttpServer \<Rightarrow> closeAdapterPositionsRequest result \<Rightarrow> ('w, HttpResponse) io" where
  "closeAdapterPositions s body = requireExchangeAdapter s (\<lambda>adapter. bindJSON body (\<lambda>req.
     if \<not> qc_confirm_close req then respondError StatusBadRequest (ErrMsg ''confirm_close must be true'')
     else bnd (attempt (FetchPositions adapter \<lparr>fp_account = toAccountConfig (qc_account req),
                  fp_symbols = cleanStringSlice (qc_symbols req), fp_params = qc_params req\<rparr>)) (\<lambda>fetched.
          case fetched of
            Inl e \<Rightarrow> respondAdapterResult (Inl e)
          | Inr positions \<Rightarrow>
              bnd (sr_clock s) (\<lambda>now.
              bnd (closeEach s adapter req (showInt (UnixNano now)) 0 positions (startClose positions)) (\<lambda>response.
              respondJSON StatusOK (CloseBody response))))))"

end
