(* ===== verification/HttpAccounts.thy ===== *)
theory HttpAccounts
  imports HttpAdapter "HOL-Library.Sublist"
begin

text \<open>
  The handlers of \<open>internal/httpapi/exchange_accounts.go\<close> and \<open>internal/httpapi/exchange_markets.go\<close>: the
  management of exchange accounts, whose stored credentials never leave the server, and the market catalogue.
\<close>

section \<open>Errors and parameters\<close>

text \<open>\<open>strings.Contains\<close>\<close>

definition Contains :: "string \<Rightarrow> string \<Rightarrow> bool" where
  "Contains s part = list_ex (\<lambda>t. prefix part t) (suffixes s)"

definition managementErrorStatus :: "err \<Rightarrow> nat" where
  "managementErrorStatus e =
    (if errIs e ErrNotFound then StatusNotFound else if errIs e ErrInvalidConfig then StatusBadRequest
     else if Contains (errText e) ''duplicate key'' then StatusConflict else StatusInternalServerError)"

definition respondManagementError :: "err \<Rightarrow> ('w, HttpResponse) io" where
  "respondManagementError e = respondError (managementErrorStatus e) e"

definition parseUintParam :: "string \<Rightarrow> string \<Rightarrow> (nat \<Rightarrow> ('w, HttpResponse) io) \<Rightarrow> ('w, HttpResponse) io" where
  "parseUintParam name raw handler = (case ParseUint64 raw of
     Ok i \<Rightarrow> if i = 0 then respondError StatusBadRequest (ErrMsg (''invalid '' @ name)) else handler i
   | _ \<Rightarrow> respondError StatusBadRequest (ErrMsg (''invalid '' @ name)))"

text \<open>What \<open>json.Unmarshal\<close> says about malformed metadata is an external error.\<close>

definition normalizeMetadata :: "string \<Rightarrow> string result" where
  "normalizeMetadata raw =
    (if raw = '''' then Ok ''{}''
     else case jsonKind raw of
       None \<Rightarrow> Err (ErrExternal ''invalid JSON'')
     | Some k \<Rightarrow> if k = JsonObject then Ok raw else Err (ErrMsg ''metadata must be a JSON object''))"

section \<open>Accounts\<close>

definition accountFor :: "createExchangeAccountRequest \<Rightarrow> string \<Rightarrow> string \<Rightarrow> ExchangeAccount" where
  "accountFor req allowedSymbols metadata = \<lparr>ea_id = 0, ea_agent_id = 0, ea_exchange = qa_exchange req,
     ea_name = qa_name req, ea_ccxt_id = qa_ccxt_id req, ea_market_type = qa_market_type req,
     ea_sandbox = (case qa_sandbox req of None \<Rightarrow> True | Some b \<Rightarrow> b),
     ea_default_settle = qa_default_settle req, ea_account_type = qa_account_type req,
     ea_product_type = qa_product_type req, ea_category = qa_category req,
     ea_position_mode = qa_position_mode req, ea_margin_mode = qa_margin_mode req,
     ea_recv_window_ms = qa_recv_window_ms req, ea_rate_limit_ms = qa_rate_limit_ms req,
     ea_allowed_symbols = allowedSymbols, ea_api_key_encrypted = qa_api_key_encrypted req,
     ea_api_key_hint = qa_api_key_hint req, ea_api_secret_encrypted = qa_api_secret_encrypted req,
     ea_passphrase_encrypted = qa_passphrase_encrypted req, ea_status = qa_status req,
     ea_is_primary = qa_is_primary req, ea_metadata = metadata\<rparr>"

definition toModel :: "createExchangeAccountRequest \<Rightarrow> ExchangeAccount result" where
  "toModel req =
     rbind (BuildAllowedSymbolsJSON (qa_allowed_symbols req)) (\<lambda>allowedSymbols.
     rbind (normalizeMetadata (qa_metadata req)) (\<lambda>metadata.
     PrepareExchangeAccountForSave (accountFor req allowedSymbols metadata)))"

text \<open>\<open>if p != nil { x, err := f( *p ); ...; patch.X = &x }\<close>\<close>

definition patchField :: "('a \<Rightarrow> 'b result) \<Rightarrow> 'a option \<Rightarrow> 'b option result" where
  "patchField f p = (case p of None \<Rightarrow> Ok None | Some x \<Rightarrow> rbind (f x) (\<lambda>y. Ok (Some y)))"

definition toPatch :: "updateExchangeAccountRequest \<Rightarrow> ExchangeAccountPatch result" where
  "toPatch req =
     rbind (patchField BuildAllowedSymbolsJSON (qu_allowed_symbols req)) (\<lambda>allowedSymbols.
     rbind (patchField normalizeMetadata (qu_metadata req)) (\<lambda>metadata.
     Ok \<lparr>pt_exchange = qu_exchange req, pt_name = qu_name req, pt_ccxt_id = qu_ccxt_id req,
         pt_market_type = qu_market_type req, pt_sandbox = qu_sandbox req,
         pt_default_settle = qu_default_settle req, pt_account_type = qu_account_type req,
         pt_product_type = qu_product_type req, pt_category = qu_category req,
         pt_position_mode = qu_position_mode req, pt_margin_mode = qu_margin_mode req,
         pt_recv_window_ms = qu_recv_window_ms req, pt_rate_limit_ms = qu_rate_limit_ms req,
         pt_allowed_symbols = allowedSymbols, pt_api_key_encrypted = qu_api_key_encrypted req,
         pt_api_key_hint = qu_api_key_hint req, pt_api_secret_encrypted = qu_api_secret_encrypted req,
         pt_passphrase_encrypted = qu_passphrase_encrypted req, pt_status = qu_status req,
         pt_is_primary = qu_is_primary req, pt_metadata = metadata\<rparr>))"

definition toExchangeAccountResponse :: "ExchangeAccount \<Rightarrow> exchangeAccountResponse" where
  "toExchangeAccountResponse account = \<lparr>va_id = ea_id account, va_exchange = ea_exchange account,
     va_name = ea_name account, va_ccxt_id = ea_ccxt_id account, va_market_type = ea_market_type account,
     va_sandbox = ea_sandbox account, va_default_settle = ea_default_settle account,
     va_account_type = ea_account_type account, va_product_type = ea_product_type account,
     va_category = ea_category account, va_position_mode = ea_position_mode account,
     va_margin_mode = ea_margin_mode account, va_recv_window_ms = ea_recv_window_ms account,
     va_rate_limit_ms = ea_rate_limit_ms account,
     va_allowed_symbols = (if ea_allowed_symbols account = '''' then ''[]'' else ea_allowed_symbols account),
     va_api_key_set = (ea_api_key_encrypted account \<noteq> ''''),
     va_api_secret_set = (ea_api_secret_encrypted account \<noteq> ''''),
     va_passphrase_set = (ea_passphrase_encrypted account \<noteq> ''''),
     va_passphrase_required = PassphraseRequired account, va_api_key_hint = ea_api_key_hint account,
     va_credential_status = CredentialStatus account, va_status = ea_status account,
     va_is_primary = ea_is_primary account,
     va_metadata = (if ea_metadata account = '''' then ''{}'' else ea_metadata account)\<rparr>"

definition respondAccount :: "nat \<Rightarrow> ExchangeAccount \<Rightarrow> ('w, HttpResponse) io" where
  "respondAccount status account = respondJSON status (AccountBody (toExchangeAccountResponse account))"

definition createExchangeAccount ::
    "'w HttpServer \<Rightarrow> createExchangeAccountRequest result \<Rightarrow> ('w, HttpResponse) io" where
  "createExchangeAccount s body = bindJSON body (\<lambda>req. bindJSON (toModel req) (\<lambda>account.
     answer (onManagement s (\<lambda>m. ma_CreateExchangeAccount m account)) respondManagementError
       (respondAccount StatusCreated)))"

definition listExchangeAccounts :: "'w HttpServer \<Rightarrow> ('w, HttpResponse) io" where
  "listExchangeAccounts s = answer (onManagement s ma_ListExchangeAccounts) respondManagementError
     (\<lambda>accounts. respondJSON StatusOK (AccountsBody (map toExchangeAccountResponse accounts)))"

definition listExchangeAccountOptions :: "('w, HttpResponse) io" where
  "listExchangeAccountOptions = respondJSON StatusOK (OptionsBody SupportedExchangeDefaults)"

definition getExchangeAccount :: "'w HttpServer \<Rightarrow> string \<Rightarrow> ('w, HttpResponse) io" where
  "getExchangeAccount s rawID = parseUintParam ''id'' rawID (\<lambda>i.
     answer (onManagement s (\<lambda>m. ma_GetExchangeAccount m i)) respondManagementError (respondAccount StatusOK))"

definition updateExchangeAccount ::
    "'w HttpServer \<Rightarrow> string \<Rightarrow> updateExchangeAccountRequest result \<Rightarrow> ('w, HttpResponse) io" where
  "updateExchangeAccount s rawID body = parseUintParam ''id'' rawID (\<lambda>i.
     bindJSON body (\<lambda>req. bindJSON (toPatch req) (\<lambda>patch.
     answer (onManagement s (\<lambda>m. ma_UpdateExchangeAccount m i patch)) respondManagementError
       (respondAccount StatusOK))))"

definition deleteExchangeAccount :: "'w HttpServer \<Rightarrow> string \<Rightarrow> ('w, HttpResponse) io" where
  "deleteExchangeAccount s rawID = parseUintParam ''id'' rawID (\<lambda>i.
     answer (onManagement s (\<lambda>m. ma_DeleteExchangeAccount m i)) respondManagementError
       (\<lambda>_. respondJSON StatusNoContent NoBody))"

definition setPrimaryExchangeAccount :: "'w HttpServer \<Rightarrow> string \<Rightarrow> ('w, HttpResponse) io" where
  "setPrimaryExchangeAccount s rawID = parseUintParam ''id'' rawID (\<lambda>i.
     answer (onManagement s (\<lambda>m. ma_SetPrimaryExchangeAccount m i)) respondManagementError
       (respondAccount StatusOK))"

section \<open>Markets\<close>

definition requireManagementRepo ::
    "'w HttpServer \<Rightarrow> ('w ManagementRepo \<Rightarrow> ('w, HttpResponse) io) \<Rightarrow> ('w, HttpResponse) io" where
  "requireManagementRepo s handler = (case sr_mgmt s of
     None \<Rightarrow> respondError StatusServiceUnavailable (ErrMsg ''management repository is not configured'')
   | Some m \<Rightarrow> handler m)"

definition resolveExchangeEnv :: "string \<Rightarrow> string \<Rightarrow> string result" where
  "resolveExchangeEnv environment value =
    (let v0 = ToLower (TrimSpace value);
         v = (if v0 = '''' then ToLower (TrimSpace environment) else v0)
     in if v = '''' then Ok ExchangeEnvPaper
        else if v \<in> {ExchangeEnvPaper, ExchangeEnvLive} then Ok v
        else Err (ErrMsg ''exchange_env must be paper or live''))"

text \<open>\<open>strconv.Atoi\<close> on a 64-bit platform; an error gives zero.\<close>

definition parseLimitQuery :: "string \<Rightarrow> int" where
  "parseLimitQuery raw = (case ParseInt64 (TrimSpace raw) of Ok n \<Rightarrow> n | _ \<Rightarrow> 0)"

text \<open>\<open>strconv.ParseBool\<close>\<close>

definition ParseBool :: "string \<Rightarrow> bool option" where
  "ParseBool s = (if s \<in> set [''1'', ''t'', ''T'', ''TRUE'', ''true'', ''True''] then Some True
     else if s \<in> set [''0'', ''f'', ''F'', ''FALSE'', ''false'', ''False''] then Some False else None)"

definition toExchangeMarketResponse :: "'w HttpServer \<Rightarrow> ExchangeMarket \<Rightarrow> exchangeMarketResponse" where
  "toExchangeMarketResponse s market = \<lparr>vm_market = market,
     vm_price_precision = sr_decString s (em_price_precision market),
     vm_amount_precision = sr_decString s (em_amount_precision market),
     vm_min_amount = sr_decString s (em_min_amount market), vm_min_cost = sr_decString s (em_min_cost market),
     vm_contract_size = sr_decString s (em_contract_size market),
     vm_fetched_at = formatRFC3339Nano (em_fetched_at market),
     vm_created_at = formatRFC3339Nano (em_created_at market),
     vm_updated_at = formatRFC3339Nano (em_updated_at market)\<rparr>"

definition syncExchangeMarkets ::
    "'w HttpServer \<Rightarrow> syncExchangeMarketsRequest result \<Rightarrow> ('w, HttpResponse) io" where
  "syncExchangeMarkets s body = requireExchangeAdapter s (\<lambda>adapter. requireManagementRepo s (\<lambda>m.
     bindJSON body (\<lambda>req. bindJSON (resolveExchangeEnv (sr_exchange_env s) (qs_exchange_env req)) (\<lambda>exchangeEnv.
     let syncer = NewMarketSyncService (Some (ma_markets m)) (Some adapter) exchangeEnv
           (case sr_symbolAllowlist s of None \<Rightarrow> [] | Some p \<Rightarrow> [p]) (sr_rawJSON s) (sr_clock s)
     in answer (SyncAccount syncer \<lparr>mi_account = toAccountConfig (qs_account req), mi_exchange_env = exchangeEnv,
                 mi_params = qs_params req\<rparr>)
          (\<lambda>e. if errIs e ErrMarketSyncStore then respondManagementError e else respondAdapterResult (Inl e))
          (\<lambda>result. respondJSON StatusOK (MarketSyncBody \<lparr>vs_synced = sr_synced result,
             vs_preview = map (toExchangeMarketResponse s) (take 50 (sr_markets result))\<rparr>))))))"

record marketQuery =
  mq_exchange :: string
  mq_ccxt_id :: string
  mq_market_type :: string
  mq_settle_asset :: string
  mq_symbol :: string
  mq_normalized_symbol :: string
  mq_limit :: string
  mq_exchange_env :: string
  mq_active :: string

text \<open>An absent query parameter is the empty string.\<close>

definition marketFilter :: "string \<Rightarrow> marketQuery \<Rightarrow> ExchangeMarketFilter result" where
  "marketFilter environment q =
    (let given = TrimSpace (mq_exchange_env q)
     in rbind (if given = '''' then Ok '''' else resolveExchangeEnv environment given) (\<lambda>exchangeEnv.
        let rawActive = TrimSpace (mq_active q)
        in rbind (if rawActive = '''' then Ok None
                  else case ParseBool rawActive of
                         None \<Rightarrow> Err (ErrMsg ''active must be true or false'') | Some b \<Rightarrow> Ok (Some b)) (\<lambda>active.
           Ok \<lparr>ef_exchange = mq_exchange q, ef_ccxt_id = mq_ccxt_id q, ef_exchange_env = exchangeEnv,
               ef_market_type = mq_market_type q, ef_settle_asset = mq_settle_asset q,
               ef_symbol = mq_symbol q, ef_normalized_symbol = mq_normalized_symbol q, ef_active = active,
               ef_limit = parseLimitQuery (mq_limit q)\<rparr>)))"

definition listExchangeMarkets :: "'w HttpServer \<Rightarrow> marketQuery \<Rightarrow> ('w, HttpResponse) io" where
  "listExchangeMarkets s q = requireManagementRepo s (\<lambda>m.
     bindJSON (marketFilter (sr_exchange_env s) q) (\<lambda>filter.
     answer (ma_ListExchangeMarkets m filter) respondManagementError
       (\<lambda>markets. respondJSON StatusOK (CatalogueBody (map (toExchangeMarketResponse s) markets)))))"

end
