(* ===== verification/HttpRoutes.thy ===== *)
theory HttpRoutes
  imports HttpApi HttpAccounts
begin

text \<open>
  The routes of \<open>internal/httpapi/server.go\<close> and the middleware around them: a request is one constructor per
  route, carrying what the handler reads of it; the recovery of gin around them is a parameter. The metrics
  endpoint and the metrics middleware are left out. The main lemma says that every request is answered, and
  that a status tells an error from a result.
\<close>

datatype request =
    GetIndex
  | GetHealthz
  | PostExchangeAccount "createExchangeAccountRequest result"
  | GetExchangeAccounts
  | GetExchangeAccountOptions
  | GetAccountByID string
  | PatchExchangeAccount string "updateExchangeAccountRequest result"
  | DeleteAccountByID string
  | PostPrimary string
  | GetExchangeMarkets marketQuery
  | PostExchangeMarketsSync "syncExchangeMarketsRequest result"
  | PostFetchBalance "fetchAdapterBalanceRequest result"
  | PostFetchPositions "fetchAdapterPositionsRequest result"
  | PostClosePositions "closeAdapterPositionsRequest result"
  | PostFetchTicker "fetchAdapterTickerRequest result"
  | PostFetchMarkets "fetchAdapterMarketsRequest result"
  | PostPlaceOrder "placeAdapterOrderRequest result"
  | PostFetchOrder "fetchAdapterOrderRequest result"
  | PostCancelOrder "cancelAdapterOrderRequest result"
  | PostSetLeverage "setAdapterLeverageRequest result"
  | PostSetMarginMode "setAdapterMarginModeRequest result"
  | PostHedgeConfig "createHedgeConfigRequest result"
  | GetHedgeConfigs
  | PostExposure "UpsertExposureInput result"
  | PostExposuresSync
  | PostPosition "UpsertPositionInput result"
  | PostPositionsSync
  | GetHedgeMonitor string
  | PostHedgeMonitorRefresh
  | PostHedgeRun "RunInput result"
  | PostHedgeExit "ExitInput result"
  | PostHedgeEnqueue "RunInput result"
  | GetAuditEvents string

fun routes :: "'w HttpServer \<Rightarrow> request \<Rightarrow> ('w, HttpResponse) io" where
  "routes s GetIndex = serveIndexHTML s"
| "routes s GetHealthz = respondJSON StatusOK (StatusBody ''ok'')"
| "routes s (PostExchangeAccount body) = createExchangeAccount s body"
| "routes s GetExchangeAccounts = listExchangeAccounts s"
| "routes s GetExchangeAccountOptions = listExchangeAccountOptions"
| "routes s (GetAccountByID i) = getExchangeAccount s i"
| "routes s (PatchExchangeAccount i body) = updateExchangeAccount s i body"
| "routes s (DeleteAccountByID i) = deleteExchangeAccount s i"
| "routes s (PostPrimary i) = setPrimaryExchangeAccount s i"
| "routes s (GetExchangeMarkets q) = listExchangeMarkets s q"
| "routes s (PostExchangeMarketsSync body) = syncExchangeMarkets s body"
| "routes s (PostFetchBalance body) = fetchAdapterBalance s body"
| "routes s (PostFetchPositions body) = fetchAdapterPositions s body"
| "routes s (PostClosePositions body) = closeAdapterPositions s body"
| "routes s (PostFetchTicker body) = fetchAdapterTicker s body"
| "routes s (PostFetchMarkets body) = fetchAdapterMarkets s body"
| "routes s (PostPlaceOrder body) = placeAdapterOrder s body"
| "routes s (PostFetchOrder body) = fetchAdapterOrder s body"
| "routes s (PostCancelOrder body) = cancelAdapterOrder s body"
| "routes s (PostSetLeverage body) = setAdapterLeverage s body"
| "routes s (PostSetMarginMode body) = setAdapterMarginMode s body"
| "routes s (PostHedgeConfig body) = createHedgeConfig s body"
| "routes s GetHedgeConfigs = listHedgeConfigs s"
| "routes s (PostExposure body) = upsertExposure s body"
| "routes s PostExposuresSync = syncExposuresHandler s"
| "routes s (PostPosition body) = upsertPosition s body"
| "routes s PostPositionsSync = syncPositionsHandler s"
| "routes s (GetHedgeMonitor agentID) = listHedgeMonitor s agentID"
| "routes s PostHedgeMonitorRefresh = refreshHedgeMonitor s"
| "routes s (PostHedgeRun body) = runHedge s body"
| "routes s (PostHedgeExit body) = exitHedge s body"
| "routes s (PostHedgeEnqueue body) = enqueueHedge s body"
| "routes s (GetAuditEvents limit) = listAuditEvents s limit"

text \<open>The router runs a handler under the recovery of gin, a parameter: as documented, it turns a panic into an
  empty response with status 500 and leaves every other outcome alone.\<close>

definition ServeHTTP ::
    "(('w, HttpResponse) io \<Rightarrow> ('w, HttpResponse) io) \<Rightarrow> 'w HttpServer \<Rightarrow> request \<Rightarrow> ('w, HttpResponse) io" where
  "ServeHTTP recovery s req = recovery (routes s req)"

definition recovers :: "(('w, HttpResponse) io \<Rightarrow> ('w, HttpResponse) io) \<Rightarrow> bool" where
  "recovers recovery \<longleftrightarrow> (\<forall>m w. recovery m w = (case m w of
     (Panic, w') \<Rightarrow> (Ok \<lparr>hr_status = StatusInternalServerError, hr_body = NoBody\<rparr>, w')
   | other \<Rightarrow> other))"

section \<open>Every request is answered\<close>

text \<open>What a handler sends is an error with an error status, or a result with a status of success.\<close>

definition proper :: "HttpResponse \<Rightarrow> bool" where
  "proper r \<longleftrightarrow> (case hr_body r of
     ErrorBody _ \<Rightarrow> hr_status r \<in> {400, 404, 409, 500, 502, 503}
   | _ \<Rightarrow> hr_status r \<in> {200, 201, 202, 204})"

definition answersProperly :: "('w, HttpResponse) io \<Rightarrow> bool" where
  "answersProperly m \<longleftrightarrow> (\<forall>w. (\<exists>r. fst (m w) = Ok r \<and> proper r) \<or> fst (m w) = Panic)"

definition neverFails :: "('w, 'a) io \<Rightarrow> bool" where
  "neverFails m \<longleftrightarrow> (\<forall>w e. fst (m w) \<noteq> Err e)"

named_theorems answering \<open>rules for the handlers that answer\<close>

lemma neverFails_attempt [answering]: "neverFails (attempt m)"
  by (simp add: neverFails_def attempt_def split: prod.split result.split)

lemma neverFails_ret [answering]: "neverFails (ret x)"
  by (simp add: neverFails_def ret_def)

lemma neverFails_ignore [answering]: "neverFails (ignore m)"
  by (simp add: neverFails_def ignore_def bnd_def attempt_def ret_def split: prod.split result.split)

lemma neverFails_cases:
  assumes "neverFails m"
  obtains x v where "m w = (Ok x, v)" | v where "m w = (Panic, v)"
  using assms unfolding neverFails_def by (cases "m w"; cases "fst (m w)") (auto dest: spec [of _ w])

lemma neverFails_bnd [answering]:
  assumes "neverFails m" "\<And>x. neverFails (f x)"
  shows "neverFails (bnd m f)"
  unfolding neverFails_def
proof (intro allI)
  fix w e
  show "fst (bnd m f w) \<noteq> Err e"
    using assms(2) by (cases rule: neverFails_cases [OF assms(1), of w]) (auto simp: bnd_def neverFails_def)
qed

lemma neverFails_branches [answering]:
  "(\<And>e. neverFails (h e)) \<Longrightarrow> (\<And>y. neverFails (f y)) \<Longrightarrow> neverFails (case x of Inl e \<Rightarrow> h e | Inr y \<Rightarrow> f y)"
  "neverFails m \<Longrightarrow> neverFails m' \<Longrightarrow> neverFails (if b then m else m')"
  by (cases x) auto

lemma answers_bnd [answering]:
  assumes "neverFails m" "\<And>x. answersProperly (f x)"
  shows "answersProperly (bnd m f)"
  unfolding answersProperly_def
proof
  fix w
  show "(\<exists>r. fst (bnd m f w) = Ok r \<and> proper r) \<or> fst (bnd m f w) = Panic"
    using assms(2) by (cases rule: neverFails_cases [OF assms(1), of w]) (auto simp: bnd_def answersProperly_def)
qed

lemma answers_json [answering]:
  "proper \<lparr>hr_status = status, hr_body = body\<rparr> \<Longrightarrow> answersProperly (respondJSON status body)"
  by (simp add: answersProperly_def respondJSON_def ret_def)

lemma answers_error [answering]:
  "status \<in> {400, 404, 409, 500, 502, 503} \<Longrightarrow> answersProperly (respondError status e)"
  by (simp add: answersProperly_def respondError_def respondJSON_def ret_def proper_def)

lemma answers_panic [answering]: "answersProperly panic"
  by (simp add: answersProperly_def panic_def)

lemma answers_case_sum [answering]:
  "(\<And>e. answersProperly (h e)) \<Longrightarrow> (\<And>y. answersProperly (f y)) \<Longrightarrow>
   answersProperly (case x of Inl e \<Rightarrow> h e | Inr y \<Rightarrow> f y)"
  by (cases x) auto

lemma answers_case_option [answering]:
  "answersProperly m \<Longrightarrow> (\<And>y. answersProperly (f y)) \<Longrightarrow>
   answersProperly (case x of None \<Rightarrow> m | Some y \<Rightarrow> f y)"
  by (cases x) auto

lemma answers_case_result [answering]:
  "(\<And>y. answersProperly (f y)) \<Longrightarrow> (\<And>e. answersProperly (h e)) \<Longrightarrow> answersProperly p \<Longrightarrow>
   answersProperly (case x of Ok y \<Rightarrow> f y | Err e \<Rightarrow> h e | Panic \<Rightarrow> p)"
  by (cases x) auto

lemma answers_if [answering]:
  "answersProperly m \<Longrightarrow> answersProperly m' \<Longrightarrow> answersProperly (if b then m else m')"
  by simp

lemma answers_bind [answering]: "(\<And>x. answersProperly (f x)) \<Longrightarrow> answersProperly (bindJSON body f)"
  unfolding bindJSON_def by (intro answering) (simp_all add: status_defs)

lemma answers_answer [answering]:
  "(\<And>e. answersProperly (h e)) \<Longrightarrow> (\<And>x. answersProperly (f x)) \<Longrightarrow> answersProperly (answer m h f)"
  unfolding answer_def by (intro answering)

lemma answers_param [answering]: "(\<And>i. answersProperly (f i)) \<Longrightarrow> answersProperly (parseUintParam n raw f)"
  unfolding parseUintParam_def by (intro answering) (simp_all add: status_defs)

lemma answers_adapter [answering]: "(\<And>a. answersProperly (f a)) \<Longrightarrow> answersProperly (requireExchangeAdapter s f)"
  unfolding requireExchangeAdapter_def by (intro answering) (simp_all add: status_defs)

lemma answers_repo [answering]: "(\<And>m. answersProperly (f m)) \<Longrightarrow> answersProperly (requireManagementRepo s f)"
  unfolding requireManagementRepo_def by (intro answering) (simp_all add: status_defs)

lemma answers_management [answering]: "answersProperly (respondManagementError e)"
  unfolding respondManagementError_def managementErrorStatus_def by (intro answering) (simp add: status_defs)

lemma answers_result:
  "(\<And>body. r = Inr body \<Longrightarrow> \<forall>m. body \<noteq> ErrorBody m) \<Longrightarrow> answersProperly (respondAdapterResult r)"
  by (cases r) (auto simp: respondAdapterResult_def adapterErrorStatus_def status_defs proper_def
      split: responseBody.split intro!: answers_json answers_error)

lemma answers_account [answering]: "status \<in> {200, 201} \<Longrightarrow> answersProperly (respondAccount status a)"
  unfolding respondAccount_def by (intro answering) (auto simp: proper_def)

lemma neverFails_schedule_failure [answering]: "neverFails (RecordScheduleFailure rc op smb e)"
  unfolding RecordScheduleFailure_def reconciliationAudit_def
  by (cases e; cases "xs_core rc") (auto intro: answering)

lemma neverFails_scheduling [answering]:
  "neverFails (scheduleOrderReconciliation s a r smb f1 f2)"
  "neverFails (schedulePositionSettingVerification s a smb l m)"
  unfolding scheduleOrderReconciliation_def schedulePositionSettingVerification_def Let_def
  by (auto split: option.split sum.split prod.split intro!: answering)

lemma neverFails_closeEach:
  "neverFails (closeEach s adapter req requestID index positions response)"
proof (induction positions arbitrary: index response)
  case (Cons p positions)
  then show ?case
    by (auto simp: Let_def split: sum.split intro!: answering)
qed (simp add: neverFails_ret)


text \<open>Reading the clock does not fail.\<close>

definition clockWorks :: "'w HttpServer \<Rightarrow> bool" where
  "clockWorks s \<longleftrightarrow> neverFails (sr_clock s)"

lemmas handler_defs = serveIndexHTML_def createExchangeAccount_def listExchangeAccounts_def
  listExchangeAccountOptions_def getExchangeAccount_def updateExchangeAccount_def deleteExchangeAccount_def
  setPrimaryExchangeAccount_def listExchangeMarkets_def syncExchangeMarkets_def createHedgeConfig_def
  listHedgeConfigs_def upsertExposure_def syncExposuresHandler_def upsertPosition_def syncPositionsHandler_def
  listHedgeMonitor_def refreshHedgeMonitor_def runHedge_def exitHedge_def enqueueHedge_def listAuditEvents_def

lemmas adapter_defs = fetchAdapterBalance_def fetchAdapterPositions_def closeAdapterPositions_def
  fetchAdapterTicker_def fetchAdapterMarkets_def placeAdapterOrder_def fetchAdapterOrder_def
  cancelAdapterOrder_def setAdapterLeverage_def setAdapterMarginMode_def askAdapter_def

lemma map_sum_Inr: "map_sum id wrap r = Inr body \<Longrightarrow> \<exists>x. body = wrap x"
  by (cases r) auto

lemma answers_wrapped [answering]:
  "(\<And>x m. wrap x \<noteq> ErrorBody m) \<Longrightarrow> answersProperly (respondAdapterResult (map_sum id wrap r))"
  by (rule answers_result) (metis map_sum_Inr)

lemma answers_failed [answering]: "answersProperly (respondAdapterResult (Inl e))"
  by (rule answers_result) simp

lemma answers_routes:
  assumes "clockWorks s"
  shows "answersProperly (routes s req)"
proof (cases req)
  case (PostClosePositions body)
  have "neverFails (sr_clock s)" using assms by (simp add: clockWorks_def)
  then show ?thesis
    unfolding PostClosePositions routes.simps closeAdapterPositions_def
    by (intro answering neverFails_closeEach) (simp_all add: status_defs proper_def)
qed (simp only: routes.simps handler_defs adapter_defs Let_def; (intro answering)?;
    (simp add: status_defs proper_def runErrorStatus_def exitStatus_def split: option.split)?)+

end
