(* ===== verification/Schedulers.thy ===== *)
theory Schedulers
  imports ExposureSync PositionSync MarketSync MgmtStore
begin

text \<open>
  The periodic jobs (\<open>internal/scheduler\<close>): the hedge scheduler, which puts a run of every enabled configuration into
  the queue, and the three that call a synchronisation and log what it did. \<open>cron\<close> is the registration of a
  job with gocron; a \<open>Start\<close> answers with the runs it begins at once, next to the registered job. Logs, metrics and
  the goroutines that stop the cron are left out.
\<close>

section \<open>Jobs\<close>

definition hour :: duration where "hour = 60 * minute"

record 'w CronJob =
  cj_interval :: duration
  cj_singleton :: bool
  cj_run :: "('w, unit) io"

type_synonym 'w cron = "'w CronJob \<Rightarrow> ('w, unit) io"
type_synonym 'w started = "('w, unit) io list"

definition intervalOr :: "duration \<Rightarrow> duration \<Rightarrow> duration" where
  "intervalOr fallback interval = (if interval \<le> 0 then fallback else interval)"

section \<open>The hedge scheduler\<close>

record 'w HedgeScheduler =
  sc_repo :: "('w, HedgeConfig list) io"
  sc_enqueuer :: "'w Enqueuer"

fun enqueueConfigs :: "'w Enqueuer \<Rightarrow> HedgeConfig list \<Rightarrow> ('w, unit) io" where
  "enqueueConfigs e [] = ret ()"
| "enqueueConfigs e (config # configs) =
     bnd (ignore (EnqueueRunHedge e \<lparr>ri_config_id = cf_id config, ri_source = '''', ri_symbol = '''',
            ri_reason = ''''\<rparr>)) (\<lambda>_.
     enqueueConfigs e configs)"

definition enqueueEnabledConfigs :: "'w HedgeScheduler \<Rightarrow> ('w, unit) io" where
  "enqueueEnabledConfigs s = bnd (attempt (sc_repo s)) (\<lambda>listed. case listed of
     Inl _ \<Rightarrow> ret ()
   | Inr configs \<Rightarrow> enqueueConfigs (sc_enqueuer s) configs)"

definition startHedgeScheduler :: "'w cron \<Rightarrow> 'w HedgeScheduler \<Rightarrow> duration \<Rightarrow> ('w, 'w started) io" where
  "startHedgeScheduler cron s interval =
     bnd (cron \<lparr>cj_interval = intervalOr minute interval, cj_singleton = False,
       cj_run = enqueueEnabledConfigs s\<rparr>) (\<lambda>_. ret [])"

section \<open>The synchronisations\<close>

text \<open>A syncer is the method the scheduler calls, or none.\<close>

definition startExposureSync ::
    "'w cron \<Rightarrow> ('w, ExposureSyncBatchResult) io option \<Rightarrow> duration \<Rightarrow> ('w, 'w started) io" where
  "startExposureSync cron syncer interval = (case syncer of
     None \<Rightarrow> throw (ErrMsg ''exposure syncer is not configured'')
   | Some sync \<Rightarrow> bnd (cron \<lparr>cj_interval = intervalOr (30 * second) interval, cj_singleton = True,
       cj_run = ignore sync\<rparr>) (\<lambda>_. ret [ignore sync]))"

definition startMarketSync ::
    "'w cron \<Rightarrow> ('w, MarketSyncBatchResult) io option \<Rightarrow> duration \<Rightarrow> ('w, 'w started) io" where
  "startMarketSync cron syncer interval = (case syncer of
     None \<Rightarrow> throw (ErrMsg ''market syncer is not configured'')
   | Some sync \<Rightarrow> bnd (cron \<lparr>cj_interval = intervalOr (6 * hour) interval, cj_singleton = True,
       cj_run = ignore sync\<rparr>) (\<lambda>_. ret []))"

definition startPositionSync ::
    "'w cron \<Rightarrow> ('w, PositionSyncBatchResult) io option \<Rightarrow> duration \<Rightarrow> ('w, 'w started) io" where
  "startPositionSync cron syncer interval = (case syncer of
     None \<Rightarrow> throw (ErrMsg ''position syncer is not configured'')
   | Some sync \<Rightarrow> bnd (cron \<lparr>cj_interval = intervalOr (10 * second) interval, cj_singleton = True,
       cj_run = ignore sync\<rparr>) (\<lambda>_. ret [ignore sync]))"

end
