(* ===== verification/SchedulerRuns.thy ===== *)
theory SchedulerRuns
  imports Schedulers HedgeRuns
begin

text \<open>
  The hedge scheduler on the live repository and queue: which tasks a tick adds.
\<close>

definition liveScheduler :: "options \<Rightarrow> 'x World HedgeScheduler" where
  "liveScheduler opt = \<lparr>sc_repo = onMgmt (\<lambda>_. ListEnabledHedgeConfigs), sc_enqueuer = liveEnqueuer opt\<rparr>"

definition scheduledRun :: "HedgeConfig \<Rightarrow> AsyncTask" where
  "scheduledRun config = \<lparr>at_type = TypeRunHedge,
     at_payload = HedgePayload \<lparr>rh_config_id = cf_id config, rh_source = '''', rh_symbol = '''', rh_reason = ''''\<rparr>,
     at_queue = QueueHedge, at_delay = 0, at_max_retry = 3, at_timeout = 2 * minute, at_unique = 30 * second\<rparr>"

text \<open>Between two worlds only the queue, by the given tasks, and the schedule of faults may differ.\<close>

definition queuedOnly :: "AsyncTask list \<Rightarrow> 'x World \<Rightarrow> 'x World \<Rightarrow> bool" where
  "queuedOnly ts w w' \<longleftrightarrow> (\<exists>faults. w' = w\<lparr>w_queue := w_queue w @ ts, w_faults := faults\<rparr>)"

lemma queuedOnly_refl: "queuedOnly [] w w"
  unfolding queuedOnly_def by (rule exI [of _ "w_faults w"]) simp

lemma queuedOnly_trans: "queuedOnly xs u v \<Longrightarrow> queuedOnly ys v w \<Longrightarrow> queuedOnly (xs @ ys) u w"
  unfolding queuedOnly_def by (elim exE, hypsubst, rule exI) simp

lemma queuedOnly_faults: "queuedOnly ts (w\<lparr>w_faults := fs\<rparr>) w' \<Longrightarrow> queuedOnly ts w w'"
  unfolding queuedOnly_def by (elim exE, hypsubst, rule exI) simp

lemma same_faults: "w_faults w = fs \<Longrightarrow> w\<lparr>w_faults := fs\<rparr> = w"
  for w :: "'x World"
  by auto

lemma queueClient_queues:
  fixes w :: "'x World"
  shows "queuedOnly [] w (snd (queueClient held info task w)) \<or> queuedOnly [task] w (snd (queueClient held info task w))"
proof -
  let ?q = "\<lambda>w :: 'x World. if held (w_queue w) task then (Err ErrDuplicateTask, w)
     else (Ok (info task), w\<lparr>w_queue := w_queue w @ [task]\<rparr>)"
  have step: "queuedOnly [] w (snd (?q w)) \<or> queuedOnly [task] w (snd (?q w))" for w :: "'x World"
  proof (cases "held (w_queue w) task")
    case False
    then show ?thesis unfolding queuedOnly_def by (intro disjI2 exI [of _ "w_faults w"]) simp
  qed (simp add: queuedOnly_refl)
  show ?thesis
  proof (cases "w_faults w")
    case Nil
    with step [of w] show ?thesis by (simp add: queueClient_def faulty_def)
  next
    case (Cons f fs)
    have run: "snd (queueClient held info task w) = snd (?q (w\<lparr>w_faults := fs\<rparr>)) \<or>
        snd (queueClient held info task w) = w\<lparr>w_faults := fs\<rparr>"
      by (cases f) (simp_all add: queueClient_def faulty_def Cons Let_def)
    from run show ?thesis
    proof
      assume r: "snd (queueClient held info task w) = snd (?q (w\<lparr>w_faults := fs\<rparr>))"
      from step [of "w\<lparr>w_faults := fs\<rparr>"] show ?thesis unfolding r by (blast intro: queuedOnly_faults)
    next
      assume r: "snd (queueClient held info task w) = w\<lparr>w_faults := fs\<rparr>"
      show ?thesis unfolding r by (rule disjI1, rule queuedOnly_faults [OF queuedOnly_refl])
    qed
  qed
qed

lemma EnqueueRunHedge_queues:
  fixes w :: "'x World" and config :: HedgeConfig and opt :: options
  defines "w' \<equiv> snd (EnqueueRunHedge (liveEnqueuer opt)
      \<lparr>ri_config_id = cf_id config, ri_source = '''', ri_symbol = '''', ri_reason = ''''\<rparr> w)"
  shows "queuedOnly [] w w' \<or> queuedOnly [scheduledRun config] w w'"
  using queueClient_queues [of w "lo_held opt" "lo_taskInfo opt" "scheduledRun config"]
  by (auto simp: w'_def EnqueueRunHedge_def liveEnqueuer_def scheduledRun_def queuedOnly_refl)

lemma queueClient_free:
  "w_faults w = [] \<Longrightarrow> \<not> held (w_queue w) task \<Longrightarrow>
   queueClient held info task w = (Ok (info task), w\<lparr>w_queue := w_queue w @ [task]\<rparr>)"
  by (simp add: queueClient_def faulty_def)

lemma EnqueueRunHedge_never_panics:
  "fst (EnqueueRunHedge (liveEnqueuer opt) input w) \<noteq> Panic"
  by (auto simp: EnqueueRunHedge_def liveEnqueuer_def queueClient_def faulty_def wrapIO_def throw_def Let_def
      split: list.split fault.split if_splits)

lemma enqueueConfigs_queues:
  fixes w :: "'x World"
  shows "\<exists>ts. queuedOnly ts w (snd (enqueueConfigs (liveEnqueuer opt) configs w)) \<and>
    subseq ts (map scheduledRun configs)"
proof (induction configs arbitrary: w)
  case (Cons config configs)
  let ?m = "EnqueueRunHedge (liveEnqueuer opt)
      \<lparr>ri_config_id = cf_id config, ri_source = '''', ri_symbol = '''', ri_reason = ''''\<rparr>"
  have run: "snd (enqueueConfigs (liveEnqueuer opt) (config # configs) w) =
      snd (enqueueConfigs (liveEnqueuer opt) configs (snd (?m w)))"
    using ignore_apply_Ok [of ?m w, OF EnqueueRunHedge_never_panics] by (simp add: bnd_def)
  from Cons.IH [of "snd (?m w)"] obtain ts where
      rest: "queuedOnly ts (snd (?m w)) (snd (enqueueConfigs (liveEnqueuer opt) configs (snd (?m w))))"
      "subseq ts (map scheduledRun configs)" by blast
  from EnqueueRunHedge_queues [of w opt config] show ?case
  proof
    assume "queuedOnly [] w (snd (?m w))"
    from queuedOnly_trans [OF this rest(1)] rest(2) show ?thesis unfolding run by auto
  next
    assume "queuedOnly [scheduledRun config] w (snd (?m w))"
    from queuedOnly_trans [OF this rest(1)] rest(2) show ?thesis
      unfolding run by (intro exI [of _ "scheduledRun config # ts"]) auto
  qed
qed (auto intro: queuedOnly_refl)

text \<open>Without faults and with a queue that holds none of them, every configuration gets its run, in order.\<close>

lemma enqueueConfigs_all:
  assumes "w_faults w = []" "lo_queue opt" and free: "\<And>q c. c \<in> set configs \<Longrightarrow> \<not> lo_held opt q (scheduledRun c)"
  shows "enqueueConfigs (liveEnqueuer opt) configs w =
    (Ok (), w\<lparr>w_queue := w_queue w @ map scheduledRun configs\<rparr>)"
  using assms
proof (induction configs arbitrary: w)
  case (Cons config configs)
  have "EnqueueRunHedge (liveEnqueuer opt)
      \<lparr>ri_config_id = cf_id config, ri_source = '''', ri_symbol = '''', ri_reason = ''''\<rparr> w =
      (Ok (lo_taskInfo opt (scheduledRun config)), w\<lparr>w_queue := w_queue w @ [scheduledRun config]\<rparr>)"
    using queueClient_free [OF Cons.prems(1), of "lo_held opt" "scheduledRun config" "lo_taskInfo opt"]
      Cons.prems(3) [of config]
    by (simp add: EnqueueRunHedge_def liveEnqueuer_def Cons.prems(2) wrapIO_def scheduledRun_def)
  with Cons.IH [of "w\<lparr>w_queue := w_queue w @ [scheduledRun config]\<rparr>"] Cons.prems show ?case
    by (simp add: bnd_def ignore_def attempt_def ret_def)
qed (simp add: ret_def)

lemma tick_lists:
  fixes w :: "'x World"
  shows "(\<exists>faults. enqueueEnabledConfigs (liveScheduler opt) w = (Ok (), w\<lparr>w_faults := faults\<rparr>)) \<or>
    (\<exists>faults configs. fst (ListEnabledHedgeConfigs (w_mgmt w)) = Ok configs \<and>
       enqueueEnabledConfigs (liveScheduler opt) w = enqueueConfigs (liveEnqueuer opt) configs (w\<lparr>w_faults := faults\<rparr>))"
proof -
  let ?m = "\<lambda>w :: 'x World. case ListEnabledHedgeConfigs (w_mgmt w) of (r, db) \<Rightarrow> (r, w\<lparr>w_mgmt := db\<rparr>)"
  obtain configs where list: "ListEnabledHedgeConfigs (w_mgmt w) = (Ok configs, w_mgmt w)"
    by (simp add: ListEnabledHedgeConfigs_def)
  have run: "enqueueEnabledConfigs (liveScheduler opt) w =
      (case faulty ?m w of (Inl_or, v) \<Rightarrow> (case Inl_or of
         Ok cs \<Rightarrow> enqueueConfigs (liveEnqueuer opt) cs v | Err e \<Rightarrow> (Ok (), v) | Panic \<Rightarrow> (Panic, v)))"
    by (simp add: enqueueEnabledConfigs_def liveScheduler_def onMgmt_def bnd_def attempt_def ret_def
        split: prod.split result.split)
  show ?thesis
  proof (cases "w_faults w")
    case Nil
    then have "enqueueEnabledConfigs (liveScheduler opt) w =
        enqueueConfigs (liveEnqueuer opt) configs (w\<lparr>w_faults := []\<rparr>)"
      using list by (simp add: run faulty_def same_faults)
    with list show ?thesis by (metis fst_conv)
  next
    case (Cons f fs)
    then show ?thesis
    proof (cases f)
      case NoFault
      with Cons list have "enqueueEnabledConfigs (liveScheduler opt) w =
          enqueueConfigs (liveEnqueuer opt) configs (w\<lparr>w_faults := fs\<rparr>)"
        by (simp add: run faulty_def Let_def)
      with list show ?thesis by (metis fst_conv)
    next
      case FailBefore
      with Cons show ?thesis by (auto simp: run faulty_def Let_def)
    next
      case FailAfter
      with Cons list show ?thesis by (auto simp: run faulty_def Let_def)
    qed
  qed
qed

lemma tick_effect:
  fixes w :: "'x World"
  obtains configs runs faults where "ListEnabledHedgeConfigs (w_mgmt w) = (Ok configs, w_mgmt w)"
    "snd (enqueueEnabledConfigs (liveScheduler opt) w) = w\<lparr>w_queue := w_queue w @ runs, w_faults := faults\<rparr>"
    "subseq runs (map scheduledRun configs)"
proof -
  obtain configs where list: "ListEnabledHedgeConfigs (w_mgmt w) = (Ok configs, w_mgmt w)"
    by (simp add: ListEnabledHedgeConfigs_def)
  have "\<exists>ts. queuedOnly ts w (snd (enqueueEnabledConfigs (liveScheduler opt) w)) \<and> subseq ts (map scheduledRun configs)"
    using tick_lists [of opt w]
  proof (elim disjE exE conjE)
    fix faults
    assume "enqueueEnabledConfigs (liveScheduler opt) w = (Ok (), w\<lparr>w_faults := faults\<rparr>)"
    then show ?thesis using queuedOnly_faults [OF queuedOnly_refl] by (intro exI [of _ "[]"]) simp
  next
    fix faults cs
    assume "fst (ListEnabledHedgeConfigs (w_mgmt w)) = Ok cs"
      "enqueueEnabledConfigs (liveScheduler opt) w = enqueueConfigs (liveEnqueuer opt) cs (w\<lparr>w_faults := faults\<rparr>)"
    with list have "enqueueEnabledConfigs (liveScheduler opt) w =
        enqueueConfigs (liveEnqueuer opt) configs (w\<lparr>w_faults := faults\<rparr>)" by simp
    with enqueueConfigs_queues [of "w\<lparr>w_faults := faults\<rparr>" opt configs] show ?thesis
      using queuedOnly_faults by metis
  qed
  then show thesis using that list unfolding queuedOnly_def by blast
qed

text \<open>C36: a tick of the hedge scheduler changes nothing but the queue, to which it adds at most one hedge run for each
  configuration the repository lists as enabled, in the listed order, whatever calls fail; when none
  fails and the queue refuses none, every enabled configuration gets its run.\<close>

theorem scheduler_tick_runs_enabled:
  assumes "enqueueEnabledConfigs (liveScheduler opt) w = (r, w')"
  shows "\<exists>configs runs faults. ListEnabledHedgeConfigs (w_mgmt w) = (Ok configs, w_mgmt w) \<and>
    w' = w\<lparr>w_queue := w_queue w @ runs, w_faults := faults\<rparr> \<and> subseq runs (map scheduledRun configs) \<and>
    (w_faults w = [] \<and> lo_queue opt \<and> (\<forall>q c. \<not> lo_held opt q (scheduledRun c)) \<longrightarrow>
       r = Ok () \<and> runs = map scheduledRun configs)"
proof -
  obtain configs where list: "ListEnabledHedgeConfigs (w_mgmt w) = (Ok configs, w_mgmt w)"
    by (simp add: ListEnabledHedgeConfigs_def)
  show ?thesis
  proof (cases "w_faults w = [] \<and> lo_queue opt \<and> (\<forall>q c. \<not> lo_held opt q (scheduledRun c))")
    case True
    then have "enqueueEnabledConfigs (liveScheduler opt) w = enqueueConfigs (liveEnqueuer opt) configs w"
      using list by (simp add: enqueueEnabledConfigs_def liveScheduler_def onMgmt_def faulty_def bnd_def attempt_def)
    with True enqueueConfigs_all [of w opt configs] assms
    have "r = Ok () \<and> w' = w\<lparr>w_queue := w_queue w @ map scheduledRun configs\<rparr>" by simp
    then have "r = Ok () \<and> w' = w\<lparr>w_queue := w_queue w @ map scheduledRun configs, w_faults := w_faults w\<rparr>"
      using same_faults [of "w\<lparr>w_queue := w_queue w @ map scheduledRun configs\<rparr>" "w_faults w"] by simp
    with list show ?thesis by blast
  next
    case False
    obtain cs runs faults where "ListEnabledHedgeConfigs (w_mgmt w) = (Ok cs, w_mgmt w)"
        "snd (enqueueEnabledConfigs (liveScheduler opt) w) = w\<lparr>w_queue := w_queue w @ runs, w_faults := faults\<rparr>"
        "subseq runs (map scheduledRun cs)"
      by (rule tick_effect)
    with assms False show ?thesis by (metis snd_conv)
  qed
qed

theorem scheduler_tick_runs_enabled_witness:
  "snd (enqueueEnabledConfigs (liveScheduler (exampleOptions)) exampleWorld) =
     exampleWorld\<lparr>w_queue := [scheduledRun (preloadAccount exampleMgmt exampleHedge)]\<rparr>"
proof -
  have list: "ListEnabledHedgeConfigs exampleMgmt = (Ok [preloadAccount exampleMgmt exampleHedge], exampleMgmt)"
    by (simp add: ListEnabledHedgeConfigs_def exampleMgmt_def emptyMgmtDB_def exampleHedge_def exampleAccount_def)
  from scheduler_tick_runs_enabled [where opt = exampleOptions and w = exampleWorld, OF surjective_pairing] list
  obtain faults where "snd (enqueueEnabledConfigs (liveScheduler exampleOptions) exampleWorld) =
      exampleWorld\<lparr>w_queue := w_queue exampleWorld @ [scheduledRun (preloadAccount exampleMgmt exampleHedge)],
        w_faults := faults\<rparr>"
    by (auto simp: exampleOptions_def)
  moreover have "w_faults (snd (enqueueEnabledConfigs (liveScheduler exampleOptions) exampleWorld)) = []"
  proof -
    have free: "w_faults exampleWorld = []" "lo_queue exampleOptions"
        "\<And>q c. \<not> lo_held exampleOptions q (scheduledRun c)"
      by (simp_all add: exampleOptions_def)
    have "enqueueEnabledConfigs (liveScheduler exampleOptions) exampleWorld =
        enqueueConfigs (liveEnqueuer exampleOptions) [preloadAccount exampleMgmt exampleHedge] exampleWorld"
      using list by (simp add: enqueueEnabledConfigs_def liveScheduler_def onMgmt_def faulty_def bnd_def attempt_def
          exampleWorld_def)
    then show ?thesis unfolding enqueueConfigs_all [OF free] by simp
  qed
  ultimately show ?thesis by (simp add: exampleWorld_def)
qed

end
