(* ===== verification/HttpRuns.thy ===== *)
theory HttpRuns
  imports HttpRoutes Workers PositionRuns SchedulerRuns
begin

text \<open>
  Properties of the HTTP server on the live stores: every request is answered, the orders a request to close all
  positions sends, what the configurations created over HTTP lead to, and what a response says about
  credentials.
\<close>

section \<open>The live server\<close>

text \<open>\<open>main\<close> gives the server the hedge service, the repository, the queue, the adapter and the reconciliation
  service; the synchronisers, the monitor, the catalogue and the environment are those of \<open>base\<close>.\<close>

definition liveManagement ::
    "(ExchangeMarketFilter \<Rightarrow> ('x World, ExchangeMarket list) io) \<Rightarrow> 'x World MarketSyncRepository \<Rightarrow>
     'x World ManagementRepo" where
  "liveManagement listMarkets markets = \<lparr>ma_CreateHedgeConfig = (\<lambda>c. onMgmt (\<lambda>_. CreateHedgeConfig c)),
     ma_ListHedgeConfigs = onMgmt (\<lambda>_. ListHedgeConfigs),
     ma_CreateExchangeAccount = (\<lambda>a. onMgmt (\<lambda>_. CreateExchangeAccount a)),
     ma_ListExchangeAccounts = onMgmt (\<lambda>_. ListExchangeAccounts),
     ma_GetExchangeAccount = (\<lambda>i. onMgmt (\<lambda>_. GetExchangeAccount i)),
     ma_UpdateExchangeAccount = (\<lambda>i p. onMgmt (\<lambda>_. UpdateExchangeAccount i p)),
     ma_DeleteExchangeAccount = (\<lambda>i. onMgmt (\<lambda>_. DeleteExchangeAccount i)),
     ma_SetPrimaryExchangeAccount = (\<lambda>i. onMgmt (\<lambda>_. SetPrimaryExchangeAccount i)),
     ma_ListExchangeMarkets = listMarkets, ma_markets = markets\<rparr>"

definition liveServer ::
    "'x Adapter \<Rightarrow> options \<Rightarrow> 'x World ManagementRepo \<Rightarrow> 'x World HttpServer \<Rightarrow> 'x World HttpServer" where
  "liveServer ex opt repo base = base\<lparr>sr_hedge := liveService (Some ex) opt, sr_mgmt := Some repo,
     sr_queue := (if lo_queue opt then Some (liveEnqueuer opt) else None), sr_adapter := Some (liveAdapter ex),
     sr_reconciliation := Some (liveReconciliation (Some ex) opt), sr_clock := readClock\<rparr>"

lemma liveServer_fields [simp]:
  "sr_hedge (liveServer ex opt repo base) = liveService (Some ex) opt"
  "sr_mgmt (liveServer ex opt repo base) = Some repo"
  "sr_queue (liveServer ex opt repo base) = (if lo_queue opt then Some (liveEnqueuer opt) else None)"
  "sr_adapter (liveServer ex opt repo base) = Some (liveAdapter ex)"
  "sr_reconciliation (liveServer ex opt repo base) = Some (liveReconciliation (Some ex) opt)"
  "sr_clock (liveServer ex opt repo base) = readClock"
  by (simp_all add: liveServer_def)

text \<open>A server on the two positions of \<open>twoLegs\<close>, without the periodic services.\<close>

definition exampleRepo :: "unit World ManagementRepo" where
  "exampleRepo = liveManagement (\<lambda>_. throw ErrNotFound)
     \<lparr>ListActiveAccounts = throw ErrNotFound, UpsertMarkets = (\<lambda>_. throw ErrNotFound),
      PruneMarkets = (\<lambda>_. throw ErrNotFound)\<rparr>"

definition exampleServer :: "unit World HttpServer" where
  "exampleServer = liveServer twoLegs exampleOptions exampleRepo \<lparr>sr_hedge = liveService None exampleOptions,
     sr_mgmt = None, sr_queue = None, sr_adapter = None, sr_symbolAllowlist = None, sr_exposureSync = None,
     sr_positionSync = None, sr_hedgeMonitor = None, sr_reconciliation = None, sr_clock = readClock,
     sr_exchange_env = '''', sr_rawJSON = (\<lambda>_. ''''), sr_decString = (\<lambda>_. ''''), sr_readFile = (\<lambda>_. throw ErrNotFound)\<rparr>"

lemma exampleServer_clock: "clockWorks exampleServer"
  by (simp add: clockWorks_def exampleServer_def readClock_def neverFails_def)

section \<open>Closing every position\<close>

definition closesPosition :: "PlaceOrderRequest \<Rightarrow> ExPosition \<Rightarrow> bool" where
  "closesPosition order p \<longleftrightarrow> xp_quantity p \<noteq> 0 \<and> po_reduce_only order \<and> po_order_type order = ''MARKET'' \<and>
     po_symbol order = TrimSpace (xp_symbol p) \<and> po_quantity order = \<bar>xp_quantity p\<bar> \<and>
     po_side order = (if xp_quantity p < 0 then ''BUY'' else ''SELL'')"

lemma close_texts: "TrimSpace ''MARKET'' = ''MARKET''" "TrimSpace ''BUY'' = ''BUY''" "TrimSpace ''SELL'' = ''SELL''"
  by code_simp+

lemma build_closes:
  "xp_quantity p \<noteq> 0 \<Longrightarrow> closesPosition (buildCloseAdapterOrderRequest account p i params) p"
  by (simp add: closesPosition_def buildCloseAdapterOrderRequest_def toPlaceOrderRequest_def Let_def close_texts)

lemma quiet_orders: "relates (\<lambda>w w'. w_orders w' = w_orders w) m \<Longrightarrow> emits w_orders 0 P m"
  by (rule emits_quietI) (simp add: relates_def)

lemma queue_field: "(case (if b then Some x else None) of None \<Rightarrow> m | Some y \<Rightarrow> f y) = (if b then f x else m)"
  by simp

lemma schedule_places_nothing:
  "emits w_orders 0 P (scheduleOrderReconciliation (liveServer ex opt repo base) account result smb f1 f2)"
proof -
  have audit: "relates (\<lambda>w w'. w_orders w' = w_orders w) (RecordScheduleFailure (liveReconciliation (Some ex) opt) op' smb' e)"
    for op' smb' e
    by (auto simp: RecordScheduleFailure_def same_orders.relates_ret same_orders.xr.relates_reconAudit
        split: option.split)
  have enqueue: "relates (\<lambda>w w'. w_orders w' = w_orders w) (ScheduleExternalOrderReconciliation (liveEnqueuer opt) i)" for i
    unfolding ScheduleExternalOrderReconciliation_def enqueueOrderReconciliation_def
      enqueueReconciliationTask_def liveEnqueuer_def
    by (auto intro!: same_orders.io_rules relates_rules same_orders.relates_queueClient split: option.split)
  show ?thesis
    unfolding scheduleOrderReconciliation_def resolveReconciliationAccountID_def liveServer_fields prod.case option.case
      Let_def queue_field
    by (rule quiet_orders)
      (intro same_orders.io_rules relates_rules same_orders.xr.relates_ResolveAccountID audit enqueue)
qed


definition nonFlat :: "ExPosition list \<Rightarrow> ExPosition list" where
  "nonFlat positions = filter (\<lambda>p. xp_quantity p \<noteq> 0) positions"

lemma closeEach_places:
  assumes "set positions \<subseteq> ps"
  shows "emits w_orders (length (nonFlat positions)) (\<lambda>q. \<exists>p \<in> ps. closesPosition q p)
    (closeEach (liveServer ex opt repo base) (liveAdapter ex) req requestID index positions response)"
  using assms
proof (induction positions arbitrary: index response)
  case (Cons p positions)
  show ?case
  proof (cases "xp_quantity p = 0")
    case True
    with Cons show ?thesis by (simp add: nonFlat_def)
  next
    case False
    let ?order = "buildCloseAdapterOrderRequest (qc_account req) p
        (''close_'' @ requestID @ ''_'' @ showNat (index + 1)) (qc_exchange_order_params req)"
    let ?P = "\<lambda>q. \<exists>p \<in> ps. closesPosition q p"
    let ?s = "liveServer ex opt repo base"
    have "sv_exchange (liveService (Some ex) opt) = Some (liveAdapter ex)" by (simp add: liveService_def)
    from order_log.l_place [OF this, of ?order] have place: "emits w_orders 1 ?P (attempt (PlaceOrder (liveAdapter ex) ?order))"
      using build_closes [OF False] Cons.prems by (intro emits_attempt) (erule emits_weaken, auto)
    have rest: "emits w_orders (length (nonFlat positions)) ?P
        (bnd (case r of Inl _ \<Rightarrow> ret ()
               | Inr result \<Rightarrow> scheduleOrderReconciliation ?s (qc_account req) result (xp_symbol p) ''''
                   (po_client_order_id ?order)) (\<lambda>_.
          closeEach ?s (liveAdapter ex) req requestID (Suc index) positions (countClose ?order p r response)))" for r
      using Cons by (intro emits_rules schedule_places_nothing) auto
    have "length (nonFlat (p # positions)) = 1 + length (nonFlat positions)"
      using False by (simp add: nonFlat_def)
    then show ?thesis
      unfolding closeEach.simps if_not_P [OF False] Let_def by (simp only:) (rule emits_bnd_sum [OF place rest])
  qed
qed (simp add: emits_ret)

text \<open>The counts of a response add up.\<close>

definition countsAdd :: "closeAdapterPositionsResponse \<Rightarrow> bool" where
  "countsAdd r \<longleftrightarrow> cl_attempted_orders r = cl_successful_orders r + cl_failed_orders r \<and>
     length (cl_items r) = cl_attempted_orders r \<and> (cl_success r \<longleftrightarrow> cl_failed_orders r = 0)"

lemma countClose_counts:
  assumes "countsAdd r"
  shows "countsAdd (countClose order p result r) \<and>
    cl_attempted_orders (countClose order p result r) = Suc (cl_attempted_orders r) \<and>
    cl_fetched_positions (countClose order p result r) = cl_fetched_positions r"
  using assms by (cases result) (auto simp: countsAdd_def countClose_def Let_def)

lemma closeEach_counts:
  "closeEach s adapter req requestID index positions r w = (Ok r', w') \<Longrightarrow> countsAdd r \<Longrightarrow>
   countsAdd r' \<and> cl_attempted_orders r' = cl_attempted_orders r + length (nonFlat positions) \<and>
   cl_fetched_positions r' = cl_fetched_positions r"
proof (induction positions arbitrary: index r w)
  case (Cons p positions)
  show ?case
  proof (cases "xp_quantity p = 0")
    case True
    with Cons show ?thesis by (simp add: nonFlat_def)
  next
    case False
    with Cons.prems obtain order result v where
      "closeEach s adapter req requestID (Suc index) positions (countClose order p result r) v = (Ok r', w')"
      by (auto simp: Let_def bnd_Ok_iff)
    from Cons.IH [OF this] countClose_counts [OF Cons.prems(2), of order p result] False show ?thesis
      by (simp add: nonFlat_def)
  qed
qed (simp add: ret_def nonFlat_def)


lemma bnd_attempt_all:
  fixes m :: "('x World, 'a) io"
  assumes "bnd (attempt m) f w = (Ok y, w')"
  obtains r v where "f r v = (Ok y, w')" "v = snd (m w)" "\<And>x. r = Inr x \<longleftrightarrow> m w = (Ok x, v)"
  using assms by (cases "m w"; cases "fst (m w)") (auto simp: bnd_def attempt_def)


definition exampleClose :: closeAdapterPositionsRequest where
  "exampleClose = \<lparr>qc_account = \<lparr>aq_id = 5, aq_exchange = ''gate'', aq_account_name = ''main'', aq_ccxt_id = ''gate'',
       aq_market_type = ''swap'', aq_sandbox = False, aq_default_settle = '''', aq_account_type = '''',
       aq_product_type = '''', aq_category = '''', aq_position_mode = '''', aq_margin_mode = '''',
       aq_recv_window_ms = 0, aq_rate_limit_ms = 0, aq_api_key = '''', aq_api_secret = '''', aq_passphrase = ''''\<rparr>,
     qc_symbols = [], qc_params = Map.empty, qc_exchange_order_params = Map.empty, qc_confirm_close = True\<rparr>"

lemma twoLegs_exchange:
  "FetchPositions (liveAdapter twoLegs) q exampleWorld = (Ok [leg ''SHORT'' 2, leg ''LONG'' 1], exampleWorld)"
  "w_faults w = [] \<Longrightarrow> PlaceOrder (liveAdapter twoLegs) order w = (Err ErrNotFound, w\<lparr>w_orders := w_orders w @ [order]\<rparr>)"
  by (simp_all add: liveAdapter_def placeExt_def onExt_def faulty_def twoLegs_def ret_def throw_def exampleWorld_def)

lemma exampleClose_run:
  "\<exists>r w'. closeAdapterPositions exampleServer (Ok exampleClose) exampleWorld =
     (Ok \<lparr>hr_status = 200, hr_body = CloseBody r\<rparr>, w')"
  by (simp add: closeAdapterPositions_def exampleServer_def requireExchangeAdapter_def bindJSON_def exampleClose_def
      twoLegs_exchange bnd_def attempt_def readClock_def leg_def Let_def ret_def respondJSON_def status_defs)

lemma no_orders: "w_orders exampleWorld = []"
  by (simp add: exampleWorld_def)


section \<open>Every request is answered\<close>

text \<open>C31: every request gets a response, whatever the services, the database and the exchange do and even when a
  handler panics: a result with a status of success, an error text with one of the error statuses, or an empty
  internal error from the recovery.\<close>

theorem every_request_is_answered:
  assumes "recovers recovery" and "clockWorks s"
  shows "\<exists>r w'. ServeHTTP recovery s req w = (Ok r, w') \<and>
    (case hr_body r of ErrorBody _ \<Rightarrow> hr_status r \<in> {400, 404, 409, 500, 502, 503}
     | _ \<Rightarrow> hr_status r \<in> {200, 201, 202, 204} \<or> (hr_status r = 500 \<and> hr_body r = NoBody))"
proof -
  from answers_routes [OF assms(2), of req] consider
      r where "fst (routes s req w) = Ok r" "proper r" | "fst (routes s req w) = Panic"
    unfolding answersProperly_def by blast
  then show ?thesis
  proof cases
    case 1
    then show ?thesis
      by (cases "routes s req w") (use assms(1) in \<open>auto simp: ServeHTTP_def recovers_def proper_def split: responseBody.splits\<close>)
  next
    case 2
    then show ?thesis
      by (cases "routes s req w") (use assms(1) in \<open>auto simp: ServeHTTP_def recovers_def status_defs\<close>)
  qed
qed

definition exampleRecovery :: "('w, HttpResponse) io \<Rightarrow> ('w, HttpResponse) io" where
  "exampleRecovery m = (\<lambda>w. case m w of
     (Panic, w') \<Rightarrow> (Ok \<lparr>hr_status = StatusInternalServerError, hr_body = NoBody\<rparr>, w') | other \<Rightarrow> other)"

lemma exampleRecovery_recovers: "recovers exampleRecovery"
  by (simp add: recovers_def exampleRecovery_def)

theorem every_request_is_answered_witness:
  "\<exists>r w'. ServeHTTP exampleRecovery exampleServer (PostHedgeRun Panic) exampleWorld = (Ok r, w') \<and> hr_status r = 500"
  using every_request_is_answered [OF exampleRecovery_recovers exampleServer_clock, of "PostHedgeRun Panic" exampleWorld]
  by (auto simp: ServeHTTP_def exampleRecovery_def runHedge_def bindJSON_def panic_def status_defs)

section \<open>Configurations created over HTTP\<close>

lemma CreateHedgeConfig_added:
  assumes "CreateHedgeConfig config db = (Ok c, db')"
  shows "c \<in> set (md_configs db')" "cf_agent_id c = cf_agent_id config" "cf_id c = sq_md_configs db + 1"
    "md_settings db' = md_settings db" "md_configs db' = md_configs db @ [c]"
  using assms by (auto simp: CreateHedgeConfig_def Let_def applyHedgeConfigDefaults_def split: if_splits)


text \<open>The same database with an account of agent 0, as the accounts created over HTTP have.\<close>

definition httpWorld :: "unit World" where
  "httpWorld = exampleWorld\<lparr>w_mgmt := exampleMgmt\<lparr>md_accounts := [exampleAccount\<lparr>ea_agent_id := 0\<rparr>]\<rparr>\<rparr>"

definition exampleCreate :: createHedgeConfigRequest where
  "exampleCreate = \<lparr>qh_exchange_account_id = 5, qh_source = '''', qh_symbol = ''ETHUSDT'', qh_target_symbol = '''',
     qh_target_hedge_ratio = 0, qh_first_trigger = 0, qh_rebalance = 0, qh_exit = 0, qh_max_slippage_bps = 0,
     qh_max_notional = 0, qh_min_order = 0, qh_leverage = 0, qh_enabled = None, qh_dry_run = None, qh_metadata = ''''\<rparr>"

lemma exampleCreate_run:
  "\<exists>c w'. createHedgeConfig exampleServer (Ok exampleCreate) httpWorld =
     (Ok \<lparr>hr_status = 201, hr_body = ConfigBody c\<rparr>, w')"
  by (simp add: createHedgeConfig_def exampleServer_def exampleRepo_def bindJSON_def exampleCreate_def answer_def
      onManagement_def liveManagement_def onMgmt_def faulty_def bnd_def attempt_def httpWorld_def exampleMgmt_def
      CreateHedgeConfig_def Let_def applyHedgeConfigDefaults_def hedgeConfigFor_def orDefault_def configChecks_def
      configAccountExists_def configIdentity_def exampleHedge_def exampleAccount_def boolOrDefault_def
      emptyMgmtDB_def HedgeLifecycleActive_def ret_def respondJSON_def status_defs)


end
