(* ===== verification/GrpcApi.thy ===== *)
theory GrpcApi
  imports Tasks
begin

text \<open>
  The gRPC interface (\<open>internal/grpcapi/server.go\<close>, \<open>internal/grpcapi/mapper.go\<close>): the methods of the service and the
  messages they answer with. A message is a record of the fields the code reads or sets (the generated types
  of \<open>internal/pb\<close> are not modelled); an absent timestamp or submessage is \<open>None\<close>, a decimal travels as text, and
  what the decimal package makes of a text, and its text, are fields of the server. The creation times of rows
  are left out, as in the rows.
\<close>

section \<open>Messages\<close>

record UpsertExposureRequest =
  gx_agent_id :: nat
  gx_source :: string
  gx_symbol :: string
  gx_net_quantity :: string
  gx_net_notional_usdt :: string
  gx_mark_price :: string
  gx_observed_at :: "time option"

record UpsertPositionRequest =
  gp_agent_id :: nat
  gp_exchange_account_id :: nat
  gp_exchange :: string
  gp_account_name :: string
  gp_symbol :: string
  gp_position_side :: string
  gp_quantity :: string
  gp_notional_usdt :: string
  gp_entry_price :: string
  gp_mark_price :: string
  gp_observed_at :: "time option"

record RunHedgeRequest =
  gr_config_id :: nat
  gr_source :: string
  gr_symbol :: string

record ExposureMessage =
  xm_id :: nat
  xm_agent_id :: nat
  xm_source :: string
  xm_symbol :: string
  xm_net_quantity :: string
  xm_net_notional_usdt :: string
  xm_mark_price :: string
  xm_observed_at :: "time option"

record PositionMessage =
  pm_id :: nat
  pm_agent_id :: nat
  pm_exchange_account_id :: nat
  pm_exchange :: string
  pm_account_name :: string
  pm_symbol :: string
  pm_position_side :: string
  pm_quantity :: string
  pm_notional_usdt :: string
  pm_entry_price :: string
  pm_mark_price :: string
  pm_observed_at :: "time option"

record DecisionMessage =
  dm_action :: string
  dm_side :: string
  dm_symbol :: string
  dm_target_notional_usdt :: string
  dm_current_notional_usdt :: string
  dm_adjustment_usdt :: string
  dm_order_quantity :: string
  dm_limit_price :: string
  dm_reduce_only :: bool
  dm_reason :: string
  dm_dry_run :: bool

record OrderPlanMessage =
  om_id :: nat
  om_idempotency_key :: string
  om_config_id :: nat
  om_source :: string
  om_exchange :: string
  om_account_name :: string
  om_symbol :: string
  om_side :: string
  om_position_side :: string
  om_order_type :: string
  om_quantity :: string
  om_price :: string
  om_notional_usdt :: string
  om_reduce_only :: bool
  om_reason :: string
  om_status :: string
  om_updated_at :: "time option"

record OrderExecutionMessage =
  tm_id :: nat
  tm_order_plan_id :: nat
  tm_exchange_order_id :: string
  tm_client_order_id :: string
  tm_status :: string
  tm_filled_quantity :: string
  tm_avg_price :: string
  tm_fee_usdt :: string
  tm_error_message :: string
  tm_updated_at :: "time option"

record RunHedgeResponse =
  rm_config_id :: nat
  rm_exposure :: ExposureMessage
  rm_decision :: DecisionMessage
  rm_position :: "PositionMessage option"
  rm_order_plan :: "OrderPlanMessage option"
  rm_execution :: "OrderExecutionMessage option"

record EnqueueHedgeRunResponse =
  nm_id :: string
  nm_queue :: string
  nm_type :: string
  nm_state :: string
  nm_max_retry :: int

text \<open>The codes of \<open>google.golang.org/grpc/codes\<close> the server uses, and an error of a method.\<close>

datatype grpcCode = InvalidArgument | Aborted | FailedPrecondition | Internal

datatype grpcStatus = GrpcStatus (gs_code: grpcCode) (gs_message: string)

section \<open>The mapper\<close>

type_synonym decimalText = "decimal \<Rightarrow> string"

definition timestampOf :: "time \<Rightarrow> time option" where
  "timestampOf value' = (if value' = 0 then None else Some value')"

definition nullString :: "string option \<Rightarrow> string" where
  "nullString value' = (case value' of None \<Rightarrow> '''' | Some s \<Rightarrow> s)"

definition exposureMessage :: "decimalText \<Rightarrow> ExposureSnapshot \<Rightarrow> ExposureMessage" where
  "exposureMessage str exposure = \<lparr>xm_id = uint64 (es_id exposure), xm_agent_id = uint64 (es_agent_id exposure),
     xm_source = es_source exposure, xm_symbol = es_symbol exposure,
     xm_net_quantity = str (es_net_quantity exposure), xm_net_notional_usdt = str (es_net_notional exposure),
     xm_mark_price = str (es_mark_price exposure), xm_observed_at = timestampOf (es_observed_at exposure)\<rparr>"

definition positionMessage :: "decimalText \<Rightarrow> HedgePositionSnapshot \<Rightarrow> PositionMessage" where
  "positionMessage str position = \<lparr>pm_id = uint64 (ps_id position), pm_agent_id = uint64 (ps_agent_id position),
     pm_exchange_account_id = uint64 (ps_exchange_account_id position), pm_exchange = ps_exchange position,
     pm_account_name = ps_account_name position, pm_symbol = ps_symbol position,
     pm_position_side = ps_position_side position, pm_quantity = str (ps_quantity position),
     pm_notional_usdt = str (ps_notional position), pm_entry_price = str (ps_entry_price position),
     pm_mark_price = str (ps_mark_price position), pm_observed_at = timestampOf (ps_observed_at position)\<rparr>"

definition hedgeDecision :: "decimalText \<Rightarrow> Decision \<Rightarrow> DecisionMessage" where
  "hedgeDecision str decision = \<lparr>dm_action = actionString (d_action decision), dm_side = sideString (d_side decision),
     dm_symbol = d_symbol decision, dm_target_notional_usdt = str (d_target decision),
     dm_current_notional_usdt = str (d_current decision), dm_adjustment_usdt = str (d_adjustment decision),
     dm_order_quantity = str (d_order_quantity decision), dm_limit_price = str (d_limit_price decision),
     dm_reduce_only = d_reduce_only decision, dm_reason = d_reason decision, dm_dry_run = d_dry_run decision\<rparr>"

definition orderPlanMessage :: "decimalText \<Rightarrow> OrderPlan \<Rightarrow> OrderPlanMessage" where
  "orderPlanMessage str plan = \<lparr>om_id = uint64 (op_id plan), om_idempotency_key = op_idempotency_key plan,
     om_config_id = uint64 (op_config_id plan), om_source = op_source plan, om_exchange = op_exchange plan,
     om_account_name = op_account_name plan, om_symbol = op_symbol plan, om_side = op_side plan,
     om_position_side = op_position_side plan, om_order_type = op_order_type plan,
     om_quantity = str (op_quantity plan), om_price = str (op_price plan),
     om_notional_usdt = str (op_notional plan), om_reduce_only = op_reduce_only plan, om_reason = op_reason plan,
     om_status = op_status plan, om_updated_at = timestampOf (op_updated_at plan)\<rparr>"

definition orderExecutionMessage :: "decimalText \<Rightarrow> OrderExecution \<Rightarrow> OrderExecutionMessage" where
  "orderExecutionMessage str execution = \<lparr>tm_id = uint64 (ox_id execution),
     tm_order_plan_id = uint64 (ox_order_plan_id execution),
     tm_exchange_order_id = nullString (ox_exchange_order_id execution),
     tm_client_order_id = ox_client_order_id execution, tm_status = ox_status execution,
     tm_filled_quantity = str (ox_filled_quantity execution), tm_avg_price = str (ox_avg_price execution),
     tm_fee_usdt = str (ox_fee_usdt execution), tm_error_message = nullString (ox_error_message execution),
     tm_updated_at = timestampOf (ox_updated_at execution)\<rparr>"

text \<open>The exposure of a result without one is Go's zero snapshot.\<close>

definition zeroExposureSnapshot :: ExposureSnapshot where
  "zeroExposureSnapshot = \<lparr>es_id = 0, es_agent_id = 0, es_source = '''', es_symbol = '''', es_net_quantity = 0,
     es_net_notional = 0, es_mark_price = 0, es_observed_at = 0\<rparr>"

definition runHedgeResponse :: "decimalText \<Rightarrow> RunResult \<Rightarrow> RunHedgeResponse" where
  "runHedgeResponse str result = \<lparr>rm_config_id = cf_id (rr_config result),
     rm_exposure = exposureMessage str
       (case rr_exposure result of None \<Rightarrow> zeroExposureSnapshot | Some x \<Rightarrow> x),
     rm_decision = hedgeDecision str (rr_decision result),
     rm_position = map_option (positionMessage str) (rr_position result),
     rm_order_plan = map_option (orderPlanMessage str) (rr_order_plan result),
     rm_execution = map_option (orderExecutionMessage str) (rr_execution result)\<rparr>"

section \<open>The server\<close>

record 'w GrpcServer =
  gv_service :: "'w HedgeService"
  gv_queue :: "'w Enqueuer option"
  gv_newFromString :: "string \<Rightarrow> decimal result"
  gv_decString :: decimalText

text \<open>A method answers with a status or a message.\<close>

type_synonym ('w, 'a) grpcMethod = "('w, grpcStatus + 'a) io"

definition parseDecimal :: "'w GrpcServer \<Rightarrow> string \<Rightarrow> string \<Rightarrow> decimal result" where
  "parseDecimal s value' field =
    (if value' = '''' then Ok 0
     else wrapErr (field @ '' must be decimal string'') (gv_newFromString s value'))"

definition invalidArgument :: "err \<Rightarrow> grpcStatus" where
  "invalidArgument e = GrpcStatus InvalidArgument (errText e)"

definition timestamp :: "time option \<Rightarrow> time" where
  "timestamp value' = (case value' of None \<Rightarrow> 0 | Some t \<Rightarrow> t)"

text \<open>A call whose error becomes a status.\<close>

definition grpcCall :: "(err \<Rightarrow> grpcStatus) \<Rightarrow> ('a \<Rightarrow> 'b) \<Rightarrow> ('w, 'a) io \<Rightarrow> ('w, 'b) grpcMethod" where
  "grpcCall failed message m = bnd (attempt m) (\<lambda>r. ret (map_sum failed message r))"

definition exposureInput :: "'w GrpcServer \<Rightarrow> UpsertExposureRequest \<Rightarrow> UpsertExposureInput result" where
  "exposureInput s req =
     rbind (parseDecimal s (gx_net_quantity req) ''net_quantity'') (\<lambda>quantity.
     rbind (parseDecimal s (gx_net_notional_usdt req) ''net_notional_usdt'') (\<lambda>notional.
     rbind (parseDecimal s (gx_mark_price req) ''mark_price'') (\<lambda>mark.
     Ok \<lparr>ui_agent_id = gx_agent_id req, ui_source = gx_source req, ui_symbol = gx_symbol req,
         ui_net_quantity = quantity, ui_net_notional = notional, ui_mark_price = mark,
         ui_observed_at = timestamp (gx_observed_at req)\<rparr>)))"

definition grpcUpsertExposure :: "'w GrpcServer \<Rightarrow> UpsertExposureRequest \<Rightarrow> ('w, ExposureMessage) grpcMethod" where
  "grpcUpsertExposure s req = grpcCall invalidArgument (exposureMessage (gv_decString s))
     (bnd (lift (exposureInput s req)) (UpsertExposure (gv_service s)))"

definition positionInput :: "'w GrpcServer \<Rightarrow> UpsertPositionRequest \<Rightarrow> UpsertPositionInput result" where
  "positionInput s req =
     rbind (parseDecimal s (gp_quantity req) ''quantity'') (\<lambda>quantity.
     rbind (parseDecimal s (gp_notional_usdt req) ''notional_usdt'') (\<lambda>notional.
     rbind (parseDecimal s (gp_entry_price req) ''entry_price'') (\<lambda>entry.
     rbind (parseDecimal s (gp_mark_price req) ''mark_price'') (\<lambda>mark.
     Ok \<lparr>pi_agent_id = gp_agent_id req, pi_exchange_account_id = gp_exchange_account_id req,
         pi_exchange = gp_exchange req, pi_account_name = gp_account_name req, pi_symbol = gp_symbol req,
         pi_position_side = gp_position_side req, pi_quantity = quantity, pi_notional = notional,
         pi_entry_price = entry, pi_mark_price = mark, pi_observed_at = timestamp (gp_observed_at req)\<rparr>))))"

definition grpcUpsertPosition :: "'w GrpcServer \<Rightarrow> UpsertPositionRequest \<Rightarrow> ('w, PositionMessage) grpcMethod" where
  "grpcUpsertPosition s req = grpcCall invalidArgument (positionMessage (gv_decString s))
     (bnd (lift (positionInput s req)) (UpsertPosition (gv_service s)))"

definition grpcRunInput :: "RunHedgeRequest \<Rightarrow> RunInput" where
  "grpcRunInput req = \<lparr>ri_config_id = gr_config_id req, ri_source = gr_source req, ri_symbol = gr_symbol req,
     ri_reason = ''''\<rparr>"

definition grpcExitInput :: "RunHedgeRequest \<Rightarrow> ExitInput" where
  "grpcExitInput req = \<lparr>xi_config_id = gr_config_id req, xi_source = gr_source req, xi_symbol = gr_symbol req\<rparr>"

definition runFailed :: "err \<Rightarrow> grpcStatus" where
  "runFailed e = GrpcStatus (if errIs e ErrRunLocked then Aborted else Internal) (errText e)"

definition grpcRunHedge :: "'w GrpcServer \<Rightarrow> RunHedgeRequest \<Rightarrow> ('w, RunHedgeResponse) grpcMethod" where
  "grpcRunHedge s req = grpcCall runFailed (runHedgeResponse (gv_decString s)) (RunOnce (gv_service s) (grpcRunInput req))"

definition grpcExitHedge :: "'w GrpcServer \<Rightarrow> RunHedgeRequest \<Rightarrow> ('w, RunHedgeResponse) grpcMethod" where
  "grpcExitHedge s req = grpcCall runFailed (runHedgeResponse (gv_decString s)) (ExitHedge (gv_service s) (grpcExitInput req))"

text \<open>\<open>int32\<close> of a number of retries wraps around.\<close>

definition enqueueResponse :: "TaskInfo \<Rightarrow> EnqueueHedgeRunResponse" where
  "enqueueResponse info = \<lparr>nm_id = ti_id info, nm_queue = ti_queue info, nm_type = ti_type info,
     nm_state = ti_state info, nm_max_retry = signed_take_bit 31 (int (ti_max_retry info))\<rparr>"

definition grpcEnqueueHedgeRun :: "'w GrpcServer \<Rightarrow> RunHedgeRequest \<Rightarrow> ('w, EnqueueHedgeRunResponse) grpcMethod" where
  "grpcEnqueueHedgeRun s req = (case gv_queue s of
     None \<Rightarrow> ret (Inl (GrpcStatus FailedPrecondition ''async queue is not configured''))
   | Some queue \<Rightarrow> grpcCall (\<lambda>e. GrpcStatus Internal (errText e)) enqueueResponse
       (EnqueueRunHedge queue (grpcRunInput req)))"

end
