(* ===== verification/ApiRuns.thy ===== *)
theory ApiRuns
  imports HttpRuns GrpcApi
begin

text \<open>
  The two interfaces next to each other: a run, an exit, or a queued run asked for over gRPC does what the same
  request over HTTP does.
\<close>

section \<open>Corresponding answers\<close>

text \<open>The errors correspond by their texts; gRPC knows two codes for the three statuses of HTTP.\<close>

definition codeFor :: "nat \<Rightarrow> grpcCode set" where
  "codeFor status =
    (if status = 404 then {Internal, Aborted} else if status = 409 then {Aborted} else {Internal})"

fun sameAnswer :: "decimalText \<Rightarrow> grpcStatus + RunHedgeResponse \<Rightarrow> HttpResponse \<Rightarrow> bool" where
  "sameAnswer str (Inl st) resp \<longleftrightarrow> hr_body resp = ErrorBody (gs_message st) \<and> hr_status resp \<in> {404, 409, 500} \<and>
     gs_code st \<in> codeFor (hr_status resp)"
| "sameAnswer str (Inr message) resp \<longleftrightarrow> hr_status resp \<in> {200, 202} \<and>
     (\<exists>result. hr_body resp = RunBody result \<and> message = runHedgeResponse str result)"

fun sameEnqueue :: "grpcStatus + EnqueueHedgeRunResponse \<Rightarrow> HttpResponse \<Rightarrow> bool" where
  "sameEnqueue (Inl st) resp \<longleftrightarrow> hr_body resp = ErrorBody (gs_message st) \<and>
     hr_status resp = (if gs_code st = FailedPrecondition then 503 else 500)"
| "sameEnqueue (Inr message) resp \<longleftrightarrow> hr_status resp = 202 \<and>
     (\<exists>info. hr_body resp = TaskBody info \<and> message = enqueueResponse info)"

lemma runFailed_same:
  "sameAnswer str (Inl (runFailed e)) \<lparr>hr_status = runErrorStatus e, hr_body = ErrorBody (errText e)\<rparr>"
  by (simp add: runFailed_def runErrorStatus_def codeFor_def status_defs)

lemma runOk_same: "sameAnswer str (Inr (runHedgeResponse str result)) \<lparr>hr_status = StatusOK, hr_body = RunBody result\<rparr>"
  by (simp add: status_defs)

lemma exitOk_same:
  "sameAnswer str (Inr (runHedgeResponse str result)) \<lparr>hr_status = exitStatus result, hr_body = RunBody result\<rparr>"
  by (simp add: exitStatus_def status_defs split: option.split)

text \<open>Both interfaces wrap one call.\<close>

lemma answers_agree:
  assumes failed: "\<And>e. rel (Inl (f e)) \<lparr>hr_status = st e, hr_body = ErrorBody (errText e)\<rparr>"
    and ok: "\<And>x. rel (Inr (g x)) (h x)"
  shows "rel_prod (rel_result rel) (=) (grpcCall f g m w)
    (answer m (\<lambda>e. respondError (st e) e) (\<lambda>x. ret (h x)) w)"
proof (cases "m w")
  case (Pair r v)
  then show ?thesis
    using assms by (cases r) (simp_all add: grpcCall_def answer_def bnd_def attempt_def ret_def respondError_def respondJSON_def)
qed

text \<open>C37: a run, an exit and an enqueued run requested over gRPC leave the world exactly as the same request over HTTP
  does, whatever happens on the way, and the answers correspond: the message is the mapped result, an error has
  the same text, and only a missing configuration is told apart by HTTP (404) and not by gRPC (Internal).\<close>

theorem grpc_and_http_agree:
  assumes "gv_service g = sr_hedge s" and "gv_queue g = sr_queue s"
  shows "rel_prod (rel_result (sameAnswer (gv_decString g))) (=) (grpcRunHedge g req w)
      (runHedge s (Ok (grpcRunInput req)) w) \<and>
    rel_prod (rel_result (sameAnswer (gv_decString g))) (=) (grpcExitHedge g req w)
      (exitHedge s (Ok (grpcExitInput req)) w) \<and>
    rel_prod (rel_result sameEnqueue) (=) (grpcEnqueueHedgeRun g req w)
      (enqueueHedge s (Ok (grpcRunInput req)) w)"
proof (intro conjI)
  show "rel_prod (rel_result (sameAnswer (gv_decString g))) (=) (grpcRunHedge g req w)
      (runHedge s (Ok (grpcRunInput req)) w)"
    unfolding grpcRunHedge_def runHedge_def bindJSON_def respondJSON_def result.case assms(1)
    by (rule answers_agree [OF runFailed_same runOk_same])
  show "rel_prod (rel_result (sameAnswer (gv_decString g))) (=) (grpcExitHedge g req w)
      (exitHedge s (Ok (grpcExitInput req)) w)"
    unfolding grpcExitHedge_def exitHedge_def bindJSON_def respondJSON_def result.case assms(1)
    by (rule answers_agree [OF runFailed_same exitOk_same])
  show "rel_prod (rel_result sameEnqueue) (=) (grpcEnqueueHedgeRun g req w)
      (enqueueHedge s (Ok (grpcRunInput req)) w)"
  proof (cases "sr_queue s")
    case None
    then show ?thesis
      by (simp add: grpcEnqueueHedgeRun_def enqueueHedge_def bindJSON_def assms(2) ret_def respondError_def
          respondJSON_def status_defs)
  next
    case (Some queue)
    show ?thesis
      unfolding grpcEnqueueHedgeRun_def enqueueHedge_def bindJSON_def assms(2) Some option.case result.case respondJSON_def
      by (rule answers_agree) (simp_all add: status_defs)
  qed
qed

definition exampleGrpc :: "unit World GrpcServer" where
  "exampleGrpc = \<lparr>gv_service = sr_hedge exampleServer, gv_queue = sr_queue exampleServer,
     gv_newFromString = (\<lambda>s. Ok (of_nat (readDigits s))), gv_decString = (\<lambda>d. showInt \<lfloor>d\<rfloor>)\<rparr>"

definition exampleRequest :: RunHedgeRequest where
  "exampleRequest = \<lparr>gr_config_id = 7, gr_source = '''', gr_symbol = ''''\<rparr>"

theorem grpc_and_http_agree_witness:
  "snd (grpcRunHedge exampleGrpc exampleRequest exampleWorld) =
     snd (runHedge exampleServer (Ok (grpcRunInput exampleRequest)) exampleWorld) \<and>
   snd (grpcEnqueueHedgeRun exampleGrpc exampleRequest exampleWorld) =
     snd (enqueueHedge exampleServer (Ok (grpcRunInput exampleRequest)) exampleWorld)"
proof -
  have "gv_service exampleGrpc = sr_hedge exampleServer" "gv_queue exampleGrpc = sr_queue exampleServer"
    by (simp_all add: exampleGrpc_def)
  from grpc_and_http_agree [OF this, of exampleRequest exampleWorld] show ?thesis
    by (auto simp: rel_prod_sel)
qed

end
