(* ===== verification/HistoryReader.thy ===== *)
theory HistoryReader
  imports ExposureSync
begin

text \<open>
  The reader of net exposures (\<open>internal/db/clickhousehist/client.go\<close>): the keys are brought to one spelling,
  sorted and written into one query, which is posted to ClickHouse, and the rows of the answer are decoded into a
  map. The HTTP client, \<open>net/url\<close>, \<open>json.Unmarshal\<close> of a row and the decimal package are parameters; the cutting of
  the body into lines is that of \<open>bufio.Scanner\<close>. The lemmas read a query back: whatever the symbols
  contain, it asks for exactly the given keys.
\<close>

section \<open>The client\<close>

definition maxResponseBytes :: nat where "maxResponseBytes = 8388608"

record ClickHouseConfig =
  ch_Host :: string
  ch_HTTPPort :: string
  ch_Database :: string
  ch_Username :: string
  ch_Password :: string
  ch_ConnectTimeout :: duration
  ch_Timeout :: duration

text \<open>A request to ClickHouse: the endpoint, the query in the body, and the credentials of the basic
  authentication.\<close>

record historyRequest =
  hq_url :: string
  hq_body :: string
  hq_auth :: "(string \<times> string) option"

text \<open>A response: the bytes of the body and the error that ended reading it, if any.\<close>

record historyResponse =
  hs_status :: nat
  hs_body :: string
  hs_readError :: "err option"

record netExposureRow =
  nr_AgentID :: string
  nr_Symbol :: string
  nr_NetQuantity :: string
  nr_PositionRows :: string
  nr_SourceEventTimeMS :: string

text \<open>\<open>type Client struct\<close>, with the time limits of its HTTP client and the parameters: whether
  \<open>http.NewRequest\<close> accepts a URL, \<open>httpClient.Do\<close>, \<open>json.Unmarshal\<close> and \<open>decimal.NewFromString\<close>.\<close>

record 'w HistoryClient =
  hc_endpoint :: string
  hc_username :: string
  hc_password :: string
  hc_connect_timeout :: duration
  hc_timeout :: duration
  hc_checkURL :: "string \<Rightarrow> unit result"
  hc_Do :: "historyRequest \<Rightarrow> ('w, historyResponse) io"
  hc_unmarshal :: "string \<Rightarrow> netExposureRow result"
  hc_decimal :: "string \<Rightarrow> decimal result"

text \<open>What the code uses of \<open>net/url\<close> on a host with its scheme: the host name, the port, and the text of the URL
  with another host and the parameter \<open>database\<close> in its query.\<close>

record urlPackage =
  ur_Hostname :: "string \<Rightarrow> string result"
  ur_Port :: "string \<Rightarrow> string"
  ur_Host :: "string \<Rightarrow> string"
  ur_withDatabase :: "string \<Rightarrow> string \<Rightarrow> string \<Rightarrow> string"

text \<open>\<open>^[A-Za-z_][A-Za-z0-9_]*$\<close>\<close>

definition isNameStart :: "char \<Rightarrow> bool" where
  "isNameStart c = (let n = of_char c :: nat in 65 \<le> n \<and> n \<le> 90 \<or> 97 \<le> n \<and> n \<le> 122 \<or> c = CHR ''_'')"

definition databaseNamePattern :: "string \<Rightarrow> bool" where
  "databaseNamePattern s =
    (case s of [] \<Rightarrow> False | c # cs \<Rightarrow> isNameStart c \<and> list_all (\<lambda>d. isNameStart d \<or> isDigit d) cs)"

text \<open>\<open>strings.Contains(host, "://")\<close> and \<open>net.JoinHostPort\<close>\<close>

definition hasScheme :: "string \<Rightarrow> bool" where
  "hasScheme host = list_ex (\<lambda>t. prefix ''://'' t) (suffixes host)"

definition JoinHostPort :: "string \<Rightarrow> string \<Rightarrow> string" where
  "JoinHostPort host port =
    (if CHR '':'' \<in> set host then ''['' @ host @ '']:'' @ port else host @ '':'' @ port)"

definition buildEndpoint :: "urlPackage \<Rightarrow> ClickHouseConfig \<Rightarrow> string result" where
  "buildEndpoint u cfg =
    (let host = TrimSpace (ch_Host cfg);
         given = TrimSpace (ch_Database cfg);
         database = (if given = '''' then ''freedex_history'' else given)
     in if host = '''' then Err (ErrMsg ''CLICKHOUSE_HISTORY_HOST is required'')
        else if \<not> databaseNamePattern database
        then Err (ErrMsg (''invalid clickhouse database name '' @ quoted database))
        else let url = (if hasScheme host then host else ''http://'' @ host)
             in case ur_Hostname u url of
                  Ok name \<Rightarrow>
                    if name = '''' then Err (ErrMsg (''invalid clickhouse host '' @ quoted (ch_Host cfg)))
                    else Ok (ur_withDatabase u url
                      (if ur_Port u url = '''' \<and> TrimSpace (ch_HTTPPort cfg) \<noteq> ''''
                       then JoinHostPort name (TrimSpace (ch_HTTPPort cfg)) else ur_Host u url) database)
                | Err _ \<Rightarrow> Err (ErrMsg (''invalid clickhouse host '' @ quoted (ch_Host cfg)))
                | Panic \<Rightarrow> Panic)"

definition NewHistoryClient ::
    "urlPackage \<Rightarrow> (string \<Rightarrow> unit result) \<Rightarrow> (historyRequest \<Rightarrow> ('w, historyResponse) io) \<Rightarrow>
     (string \<Rightarrow> netExposureRow result) \<Rightarrow> (string \<Rightarrow> decimal result) \<Rightarrow> ClickHouseConfig \<Rightarrow>
     'w HistoryClient result" where
  "NewHistoryClient u checkURL do unmarshal dec cfg =
     rbind (buildEndpoint u cfg) (\<lambda>endpoint. Ok \<lparr>hc_endpoint = endpoint, hc_username = ch_Username cfg,
       hc_password = ch_Password cfg,
       hc_connect_timeout = (if ch_ConnectTimeout cfg \<le> 0 then 5 * second else ch_ConnectTimeout cfg),
       hc_timeout = (if ch_Timeout cfg \<le> 0 then 30 * second else ch_Timeout cfg),
       hc_checkURL = checkURL, hc_Do = do, hc_unmarshal = unmarshal, hc_decimal = dec\<rparr>)"

section \<open>The query\<close>

text \<open>The comparison handed to \<open>sort.Slice\<close>, as for the groups of \<open>ExposureSync\<close>.\<close>

definition exposureKeyLess :: "ExposureKey \<Rightarrow> ExposureKey \<Rightarrow> bool" where
  "exposureKeyLess a b =
    (if ek_agent_id a = ek_agent_id b then ek_symbol a < ek_symbol b else ek_agent_id a < ek_agent_id b)"

instantiation ExposureKey :: linorder
begin

definition less_ExposureKey :: "ExposureKey \<Rightarrow> ExposureKey \<Rightarrow> bool" where
  "less_ExposureKey a b = exposureKeyLess a b"

definition less_eq_ExposureKey :: "ExposureKey \<Rightarrow> ExposureKey \<Rightarrow> bool" where
  "less_eq_ExposureKey a b = (a = b \<or> exposureKeyLess a b)"

instance
  by standard
    (auto simp: less_eq_ExposureKey_def less_ExposureKey_def exposureKeyLess_def ExposureKey.expand split: if_splits)

end

definition normalizeSymbol :: "string \<Rightarrow> string" where
  "normalizeSymbol symbol = ToUpper (TrimSpace symbol)"

text \<open>The loop of \<open>normalizeExposureKeys\<close>; \<open>result\<close> holds the keys seen so far.\<close>

fun addExposureKeys :: "ExposureKey list \<Rightarrow> ExposureKey list \<Rightarrow> ExposureKey list" where
  "addExposureKeys result [] = result"
| "addExposureKeys result (k # keys) =
    (let key = ExposureKey (ek_agent_id k) (normalizeSymbol (ek_symbol k))
     in addExposureKeys (if ek_agent_id key = 0 \<or> ek_symbol key = '''' then result
                         else if key \<in> set result then result else result @ [key]) keys)"

definition normalizeExposureKeys :: "ExposureKey list \<Rightarrow> ExposureKey list" where
  "normalizeExposureKeys keys = sort (addExposureKeys [] keys)"

definition quote :: char where "quote = CHR 0x27"
definition backslash :: char where "backslash = CHR 0x5C"
definition newline :: char where "newline = CHR 0x0A"

text \<open>\<open>strings.ReplaceAll\<close> of one character\<close>

definition ReplaceChar :: "string \<Rightarrow> char \<Rightarrow> string \<Rightarrow> string" where
  "ReplaceChar s old new = concat (map (\<lambda>c. if c = old then new else [c]) s)"

definition escapeClickHouseString :: "string \<Rightarrow> string" where
  "escapeClickHouseString value' =
     ReplaceChar (ReplaceChar value' backslash [backslash, backslash]) quote [backslash, quote]"

definition keyTuple :: "ExposureKey \<Rightarrow> string" where
  "keyTuple key =
     ''('' @ showNat (ek_agent_id key) @ '', '' @ [quote] @ escapeClickHouseString (ek_symbol key) @ [quote] @ '')''"

text \<open>\<open>strings.Join\<close>\<close>

fun joinTexts :: "string \<Rightarrow> string list \<Rightarrow> string" where
  "joinTexts sep [] = ''''"
| "joinTexts sep [x] = x"
| "joinTexts sep (x # y # xs) = x @ sep @ joinTexts sep (y # xs)"

definition sqlText :: "string \<Rightarrow> string" where
  "sqlText s = quote # s @ [quote]"

definition queryHead :: string where
  "queryHead = joinTexts [newline]
    [''SELECT'',
     ''    toString(toUInt64(agent_id)) AS agent_id,'',
     ''    normalized_symbol AS symbol,'',
     ''    toString(-sum('',
     ''        multiIf('',
     ''            upper(position_side) = '' @ sqlText ''SHORT'' @ '', -toDecimal128OrZero(quantity, 18),'',
     ''            upper(position_side) = '' @ sqlText ''LONG'' @ '', toDecimal128OrZero(quantity, 18),'',
     ''            toDecimal128OrZero(quantity, 18)'',
     ''        )'',
     ''    )) AS net_quantity,'',
     ''    toString(count()) AS position_rows,'',
     ''    toString(toUnixTimestamp64Milli(max(source_event_time))) AS source_event_time_ms'',
     ''FROM ('',
     ''    SELECT'',
     ''        agent_id,'',
     ''        upper(symbol) AS normalized_symbol,'',
     ''        position_side,'',
     ''        quantity,'',
     ''        source_event_time'',
     ''    FROM current_position_query'',
     ''    WHERE status IN (1, 3)'',
     '')'',
     ''WHERE (agent_id, normalized_symbol) IN ('']"

definition queryTail :: string where
  "queryTail = joinTexts [newline] ['')'', ''GROUP BY agent_id, normalized_symbol'', ''FORMAT JSONEachRow'']"

definition buildNetExposureQuery :: "ExposureKey list \<Rightarrow> string" where
  "buildNetExposureQuery keys = queryHead @ joinTexts '', '' (map keyTuple keys) @ queryTail"

section \<open>The answer\<close>

text \<open>What \<open>io.LimitReader(body, n)\<close> lets through: after \<open>n\<close> bytes the body ends without an error.\<close>

definition limitReader :: "nat \<Rightarrow> historyResponse \<Rightarrow> string \<times> err option" where
  "limitReader n resp =
    (if n \<le> length (hs_body resp) then (take n (hs_body resp), None) else (hs_body resp, hs_readError resp))"

text \<open>The lines of \<open>bufio.ScanLines\<close>, still with a trailing carriage return, which \<open>TrimSpace\<close> removes. A line that
  does not fit into the buffer ends the scan with \<open>ErrTooLong\<close>.\<close>

function splitLines :: "string \<Rightarrow> string list" where
  "splitLines s = (if s = [] then []
     else takeWhile (\<lambda>c. c \<noteq> newline) s # splitLines (drop 1 (dropWhile (\<lambda>c. c \<noteq> newline) s)))"
  by pat_completeness auto
termination
proof (relation "measure length", simp)
  fix s :: string assume "s \<noteq> []"
  with length_dropWhile_le [of "\<lambda>c. c \<noteq> newline" s]
  have "length (dropWhile (\<lambda>c. c \<noteq> newline) s) - 1 < length s" by (cases s) auto
  then show "(drop 1 (dropWhile (\<lambda>c. c \<noteq> newline) s), s) \<in> measure length" by simp
qed

declare splitLines.simps [simp del]

definition scanBody :: "string \<times> err option \<Rightarrow> string list \<times> err option" where
  "scanBody r = (let ls = splitLines (fst r); fits = (\<lambda>l. length l < maxResponseBytes)
     in if list_all fits ls then (ls, snd r)
        else (takeWhile fits ls, Some (ErrExternal ''bufio.Scanner: token too long'')))"

definition unixMilliTime :: "int \<Rightarrow> time" where
  "unixMilliTime value' = (if value' \<le> 0 then 0 else fromUnixMilli value')"

text \<open>One row of the answer\<close>

definition decodeRow ::
    "(string \<Rightarrow> netExposureRow result) \<Rightarrow> (string \<Rightarrow> decimal result) \<Rightarrow> string \<Rightarrow> NetExposure result" where
  "decodeRow unmarshal dec line =
     rbind (wrapErr ''decode clickhouse exposure row'' (unmarshal line)) (\<lambda>row.
     rbind (wrapErr (''parse clickhouse agent id '' @ quoted (nr_AgentID row)) (ParseUint64 (nr_AgentID row))) (\<lambda>agentID.
     let about = '' for agent='' @ showNat agentID @ '' symbol='' @ nr_Symbol row in
     rbind (wrapErr (''parse clickhouse position rows'' @ about) (ParseInt64 (nr_PositionRows row))) (\<lambda>positionRows.
     rbind (wrapErr (''parse clickhouse source event time'' @ about) (ParseInt64 (nr_SourceEventTimeMS row))) (\<lambda>ms.
     rbind (wrapErr (''parse clickhouse net quantity'' @ about) (dec (nr_NetQuantity row))) (\<lambda>quantity.
     Ok \<lparr>ne_agent_id = agentID, ne_symbol = normalizeSymbol (nr_Symbol row), ne_net_quantity = quantity,
         ne_position_rows = positionRows, ne_source_event_time = unixMilliTime ms\<rparr>)))))"

fun decodeLines ::
    "(string \<Rightarrow> netExposureRow result) \<Rightarrow> (string \<Rightarrow> decimal result) \<Rightarrow> string list \<Rightarrow>
     (ExposureKey \<rightharpoonup> NetExposure) \<Rightarrow> (ExposureKey \<rightharpoonup> NetExposure) result" where
  "decodeLines unmarshal dec [] acc = Ok acc"
| "decodeLines unmarshal dec (l # ls) acc =
    (let line = TrimSpace l
     in if line = '''' then decodeLines unmarshal dec ls acc
        else rbind (decodeRow unmarshal dec line) (\<lambda>n.
          decodeLines unmarshal dec ls (acc(ExposureKey (ne_agent_id n) (ne_symbol n) \<mapsto> n))))"

definition decodeNetExposureRows ::
    "(string \<Rightarrow> netExposureRow result) \<Rightarrow> (string \<Rightarrow> decimal result) \<Rightarrow> string \<times> err option \<Rightarrow>
     (ExposureKey \<rightharpoonup> NetExposure) result" where
  "decodeNetExposureRows unmarshal dec r = (case scanBody r of
     (ls, scanErr) \<Rightarrow> rbind (decodeLines unmarshal dec ls Map.empty) (\<lambda>rows. case scanErr of
        None \<Rightarrow> Ok rows
      | Some e \<Rightarrow> Err (ErrWrap ''read clickhouse exposure rows'' e)))"

definition exposureRequest :: "'w HistoryClient \<Rightarrow> ExposureKey list \<Rightarrow> historyRequest" where
  "exposureRequest c keys = \<lparr>hq_url = hc_endpoint c, hq_body = buildNetExposureQuery keys,
     hq_auth = (if hc_username c = '''' then None else Some (hc_username c, hc_password c))\<rparr>"

definition ListNetExposures ::
    "'w HistoryClient \<Rightarrow> ExposureKey list \<Rightarrow> ('w, ExposureKey \<rightharpoonup> NetExposure) io" where
  "ListNetExposures c keys =
    (let normalizedKeys = normalizeExposureKeys keys
     in if normalizedKeys = [] then ret Map.empty
        else bnd (lift (wrapErr ''create clickhouse request'' (hc_checkURL c (hc_endpoint c)))) (\<lambda>_.
             bnd (wrapIO ''query clickhouse current positions'' (hc_Do c (exposureRequest c normalizedKeys))) (\<lambda>resp.
             if hs_status resp < 200 \<or> 300 \<le> hs_status resp
             then throw (ErrMsg (''query clickhouse current positions: status='' @ showNat (hs_status resp)
                    @ '' body='' @ TrimSpace (take 16384 (hs_body resp))))
             else lift (decodeNetExposureRows (hc_unmarshal c) (hc_decimal c) (limitReader maxResponseBytes resp)))))"


section \<open>Reading a query back\<close>

text \<open>The string literals of ClickHouse: a backslash stands before a quote or a backslash, a doubled quote is one
  quote, a single quote ends the literal. Other escapes are not needed here.\<close>

fun readLiteral :: "string \<Rightarrow> (string \<times> string) option" where
  "readLiteral [] = None"
| "readLiteral (c # cs) =
    (if c = backslash
     then (case cs of
             [] \<Rightarrow> None
           | d # ds \<Rightarrow> if d = backslash \<or> d = quote then map_option (apfst (Cons d)) (readLiteral ds) else None)
     else if c = quote
     then (case cs of
             [] \<Rightarrow> Some ([], [])
           | d # ds \<Rightarrow> if d = quote then map_option (apfst (Cons quote)) (readLiteral ds) else Some ([], cs))
     else map_option (apfst (Cons c)) (readLiteral cs))"

text \<open>A tuple \<open>(number, literal)\<close>, a list of them, and the list in a query of this client.\<close>

definition readTuple :: "string \<Rightarrow> (ExposureKey \<times> string) option" where
  "readTuple s =
    (if \<not> HasPrefix s ''('' then None
     else let digits = takeWhile isDigit (drop 1 s); rest = dropWhile isDigit (drop 1 s)
          in if digits = [] \<or> \<not> HasPrefix rest ('', '' @ [quote]) then None
             else case readLiteral (drop 3 rest) of
                    None \<Rightarrow> None
                  | Some (symbol, r) \<Rightarrow> if HasPrefix r '')''
                      then Some (ExposureKey (readDigits digits) symbol, drop 1 r) else None)"

fun readTuples :: "nat \<Rightarrow> string \<Rightarrow> (ExposureKey list \<times> string) option" where
  "readTuples 0 s = None"
| "readTuples (Suc n) s = (case readTuple s of
     None \<Rightarrow> None
   | Some (k, r) \<Rightarrow> if HasPrefix r '', '' then map_option (apfst (Cons k)) (readTuples n (drop 2 r)) else Some ([k], r))"

definition queryKeys :: "string \<Rightarrow> ExposureKey list option" where
  "queryKeys q =
    (if \<not> HasPrefix q queryHead then None
     else case readTuples (length q) (drop (length queryHead) q) of
            None \<Rightarrow> None | Some (keys, r) \<Rightarrow> if r = queryTail then Some keys else None)"

lemma quote_backslash: "quote \<noteq> backslash" "backslash \<noteq> quote"
  by (simp_all add: quote_def backslash_def)

lemma escape_Nil: "escapeClickHouseString [] = []"
  by (simp add: escapeClickHouseString_def ReplaceChar_def)

lemma escape_Cons: "escapeClickHouseString (c # s) =
    (if c = backslash then [backslash, backslash] else if c = quote then [backslash, quote] else [c]) @
    escapeClickHouseString s"
  by (simp add: escapeClickHouseString_def ReplaceChar_def quote_backslash)

text \<open>No symbol can leave its literal.\<close>

lemma readLiteral_escape:
  assumes "rest = [] \<or> hd rest \<noteq> quote"
  shows "readLiteral (escapeClickHouseString s @ quote # rest) = Some (s, rest)"
proof (induction s)
  case Nil
  with assms show ?case by (cases rest) (auto simp: escape_Nil quote_backslash)
next
  case (Cons c s)
  then show ?case by (simp add: escape_Cons quote_backslash)
qed

lemma digit_chars: "list_all (\<lambda>d. isDigit (char_of (48 + d :: nat))) [0..<10]"
  by code_simp

lemma natDigits_digits: "list_all isDigit (natDigits n) \<and> natDigits n \<noteq> []"
proof (induction n rule: natDigits.induct)
  case (1 n)
  have digit: "isDigit (char_of (48 + d))" if "d < 10" for d :: nat
    using that digit_chars by (simp only: list_all_iff set_upt atLeastLessThan_iff) simp
  show ?case
    using "1.IH" by (subst (1 2) natDigits.simps) (auto simp: digit)
qed

lemma readTuple_keyTuple: "readTuple (keyTuple k @ rest) = Some (k, rest)"
proof -
  let ?lit = "escapeClickHouseString (ek_symbol k) @ quote # '')'' @ rest"
  have tail: "\<not> isDigit CHR '',''" by (simp add: isDigit_def)
  have digits: "list_all isDigit (showNat (ek_agent_id k))" "showNat (ek_agent_id k) \<noteq> []"
    using natDigits_digits [of "ek_agent_id k"] by (simp_all add: showNat_def)
  have split: "takeWhile isDigit (showNat (ek_agent_id k) @ '', '' @ quote # ?lit) = showNat (ek_agent_id k)"
      "dropWhile isDigit (showNat (ek_agent_id k) @ '', '' @ quote # ?lit) = '', '' @ quote # ?lit"
    using digits tail by (simp_all add: list_all_iff takeWhile_append2 dropWhile_append2)
  have lit: "readLiteral ?lit = Some (ek_symbol k, '')'' @ rest)"
    by (rule readLiteral_escape) (simp add: quote_def)
  have "readDigits (showNat (ek_agent_id k)) = ek_agent_id k"
    by (simp add: showNat_def readDigits_natDigits)
  then show ?thesis
    using digits(2) split lit by (simp add: readTuple_def keyTuple_def HasPrefix_def Let_def)
qed

lemma readTuples_join:
  assumes "keys \<noteq> []" and "length keys \<le> n" and "\<not> HasPrefix rest '', ''"
  shows "readTuples n (joinTexts '', '' (map keyTuple keys) @ rest) = Some (keys, rest)"
  using assms
proof (induction keys arbitrary: n)
  case (Cons k keys)
  then obtain n' where n: "n = Suc n'" by (cases n) auto
  show ?case
  proof (cases keys)
    case Nil
    with Cons.prems show ?thesis by (simp add: n readTuple_keyTuple)
  next
    case (Cons k' ks)
    with Cons.IH [of n'] Cons.prems n show ?thesis
      by (simp add: readTuple_keyTuple HasPrefix_def)
  qed
qed simp

lemma keyTuple_length: "1 \<le> length (keyTuple k)"
  by (simp add: keyTuple_def)

lemma joinTexts_length: "length keys \<le> length (joinTexts sep (map keyTuple keys))"
proof (induction sep "map keyTuple keys" arbitrary: keys rule: joinTexts.induct)
  case (3 sep x y xs)
  then obtain k k' ks where keys: "keys = k # k' # ks" "x = keyTuple k" "y # xs = map keyTuple (k' # ks)"
    by (auto simp: Cons_eq_map_conv)
  from "3.hyps"(1) [OF keys(3)] keys(1,3) keyTuple_length [of k] show ?case by simp
qed (use keyTuple_length in \<open>auto simp: Cons_eq_map_conv\<close>)

lemma queryKeys_build:
  assumes "keys \<noteq> []"
  shows "queryKeys (buildNetExposureQuery keys) = Some keys"
proof -
  let ?n = "length (buildNetExposureQuery keys)"
  have "length keys \<le> ?n"
    using joinTexts_length [of keys "'', ''"] by (simp add: buildNetExposureQuery_def)
  moreover have "\<not> HasPrefix queryTail '', ''"
    by (simp add: queryTail_def HasPrefix_def)
  ultimately have "readTuples ?n (joinTexts '', '' (map keyTuple keys) @ queryTail) = Some (keys, queryTail)"
    by (rule readTuples_join [OF assms])
  then show ?thesis
    unfolding queryKeys_def by (simp add: buildNetExposureQuery_def HasPrefix_def)
qed


section \<open>The keys\<close>

lemma addExposureKeys_spec:
  assumes "distinct result"
  shows "distinct (addExposureKeys result keys) \<and> set (addExposureKeys result keys) = set result \<union>
    {k \<in> (\<lambda>k. ExposureKey (ek_agent_id k) (normalizeSymbol (ek_symbol k))) ` set keys. ek_agent_id k \<noteq> 0 \<and> ek_symbol k \<noteq> ''''}"
  using assms
proof (induction keys arbitrary: result)
  case (Cons k keys)
  let ?key = "ExposureKey (ek_agent_id k) (normalizeSymbol (ek_symbol k))"
  let ?next = "if ek_agent_id ?key = 0 \<or> ek_symbol ?key = '''' then result
       else if ?key \<in> set result then result else result @ [?key]"
  have "distinct ?next" using Cons.prems by simp
  from Cons.IH [OF this] show ?case by (auto simp: Let_def)
qed simp

lemma normalizeExposureKeys_spec:
  "sorted (normalizeExposureKeys keys)" "distinct (normalizeExposureKeys keys)"
  "set (normalizeExposureKeys keys) =
    {k \<in> (\<lambda>k. ExposureKey (ek_agent_id k) (normalizeSymbol (ek_symbol k))) ` set keys. ek_agent_id k \<noteq> 0 \<and> ek_symbol k \<noteq> ''''}"
  using addExposureKeys_spec [of "[]" keys] by (simp_all add: normalizeExposureKeys_def)

definition readerKey :: "exposureGroupKey \<Rightarrow> ExposureKey" where
  "readerKey g = ExposureKey (gk_agent_id g) (gk_symbol g)"

lemma group_keys: "fst ` set (foldl addToGroup gs mcs) = fst ` set gs \<union> exposureKeyOf ` set mcs"
proof (induction mcs arbitrary: gs)
  case (Cons mc mcs)
  have "fst ` set (addToGroup gs mc) = insert (exposureKeyOf mc) (fst ` set gs)"
    by (simp add: addToGroup_def Let_def dom_map_of_conv_image_fst [symmetric] update_conv')
  with Cons show ?case by auto
qed simp

text \<open>The keys the synchronisation asks for are already in the spelling of the reader, so none is lost.\<close>

lemma reader_keys_survive:
  assumes "groupExposureConfigs configs = (groups, keys, failures)"
  shows "set (normalizeExposureKeys keys) = readerKey ` fst ` set groups"
proof -
  let ?good = "filter (\<lambda>mc. validExposureKey (exposureKeyOf mc)) configs"
  have groups: "fst ` set groups = exposureKeyOf ` set ?good"
    using assms group_keys [of "[]" ?good] by (simp add: groupExposureConfigs_def Let_def)
  have keys: "set keys = readerKey ` exposureKeyOf ` set ?good"
    using assms by (auto simp: groupExposureConfigs_def Let_def readerKey_def image_image)
  have valid: "ExposureKey (ek_agent_id k) (normalizeSymbol (ek_symbol k)) = k \<and> ek_agent_id k \<noteq> 0 \<and> ek_symbol k \<noteq> ''''"
    if "k \<in> set keys" for k
    using that by (auto simp: keys readerKey_def validExposureKey_def exposureKeyOf_def normalizeSymbol_def
        normalizeExposureSymbol_def)
  have "(\<lambda>k. ExposureKey (ek_agent_id k) (normalizeSymbol (ek_symbol k))) ` set keys = set keys"
    using valid by (simp add: image_cong [OF refl, of "set keys" _ "\<lambda>k. k"])
  with valid have "set (normalizeExposureKeys keys) = set keys"
    unfolding normalizeExposureKeys_spec by auto
  with keys groups show ?thesis by simp
qed

section \<open>The answer\<close>

definition entriesKeyed :: "(ExposureKey \<rightharpoonup> NetExposure) \<Rightarrow> bool" where
  "entriesKeyed m \<longleftrightarrow> (\<forall>k n. m k = Some n \<longrightarrow> k = ExposureKey (ne_agent_id n) (ne_symbol n))"

lemma decodeLines_keyed: "decodeLines unmarshal dec ls acc = Ok m \<Longrightarrow> entriesKeyed acc \<Longrightarrow> entriesKeyed m"
proof (induction ls arbitrary: acc)
  case (Cons l ls)
  have step: "entriesKeyed (acc(ExposureKey (ne_agent_id n) (ne_symbol n) \<mapsto> n))" for n
    using Cons.prems(2) by (auto simp: entriesKeyed_def)
  show ?case
    using Cons.prems Cons.IH [OF _ Cons.prems(2)]
    by (auto simp: Let_def rbind_Ok_iff simp del: fun_upd_apply split: if_splits dest: Cons.IH [OF _ step])
qed simp

lemma decodeNetExposureRows_keyed: "decodeNetExposureRows unmarshal dec r = Ok m \<Longrightarrow> entriesKeyed m"
  by (auto simp: decodeNetExposureRows_def rbind_Ok_iff entriesKeyed_def [of Map.empty]
      split: prod.splits option.splits dest: decodeLines_keyed)

section \<open>Properties\<close>

text \<open>C33: the reader asks ClickHouse for exactly the groups the synchronisation formed: the query it posts, read back
  with the literal syntax of ClickHouse, lists the agent and symbol of every group once, in order, whatever
  characters the symbols contain; and every entry of the map it returns is filed under its own agent and
  symbol.\<close>

theorem exposure_query_reads_back:
  assumes "groupExposureConfigs configs = (groups, keys, failures)" and "groups \<noteq> []"
    and "ListNetExposures c keys w = (Ok exposures, w')"
  shows "\<exists>asked resp. hc_Do c (exposureRequest c asked) w = (Ok resp, w') \<and>
    queryKeys (hq_body (exposureRequest c asked)) = Some asked \<and> sorted asked \<and> distinct asked \<and>
    set asked = (\<lambda>g. ExposureKey (gk_agent_id g) (gk_symbol g)) ` fst ` set groups \<and>
    (\<forall>k n. exposures k = Some n \<longrightarrow> ne_agent_id n = ek_agent_id k \<and> ne_symbol n = ek_symbol k)"
proof -
  let ?asked = "normalizeExposureKeys keys"
  have asked: "set ?asked = (\<lambda>g. ExposureKey (gk_agent_id g) (gk_symbol g)) ` fst ` set groups"
    using reader_keys_survive [OF assms(1)] by (simp add: readerKey_def image_image)
  with assms(2) have "?asked \<noteq> []" by auto
  with assms(3) obtain resp where do: "hc_Do c (exposureRequest c ?asked) w = (Ok resp, w')"
      and rows: "decodeNetExposureRows (hc_unmarshal c) (hc_decimal c) (limitReader maxResponseBytes resp) = Ok exposures"
    by (auto simp: ListNetExposures_def Let_def bnd_Ok_iff wrapIO_Ok_iff lift_def throw_def split: if_splits)
  have "queryKeys (hq_body (exposureRequest c ?asked)) = Some ?asked"
    using queryKeys_build [OF \<open>?asked \<noteq> []\<close>] by (simp add: exposureRequest_def)
  moreover have "ne_agent_id n = ek_agent_id k \<and> ne_symbol n = ek_symbol k" if "exposures k = Some n" for k n
    using decodeNetExposureRows_keyed [OF rows] that by (cases k) (auto simp: entriesKeyed_def)
  ultimately show ?thesis
    using do asked normalizeExposureKeys_spec(1,2) [of keys] by blast
qed

definition exampleHistoryClient :: "unit HistoryClient" where
  "exampleHistoryClient = \<lparr>hc_endpoint = ''http://clickhouse:8123/?database=freedex_history'', hc_username = '''',
     hc_password = '''', hc_connect_timeout = 5 * second, hc_timeout = 30 * second, hc_checkURL = (\<lambda>_. Ok ()),
     hc_Do = (\<lambda>_. ret \<lparr>hs_status = 200, hs_body = '''', hs_readError = None\<rparr>),
     hc_unmarshal = (\<lambda>_. Err (ErrExternal ''invalid JSON'')), hc_decimal = (\<lambda>s. Ok (of_nat (readDigits s)))\<rparr>"

definition quotedSymbolConfig :: HedgeMonitorConfig where
  "quotedSymbolConfig = \<lparr>mc_config = exampleHedge\<lparr>cf_symbol := quote # ''X'' @ [backslash]\<rparr>, mc_global_enabled = True\<rparr>"

lemma quotedSymbol: "TrimSpace (quote # ''X'' @ [backslash]) = quote # ''X'' @ [backslash]"
  "ToUpper (quote # ''X'' @ [backslash]) = quote # ''X'' @ [backslash]" "normalizeExposureSource ''platform'' = ''platform''"
  by code_simp+

theorem exposure_query_reads_back_witness:
  "\<exists>asked. queryKeys (hq_body (exposureRequest exampleHistoryClient asked)) = Some asked \<and>
     set asked = {ExposureKey 3 (quote # ''X'' @ [backslash])}"
proof -
  let ?group = "ExposureGroupKey 3 ''platform'' (quote # ''X'' @ [backslash])"
  have key: "exposureKeyOf quotedSymbolConfig = ?group"
    using quotedSymbol by (simp add: exposureKeyOf_def quotedSymbolConfig_def normalizeExposureSymbol_def exampleHedge_def)
  have groups: "groupExposureConfigs [quotedSymbolConfig] =
      ([(?group, [quotedSymbolConfig])], [ExposureKey 3 (quote # ''X'' @ [backslash])], [])"
    by (simp add: groupExposureConfigs_def key validExposureKey_def maxInt64_def addToGroup_def Let_def)
  have listed: "ListNetExposures exampleHistoryClient [ExposureKey 3 (quote # ''X'' @ [backslash])] () = (Ok Map.empty, ())"
    using quotedSymbol by (simp add: ListNetExposures_def normalizeExposureKeys_def normalizeSymbol_def Let_def bnd_def
        lift_def wrapIO_def ret_def exampleHistoryClient_def limitReader_def maxResponseBytes_def
        decodeNetExposureRows_def scanBody_def splitLines.simps)
  from exposure_query_reads_back [OF groups _ listed] show ?thesis by auto
qed

end
