(* ===== verification/Migrations.thy ===== *)
theory Migrations
  imports World ExposureSync
begin

text \<open>
  The schema migrations (\<open>internal/db/migrate.go\<close>): the files are taken in the order of their names, and one whose
  version is not recorded is run and recorded in one transaction. The database is its schema, an unknown
  value that scripts transform, and the table \<open>schema_migrations\<close>; any statement can fail before or after it
  took effect. A transaction is the state it would commit, so that dropping it is the rollback. What the
  script of a migration does, the files and their contents are parameters; other processes are left out. The
  lemmas say that schema and table stay in step and that a version is applied once.
\<close>

section \<open>The database\<close>

type_synonym migrationRows = "(int \<times> string) list"

record 's MigrationDB =
  mw_schema :: 's
  mw_table :: "migrationRows option"
  mw_faults :: "fault list"

definition migrationRowsOf :: "'s MigrationDB \<Rightarrow> migrationRows" where
  "migrationRowsOf w = (case mw_table w of None \<Rightarrow> [] | Some rows \<Rightarrow> rows)"

definition statement :: "('s MigrationDB, 'a) io \<Rightarrow> ('s MigrationDB, 'a) io" where
  "statement m w = (case mw_faults w of
     [] \<Rightarrow> m w
   | f # fs \<Rightarrow>
       let w1 = w\<lparr>mw_faults := fs\<rparr>
       in case f of
            NoFault \<Rightarrow> m w1
          | FailBefore \<Rightarrow> (Err (ErrExternal ''unavailable''), w1)
          | FailAfter \<Rightarrow> (Err (ErrExternal ''connection lost''), snd (m w1)))"

text \<open>The files and what a script does.\<close>

record 's MigrationEnv =
  mv_Glob :: "string list result"
  mv_ReadFile :: "string \<Rightarrow> string result"
  mv_script :: "string \<Rightarrow> 's \<Rightarrow> 's result"

type_synonym 's migrationTx = "'s \<times> migrationRows"

definition ensureTable :: "('s MigrationDB, unit) io" where
  "ensureTable = statement (\<lambda>w. (Ok (), w\<lparr>mw_table := Some (migrationRowsOf w)\<rparr>))"

definition BeginTx :: "('s MigrationDB, 's migrationTx) io" where
  "BeginTx = statement (\<lambda>w. (Ok (mw_schema w, migrationRowsOf w), w))"

definition ExecTx :: "'s MigrationEnv \<Rightarrow> string \<Rightarrow> 's migrationTx \<Rightarrow> ('s MigrationDB, 's migrationTx) io" where
  "ExecTx env body tx = statement (lift (rbind (mv_script env body (fst tx)) (\<lambda>s. Ok (s, snd tx))))"

text \<open>\<open>INSERT ... ON CONFLICT (version) DO NOTHING\<close>\<close>

definition RecordTx :: "int \<Rightarrow> string \<Rightarrow> 's migrationTx \<Rightarrow> ('s MigrationDB, 's migrationTx) io" where
  "RecordTx version name tx = statement (ret
     (fst tx, if version \<in> fst ` set (snd tx) then snd tx else snd tx @ [(version, name)]))"

definition CommitTx :: "'s migrationTx \<Rightarrow> ('s MigrationDB, unit) io" where
  "CommitTx tx = statement (\<lambda>w. (Ok (), w\<lparr>mw_schema := fst tx, mw_table := Some (snd tx)\<rparr>))"

definition migrationApplied :: "int \<Rightarrow> ('s MigrationDB, bool) io" where
  "migrationApplied version = wrapIO (''check migration '' @ showInt version)
     (statement (\<lambda>w. (Ok (version \<in> fst ` set (migrationRowsOf w)), w)))"

section \<open>The files\<close>

text \<open>\<open>filepath.Base\<close> of a path that names a file, \<open>strings.TrimSuffix\<close>, and the two parts of
  \<open>strings.SplitN(name, "_", 2)\<close>.\<close>

definition fileBase :: "string \<Rightarrow> string" where
  "fileBase path = rev (takeWhile (\<lambda>c. c \<noteq> CHR ''/'') (rev path))"

definition TrimSuffix :: "string \<Rightarrow> string \<Rightarrow> string" where
  "TrimSuffix s part = (if suffix part s then take (length s - length part) s else s)"

definition migrationName :: "string \<Rightarrow> (int \<times> string) result" where
  "migrationName path =
    (let base = fileBase path; name = TrimSuffix base ''.up.sql''
     in if CHR ''_'' \<notin> set name then Err (ErrMsg (''invalid migration name '' @ base))
        else rbind (wrapErr (''invalid migration version '' @ base) (ParseInt64 (takeWhile (\<lambda>c. c \<noteq> CHR ''_'') name)))
          (\<lambda>version. Ok (version, name)))"

section \<open>Running the migrations\<close>

definition applyMigration :: "'s MigrationEnv \<Rightarrow> string \<Rightarrow> int \<Rightarrow> string \<Rightarrow> ('s MigrationDB, unit) io" where
  "applyMigration env body version name =
     bnd (wrapIO (''begin migration '' @ name) BeginTx) (\<lambda>tx.
     bnd (wrapIO (''apply migration '' @ name) (ExecTx env body tx)) (\<lambda>applied.
     bnd (wrapIO (''record migration '' @ name) (RecordTx version name applied)) (\<lambda>recorded.
     wrapIO (''commit migration '' @ name) (CommitTx recorded))))"

definition migrateFile :: "'s MigrationEnv \<Rightarrow> string \<Rightarrow> ('s MigrationDB, unit) io" where
  "migrateFile env file =
     bnd (lift (migrationName file)) (\<lambda>(version, name).
     bnd (migrationApplied version) (\<lambda>applied.
     if applied then ret ()
     else bnd (lift (wrapErr (''read migration '' @ file) (mv_ReadFile env file))) (\<lambda>body.
          applyMigration env body version name)))"

fun migrateFiles :: "'s MigrationEnv \<Rightarrow> string list \<Rightarrow> ('s MigrationDB, unit) io" where
  "migrateFiles env [] = ret ()"
| "migrateFiles env (file # files) = bnd (migrateFile env file) (\<lambda>_. migrateFiles env files)"

definition RunMigrations :: "'s MigrationEnv \<Rightarrow> ('s MigrationDB, unit) io" where
  "RunMigrations env =
     bnd (wrapIO ''ensure schema_migrations'' ensureTable) (\<lambda>_.
     bnd (lift (wrapErr ''list migrations'' (mv_Glob env))) (\<lambda>files.
     migrateFiles env (sort files)))"

section \<open>Schema and table stay in step\<close>

text \<open>The specification: the given files, run one after the other on a schema and its table.\<close>

fun replay :: "'s MigrationEnv \<Rightarrow> string list \<Rightarrow> 's migrationTx \<Rightarrow> 's migrationTx option" where
  "replay env [] st = Some st"
| "replay env (file # files) st = (case (migrationName file, mv_ReadFile env file) of
     (Ok (version, name), Ok body) \<Rightarrow>
       if version \<in> fst ` set (snd st) then None
       else (case mv_script env body (fst st) of
               Ok schema \<Rightarrow> replay env files (schema, snd st @ [(version, name)])
             | _ \<Rightarrow> None)
   | _ \<Rightarrow> None)"

definition stateOf :: "'s MigrationDB \<Rightarrow> 's migrationTx" where
  "stateOf w = (mw_schema w, migrationRowsOf w)"

lemma replay_append: "replay env (xs @ ys) st = Option.bind (replay env xs st) (replay env ys)"
  by (induction xs arbitrary: st) (auto split: result.split prod.split)

lemma replay_grows: "replay env files st = Some st' \<Longrightarrow> set (snd st) \<subseteq> set (snd st')"
  by (induction files arbitrary: st) (force split: result.splits prod.splits if_splits)+

lemma statement_reads:
  assumes "\<And>w. snd (m w) = w"
  shows "stateOf (snd (statement m w)) = stateOf w"
  using assms by (auto simp: statement_def stateOf_def migrationRowsOf_def Let_def split: list.split fault.split)

lemma statement_Ok:
  assumes "statement m w = (Ok x, w')"
  obtains fs where "m (w\<lparr>mw_faults := fs\<rparr>) = (Ok x, w')"
proof (cases "mw_faults w")
  case Nil
  then have "w\<lparr>mw_faults := []\<rparr> = w" by auto
  with Nil assms that [of "[]"] show thesis by (simp add: statement_def)
next
  case (Cons f fs)
  with assms that [of fs] show thesis by (cases f) (auto simp: statement_def Let_def)
qed

lemma stateOf_faults [simp]: "stateOf (w\<lparr>mw_faults := fs\<rparr>) = stateOf w"
  by (simp add: stateOf_def migrationRowsOf_def)

lemma CommitTx_effect: "stateOf (snd (CommitTx tx w)) = stateOf w \<or> stateOf (snd (CommitTx tx w)) = tx"
  "CommitTx tx w = (Ok (), w') \<Longrightarrow> stateOf w' = tx"
proof -
  show "stateOf (snd (CommitTx tx w)) = stateOf w \<or> stateOf (snd (CommitTx tx w)) = tx"
    by (auto simp: CommitTx_def statement_def stateOf_def migrationRowsOf_def Let_def split: list.split fault.split)
  show "CommitTx tx w = (Ok (), w') \<Longrightarrow> stateOf w' = tx"
    unfolding CommitTx_def by (erule statement_Ok) (auto simp: stateOf_def migrationRowsOf_def)
qed

lemma tx_reads:
  "stateOf (snd (BeginTx w)) = stateOf w" "stateOf (snd (ExecTx env body tx w)) = stateOf w"
  "stateOf (snd (RecordTx version name tx w)) = stateOf w" "stateOf (snd (migrationApplied version w)) = stateOf w"
  by (simp_all add: BeginTx_def ExecTx_def RecordTx_def migrationApplied_def statement_reads)

lemma BeginTx_Ok: "BeginTx w = (Ok tx, w') \<Longrightarrow> tx = stateOf w"
  unfolding BeginTx_def by (erule statement_Ok) (auto simp: stateOf_def migrationRowsOf_def)

lemma ExecTx_Ok: "ExecTx env body tx w = (Ok tx', w') \<Longrightarrow>
    \<exists>s. mv_script env body (fst tx) = Ok s \<and> tx' = (s, snd tx)"
  unfolding ExecTx_def by (erule statement_Ok) (auto simp: lift_def rbind_Ok_iff)

lemma RecordTx_Ok: "RecordTx version name tx w = (Ok tx', w') \<Longrightarrow>
    tx' = (fst tx, if version \<in> fst ` set (snd tx) then snd tx else snd tx @ [(version, name)])"
  unfolding RecordTx_def by (erule statement_Ok) (simp add: ret_def)

lemma migrationApplied_Ok:
  "migrationApplied version w = (Ok b, w') \<Longrightarrow> b \<longleftrightarrow> version \<in> fst ` set (snd (stateOf w))"
  unfolding migrationApplied_def wrapIO_Ok_iff
  by (erule statement_Ok) (simp add: stateOf_def migrationRowsOf_def)

text \<open>A call that only reads, and may fail, before the rest of a computation.\<close>

lemma read_step:
  assumes "stateOf (snd (m w)) = stateOf w"
    and "\<And>x v. m w = (Ok x, v) \<Longrightarrow> stateOf v = stateOf w \<Longrightarrow> P (f x v)"
    and "\<And>r v. (\<And>y. r \<noteq> Ok y) \<Longrightarrow> stateOf v = stateOf w \<Longrightarrow> P (r, v)"
  shows "P (bnd m f w)"
  using assms by (cases "m w"; cases "fst (m w)") (auto simp: bnd_def)

definition applied :: "'s MigrationEnv \<Rightarrow> string \<Rightarrow> int \<Rightarrow> string \<Rightarrow> 's migrationTx \<Rightarrow> unit result \<times> 's MigrationDB \<Rightarrow> bool" where
  "applied env body version name st p \<longleftrightarrow> stateOf (snd p) = st \<and> fst p \<noteq> Ok () \<or>
     (\<exists>s. mv_script env body (fst st) = Ok s \<and> stateOf (snd p) \<in> {st, (s, snd st @ [(version, name)])} \<and>
       (fst p = Ok () \<longrightarrow> stateOf (snd p) = (s, snd st @ [(version, name)])))"

lemma applyMigration_effect:
  assumes "version \<notin> fst ` set (snd (stateOf w))"
  shows "applied env body version name (stateOf w) (applyMigration env body version name w)"
  unfolding applyMigration_def
proof (rule read_step, goal_cases)
  case (2 tx v)
  then have tx: "tx = stateOf w" using BeginTx_Ok by (simp add: wrapIO_Ok_iff)
  show ?case
  proof (rule read_step [where w = v, unfolded \<open>stateOf v = stateOf w\<close>], goal_cases)
    case (2 tx2 v2)
    then obtain s where s: "mv_script env body (fst (stateOf w)) = Ok s" "tx2 = (s, snd (stateOf w))"
      using ExecTx_Ok tx unfolding wrapIO_Ok_iff by blast
    show ?case
    proof (rule read_step [where w = v2, unfolded \<open>stateOf v2 = stateOf w\<close>], goal_cases)
      case (2 tx3 v3)
      then have tx3: "tx3 = (s, snd (stateOf w) @ [(version, name)])"
        using RecordTx_Ok assms s(2) unfolding wrapIO_Ok_iff by fastforce
      show ?case
        using CommitTx_effect [of tx3 v3] s(1) \<open>stateOf v3 = stateOf w\<close>
        by (cases "CommitTx tx3 v3"; cases "fst (CommitTx tx3 v3)") (auto simp: applied_def wrapIO_def tx3)
    qed (use \<open>stateOf v2 = stateOf w\<close> in \<open>auto simp: applied_def tx_reads\<close>)
  qed (use \<open>stateOf v = stateOf w\<close> in \<open>auto simp: applied_def tx_reads\<close>)
qed (auto simp: applied_def tx_reads)


definition recordedFile :: "string \<Rightarrow> migrationRows \<Rightarrow> bool" where
  "recordedFile file rows \<longleftrightarrow>
    (case migrationName file of Ok (version, name) \<Rightarrow> version \<in> fst ` set rows | _ \<Rightarrow> False)"

lemma migrateFile_effect:
  "\<exists>ran. (ran = [] \<or> ran = [file]) \<and> replay env ran (stateOf w) = Some (stateOf (snd (migrateFile env file w))) \<and>
    (fst (migrateFile env file w) = Ok () \<longrightarrow> recordedFile file (snd (stateOf (snd (migrateFile env file w)))))"
proof (cases "migrationName file")
  case (Ok p)
  then obtain version name where name: "migrationName file = Ok (version, name)" by (cases p) auto
  let ?P = "\<lambda>p :: unit result \<times> 'a MigrationDB. \<exists>ran. (ran = [] \<or> ran = [file]) \<and>
      replay env ran (stateOf w) = Some (stateOf (snd p)) \<and> (fst p = Ok () \<longrightarrow> recordedFile file (snd (stateOf (snd p))))"
  have idle: "?P (r, v)" if "stateOf v = stateOf w" "r = Ok () \<Longrightarrow> version \<in> fst ` set (snd (stateOf w))" for r v
    using that by (intro exI [of _ "[]"]) (auto simp: recordedFile_def name)
  have run: "migrateFile env file w = bnd (migrationApplied version) (\<lambda>applied.
      if applied then ret ()
      else bnd (lift (wrapErr (''read migration '' @ file) (mv_ReadFile env file))) (\<lambda>body.
           applyMigration env body version name)) w"
    by (simp add: migrateFile_def name lift_def bnd_def)
  have "?P (migrateFile env file w)"
    unfolding run
  proof (rule read_step, goal_cases)
    case 1
    show ?case by (rule tx_reads)
  next
    case (2 b v)
    then have b: "b \<longleftrightarrow> version \<in> fst ` set (snd (stateOf w))" using migrationApplied_Ok by blast
    show ?case
    proof (cases b)
      case True
      with b 2(2) idle [of v "Ok ()"] show ?thesis by (simp only: ret_def if_True)
    next
      case False
      show ?thesis
      proof (cases "mv_ReadFile env file")
        case (Ok body)
        let ?m = "applyMigration env body version name v"
        have "applied env body version name (stateOf w) ?m"
          using applyMigration_effect [of version v] False b 2 by simp
        then have "stateOf (snd ?m) = stateOf w \<and> fst ?m \<noteq> Ok () \<or> (\<exists>s. mv_script env body (fst (stateOf w)) = Ok s \<and>
            stateOf (snd ?m) = (s, snd (stateOf w) @ [(version, name)]))"
          unfolding applied_def by auto
        then have "?P ?m"
        proof (elim disjE conjE exE)
          assume "stateOf (snd ?m) = stateOf w" "fst ?m \<noteq> Ok ()"
          then show ?thesis by (intro exI [of _ "[]"]) simp
        next
          fix s assume "mv_script env body (fst (stateOf w)) = Ok s" "stateOf (snd ?m) = (s, snd (stateOf w) @ [(version, name)])"
          with Ok False b show ?thesis by (intro exI [of _ "[file]"]) (simp add: name recordedFile_def)
        qed
        with Ok False show ?thesis by (simp add: bnd_def lift_def)
      qed (use False 2(2) in \<open>auto simp: bnd_def lift_def intro!: exI [of _ "[]"]\<close>)
    qed
  next
    case (3 r v)
    then show ?case by (intro idle) auto
  qed
  then show ?thesis .
qed (auto simp: migrateFile_def lift_def bnd_def intro!: exI [of _ "[]"])

lemma migrateFiles_effect:
  "\<exists>ran. subseq ran files \<and> replay env ran (stateOf w) = Some (stateOf (snd (migrateFiles env files w))) \<and>
    (fst (migrateFiles env files w) = Ok () \<longrightarrow>
      list_all (\<lambda>f. recordedFile f (snd (stateOf (snd (migrateFiles env files w))))) files)"
proof (induction files arbitrary: w)
  case (Cons f fs)
  from migrateFile_effect [of f env w] obtain ran1 where ran1: "ran1 = [] \<or> ran1 = [f]"
      "replay env ran1 (stateOf w) = Some (stateOf (snd (migrateFile env f w)))"
      "fst (migrateFile env f w) = Ok () \<Longrightarrow> recordedFile f (snd (stateOf (snd (migrateFile env f w))))"
    by blast
  show ?case
  proof (cases "fst (migrateFile env f w)")
    case (Ok x)
    let ?v = "snd (migrateFile env f w)"
    from Cons.IH [of ?v] obtain ran2 where ran2: "subseq ran2 fs"
        "replay env ran2 (stateOf ?v) = Some (stateOf (snd (migrateFiles env fs ?v)))"
        "fst (migrateFiles env fs ?v) = Ok () \<Longrightarrow>
          list_all (\<lambda>f. recordedFile f (snd (stateOf (snd (migrateFiles env fs ?v))))) fs"
      by blast
    have run: "migrateFiles env (f # fs) w = migrateFiles env fs ?v"
      using Ok by (cases "migrateFile env f w") (simp add: bnd_def)
    have "subseq (ran1 @ ran2) (f # fs)" using ran1(1) ran2(1) by auto
    moreover have "replay env (ran1 @ ran2) (stateOf w) = Some (stateOf (snd (migrateFiles env fs ?v)))"
      using ran1(2) ran2(2) by (simp add: replay_append)
    moreover have "recordedFile f (snd (stateOf (snd (migrateFiles env fs ?v))))"
      using ran1(3) Ok replay_grows [OF ran2(2)] by (force simp: recordedFile_def split: result.splits)
    ultimately show ?thesis unfolding run using ran2(3) by (intro exI [of _ "ran1 @ ran2"]) simp
  next
    case (Err e)
    with ran1 show ?thesis by (cases "migrateFile env f w") (auto simp: bnd_def intro!: exI [of _ ran1])
  next
    case Panic
    with ran1 show ?thesis by (cases "migrateFile env f w") (auto simp: bnd_def intro!: exI [of _ ran1])
  qed
qed (auto simp: ret_def intro!: exI [of _ "[]"])

lemma migrateFiles_idle:
  assumes "mw_faults w = []" and "list_all (\<lambda>f. recordedFile f (snd (stateOf w))) files"
  shows "migrateFiles env files w = (Ok (), w)"
  using assms(2)
proof (induction files)
  case (Cons f fs)
  then obtain version name where "migrationName f = Ok (version, name)" "version \<in> fst ` set (migrationRowsOf w)"
    by (auto simp: recordedFile_def stateOf_def split: result.splits)
  with assms(1) have "migrateFile env f w = (Ok (), w)"
    by (simp add: migrateFile_def lift_def bnd_def migrationApplied_def wrapIO_def statement_def ret_def)
  with Cons show ?case by (simp add: bnd_def)
qed (simp add: ret_def)

lemma ensureTable_state: "stateOf (snd (ensureTable w)) = stateOf w"
  by (auto simp: ensureTable_def statement_def stateOf_def migrationRowsOf_def Let_def split: list.split fault.split)

section \<open>Properties\<close>

text \<open>C34: whatever fails, the schema is what the recorded migrations made of it: the run applied some of the files in
  the order of their names, each one in full together with its record, and no version twice; a run that
  returns without an error has every file recorded, and then running again changes nothing.\<close>

theorem migrations_stay_in_step:
  assumes "RunMigrations env w = (r, w')"
  shows "\<exists>ran. subseq ran (case mv_Glob env of Ok files \<Rightarrow> sort files | _ \<Rightarrow> []) \<and>
    replay env ran (stateOf w) = Some (stateOf w') \<and>
    (r = Ok () \<longrightarrow> (\<exists>files. mv_Glob env = Ok files \<and> list_all (\<lambda>f. recordedFile f (snd (stateOf w'))) files) \<and>
      (\<forall>v. stateOf v = stateOf w' \<and> mw_faults v = [] \<longrightarrow>
        fst (RunMigrations env v) = Ok () \<and> stateOf (snd (RunMigrations env v)) = stateOf w'))"
proof -
  obtain r1 v1 where ensure: "ensureTable w = (r1, v1)" by (cases "ensureTable w")
  have v1: "stateOf v1 = stateOf w" using ensureTable_state [of w] ensure by simp
  have quiet: ?thesis if "stateOf w' = stateOf w" "r \<noteq> Ok ()"
    using that by (intro exI [of _ "[]"]) auto
  show ?thesis
  proof (cases r1)
    case (Ok u)
    show ?thesis
    proof (cases "mv_Glob env")
      fix files assume files: "mv_Glob env = Ok files"
      have run: "migrateFiles env (sort files) v1 = (r, w')"
        using assms ensure Ok files by (simp add: RunMigrations_def bnd_def wrapIO_def lift_def)
      from migrateFiles_effect [of "sort files" env v1] obtain ran where ran: "subseq ran (sort files)"
          "replay env ran (stateOf w) = Some (stateOf w')"
          "r = Ok () \<Longrightarrow> list_all (\<lambda>f. recordedFile f (snd (stateOf w'))) (sort files)"
        unfolding run v1 by auto
      have again: "fst (RunMigrations env v) = Ok () \<and> stateOf (snd (RunMigrations env v)) = stateOf w'"
        if "r = Ok ()" "stateOf v = stateOf w'" "mw_faults v = []" for v
      proof -
        let ?u = "v\<lparr>mw_table := Some (migrationRowsOf v)\<rparr>"
        have u: "ensureTable v = (Ok (), ?u)" "mw_faults ?u = []" "stateOf ?u = stateOf w'"
          using that(2,3) by (auto simp: ensureTable_def statement_def stateOf_def migrationRowsOf_def)
        have "migrateFiles env (sort files) ?u = (Ok (), ?u)"
          using migrateFiles_idle [OF u(2)] ran(3) that(1) u(3) by simp
        with u files show ?thesis by (simp add: RunMigrations_def bnd_def wrapIO_def lift_def)
      qed
      from ran again files show ?thesis by (auto simp: list_all_iff)
    next
      fix e assume "mv_Glob env = Err e"
      with assms ensure Ok v1 quiet show ?thesis by (auto simp: RunMigrations_def bnd_def wrapIO_def lift_def)
    next
      assume "mv_Glob env = Panic"
      with assms ensure Ok v1 quiet show ?thesis by (auto simp: RunMigrations_def bnd_def wrapIO_def lift_def)
    qed
  qed (use assms ensure v1 quiet in \<open>auto simp: RunMigrations_def bnd_def wrapIO_def\<close>)
qed

definition exampleMigrations :: "(string list) MigrationEnv" where
  "exampleMigrations = \<lparr>mv_Glob = Ok [''db/000002_b.up.sql'', ''db/000001_a.up.sql''], mv_ReadFile = (\<lambda>f. Ok f),
     mv_script = (\<lambda>body s. Ok (s @ [body]))\<rparr>"

lemma exampleMigrations_run:
  "fst (RunMigrations exampleMigrations \<lparr>mw_schema = [], mw_table = None, mw_faults = []\<rparr>) = Ok ()"
  "mw_schema (snd (RunMigrations exampleMigrations \<lparr>mw_schema = [], mw_table = None, mw_faults = []\<rparr>)) =
    [''db/000001_a.up.sql'', ''db/000002_b.up.sql'']"
  by code_simp+

theorem migrations_stay_in_step_witness:
  "\<exists>w'. RunMigrations exampleMigrations \<lparr>mw_schema = [], mw_table = None, mw_faults = []\<rparr> = (Ok (), w') \<and>
     fst (RunMigrations exampleMigrations (w'\<lparr>mw_faults := []\<rparr>)) = Ok ()"
proof -
  obtain w' where run: "RunMigrations exampleMigrations \<lparr>mw_schema = [], mw_table = None, mw_faults = []\<rparr> = (Ok (), w')"
    using exampleMigrations_run(1) by (metis prod.collapse)
  from migrations_stay_in_step [OF run] have "fst (RunMigrations exampleMigrations (w'\<lparr>mw_faults := []\<rparr>)) = Ok ()"
    by (auto dest: spec [of _ "w'\<lparr>mw_faults := []\<rparr>"])
  with run show ?thesis by blast
qed

end
