(* ===== verification/Credentials.thy ===== *)
theory Credentials
  imports Symbols
begin

text \<open>
  The decryption of stored credentials (\<open>internal/credentials/codec.go\<close>): a key and a credential are base64 text, a
  credential is the nonce, the tag and the ciphertext of an authenticated cipher, and a value without the prefix
  \<open>v1:\<close> is plaintext of an older account. \<open>base64.StdEncoding\<close> is modelled, the cipher (AES-GCM of the standard
  library) is a parameter. The lemmas say that what was sealed with the key is read back.
\<close>

section \<open>Base64\<close>

definition base64Alphabet :: string where
  "base64Alphabet = ''ABCDEFGHIJKLMNOPQRSTUVWXYZabcdefghijklmnopqrstuvwxyz0123456789+/''"

definition base64Char :: "nat \<Rightarrow> char" where
  "base64Char n = base64Alphabet ! n"

definition base64Value :: "char \<Rightarrow> nat option" where
  "base64Value c = map_of (zip base64Alphabet [0..<64]) c"

definition padding :: char where "padding = CHR ''=''"

text \<open>The four values of a group, and the bytes they stand for; a value of a padding is zero.\<close>

definition groupBytes :: "nat \<Rightarrow> nat \<Rightarrow> nat \<Rightarrow> nat \<Rightarrow> string" where
  "groupBytes a b c d =
    (let n = a * 2 ^ 18 + b * 2 ^ 12 + c * 2 ^ 6 + d
     in [char_of (n div 2 ^ 16), char_of (n div 2 ^ 8 mod 256), char_of (n mod 256)])"

fun decodeGroups :: "string \<Rightarrow> string option" where
  "decodeGroups [] = Some []"
| "decodeGroups (p # q # r # s # rest) =
    (case (base64Value p, base64Value q) of
       (Some a, Some b) \<Rightarrow>
         if rest = [] \<and> r = padding \<and> s = padding then Some (take 1 (groupBytes a b 0 0))
         else (case base64Value r of
                 None \<Rightarrow> None
               | Some c \<Rightarrow>
                   if rest = [] \<and> s = padding then Some (take 2 (groupBytes a b c 0))
                   else (case base64Value s of
                           None \<Rightarrow> None
                         | Some d \<Rightarrow> map_option (\<lambda>bs. groupBytes a b c d @ bs) (decodeGroups rest)))
     | _ \<Rightarrow> None)"
| "decodeGroups _ = None"

text \<open>\<open>DecodeString\<close> skips carriage returns and newlines.\<close>

definition base64Decode :: "string \<Rightarrow> string result" where
  "base64Decode s = (case decodeGroups (filter (\<lambda>c. c \<noteq> CHR 0x0A \<and> c \<noteq> CHR 0x0D) s) of
     None \<Rightarrow> Err (ErrExternal ''illegal base64 data'') | Some bs \<Rightarrow> Ok bs)"

text \<open>The encoding, as the writer of the credentials uses it.\<close>

definition encodeGroup :: "nat \<Rightarrow> nat \<Rightarrow> nat \<Rightarrow> string" where
  "encodeGroup x y z = map base64Char [x div 4, x mod 4 * 16 + y div 16, y mod 16 * 4 + z div 64, z mod 64]"

fun base64Encode :: "string \<Rightarrow> string" where
  "base64Encode [] = []"
| "base64Encode [x] = take 2 (encodeGroup (of_char x) 0 0) @ [padding, padding]"
| "base64Encode [x, y] = take 3 (encodeGroup (of_char x) (of_char y) 0) @ [padding]"
| "base64Encode (x # y # z # rest) = encodeGroup (of_char x) (of_char y) (of_char z) @ base64Encode rest"

section \<open>The codec\<close>

definition credentialPrefix :: string where "credentialPrefix = ''v1:''"
definition additionalData :: string where "additionalData = ''hedging-credentials:v1''"

text \<open>\<open>cipher.AEAD\<close>: the sizes of a nonce and of a tag, and \<open>Open\<close>, given nonce, sealed text and additional data.\<close>

record AEAD =
  ae_NonceSize :: nat
  ae_Overhead :: nat
  ae_Open :: "string \<Rightarrow> string \<Rightarrow> string \<Rightarrow> string result"

record Codec =
  cd_aead :: "AEAD option"

definition TrimPrefix :: "string \<Rightarrow> string \<Rightarrow> string" where
  "TrimPrefix s p = (if HasPrefix s p then drop (length p) s else s)"

text \<open>\<open>cipher.NewGCM(aes.NewCipher(key))\<close> is a parameter.\<close>

definition NewCodec :: "(string \<Rightarrow> AEAD result) \<Rightarrow> string \<Rightarrow> Codec result" where
  "NewCodec newGCM encodedKey0 =
    (let encodedKey = TrimSpace encodedKey0
     in if encodedKey = '''' then Ok \<lparr>cd_aead = None\<rparr>
        else rbind (wrapErr ''decode credential encryption key'' (base64Decode (TrimPrefix encodedKey ''base64:''))) (\<lambda>key.
             if length key \<noteq> 32 then Err (ErrMsg ''credential encryption key must decode to 32 bytes'')
             else rbind (wrapErr ''create credential gcm'' (newGCM key)) (\<lambda>aead. Ok \<lparr>cd_aead = Some aead\<rparr>)))"

definition Decrypt :: "Codec \<Rightarrow> string \<Rightarrow> string result" where
  "Decrypt codec value' =
    (if value' = '''' \<or> \<not> HasPrefix value' credentialPrefix then Ok value'
     else case cd_aead codec of
            None \<Rightarrow> Err (ErrMsg ''HEDGING_CREDENTIAL_KEY is required for encrypted credentials'')
          | Some aead \<Rightarrow>
              rbind (wrapErr ''decode encrypted credential'' (base64Decode (TrimPrefix value' credentialPrefix))) (\<lambda>payload.
              let nonceSize = ae_NonceSize aead; tagSize = ae_Overhead aead
              in if length payload < nonceSize + tagSize
                 then Err (ErrMsg ''encrypted credential payload is too short'')
                 else let nonce = take nonceSize payload;
                          tag = take tagSize (drop nonceSize payload);
                          ciphertext = drop (nonceSize + tagSize) payload
                      in case ae_Open aead nonce (ciphertext @ tag) additionalData of
                           Ok plaintext \<Rightarrow> Ok plaintext
                         | Err _ \<Rightarrow> Err (ErrMsg ''decrypt credential failed'')
                         | Panic \<Rightarrow> Panic))"

section \<open>What was encoded is decoded\<close>

lemma base64_table: "list_all (\<lambda>n. base64Value (base64Char n) = Some n \<and> base64Char n \<noteq> padding
    \<and> base64Char n \<noteq> CHR 0x0A \<and> base64Char n \<noteq> CHR 0x0D \<and> \<not> isSpaceChar (base64Char n)) [0..<64]"
  by code_simp

lemma base64Char_sound:
  assumes "n < 64"
  shows "base64Value (base64Char n) = Some n" "base64Char n \<noteq> padding" "base64Char n \<noteq> CHR 0x0A"
    "base64Char n \<noteq> CHR 0x0D" "\<not> isSpaceChar (base64Char n)"
  using assms base64_table by (simp_all only: list_all_iff set_upt atLeastLessThan_iff) simp_all

lemma char_less: "(of_char c :: nat) < 256"
  by simp

lemma group_parts:
  fixes x y z :: nat
  assumes "x < 256" "y < 256" "z < 256"
  shows "x div 4 < 64" "x mod 4 * 16 + y div 16 < 64" "y mod 16 * 4 + z div 64 < 64" "z mod 64 < 64"
    "x div 4 * 2 ^ 18 + (x mod 4 * 16 + y div 16) * 2 ^ 12 + (y mod 16 * 4 + z div 64) * 2 ^ 6 + z mod 64 =
     x * 2 ^ 16 + y * 2 ^ 8 + z"
proof -
  show "x div 4 < 64" "x mod 4 * 16 + y div 16 < 64" "y mod 16 * 4 + z div 64 < 64" "z mod 64 < 64"
    using assms by auto
  have split: "a * 2 ^ 18 + (b * 16 + c) * 2 ^ 12 + (d * 4 + e) * 2 ^ 6 + f =
      (a * 4 + b) * 2 ^ 16 + (c * 16 + d) * 2 ^ 8 + (e * 64 + f)" for a b c d e f :: nat
    by (simp add: algebra_simps)
  show "x div 4 * 2 ^ 18 + (x mod 4 * 16 + y div 16) * 2 ^ 12 + (y mod 16 * 4 + z div 64) * 2 ^ 6 + z mod 64 =
     x * 2 ^ 16 + y * 2 ^ 8 + z"
    unfolding split div_mult_mod_eq ..
qed

lemma group_bytes:
  fixes x y z :: nat
  assumes "x < 256" "y < 256" "z < 256"
  shows "groupBytes (x div 4) (x mod 4 * 16 + y div 16) (y mod 16 * 4 + z div 64) (z mod 64) =
    [char_of x, char_of y, char_of z]"
proof -
  have "y * 2 ^ 8 + z < 2 ^ 16" using assms by simp
  then have "(x * 2 ^ 16 + (y * 2 ^ 8 + z)) div 2 ^ 16 = x" by simp
  moreover have "((x * 2 ^ 8 + y) * 2 ^ 8 + z) div 2 ^ 8 = x * 2 ^ 8 + y" using assms by simp
  moreover have "((x * 2 ^ 8 + y) * 2 ^ 8 + z) mod 2 ^ 8 = z"
    using assms by (simp only: mod_mult_self3) simp
  ultimately have "(x * 2 ^ 16 + y * 2 ^ 8 + z) div 2 ^ 16 = x" "(x * 2 ^ 16 + y * 2 ^ 8 + z) div 2 ^ 8 mod 256 = y"
      "(x * 2 ^ 16 + y * 2 ^ 8 + z) mod 256 = z"
    using assms by (simp_all add: algebra_simps mod_simps)
  then show ?thesis unfolding groupBytes_def group_parts(5) [OF assms] Let_def by simp
qed

lemma decode_encode: "decodeGroups (base64Encode s) = Some s"
proof (induction s rule: base64Encode.induct)
  case (2 x)
  then show ?case
    using group_bytes [of "of_char x" 0 0] group_parts [of "of_char x" 0 0]
    by (simp add: encodeGroup_def base64Char_sound)
next
  case (3 x y)
  then show ?case
    using group_bytes [of "of_char x" "of_char y" 0] group_parts [of "of_char x" "of_char y" 0]
    by (simp add: encodeGroup_def base64Char_sound)
next
  case (4 x y z rest)
  then show ?case
    using group_bytes [of "of_char x" "of_char y" "of_char z"] group_parts [of "of_char x" "of_char y" "of_char z"]
    by (simp add: encodeGroup_def base64Char_sound)
qed simp

lemma padding_chars: "padding \<noteq> CHR 0x0A" "padding \<noteq> CHR 0x0D" "\<not> isSpaceChar padding"
  by code_simp+

lemma encode_chars:
  "list_all (\<lambda>c. c \<noteq> CHR 0x0A \<and> c \<noteq> CHR 0x0D \<and> \<not> isSpaceChar c) (base64Encode s)"
proof (induction s rule: base64Encode.induct)
  case (4 x y z rest)
  then show ?case
    using group_parts [of "of_char x" "of_char y" "of_char z"] by (simp add: encodeGroup_def base64Char_sound)
next
  case (2 x)
  show ?case using group_parts [of "of_char x" 0 0]
    by (simp add: encodeGroup_def base64Char_sound padding_chars)
next
  case (3 x y)
  show ?case using group_parts [of "of_char x" "of_char y" 0]
    by (simp add: encodeGroup_def base64Char_sound padding_chars)
qed simp

lemma base64_roundtrip: "base64Decode (base64Encode s) = Ok s"
proof -
  have "filter (\<lambda>c. c \<noteq> CHR 0x0A \<and> c \<noteq> CHR 0x0D) (base64Encode s) = base64Encode s"
    using encode_chars [of s] by (simp add: filter_id_conv list_all_iff)
  then show ?thesis by (simp add: base64Decode_def decode_encode)
qed


section \<open>Properties\<close>

text \<open>A cipher whose \<open>Open\<close> reads back what \<open>seal\<close> wrote with the same nonce and additional data; the tag is at the
  end of the sealed text, which is at least as long.\<close>

definition opens :: "AEAD \<Rightarrow> (string \<Rightarrow> string \<Rightarrow> string \<Rightarrow> string) \<Rightarrow> bool" where
  "opens aead seal \<longleftrightarrow> (\<forall>nonce plaintext ad. length nonce = ae_NonceSize aead \<longrightarrow>
     ae_Overhead aead \<le> length (seal nonce plaintext ad) \<and> ae_Open aead nonce (seal nonce plaintext ad) ad = Ok plaintext)"

text \<open>What the writer of a credential stores: prefix, nonce, tag, ciphertext.\<close>

definition storedCredential :: "nat \<Rightarrow> (string \<Rightarrow> string \<Rightarrow> string \<Rightarrow> string) \<Rightarrow> string \<Rightarrow> string \<Rightarrow> string" where
  "storedCredential tagSize seal nonce plaintext =
    (let sealed = seal nonce plaintext additionalData; n = length sealed - tagSize
     in credentialPrefix @ base64Encode (nonce @ drop n sealed @ take n sealed))"

lemma HasPrefix_append: "HasPrefix (p @ s) p"
  by (simp add: HasPrefix_def)

lemma TrimPrefix_append: "TrimPrefix (p @ s) p = s"
  by (simp add: TrimPrefix_def HasPrefix_append)

lemma TrimSpace_solid: "list_all (\<lambda>c. \<not> isSpaceChar c) s \<Longrightarrow> TrimSpace s = s"
proof -
  assume solid: "list_all (\<lambda>c. \<not> isSpaceChar c) s"
  have "dropWhile isSpaceChar s = s" using solid by (cases s) auto
  moreover have "dropWhile isSpaceChar (rev s) = rev s" using solid by (cases s rule: rev_cases) auto
  ultimately show ?thesis by (simp add: TrimSpace_def)
qed

lemma NewCodec_key:
  assumes "length key = 32" and "newGCM key = Ok aead"
  shows "NewCodec newGCM (''base64:'' @ base64Encode key) = Ok \<lparr>cd_aead = Some aead\<rparr>"
proof -
  have "list_all (\<lambda>c. \<not> isSpaceChar c) (base64Encode key)"
    using encode_chars [of key] by (simp add: list_all_iff)
  moreover have "list_all (\<lambda>c. \<not> isSpaceChar c) ''base64:''" by code_simp
  ultimately have "TrimSpace (''base64:'' @ base64Encode key) = ''base64:'' @ base64Encode key"
    by (intro TrimSpace_solid) (simp only: list_all_append)
  with assms show ?thesis
    unfolding NewCodec_def Let_def by (simp only: TrimPrefix_append base64_roundtrip) simp
qed

lemma Decrypt_stored:
  assumes "opens aead seal" and "length nonce = ae_NonceSize aead"
  shows "Decrypt \<lparr>cd_aead = Some aead\<rparr> (storedCredential (ae_Overhead aead) seal nonce plaintext) = Ok plaintext"
proof -
  let ?sealed = "seal nonce plaintext additionalData" and ?n = "length (seal nonce plaintext additionalData) - ae_Overhead aead"
  have sealed: "ae_Overhead aead \<le> length ?sealed" "ae_Open aead nonce ?sealed additionalData = Ok plaintext"
    using assms by (auto simp: opens_def)
  have "credentialPrefix \<noteq> ''''" by (simp add: credentialPrefix_def)
  with sealed assms(2) show ?thesis
    by (simp add: Decrypt_def storedCredential_def HasPrefix_append TrimPrefix_append base64_roundtrip Let_def)
qed

text \<open>C35: with a well-formed key the codec reads back every credential sealed with it, whatever nonce was drawn; without
  a key it refuses every such credential; and a value without the prefix is passed on as it is, with or
  without a key.\<close>

theorem credentials_read_back:
  assumes "length key = 32" and "newGCM key = Ok aead" and "opens aead seal"
  shows "\<exists>codec. NewCodec newGCM (''base64:'' @ base64Encode key) = Ok codec \<and>
    (\<forall>nonce plaintext. length nonce = ae_NonceSize aead \<longrightarrow>
       Decrypt codec (storedCredential (ae_Overhead aead) seal nonce plaintext) = Ok plaintext) \<and>
    (\<forall>nonce plaintext empty. NewCodec newGCM '' '' = Ok empty \<longrightarrow>
       (\<exists>e. Decrypt empty (storedCredential (ae_Overhead aead) seal nonce plaintext) = Err e)) \<and>
    (\<forall>c value. \<not> HasPrefix value ''v1:'' \<longrightarrow> Decrypt c value = Ok value)"
proof (intro exI [of _ "\<lparr>cd_aead = Some aead\<rparr>"] conjI allI impI)
  show "NewCodec newGCM (''base64:'' @ base64Encode key) = Ok \<lparr>cd_aead = Some aead\<rparr>"
    by (rule NewCodec_key [of key newGCM aead, OF assms(1,2)])
next
  fix nonce plaintext :: string assume "length nonce = ae_NonceSize aead"
  then show "Decrypt \<lparr>cd_aead = Some aead\<rparr> (storedCredential (ae_Overhead aead) seal nonce plaintext) = Ok plaintext"
    by (rule Decrypt_stored [OF assms(3)])
next
  fix nonce plaintext empty assume "NewCodec newGCM '' '' = Ok empty"
  moreover have "TrimSpace '' '' = ''''" by code_simp
  ultimately have "empty = \<lparr>cd_aead = None\<rparr>" by (simp add: NewCodec_def)
  then show "\<exists>e. Decrypt empty (storedCredential (ae_Overhead aead) seal nonce plaintext) = Err e"
    by (simp add: Decrypt_def storedCredential_def HasPrefix_append Let_def) (simp add: credentialPrefix_def)
next
  fix c value' assume "\<not> HasPrefix value' ''v1:''"
  then show "Decrypt c value' = Ok value'" by (simp add: Decrypt_def credentialPrefix_def)
qed

text \<open>A cipher for the example: the text with its nonce as the tag.\<close>

definition exampleAEAD :: AEAD where
  "exampleAEAD = \<lparr>ae_NonceSize = 12, ae_Overhead = 12, ae_Open = (\<lambda>nonce sealed ad.
     if drop (length sealed - 12) sealed = nonce then Ok (take (length sealed - 12) sealed)
     else Err (ErrExternal ''message authentication failed''))\<rparr>"

lemma exampleAEAD_opens: "opens exampleAEAD (\<lambda>nonce plaintext ad. plaintext @ nonce)"
  by (simp add: opens_def exampleAEAD_def)

theorem credentials_read_back_witness:
  "\<exists>codec. NewCodec (\<lambda>_. Ok exampleAEAD) (''base64:'' @ base64Encode (replicate 32 CHR ''k'')) = Ok codec \<and>
     Decrypt codec (storedCredential 12 (\<lambda>nonce plaintext ad. plaintext @ nonce) ''0123456789ab'' ''secret'') = Ok ''secret''"
proof -
  have "length (replicate 32 CHR ''k'') = 32" by simp
  from credentials_read_back [where newGCM = "\<lambda>_. Ok exampleAEAD", OF this refl exampleAEAD_opens]
  have "\<exists>codec. NewCodec (\<lambda>_. Ok exampleAEAD) (''base64:'' @ base64Encode (replicate 32 CHR ''k'')) = Ok codec \<and>
      (\<forall>nonce plaintext. length nonce = ae_NonceSize exampleAEAD \<longrightarrow> Decrypt codec
        (storedCredential (ae_Overhead exampleAEAD) (\<lambda>nonce plaintext ad. plaintext @ nonce) nonce plaintext) = Ok plaintext)"
    by blast
  then show ?thesis by (force simp: exampleAEAD_def)
qed

end
