(* ===== verification/Adapters.thy ===== *)
theory Adapters
  imports HttpApi HttpAdapter Simulated
begin

text \<open>
  The choice of the exchange adapter (\<open>internal/exchange/factory.go\<close>) and the adapter that hands every call to the
  package 6mm-ccxt (\<open>internal/exchange/ccxt_adapter.go\<close>). The client of that package is a parameter: its
  requests and results have the fields this file copies, under the same names, and are represented by the
  records of the exchange package; its two sentinel errors are parameters as well. The lemmas say that the bridge
  changes nothing but these two errors, and which status they become over HTTP.
\<close>

section \<open>The factories\<close>

record AdapterOptions =
  ao_ExchangeEnv :: string

type_synonym 'w AdapterFactory = "AdapterOptions \<Rightarrow> 'w Adapter result"

text \<open>The map before any registration; \<open>simulated\<close> is the simulated adapter over the world in use.\<close>

definition adapterFactories :: "'w Adapter \<Rightarrow> string \<rightharpoonup> 'w AdapterFactory" where
  "adapterFactories simulated = [''simulated'' \<mapsto> (\<lambda>_. Ok simulated)]"

definition RegisterAdapter ::
    "string \<Rightarrow> 'w AdapterFactory option \<Rightarrow> (string \<rightharpoonup> 'w AdapterFactory) \<Rightarrow> string \<rightharpoonup> 'w AdapterFactory" where
  "RegisterAdapter name factory factories =
    (let key = ToLower (TrimSpace name)
     in case factory of
          None \<Rightarrow> factories
        | Some f \<Rightarrow> if key = '''' then factories else factories(key \<mapsto> f))"

definition NewAdapterWithOptions ::
    "(string \<rightharpoonup> 'w AdapterFactory) \<Rightarrow> string \<Rightarrow> AdapterOptions \<Rightarrow> 'w Adapter result" where
  "NewAdapterWithOptions factories name0 options =
    (let given = ToLower (TrimSpace name0);
         name = (if given = '''' then ''simulated'' else given)
     in case factories name of
          None \<Rightarrow> Err (ErrMsg (''exchange adapter '' @ quoted name @ '' is not registered''))
        | Some factory \<Rightarrow> factory options)"

definition NewAdapter :: "string \<Rightarrow> (string \<rightharpoonup> 'w AdapterFactory) \<Rightarrow> string \<Rightarrow> 'w Adapter result" where
  "NewAdapter exchangeEnv factories name = NewAdapterWithOptions factories name \<lparr>ao_ExchangeEnv = exchangeEnv\<rparr>"

section \<open>Copies between the packages\<close>

definition toSixAccountConfig :: "AccountConfig \<Rightarrow> AccountConfig" where
  "toSixAccountConfig r =
    \<lparr>ac_exchange = ac_exchange r, ac_account_name = ac_account_name r,
     ac_ccxt_id = ac_ccxt_id r, ac_market_type = ac_market_type r, ac_sandbox = ac_sandbox r,
     ac_default_settle = ac_default_settle r, ac_account_type = ac_account_type r,
     ac_product_type = ac_product_type r, ac_category = ac_category r,
     ac_position_mode = ac_position_mode r, ac_margin_mode = ac_margin_mode r,
     ac_recv_window_ms = ac_recv_window_ms r, ac_rate_limit_ms = ac_rate_limit_ms r,
     ac_api_key = ac_api_key r, ac_api_secret = ac_api_secret r,
     ac_passphrase = ac_passphrase r\<rparr>"

definition sixFetchBalanceRequest :: "FetchBalanceRequest \<Rightarrow> FetchBalanceRequest" where
  "sixFetchBalanceRequest r =
    \<lparr>fb_account = toSixAccountConfig (fb_account r), fb_assets = fb_assets r,
     fb_params = fb_params r\<rparr>"

definition sixFetchPositionsRequest :: "FetchPositionsRequest \<Rightarrow> FetchPositionsRequest" where
  "sixFetchPositionsRequest r =
    \<lparr>fp_account = toSixAccountConfig (fp_account r), fp_symbols = fp_symbols r,
     fp_params = fp_params r\<rparr>"

definition sixFetchTickerRequest :: "FetchTickerRequest \<Rightarrow> FetchTickerRequest" where
  "sixFetchTickerRequest r =
    \<lparr>ft_account = toSixAccountConfig (ft_account r), ft_symbol = ft_symbol r,
     ft_params = ft_params r\<rparr>"

definition sixFetchMarketsRequest :: "FetchMarketsRequest \<Rightarrow> FetchMarketsRequest" where
  "sixFetchMarketsRequest r =
    \<lparr>fm_account = toSixAccountConfig (fm_account r), fm_params = fm_params r\<rparr>"

definition sixFetchOrderRequest :: "FetchOrderRequest \<Rightarrow> FetchOrderRequest" where
  "sixFetchOrderRequest r =
    \<lparr>fo_account = toSixAccountConfig (fo_account r), fo_order_id = fo_order_id r,
     fo_client_order_id = fo_client_order_id r, fo_symbol = fo_symbol r,
     fo_params = fo_params r\<rparr>"

definition sixCancelOrderRequest :: "CancelOrderRequest \<Rightarrow> CancelOrderRequest" where
  "sixCancelOrderRequest r =
    \<lparr>co_account = toSixAccountConfig (co_account r), co_order_id = co_order_id r,
     co_client_order_id = co_client_order_id r, co_symbol = co_symbol r,
     co_params = co_params r\<rparr>"

definition sixSetLeverageRequest :: "SetLeverageRequest \<Rightarrow> SetLeverageRequest" where
  "sixSetLeverageRequest r =
    \<lparr>sl_account = toSixAccountConfig (sl_account r), sl_symbol = sl_symbol r,
     sl_leverage = sl_leverage r, sl_params = sl_params r\<rparr>"

definition sixSetMarginModeRequest :: "SetMarginModeRequest \<Rightarrow> SetMarginModeRequest" where
  "sixSetMarginModeRequest r =
    \<lparr>sm_account = toSixAccountConfig (sm_account r), sm_symbol = sm_symbol r,
     sm_margin_mode = sm_margin_mode r, sm_params = sm_params r\<rparr>"

definition sixPlaceOrderRequest :: "PlaceOrderRequest \<Rightarrow> PlaceOrderRequest" where
  "sixPlaceOrderRequest r =
    \<lparr>po_client_order_id = po_client_order_id r, po_exchange = po_exchange r,
     po_account_name = po_account_name r, po_ccxt_id = po_ccxt_id r,
     po_market_type = po_market_type r, po_sandbox = po_sandbox r,
     po_default_settle = po_default_settle r, po_account_type = po_account_type r,
     po_product_type = po_product_type r, po_category = po_category r,
     po_position_mode = po_position_mode r, po_margin_mode = po_margin_mode r,
     po_recv_window_ms = po_recv_window_ms r, po_rate_limit_ms = po_rate_limit_ms r,
     po_api_key = po_api_key r, po_api_secret = po_api_secret r, po_passphrase = po_passphrase r,
     po_symbol = po_symbol r, po_side = po_side r, po_position_side = po_position_side r,
     po_order_type = po_order_type r, po_quantity = po_quantity r, po_price = po_price r,
     po_reduce_only = po_reduce_only r,
     po_exchange_order_params = po_exchange_order_params r\<rparr>"

definition fromSixBalanceAsset :: "BalanceAsset \<Rightarrow> BalanceAsset" where
  "fromSixBalanceAsset r =
    \<lparr>ba_asset = ba_asset r, ba_free = ba_free r, ba_used = ba_used r, ba_total = ba_total r,
     ba_debt = ba_debt r, ba_updated_at = ba_updated_at r\<rparr>"

definition fromSixBalanceResult :: "BalanceResult \<Rightarrow> BalanceResult" where
  "fromSixBalanceResult r =
    \<lparr>br_exchange = br_exchange r, br_account_name = br_account_name r,
     br_assets = map fromSixBalanceAsset (br_assets r), br_raw = br_raw r\<rparr>"

definition fromSixPosition :: "ExPosition \<Rightarrow> ExPosition" where
  "fromSixPosition r =
    \<lparr>xp_exchange = xp_exchange r, xp_account_name = xp_account_name r,
     xp_symbol = xp_symbol r, xp_position_side = xp_position_side r, xp_quantity = xp_quantity r,
     xp_notional = xp_notional r, xp_entry_price = xp_entry_price r,
     xp_mark_price = xp_mark_price r, xp_unrealized_pnl = xp_unrealized_pnl r,
     xp_leverage = xp_leverage r, xp_margin_mode = xp_margin_mode r,
     xp_updated_at = xp_updated_at r, xp_raw = xp_raw r\<rparr>"

definition fromSixTicker :: "Ticker \<Rightarrow> Ticker" where
  "fromSixTicker r =
    \<lparr>tk_exchange = tk_exchange r, tk_symbol = tk_symbol r, tk_last = tk_last r,
     tk_mark = tk_mark r, tk_bid = tk_bid r, tk_ask = tk_ask r, tk_bid_size = tk_bid_size r,
     tk_ask_size = tk_ask_size r, tk_updated_at = tk_updated_at r, tk_raw = tk_raw r\<rparr>"

definition fromSixMarket :: "Market \<Rightarrow> Market" where
  "fromSixMarket r =
    \<lparr>mk_exchange = mk_exchange r, mk_ccxt_id = mk_ccxt_id r, mk_symbol = mk_symbol r,
     mk_base = mk_base r, mk_quote = mk_quote r, mk_settle = mk_settle r,
     mk_market_type = mk_market_type r, mk_active = mk_active r, mk_contract = mk_contract r,
     mk_linear = mk_linear r, mk_inverse = mk_inverse r, mk_spot = mk_spot r, mk_swap = mk_swap r,
     mk_future = mk_future r, mk_option = mk_option r, mk_price_precision = mk_price_precision r,
     mk_amount_precision = mk_amount_precision r, mk_min_amount = mk_min_amount r,
     mk_min_cost = mk_min_cost r, mk_contract_size = mk_contract_size r,
     mk_created_at = mk_created_at r, mk_raw = mk_raw r\<rparr>"

definition fromSixOrderResult :: "OrderResult \<Rightarrow> OrderResult" where
  "fromSixOrderResult r =
    \<lparr>or_exchange_order_id = or_exchange_order_id r,
     or_client_order_id = or_client_order_id r, or_status = or_status r, or_symbol = or_symbol r,
     or_side = or_side r, or_order_type = or_order_type r, or_quantity = or_quantity r,
     or_price = or_price r, or_reduce_only = or_reduce_only r,
     or_filled_quantity = or_filled_quantity r, or_avg_price = or_avg_price r,
     or_fee_usdt = or_fee_usdt r, or_updated_at = or_updated_at r, or_raw = or_raw r\<rparr>"

definition fromSixCommandResult :: "CommandResult \<Rightarrow> CommandResult" where
  "fromSixCommandResult r =
    \<lparr>cr_success = cr_success r, cr_raw = cr_raw r\<rparr>"

section \<open>The bridge\<close>

text \<open>The sentinels \<open>sixmmccxt.ErrOrderNotFound\<close> and \<open>sixmmccxt.ErrOrderAlreadyFinal\<close>.\<close>

record sixErrors =
  sx_ErrOrderNotFound :: err
  sx_ErrOrderAlreadyFinal :: err

definition fromSixError :: "sixErrors \<Rightarrow> err \<Rightarrow> err" where
  "fromSixError six e =
    (if errIs e (sx_ErrOrderNotFound six) then ErrOrderNotFound
     else if errIs e (sx_ErrOrderAlreadyFinal six) then ErrOrderAlreadyFinal else e)"

definition bridged :: "sixErrors \<Rightarrow> ('a \<Rightarrow> 'b) \<Rightarrow> ('w, 'a) io \<Rightarrow> ('w, 'b) io" where
  "bridged six fromSix m = bnd (attempt m) (\<lambda>r. case r of
     Inl e \<Rightarrow> throw (fromSixError six e) | Inr result \<Rightarrow> ret (fromSix result))"

definition CCXTAdapter :: "sixErrors \<Rightarrow> 'w Adapter \<Rightarrow> 'w Adapter" where
  "CCXTAdapter six client = \<lparr>FetchBalance = (\<lambda>q. bridged six (fromSixBalanceResult) (FetchBalance client (sixFetchBalanceRequest q))),
     FetchPositions = (\<lambda>q. bridged six (map fromSixPosition) (FetchPositions client (sixFetchPositionsRequest q))),
     FetchTicker = (\<lambda>q. bridged six (fromSixTicker) (FetchTicker client (sixFetchTickerRequest q))),
     FetchMarkets = (\<lambda>q. bridged six (map fromSixMarket) (FetchMarkets client (sixFetchMarketsRequest q))),
     PlaceOrder = (\<lambda>q. bridged six (fromSixOrderResult) (PlaceOrder client (sixPlaceOrderRequest q))),
     FetchOrder = (\<lambda>q. bridged six (fromSixOrderResult) (FetchOrder client (sixFetchOrderRequest q))),
     CancelOrder = (\<lambda>q. bridged six (fromSixOrderResult) (CancelOrder client (sixCancelOrderRequest q))),
     SetLeverage = (\<lambda>q. bridged six (fromSixCommandResult) (SetLeverage client (sixSetLeverageRequest q))),
     SetMarginMode = (\<lambda>q. bridged six (fromSixCommandResult) (SetMarginMode client (sixSetMarginModeRequest q)))\<rparr>"

text \<open>\<open>newClient\<close> is \<open>sixmmccxt.NewClient\<close>; \<open>init\<close> registers the adapter under the name \<open>ccxt\<close>.\<close>

definition NewCCXTAdapter :: "sixErrors \<Rightarrow> (string \<Rightarrow> 'w Adapter result) \<Rightarrow> 'w AdapterFactory" where
  "NewCCXTAdapter six newClient options = rbind (newClient (ao_ExchangeEnv options)) (\<lambda>client. Ok (CCXTAdapter six client))"

definition initCCXT ::
    "sixErrors \<Rightarrow> (string \<Rightarrow> 'w Adapter result) \<Rightarrow> (string \<rightharpoonup> 'w AdapterFactory) \<Rightarrow> string \<rightharpoonup> 'w AdapterFactory" where
  "initCCXT six newClient = RegisterAdapter ''ccxt'' (Some (NewCCXTAdapter six newClient))"

section \<open>The bridge is transparent\<close>

lemmas six_copies = toSixAccountConfig_def sixFetchBalanceRequest_def sixFetchPositionsRequest_def sixFetchTickerRequest_def
  sixFetchMarketsRequest_def sixFetchOrderRequest_def sixCancelOrderRequest_def sixSetLeverageRequest_def
  sixSetMarginModeRequest_def sixPlaceOrderRequest_def fromSixBalanceAsset_def fromSixBalanceResult_def
  fromSixPosition_def fromSixTicker_def fromSixMarket_def fromSixOrderResult_def
  fromSixCommandResult_def

lemma six_copies_id [simp]:
  "toSixAccountConfig r0 = r0"
  "sixFetchBalanceRequest r1 = r1"
  "sixFetchPositionsRequest r2 = r2"
  "sixFetchTickerRequest r3 = r3"
  "sixFetchMarketsRequest r4 = r4"
  "sixFetchOrderRequest r5 = r5"
  "sixCancelOrderRequest r6 = r6"
  "sixSetLeverageRequest r7 = r7"
  "sixSetMarginModeRequest r8 = r8"
  "sixPlaceOrderRequest r9 = r9"
  "fromSixBalanceAsset r10 = r10"
  "fromSixPosition r12 = r12"
  "fromSixTicker r13 = r13"
  "fromSixMarket r14 = r14"
  "fromSixOrderResult r15 = r15"
  "fromSixCommandResult r16 = r16"
  by (simp_all add: six_copies)

lemma fromSixBalanceAsset_id: "fromSixBalanceAsset = (\<lambda>r. r)"
  by (rule ext) simp

lemma fromSixBalanceResult_id [simp]: "fromSixBalanceResult r = r"
  by (simp add: fromSixBalanceResult_def fromSixBalanceAsset_id)

definition errorsMapped :: "(err \<Rightarrow> err) \<Rightarrow> ('w, 'a) io \<Rightarrow> ('w, 'a) io" where
  "errorsMapped f m = (\<lambda>w. case m w of (Err e, v) \<Rightarrow> (Err (f e), v) | (Ok x, v) \<Rightarrow> (Ok x, v) | (Panic, v) \<Rightarrow> (Panic, v))"

lemma bridged_id:
  assumes "\<And>r. f r = r"
  shows "bridged six f m = errorsMapped (fromSixError six) m"
  using assms by (auto simp: bridged_def errorsMapped_def bnd_def attempt_def throw_def ret_def fun_eq_iff
      split: prod.split result.split)

text \<open>C39: the ccxt adapter is the client of 6mm-ccxt with its errors translated: every request reaches the client with
  all its fields, every result comes back with all of its, panics included, and over HTTP the two sentinel errors
  of the client become statuses 404 and 409.\<close>

theorem ccxt_bridge_is_transparent:
  "CCXTAdapter six client =
    \<lparr>FetchBalance = (\<lambda>q. errorsMapped (fromSixError six) (FetchBalance client q)),
       FetchPositions = (\<lambda>q. errorsMapped (fromSixError six) (FetchPositions client q)),
       FetchTicker = (\<lambda>q. errorsMapped (fromSixError six) (FetchTicker client q)),
       FetchMarkets = (\<lambda>q. errorsMapped (fromSixError six) (FetchMarkets client q)),
       PlaceOrder = (\<lambda>q. errorsMapped (fromSixError six) (PlaceOrder client q)),
       FetchOrder = (\<lambda>q. errorsMapped (fromSixError six) (FetchOrder client q)),
       CancelOrder = (\<lambda>q. errorsMapped (fromSixError six) (CancelOrder client q)),
       SetLeverage = (\<lambda>q. errorsMapped (fromSixError six) (SetLeverage client q)),
       SetMarginMode = (\<lambda>q. errorsMapped (fromSixError six) (SetMarginMode client q))\<rparr> \<and>
   adapterErrorStatus (fromSixError six e) =
     (if errIs e (sx_ErrOrderNotFound six) then 404 else if errIs e (sx_ErrOrderAlreadyFinal six) then 409
      else adapterErrorStatus e)"
  by (simp add: CCXTAdapter_def bridged_id map_idI) (simp add: adapterErrorStatus_def fromSixError_def status_defs)

end
