(* ===== verification/Configuration.thy ===== *)
theory Configuration
  imports HttpAccounts Schedulers Adapters
begin

text \<open>
  The configuration (\<open>internal/config/config.go\<close>): every setting is read from the environment, with a fallback when the
  variable is empty or malformed; and what the process makes of it (\<open>cmd/hedging-bot/main.go\<close>): the exchange adapter
  and the periodic jobs. The environment, \<open>time.ParseDuration\<close> and the text of a URL are parameters.
\<close>

section \<open>The environment\<close>

text \<open>\<open>os.Getenv\<close> (an unset variable is empty), \<open>time.ParseDuration\<close>, \<open>net.JoinHostPort\<close>, and the text of
  a \<open>postgres\<close> URL with user, password, host, path and the parameters of its query.\<close>

record configEnv =
  ev_Getenv :: "string \<Rightarrow> string"
  ev_ParseDuration :: "string \<Rightarrow> duration result"
  ev_JoinHostPort :: "string \<Rightarrow> string \<Rightarrow> string"
  ev_postgresURL :: "string \<Rightarrow> string option \<Rightarrow> string \<Rightarrow> string \<Rightarrow> (string \<times> string) list \<Rightarrow> string"

definition envString :: "configEnv \<Rightarrow> string \<Rightarrow> string \<Rightarrow> string" where
  "envString s key fallback = (let v = ev_Getenv s key in if v = '''' then fallback else v)"

definition envBool :: "configEnv \<Rightarrow> string \<Rightarrow> bool \<Rightarrow> bool" where
  "envBool s key fallback =
    (let v = ev_Getenv s key
     in if v = '''' then fallback else case ParseBool v of None \<Rightarrow> fallback | Some b \<Rightarrow> b)"

text \<open>\<open>strconv.Atoi\<close> with 64 bits\<close>

definition envInt :: "configEnv \<Rightarrow> string \<Rightarrow> int \<Rightarrow> int" where
  "envInt s key fallback =
    (let v = ev_Getenv s key
     in if v = '''' then fallback else case ParseInt64 v of Ok n \<Rightarrow> n | _ \<Rightarrow> fallback)"

definition envDuration :: "configEnv \<Rightarrow> string \<Rightarrow> duration \<Rightarrow> duration" where
  "envDuration s key fallback =
    (let v = ev_Getenv s key
     in if v = '''' then fallback else case ev_ParseDuration s v of Ok d \<Rightarrow> d | _ \<Rightarrow> fallback)"

text \<open>A number without a unit is a number of seconds; the product wraps around at 64 bits.\<close>

definition envDurationOrSeconds :: "configEnv \<Rightarrow> string \<Rightarrow> duration \<Rightarrow> duration" where
  "envDurationOrSeconds s key fallback =
    (let v = TrimSpace (ev_Getenv s key)
     in if v = '''' then fallback
        else case ev_ParseDuration s v of
               Ok d \<Rightarrow> d
             | _ \<Rightarrow> (case ParseInt64 v of Ok n \<Rightarrow> signed_take_bit 63 (n * second) | _ \<Rightarrow> fallback))"

definition symbolConfigDatabaseURL :: "configEnv \<Rightarrow> string" where
  "symbolConfigDatabaseURL s =
    (let given = TrimSpace (ev_Getenv s ''SYMBOL_CONFIG_DATABASE_URL'');
         connection = ToLower (TrimSpace (ev_Getenv s ''DB_CONNECTION''));
         host = TrimSpace (ev_Getenv s ''DB_HOST'');
         database = TrimSpace (ev_Getenv s ''DB_DATABASE'');
         username = TrimSpace (ev_Getenv s ''DB_USERNAME'');
         password = ev_Getenv s ''DB_PASSWORD'';
         timeout = TrimSpace (ev_Getenv s ''DB_CONNECT_TIMEOUT'')
     in if given \<noteq> '''' then given
        else if connection \<notin> {''pgsql'', ''postgres'', ''postgresql''} then ''''
        else if host = '''' \<or> database = '''' \<or> username = '''' then ''''
        else ev_postgresURL s username (if password \<noteq> '''' then Some password else None)
               (ev_JoinHostPort s host (TrimSpace (envString s ''DB_PORT'' ''5432''))) (''/'' @ database)
               ((if timeout \<noteq> '''' then [(''connect_timeout'', timeout)] else [])
                @ [(''sslmode'', envString s ''DB_SSLMODE'' ''disable'')]))"

section \<open>The settings\<close>

record Config =
  fg_HTTPAddr :: string
  fg_GRPCAddr :: string
  fg_DatabaseURL :: string
  fg_SymbolConfigDatabaseURL :: string
  fg_ClickHouseHistoryHost :: string
  fg_ClickHouseHistoryPort :: string
  fg_ClickHouseHistoryDB :: string
  fg_ClickHouseHistoryUser :: string
  fg_ClickHouseHistoryPass :: string
  fg_ClickHouseConnectTimeout :: duration
  fg_ClickHouseTimeout :: duration
  fg_CredentialEncryptionKey :: string
  fg_MigrationsDir :: string
  fg_RunMigrations :: bool
  fg_ExchangeAdapter :: string
  fg_ExchangeEnv :: string
  fg_RedisAddr :: string
  fg_RedisPassword :: string
  fg_RedisDB :: int
  fg_WorkerEnabled :: bool
  fg_WorkerConcurrency :: int
  fg_LogOutput :: string
  fg_LogFile :: string
  fg_LogLevel :: string
  fg_LogFormat :: string
  fg_HedgeRunLockTTL :: duration
  fg_HedgeRunCooldown :: duration
  fg_SchedulerEnabled :: bool
  fg_HedgeScheduleInterval :: duration
  fg_MarketSyncEnabled :: bool
  fg_MarketSyncInterval :: duration
  fg_ExposureSyncEnabled :: bool
  fg_ExposureSyncInterval :: duration
  fg_ExposurePriceMaxAge :: duration
  fg_ExposureCacheTTL :: duration
  fg_MarketPriceKeyPrefix :: string
  fg_ExposureCacheKeyPrefix :: string
  fg_PositionSyncEnabled :: bool
  fg_PositionSyncInterval :: duration
  fg_PositionStaleAfter :: duration
  fg_ShutdownTimeout :: duration

definition Load :: "configEnv \<Rightarrow> Config" where
  "Load s = \<lparr>fg_HTTPAddr = envString s ''HTTP_ADDR'' '':8080'',
     fg_GRPCAddr = envString s ''GRPC_ADDR'' '':9090'',
     fg_DatabaseURL = ev_Getenv s ''DATABASE_URL'',
     fg_SymbolConfigDatabaseURL = symbolConfigDatabaseURL s,
     fg_ClickHouseHistoryHost = ev_Getenv s ''CLICKHOUSE_HISTORY_HOST'',
     fg_ClickHouseHistoryPort = envString s ''CLICKHOUSE_HISTORY_HTTP_PORT'' ''8123'',
     fg_ClickHouseHistoryDB = envString s ''CLICKHOUSE_HISTORY_DATABASE'' ''freedex_history'',
     fg_ClickHouseHistoryUser = ev_Getenv s ''CLICKHOUSE_HISTORY_USERNAME'',
     fg_ClickHouseHistoryPass = ev_Getenv s ''CLICKHOUSE_HISTORY_PASSWORD'',
     fg_ClickHouseConnectTimeout = envDurationOrSeconds s ''CLICKHOUSE_HISTORY_CONNECT_TIMEOUT'' (5 * second),
     fg_ClickHouseTimeout = envDurationOrSeconds s ''CLICKHOUSE_HISTORY_TIMEOUT'' (30 * second),
     fg_CredentialEncryptionKey = ev_Getenv s ''HEDGING_CREDENTIAL_KEY'',
     fg_MigrationsDir = envString s ''MIGRATIONS_DIR'' ''internal/db/migrations'',
     fg_RunMigrations = envBool s ''RUN_MIGRATIONS'' True,
     fg_ExchangeAdapter = envString s ''EXCHANGE_ADAPTER'' ''simulated'',
     fg_ExchangeEnv = envString s ''EXCHANGE_ENV'' ''paper'',
     fg_RedisAddr = ev_Getenv s ''REDIS_ADDR'',
     fg_RedisPassword = ev_Getenv s ''REDIS_PASSWORD'',
     fg_RedisDB = envInt s ''REDIS_DB'' 0,
     fg_WorkerEnabled = envBool s ''WORKER_ENABLED'' True,
     fg_WorkerConcurrency = envInt s ''WORKER_CONCURRENCY'' 5,
     fg_LogOutput = envString s ''LOG_OUTPUT'' ''console'',
     fg_LogFile = envString s ''LOG_FILE'' ''logs/hedging-bot.log'',
     fg_LogLevel = envString s ''LOG_LEVEL'' ''info'',
     fg_LogFormat = envString s ''LOG_FORMAT'' ''json'',
     fg_HedgeRunLockTTL = envDuration s ''HEDGE_RUN_LOCK_TTL'' (3 * minute),
     fg_HedgeRunCooldown = envDuration s ''HEDGE_RUN_COOLDOWN'' (10 * second),
     fg_SchedulerEnabled = envBool s ''SCHEDULER_ENABLED'' False,
     fg_HedgeScheduleInterval = envDuration s ''HEDGE_SCHEDULE_INTERVAL'' (minute),
     fg_MarketSyncEnabled = envBool s ''MARKET_SYNC_ENABLED'' False,
     fg_MarketSyncInterval = envDuration s ''MARKET_SYNC_INTERVAL'' (6 * hour),
     fg_ExposureSyncEnabled = envBool s ''EXPOSURE_SYNC_ENABLED'' False,
     fg_ExposureSyncInterval = envDuration s ''EXPOSURE_SYNC_INTERVAL'' (30 * second),
     fg_ExposurePriceMaxAge = envDuration s ''EXPOSURE_PRICE_MAX_AGE'' (2 * minute),
     fg_ExposureCacheTTL = envDuration s ''EXPOSURE_CACHE_TTL'' (2 * minute),
     fg_MarketPriceKeyPrefix = envString s ''MARKET_PRICE_KEY_PREFIX'' ''market_price:6mm:'',
     fg_ExposureCacheKeyPrefix = envString s ''EXPOSURE_CACHE_KEY_PREFIX'' ''hedge:exposure:6mm:'',
     fg_PositionSyncEnabled = envBool s ''POSITION_SYNC_ENABLED'' False,
     fg_PositionSyncInterval = envDuration s ''POSITION_SYNC_INTERVAL'' (10 * second),
     fg_PositionStaleAfter = envDuration s ''POSITION_STALE_AFTER'' (minute),
     fg_ShutdownTimeout = envDuration s ''SHUTDOWN_TIMEOUT'' (10 * second)\<rparr>"

section \<open>What main makes of them\<close>

text \<open>The services of the periodic jobs as \<open>main\<close> built them.\<close>

record 'w jobServices =
  js_hedge :: "'w HedgeScheduler"
  js_market :: "('w, MarketSyncBatchResult) io"
  js_position :: "('w, PositionSyncBatchResult) io"
  js_exposure :: "('w, ExposureSyncBatchResult) io result"

text \<open>A start that fails ends the process (\<open>logger.Fatal\<close>): its error is the error of \<open>main\<close>. Redis is configured when
  it has an address; then the client and the enqueuer exist. The exposure reader may be misconfigured.\<close>

definition optionalJob :: "bool \<Rightarrow> ('w, 'w started) io \<Rightarrow> ('w, 'w started) io" where
  "optionalJob enabled start = (if enabled then start else ret [])"

definition startJobs :: "'w cron \<Rightarrow> Config \<Rightarrow> 'w jobServices \<Rightarrow> ('w, 'w started) io" where
  "startJobs cron cfg js =
     bnd (optionalJob (fg_RedisAddr cfg \<noteq> '''' \<and> fg_SchedulerEnabled cfg)
            (startHedgeScheduler cron (js_hedge js) (fg_HedgeScheduleInterval cfg))) (\<lambda>a.
     bnd (optionalJob (fg_MarketSyncEnabled cfg)
            (startMarketSync cron (Some (js_market js)) (fg_MarketSyncInterval cfg))) (\<lambda>b.
     bnd (optionalJob (fg_PositionSyncEnabled cfg)
            (startPositionSync cron (Some (js_position js)) (fg_PositionSyncInterval cfg))) (\<lambda>c.
     bnd (optionalJob (fg_ExposureSyncEnabled cfg)
            (if fg_RedisAddr cfg = ''''
             then throw (ErrMsg ''redis and asynq are required when exposure sync is enabled'')
             else bnd (lift (js_exposure js)) (\<lambda>sync.
                  startExposureSync cron (Some sync) (fg_ExposureSyncInterval cfg)))) (\<lambda>d.
     ret (a @ b @ c @ d)))))"

definition mainAdapter :: "(string \<rightharpoonup> 'w AdapterFactory) \<Rightarrow> Config \<Rightarrow> 'w Adapter result" where
  "mainAdapter factories cfg =
     NewAdapterWithOptions factories (fg_ExchangeAdapter cfg) \<lparr>ao_ExchangeEnv = fg_ExchangeEnv cfg\<rparr>"


section \<open>What is started\<close>

text \<open>A cron that only records the interval of a job and whether runs may overlap.\<close>

definition recordJob :: "((duration \<times> bool) list) cron" where
  "recordJob job = (\<lambda>jobs. (Ok (), jobs @ [(cj_interval job, cj_singleton job)]))"

definition configuredJobs :: "Config \<Rightarrow> (duration \<times> bool) list" where
  "configuredJobs cfg =
     (if fg_RedisAddr cfg \<noteq> '''' \<and> fg_SchedulerEnabled cfg then [(intervalOr minute (fg_HedgeScheduleInterval cfg), False)] else [])
     @ (if fg_MarketSyncEnabled cfg then [(intervalOr (6 * hour) (fg_MarketSyncInterval cfg), True)] else [])
     @ (if fg_PositionSyncEnabled cfg then [(intervalOr (10 * second) (fg_PositionSyncInterval cfg), True)] else [])
     @ (if fg_ExposureSyncEnabled cfg then [(intervalOr (30 * second) (fg_ExposureSyncInterval cfg), True)] else [])"

lemma interval_positive: "0 < fallback \<Longrightarrow> 0 < intervalOr fallback d"
  by (simp add: intervalOr_def)

text \<open>A start without an error registers exactly the jobs the settings switch on, each with a positive interval,
  and it has Redis when the exposure synchronisation is on.\<close>

lemma startJobs_started:
  assumes "startJobs recordJob cfg js [] = (Ok started, jobs)"
  shows "jobs = configuredJobs cfg" and "list_all (\<lambda>(i, _). 0 < i) jobs"
    and "fg_ExposureSyncEnabled cfg \<Longrightarrow> fg_RedisAddr cfg \<noteq> ''''"
proof -
  show jobs: "jobs = configuredJobs cfg"
    using assms by (auto simp: startJobs_def optionalJob_def configuredJobs_def startHedgeScheduler_def startMarketSync_def
        startPositionSync_def startExposureSync_def recordJob_def bnd_Ok_iff ret_def throw_def lift_def split: if_splits)
  show "list_all (\<lambda>(i, _). 0 < i) jobs"
    by (auto simp: jobs configuredJobs_def hour_def minute_def second_def intro!: interval_positive)
  show "fg_ExposureSyncEnabled cfg \<Longrightarrow> fg_RedisAddr cfg \<noteq> ''''"
    using assms by (auto simp: startJobs_def optionalJob_def bnd_Ok_iff throw_def split: if_splits)
qed

text \<open>In an empty environment nothing is started and orders go to the simulated exchange.\<close>

lemma empty_environment:
  assumes "\<And>k. ev_Getenv s k = ''''"
  shows "startJobs cron (Load s) js w = (Ok [], w)" and "mainAdapter (adapterFactories sim) (Load s) = Ok sim"
proof -
  show "startJobs cron (Load s) js w = (Ok [], w)"
    by (simp add: startJobs_def optionalJob_def Load_def envBool_def assms ret_apply)
  have "ToLower (TrimSpace ''simulated'') = ''simulated''" by code_simp
  then show "mainAdapter (adapterFactories sim) (Load s) = Ok sim"
    by (simp add: mainAdapter_def NewAdapterWithOptions_def adapterFactories_def Load_def envString_def assms Let_def)
qed

end
