(* ===== verification/SymbolConfig.thy ===== *)
theory SymbolConfig
  imports Symbols
begin

text \<open>
  The reader of the symbol allowlist (\<open>internal/db/symbolcfg/repository.go\<close>): the active rows of
  \<open>public.symbol_config\<close> as a set of normalized symbols. The query is a parameter, which gives the rows and the error
  that ended reading them; \<open>enabledRows\<close> is its \<open>WHERE\<close> clause on a table. A row whose values cannot be scanned
  is an error in its place. The lemma says what the set contains.
\<close>

record symbolRow =
  sy_symbol :: string
  sy_base_asset :: string
  sy_quote_asset :: string

record symbolConfigRow = symbolRow +
  sy_is_active :: int
  sy_deleted :: bool

definition enabledRows :: "symbolConfigRow list \<Rightarrow> symbolRow list" where
  "enabledRows table = map symbolRow.truncate (filter (\<lambda>r. sy_is_active r = 1 \<and> \<not> sy_deleted r) table)"

type_synonym 'w symbolQuery = "('w, symbolRow result list \<times> err option) io"

definition normalizedRow :: "symbolRow \<Rightarrow> string" where
  "normalizedRow r =
    (let normalized = NormalizeMarketSymbol (sy_symbol r)
     in if normalized = '''' then NormalizeMarketSymbol (sy_base_asset r @ sy_quote_asset r) else normalized)"

fun collectSymbols :: "symbolRow result list \<Rightarrow> string set \<Rightarrow> string set result" where
  "collectSymbols [] symbols = Ok symbols"
| "collectSymbols (row # rows) symbols = rbind (wrapErr ''scan symbol_config'' row) (\<lambda>r.
     collectSymbols rows (if normalizedRow r \<noteq> '''' then insert (normalizedRow r) symbols else symbols))"

text \<open>A nil repository or database is \<open>None\<close>.\<close>

definition ListEnabledNormalizedSymbols :: "'w symbolQuery option \<Rightarrow> ('w, string set) io" where
  "ListEnabledNormalizedSymbols db = (case db of
     None \<Rightarrow> throw (ErrMsg ''symbol config database is not configured'')
   | Some query \<Rightarrow> bnd (wrapIO ''query symbol_config'' query) (\<lambda>(rows, readErr).
       bnd (lift (collectSymbols rows {})) (\<lambda>symbols. case readErr of
         None \<Rightarrow> ret symbols
       | Some e \<Rightarrow> throw (ErrWrap ''read symbol_config'' e))))"

lemma collectSymbols_Ok:
  "collectSymbols (map Ok rows) symbols = Ok (symbols \<union> {normalizedRow r | r. r \<in> set rows \<and> normalizedRow r \<noteq> ''''})"
  by (induction rows arbitrary: symbols) auto

text \<open>Every member is in normal form, so the allowlist check of the market synchronisation, which normalizes the
  symbol it looks up, finds it.\<close>

lemma ListEnabled_normalized:
  assumes "ListEnabledNormalizedSymbols (Some (ret (map Ok (enabledRows table), None))) w = (Ok symbols, w')"
  shows "symbols = normalizedRow ` set (enabledRows table) - {''''}"
    and "x \<in> symbols \<Longrightarrow> NormalizeMarketSymbol x = x"
proof -
  show set: "symbols = normalizedRow ` set (enabledRows table) - {''''}"
    using assms by (auto simp: ListEnabledNormalizedSymbols_def collectSymbols_Ok bnd_def wrapIO_def ret_def lift_def)
  show "NormalizeMarketSymbol x = x" if "x \<in> symbols"
    using that by (auto simp: set normalizedRow_def Let_def NormalizeMarketSymbol_chars NormalizeMarketSymbol_alnum)
qed

end
