(* ===== verification/Wiring.thy ===== *)
theory Wiring
  imports Configuration ApiRuns ExposureRuns HistoryReader Startup Credentials
begin

text \<open>
  How \<open>main\<close> puts the process together (\<open>cmd/hedging-bot/main.go\<close>): the constructors and setters of the services,
  the services built from the settings, and the order of the start. Opening the databases, Redis and the listeners is
  left out: what they give is the record \<open>openedParts\<close>. The lemmas say that over the live stores this is the service and the
  server the theorems on whole runs are about, with the options the settings make.
\<close>

section \<open>Constructors and setters\<close>

definition NewHedgeService ::
    "'w HedgeStore \<Rightarrow> 'w HedgeRepo \<Rightarrow> 'w Adapter option \<Rightarrow> ('w, time) io \<Rightarrow> (decimal \<Rightarrow> decimal \<Rightarrow> decimal) \<Rightarrow>
     (decimal \<Rightarrow> string) \<Rightarrow> 'w HedgeService" where
  "NewHedgeService core repo adapter clock dv decString = \<lparr>sv_core = core, sv_mgmt = repo, sv_exchange = adapter,
     sv_decodeCredential = Ok, sv_locker = None, sv_lockTTL = 3 * minute, sv_runCooldown = 10 * second,
     sv_now = clock, sv_clock = clock, sv_reconciler = None, sv_dv = dv, sv_decString = decString\<rparr>"

definition SetHedgeCredentialDecoder :: "(string \<Rightarrow> string result) option \<Rightarrow> 'w HedgeService \<Rightarrow> 'w HedgeService" where
  "SetHedgeCredentialDecoder decoder s =
     (case decoder of None \<Rightarrow> s | Some d \<Rightarrow> s\<lparr>sv_decodeCredential := d\<rparr>)"

definition SetLocker :: "'w tryLock option \<Rightarrow> 'w HedgeService \<Rightarrow> 'w HedgeService" where
  "SetLocker locker s = s\<lparr>sv_locker := locker\<rparr>"

definition SetOrderReconciliationScheduler :: "'w Scheduler option \<Rightarrow> 'w HedgeService \<Rightarrow> 'w HedgeService" where
  "SetOrderReconciliationScheduler scheduler s = s\<lparr>sv_reconciler := scheduler\<rparr>"

definition NewPositionSyncService ::
    "('w, HedgeMonitorConfig list) io option \<Rightarrow>
     (UpsertHedgePositionSnapshotParams \<Rightarrow> ('w, HedgePositionSnapshot) io) option \<Rightarrow> 'w Adapter option \<Rightarrow>
     ('w, HedgeMonitorRefreshResult) io option \<Rightarrow> ('w, time) io \<Rightarrow> (string list \<Rightarrow> string list) \<Rightarrow>
     'w PositionSyncService" where
  "NewPositionSyncService repo store adapter monitor clock visit = \<lparr>py_repo = repo, py_store = store,
     py_exchange = adapter, py_monitor = monitor, py_decodeCredential = Ok, py_now = clock, py_visit = visit\<rparr>"

definition SetPositionCredentialDecoder ::
    "(string \<Rightarrow> string result) option \<Rightarrow> 'w PositionSyncService \<Rightarrow> 'w PositionSyncService" where
  "SetPositionCredentialDecoder decoder s =
     (case decoder of None \<Rightarrow> s | Some d \<Rightarrow> s\<lparr>py_decodeCredential := d\<rparr>)"

definition NewExposureSyncService ::
    "('w, HedgeMonitorConfig list) io option \<Rightarrow> (ExposureKey list \<Rightarrow> ('w, ExposureKey \<rightharpoonup> NetExposure) io) option \<Rightarrow>
     'w ExposureCacheClient option \<Rightarrow> (UpsertExposureSnapshotParams \<Rightarrow> ('w, ExposureSnapshot) io) option \<Rightarrow>
     (RunInput \<Rightarrow> ('w, TaskInfo) io) option \<Rightarrow> ('w, time) io \<Rightarrow> (ExposureKey list \<Rightarrow> ExposureKey list) \<Rightarrow>
     'w ExposureSyncService" where
  "NewExposureSyncService repo reader cache core queue clock visit = \<lparr>xv_repo = repo, xv_reader = reader,
     xv_cache = cache, xv_core = core, xv_queue = queue, xv_monitor = None, xv_now = clock, xv_visit = visit\<rparr>"

definition SetMonitorRefresher ::
    "('w, HedgeMonitorRefreshResult) io option \<Rightarrow> 'w ExposureSyncService \<Rightarrow> 'w ExposureSyncService" where
  "SetMonitorRefresher monitor s = s\<lparr>xv_monitor := monitor\<rparr>"

definition NewEnqueuer :: "(AsyncTask \<Rightarrow> ('w, TaskInfo) io) option \<Rightarrow> 'w Enqueuer" where
  "NewEnqueuer client = client"

section \<open>What main opened\<close>

text \<open>The methods of the core queries and of the management repository as their clients see them, the clients of
  Redis and of the queue (used only when Redis has an address), the history reader's answer to its settings, and the
  environment: clock, tokens, decimal arithmetic and texts, files, and the orders in which Go visits its maps.\<close>

record 'w openedParts =
  mn_core :: "'w HedgeStore"
  mn_repo :: "'w HedgeRepo"
  mn_accounts :: "'w ReconciliationRepo"
  mn_management :: "'w ManagementRepo"
  mn_monitorConfigs :: "('w, HedgeMonitorConfig list) io"
  mn_enabledConfigs :: "('w, HedgeConfig list) io"
  mn_activeCloses :: "('w, HedgeCloseRequest list) io"
  mn_monitorStore :: "'w HedgeMonitorStore"
  mn_allowlist :: "('w, string list) io"
  mn_redis :: "'w RedisClient"
  mn_hashes :: "'w RedisHashClient"
  mn_queue :: "AsyncTask \<Rightarrow> ('w, TaskInfo) io"
  mn_reader :: "ClickHouseConfig \<Rightarrow> (ExposureKey list \<Rightarrow> ('w, ExposureKey \<rightharpoonup> NetExposure) io) result"
  mn_clock :: "('w, time) io"
  mn_token :: "('w, string) io"
  mn_newGCM :: "string \<Rightarrow> AEAD result"
  mn_dv :: "decimal \<Rightarrow> decimal \<Rightarrow> decimal"
  mn_decString :: "decimal \<Rightarrow> string"
  mn_decParse :: "string \<Rightarrow> decimal result"
  mn_rawJSON :: "raw \<Rightarrow> string"
  mn_exchangeEnv :: string
  mn_readFile :: "string \<Rightarrow> ('w, string) io"
  mn_visitSymbols :: "string list \<Rightarrow> string list"
  mn_visitKeys :: "ExposureKey list \<Rightarrow> ExposureKey list"

text \<open>\<open>redisx.Open\<close> gives no client without an address.\<close>

definition mainRedis :: "Config \<Rightarrow> 'a \<Rightarrow> 'a option" where
  "mainRedis cfg client = (if fg_RedisAddr cfg = '''' then None else Some client)"

definition mainEnqueuer :: "Config \<Rightarrow> 'w openedParts \<Rightarrow> 'w Enqueuer option" where
  "mainEnqueuer cfg m = (if fg_RedisAddr cfg \<noteq> '''' then Some (NewEnqueuer (Some (mn_queue m))) else None)"

definition mainAllowlist :: "Config \<Rightarrow> 'w openedParts \<Rightarrow> ('w, string list) io option" where
  "mainAllowlist cfg m = (if fg_SymbolConfigDatabaseURL cfg \<noteq> '''' then Some (mn_allowlist m) else None)"

section \<open>The services\<close>

definition mainHedgeService :: "Config \<Rightarrow> Codec \<Rightarrow> 'w Adapter \<Rightarrow> 'w openedParts \<Rightarrow> 'w HedgeService" where
  "mainHedgeService cfg codec adapter m =
    (let built = NewHedgeService (mn_core m) (mn_repo m) (Some adapter) (mn_clock m) (mn_dv m) (mn_decString m);
         guarded = SetRunGuardDurations (SetHedgeCredentialDecoder (Some (Decrypt codec)) built)
                     (fg_HedgeRunLockTTL cfg) (fg_HedgeRunCooldown cfg);
         locked = (case mainRedis cfg (mn_redis m) of
                     None \<Rightarrow> guarded
                   | Some client \<Rightarrow> SetLocker (Some (TryLock (Some client) (mn_token m))) guarded)
     in case mainEnqueuer cfg m of
          None \<Rightarrow> locked
        | Some enqueuer \<Rightarrow> SetOrderReconciliationScheduler (Some (enqueuerScheduler enqueuer)) locked)"

definition mainReconciliation :: "Codec \<Rightarrow> 'w Adapter \<Rightarrow> 'w openedParts \<Rightarrow> 'w ExchangeReconciliationService" where
  "mainReconciliation codec adapter m = SetCredentialDecoder (Some (Decrypt codec))
     (NewExchangeReconciliationService (Some (st_CreateAuditEvent (mn_core m))) (mn_accounts m) (Some adapter) (mn_decString m))"

definition mainMarketSync :: "Config \<Rightarrow> 'w Adapter \<Rightarrow> 'w openedParts \<Rightarrow> 'w MarketSyncService" where
  "mainMarketSync cfg adapter m = NewMarketSyncService (Some (ma_markets (mn_management m))) (Some adapter)
     (fg_ExchangeEnv cfg) (case mainAllowlist cfg m of None \<Rightarrow> [] | Some p \<Rightarrow> [p]) (mn_rawJSON m) (mn_clock m)"

definition mainMonitor :: "Config \<Rightarrow> 'w openedParts \<Rightarrow> 'w HedgeMonitorService" where
  "mainMonitor cfg m = NewHedgeMonitorService (mn_monitorConfigs m) (mn_monitorStore m) (mn_clock m)
     (fg_ExposurePriceMaxAge cfg) (fg_PositionStaleAfter cfg)"

definition mainPositionSync :: "Config \<Rightarrow> Codec \<Rightarrow> 'w Adapter \<Rightarrow> 'w openedParts \<Rightarrow> 'w PositionSyncService" where
  "mainPositionSync cfg codec adapter m = SetPositionCredentialDecoder (Some (Decrypt codec))
     (NewPositionSyncService (Some (mn_monitorConfigs m)) (Some (st_UpsertHedgePositionSnapshot (mn_core m)))
        (Some adapter) (Some (Refresh (mainMonitor cfg m))) (mn_clock m) (mn_visitSymbols m))"

definition historyConfig :: "Config \<Rightarrow> ClickHouseConfig" where
  "historyConfig cfg = \<lparr>ch_Host = fg_ClickHouseHistoryHost cfg, ch_HTTPPort = fg_ClickHouseHistoryPort cfg,
     ch_Database = fg_ClickHouseHistoryDB cfg, ch_Username = fg_ClickHouseHistoryUser cfg,
     ch_Password = fg_ClickHouseHistoryPass cfg, ch_ConnectTimeout = fg_ClickHouseConnectTimeout cfg,
     ch_Timeout = fg_ClickHouseTimeout cfg\<rparr>"

definition mainExposureStore :: "Config \<Rightarrow> 'w openedParts \<Rightarrow> 'w RedisExposureStore" where
  "mainExposureStore cfg m = NewRedisExposureStore (mainRedis cfg (mn_hashes m))
     \<lparr>xo_market_price_key_prefix = fg_MarketPriceKeyPrefix cfg, xo_exposure_key_prefix = fg_ExposureCacheKeyPrefix cfg,
      xo_price_max_age = fg_ExposurePriceMaxAge cfg, xo_exposure_ttl = fg_ExposureCacheTTL cfg\<rparr>
     (mn_clock m) (mn_decParse m) (mn_decString m)"

text \<open>Without Redis the enqueuer is nil; the process then ends before the service is built.\<close>

definition mainExposureSync :: "Config \<Rightarrow> 'w openedParts \<Rightarrow> 'w ExposureSyncService result" where
  "mainExposureSync cfg m = (case mainEnqueuer cfg m of
     None \<Rightarrow> Err (ErrMsg ''redis and asynq are required when exposure sync is enabled'')
   | Some enqueuer \<Rightarrow> rbind (mn_reader m (historyConfig cfg)) (\<lambda>reader.
       let store = mainExposureStore cfg m
       in Ok (SetMonitorRefresher (Some (Refresh (mainMonitor cfg m)))
            (NewExposureSyncService (Some (mn_monitorConfigs m)) (Some reader)
               (Some \<lparr>ca_FetchMarkPrice = FetchMarkPrice store, ca_SaveNetExposure = SaveNetExposure store\<rparr>)
               (Some (st_UpsertExposureSnapshot (mn_core m))) (Some (EnqueueRunHedge enqueuer)) (mn_clock m)
               (mn_visitKeys m)))))"

section \<open>The servers\<close>

definition NewServer ::
    "'w HedgeService \<Rightarrow> 'w ManagementRepo option \<Rightarrow> 'w Enqueuer option \<Rightarrow> 'w Adapter list \<Rightarrow> 'w openedParts \<Rightarrow> 'w HttpServer" where
  "NewServer hedge repo queue adapters m = \<lparr>sr_hedge = hedge, sr_mgmt = repo, sr_queue = queue,
     sr_adapter = (case adapters of [] \<Rightarrow> None | a # _ \<Rightarrow> Some a), sr_symbolAllowlist = None, sr_exposureSync = None,
     sr_positionSync = None, sr_hedgeMonitor = None, sr_reconciliation = None, sr_clock = mn_clock m,
     sr_exchange_env = mn_exchangeEnv m, sr_rawJSON = mn_rawJSON m, sr_decString = mn_decString m,
     sr_readFile = mn_readFile m\<rparr>"

definition SetSymbolAllowlistProvider :: "('w, string list) io option \<Rightarrow> 'w HttpServer \<Rightarrow> 'w HttpServer" where
  "SetSymbolAllowlistProvider provider s = s\<lparr>sr_symbolAllowlist := provider\<rparr>"

definition SetExposureSyncService :: "'w ExposureSyncService option \<Rightarrow> 'w HttpServer \<Rightarrow> 'w HttpServer" where
  "SetExposureSyncService sync s = s\<lparr>sr_exposureSync := sync\<rparr>"

definition SetPositionSyncService :: "'w PositionSyncService option \<Rightarrow> 'w HttpServer \<Rightarrow> 'w HttpServer" where
  "SetPositionSyncService sync s = s\<lparr>sr_positionSync := sync\<rparr>"

definition SetHedgeMonitorService :: "'w HedgeMonitorService option \<Rightarrow> 'w HttpServer \<Rightarrow> 'w HttpServer" where
  "SetHedgeMonitorService monitor s = s\<lparr>sr_hedgeMonitor := monitor\<rparr>"

definition SetExchangeReconciliationService ::
    "'w ExchangeReconciliationService option \<Rightarrow> 'w HttpServer \<Rightarrow> 'w HttpServer" where
  "SetExchangeReconciliationService reconciliation s = s\<lparr>sr_reconciliation := reconciliation\<rparr>"

definition mainServer ::
    "Config \<Rightarrow> Codec \<Rightarrow> 'w Adapter \<Rightarrow> 'w openedParts \<Rightarrow> 'w ExposureSyncService option \<Rightarrow> 'w HttpServer" where
  "mainServer cfg codec adapter m exposureSync =
     SetExchangeReconciliationService (Some (mainReconciliation codec adapter m))
    (SetHedgeMonitorService (Some (mainMonitor cfg m))
    (SetPositionSyncService (Some (mainPositionSync cfg codec adapter m))
    (SetExposureSyncService exposureSync
    (SetSymbolAllowlistProvider (mainAllowlist cfg m)
    (NewServer (mainHedgeService cfg codec adapter m) (Some (mn_management m)) (mainEnqueuer cfg m) [adapter] m)))))"

definition mainGrpcServer :: "Config \<Rightarrow> Codec \<Rightarrow> 'w Adapter \<Rightarrow> 'w openedParts \<Rightarrow> 'w GrpcServer" where
  "mainGrpcServer cfg codec adapter m = \<lparr>gv_service = mainHedgeService cfg codec adapter m,
     gv_queue = mainEnqueuer cfg m, gv_newFromString = mn_decParse m, gv_decString = mn_decString m\<rparr>"

section \<open>The worker\<close>

text \<open>The handlers registered with the mux, by task type; a task carries its decoded payload, as in \<open>Workers\<close>. The number
  of workers and the weights of the queues are the environment.\<close>

definition mainMux :: "Config \<Rightarrow> Codec \<Rightarrow> 'w Adapter \<Rightarrow> 'w openedParts \<Rightarrow> 'w Enqueuer \<Rightarrow> AsyncTask \<Rightarrow> ('w, unit) io" where
  "mainMux cfg codec adapter m enqueuer t =
    (let hedge = mainHedgeService cfg codec adapter m;
         handler = NewReconciliationHandler hedge (mainReconciliation codec adapter m) enqueuer
     in if at_type t = TypeRunHedge then handleRunHedge (RunOnce hedge) (hedgeBody (at_payload t))
        else if at_type t = TypeReconcileOrder then handleOrder handler (orderBody (at_payload t))
        else if at_type t = TypeVerifyPositionSetting then handlePositionSetting handler (settingBody (at_payload t))
        else throw (ErrExternal ''handler not found for task''))"

definition mainWorker :: "Config \<Rightarrow> Codec \<Rightarrow> 'w Adapter \<Rightarrow> 'w openedParts \<Rightarrow> (AsyncTask \<Rightarrow> ('w, unit) io) option" where
  "mainWorker cfg codec adapter m = (case mainEnqueuer cfg m of
     None \<Rightarrow> None
   | Some enqueuer \<Rightarrow> if fg_WorkerEnabled cfg then Some (mainMux cfg codec adapter m enqueuer) else None)"

section \<open>The start\<close>

definition mainJobs :: "Config \<Rightarrow> Codec \<Rightarrow> 'w Adapter \<Rightarrow> 'w openedParts \<Rightarrow> 'w jobServices" where
  "mainJobs cfg codec adapter m =
    \<lparr>js_hedge = \<lparr>sc_repo = mn_enabledConfigs m,
       sc_enqueuer = (case mainEnqueuer cfg m of None \<Rightarrow> NewEnqueuer None | Some e \<Rightarrow> e)\<rparr>,
     js_market = SyncActiveAccounts (mainMarketSync cfg adapter m),
     js_position = Sync (mainPositionSync cfg codec adapter m),
     js_exposure = rbind (mainExposureSync cfg m) (\<lambda>sync. Ok (SyncEnabledConfigs sync))\<rparr>"

record 'w process =
  ps_http :: "'w HttpServer"
  ps_grpc :: "'w GrpcServer"
  ps_started :: "'w started"
  ps_worker :: "(AsyncTask \<Rightarrow> ('w, unit) io) option"

text \<open>The adapter and the codec come first; then the interrupted closes are taken up, and only then do the jobs and
  the servers start. Each error on the way ends the process.\<close>

definition mainStart ::
    "'w cron \<Rightarrow> (string \<rightharpoonup> 'w AdapterFactory) \<Rightarrow> Config \<Rightarrow> 'w openedParts \<Rightarrow> ('w, 'w process) io" where
  "mainStart cron factories cfg m =
     bnd (lift (mainAdapter factories cfg)) (\<lambda>adapter.
     bnd (lift (NewCodec (mn_newGCM m) (fg_CredentialEncryptionKey cfg))) (\<lambda>codec.
     bnd (case mainEnqueuer cfg m of
            None \<Rightarrow> ret ()
          | Some enqueuer \<Rightarrow> recoverCloseRequests (mn_activeCloses m) (mn_repo m) enqueuer) (\<lambda>_.
     bnd (startJobs cron cfg (mainJobs cfg codec adapter m)) (\<lambda>started.
     bnd (if fg_ExposureSyncEnabled cfg
          then bnd (lift (mainExposureSync cfg m)) (\<lambda>sync. ret (Some sync)) else ret None) (\<lambda>exposureSync.
     ret \<lparr>ps_http = mainServer cfg codec adapter m exposureSync, ps_grpc = mainGrpcServer cfg codec adapter m,
          ps_started = started, ps_worker = mainWorker cfg codec adapter m\<rparr>)))))"

section \<open>Over the live stores\<close>

text \<open>The options the settings make.\<close>

definition mainOptions ::
    "Config \<Rightarrow> Codec \<Rightarrow> (AsyncTask list \<Rightarrow> AsyncTask \<Rightarrow> bool) \<Rightarrow> (AsyncTask \<Rightarrow> TaskInfo) \<Rightarrow> (nat \<Rightarrow> string) \<Rightarrow>
     (decimal \<Rightarrow> decimal \<Rightarrow> decimal) \<Rightarrow> (decimal \<Rightarrow> string) \<Rightarrow> options" where
  "mainOptions cfg codec held info tokens dv decString =
    (let redis = fg_RedisAddr cfg \<noteq> ''''
     in \<lparr>lo_locker = redis, lo_redis = redis, lo_queue = redis, lo_held = held, lo_taskInfo = info,
         lo_lockTTL = (if fg_HedgeRunLockTTL cfg > 0 then fg_HedgeRunLockTTL cfg else 3 * minute),
         lo_runCooldown = (if fg_HedgeRunCooldown cfg \<ge> 0 then fg_HedgeRunCooldown cfg else 10 * second),
         lo_tokens = tokens, lo_decode = Decrypt codec, lo_dv = dv, lo_decString = decString\<rparr>)"

text \<open>What was opened are the live stores.\<close>

definition openedLive ::
    "(AsyncTask list \<Rightarrow> AsyncTask \<Rightarrow> bool) \<Rightarrow> (AsyncTask \<Rightarrow> TaskInfo) \<Rightarrow> (nat \<Rightarrow> string) \<Rightarrow> 'x World openedParts \<Rightarrow> bool" where
  "openedLive held info tokens m \<longleftrightarrow> mn_core m = liveStore \<and> mn_repo m = liveRepo \<and> mn_accounts m = liveReconRepo \<and>
     mn_monitorConfigs m = onMgmt (\<lambda>_. ListHedgeMonitorConfigs) \<and> mn_monitorStore m = liveMonitorStore \<and>
     mn_redis m = liveRedis \<and> mn_queue m = queueClient held info \<and> mn_clock m = readClock \<and>
     mn_token m = liveToken tokens \<and> mn_activeCloses m = onMgmt (\<lambda>_. ListActiveHedgeCloseRequests)"

lemmas main_defs = mainEnqueuer_def mainRedis_def mainOptions_def liveEnqueuer_def NewEnqueuer_def Let_def

lemma main_enqueuer:
  assumes "openedLive held info tokens m"
  shows "mainEnqueuer cfg m = (if lo_queue (mainOptions cfg codec held info tokens dv decString)
    then Some (liveEnqueuer (mainOptions cfg codec held info tokens dv decString)) else None)"
  using assms by (simp add: openedLive_def main_defs)

lemma main_hedge_service:
  assumes "openedLive held info tokens m"
  shows "mainHedgeService cfg codec (liveAdapter ex) m =
    liveService (Some ex) (mainOptions cfg codec held info tokens (mn_dv m) (mn_decString m))"
  using assms
  by (simp add: openedLive_def mainHedgeService_def liveService_def NewHedgeService_def SetRunGuardDurations_def
      SetHedgeCredentialDecoder_def SetLocker_def SetOrderReconciliationScheduler_def main_defs)

lemma main_reconciliation:
  assumes "openedLive held info tokens m"
  shows "mainReconciliation codec (liveAdapter ex) m =
    liveReconciliation (Some ex) (mainOptions cfg codec held info tokens (mn_dv m) (mn_decString m))"
  using assms
  by (simp add: openedLive_def mainReconciliation_def liveReconciliation_def liveStore_def mainOptions_def Let_def)

lemma main_server:
  assumes "openedLive held info tokens m"
  shows "mainServer cfg codec (liveAdapter ex) m exposureSync =
    liveServer ex (mainOptions cfg codec held info tokens (mn_dv m) (mn_decString m)) (mn_management m)
      (mainServer cfg codec (liveAdapter ex) m exposureSync)"
  using assms main_enqueuer [OF assms, of cfg codec "mn_dv m" "mn_decString m"]
  by (simp add: mainServer_def liveServer_def NewServer_def SetExchangeReconciliationService_def
      SetHedgeMonitorService_def SetPositionSyncService_def SetExposureSyncService_def SetSymbolAllowlistProvider_def
      main_hedge_service main_reconciliation [where cfg = cfg] openedLive_def)

text \<open>The worker's handlers are the ones of \<open>Workers\<close>.\<close>

lemma main_worker:
  assumes "openedLive held info tokens m" "opt = mainOptions cfg codec held info tokens (mn_dv m) (mn_decString m)"
  shows "mainWorker cfg codec (liveAdapter ex) m =
    (if fg_RedisAddr cfg \<noteq> '''' \<and> fg_WorkerEnabled cfg then Some (runTask (Some ex) opt) else None)"
  using assms main_enqueuer [OF assms(1), of cfg codec "mn_dv m" "mn_decString m"]
  by (auto simp: mainWorker_def mainMux_def runTask_def fun_eq_iff liveHandler_def main_hedge_service
      main_reconciliation [where cfg = cfg] mainOptions_def Let_def)

text \<open>A process that starts has an adapter, a codec and, when the exposure is synchronised, Redis; its two servers share
  the live service and queue, its worker runs the live handlers, and when Redis is there the recovery of \<open>Startup\<close> was its first change of the world.\<close>

lemma main_start:
  assumes live: "openedLive held info tokens m"
    and adapter: "mainAdapter factories cfg = Ok (liveAdapter ex)"
    and run: "mainStart cron factories cfg m w = (Ok p, w')"
  obtains codec opt v where "NewCodec (mn_newGCM m) (fg_CredentialEncryptionKey cfg) = Ok codec"
    and "opt = mainOptions cfg codec held info tokens (mn_dv m) (mn_decString m)"
    and "sr_hedge (ps_http p) = liveService (Some ex) opt" and "gv_service (ps_grpc p) = liveService (Some ex) opt"
    and "sr_queue (ps_http p) = gv_queue (ps_grpc p)"
    and "ps_worker p =
      (if fg_RedisAddr cfg \<noteq> '''' \<and> fg_WorkerEnabled cfg then Some (runTask (Some ex) opt) else None)"
    and "ps_http p = liveServer ex opt (mn_management m) (ps_http p)"
    and "(if fg_RedisAddr cfg = '''' then ret () else recoverLive opt) w = (Ok (), v)"
    and "startJobs cron cfg (mainJobs cfg codec (liveAdapter ex) m) v = (Ok (ps_started p), w')"
proof -
  from run adapter obtain codec where codec: "NewCodec (mn_newGCM m) (fg_CredentialEncryptionKey cfg) = Ok codec"
    by (auto simp: mainStart_def bnd_Ok_iff lift_def)
  define opt where "opt = mainOptions cfg codec held info tokens (mn_dv m) (mn_decString m)"
  from run adapter codec obtain v started u exposureSync where
      recovered: "(case mainEnqueuer cfg m of None \<Rightarrow> ret ()
        | Some enqueuer \<Rightarrow> recoverCloseRequests (mn_activeCloses m) (mn_repo m) enqueuer) w = (Ok (), v)"
      and jobs: "startJobs cron cfg (mainJobs cfg codec (liveAdapter ex) m) v = (Ok started, w')"
      and p: "p = \<lparr>ps_http = mainServer cfg codec (liveAdapter ex) m exposureSync,
        ps_grpc = mainGrpcServer cfg codec (liveAdapter ex) m, ps_started = started,
        ps_worker = mainWorker cfg codec (liveAdapter ex) m\<rparr>"
    by (auto simp: mainStart_def bnd_Ok_iff lift_def ret_def split: if_splits)
  have queue: "mainEnqueuer cfg m = (if fg_RedisAddr cfg = '''' then None else Some (liveEnqueuer opt))"
    using main_enqueuer [OF live, of cfg codec "mn_dv m" "mn_decString m"]
    by (auto simp: opt_def mainOptions_def Let_def)
  note service = main_hedge_service [OF live, of cfg codec ex, folded opt_def]
  show thesis
  proof (rule that [OF codec opt_def])
    show "ps_worker p =
        (if fg_RedisAddr cfg \<noteq> '''' \<and> fg_WorkerEnabled cfg then Some (runTask (Some ex) opt) else None)"
      by (simp add: p main_worker [OF live opt_def])
    show "(if fg_RedisAddr cfg = '''' then ret () else recoverLive opt) w = (Ok (), v)"
      using recovered live by (simp add: queue recoverLive_def openedLive_def split: if_splits)
    show "ps_http p = liveServer ex opt (mn_management m) (ps_http p)"
      by (simp add: p) (rule main_server [OF live, of cfg codec ex exposureSync, folded opt_def])
    show "startJobs cron cfg (mainJobs cfg codec (liveAdapter ex) m) v = (Ok (ps_started p), w')"
      by (simp add: p jobs)
  qed (simp_all add: p service mainGrpcServer_def mainServer_def NewServer_def SetExchangeReconciliationService_def
      SetHedgeMonitorService_def SetPositionSyncService_def SetExposureSyncService_def SetSymbolAllowlistProvider_def)
qed

text \<open>C38: the process \<open>main\<close> starts runs what the theorems on whole runs are about. When the start returns, the HTTP
  server, the gRPC server and the worker share one hedge service, the live one with the options the settings make (with
  Redis the lock, the queue and the worker, without Redis none of them), and the recovery of interrupted closes came
  before the periodic jobs and the servers.\<close>

theorem started_process_is_live:
  assumes live: "openedLive held info tokens m"
    and adapter: "mainAdapter factories cfg = Ok (liveAdapter ex)"
    and run: "mainStart cron factories cfg m w = (Ok p, w')"
  shows "\<exists>codec opt v. NewCodec (mn_newGCM m) (fg_CredentialEncryptionKey cfg) = Ok codec \<and>
    opt = mainOptions cfg codec held info tokens (mn_dv m) (mn_decString m) \<and>
    ps_http p = liveServer ex opt (mn_management m) (ps_http p) \<and>
    gv_service (ps_grpc p) = sr_hedge (ps_http p) \<and> gv_queue (ps_grpc p) = sr_queue (ps_http p) \<and>
    ps_worker p = (if fg_RedisAddr cfg \<noteq> '''' \<and> fg_WorkerEnabled cfg then Some (runTask (Some ex) opt) else None) \<and>
    (if fg_RedisAddr cfg = '''' then ret () else recoverLive opt) w = (Ok (), v) \<and>
    startJobs cron cfg (mainJobs cfg codec (liveAdapter ex) m) v = (Ok (ps_started p), w')"
  by (rule main_start [OF assms]) (metis (no_types, lifting))

text \<open>A process with Redis and no jobs, and no close to take up.\<close>

definition exampleEnv :: configEnv where
  "exampleEnv = \<lparr>ev_Getenv = (\<lambda>k. if k = ''REDIS_ADDR'' then ''redis:6379'' else ''''),
     ev_ParseDuration = (\<lambda>_. Err (ErrExternal ''duration'')), ev_JoinHostPort = (\<lambda>h p. h @ '':'' @ p),
     ev_postgresURL = (\<lambda>_ _ _ _ _. '''')\<rparr>"

definition exampleOpened :: "unit World openedParts" where
  "exampleOpened = \<lparr>mn_core = liveStore, mn_repo = liveRepo, mn_accounts = liveReconRepo, mn_management = exampleRepo,
     mn_monitorConfigs = onMgmt (\<lambda>_. ListHedgeMonitorConfigs), mn_enabledConfigs = onMgmt (\<lambda>_. ListEnabledHedgeConfigs),
     mn_activeCloses = onMgmt (\<lambda>_. ListActiveHedgeCloseRequests), mn_monitorStore = liveMonitorStore,
     mn_allowlist = ret [], mn_redis = liveRedis,
     mn_hashes = \<lparr>rd_HMGet = (\<lambda>_ _. ret []), rd_HSet = (\<lambda>_ _. ret ()), rd_Expire = (\<lambda>_ _. ret ())\<rparr>,
     mn_queue = queueClient (\<lambda>_ _. False) (lo_taskInfo exampleOptions), mn_reader = (\<lambda>_. Err ErrNotFound), mn_clock = readClock,
     mn_token = liveToken (\<lambda>_. ''token''), mn_newGCM = (\<lambda>_. Err ErrNotFound), mn_dv = (/), mn_decString = (\<lambda>_. ''''),
     mn_decParse = (\<lambda>_. Ok 0), mn_rawJSON = (\<lambda>_. ''''), mn_exchangeEnv = '''', mn_readFile = (\<lambda>_. throw ErrNotFound),
     mn_visitSymbols = (\<lambda>xs. xs), mn_visitKeys = (\<lambda>xs. xs)\<rparr>"

definition exampleProcess :: "unit World process" where
  "exampleProcess = (let cfg = Load exampleEnv; codec = \<lparr>cd_aead = None\<rparr>; adapter = liveAdapter twoLegs
     in \<lparr>ps_http = mainServer cfg codec adapter exampleOpened None, ps_grpc = mainGrpcServer cfg codec adapter exampleOpened,
         ps_started = [], ps_worker = mainWorker cfg codec adapter exampleOpened\<rparr>)"

lemma example_started:
  "mainAdapter (adapterFactories (liveAdapter twoLegs)) (Load exampleEnv) = Ok (liveAdapter twoLegs)"
  "mainStart cron (adapterFactories (liveAdapter twoLegs)) (Load exampleEnv) exampleOpened exampleWorld = (Ok exampleProcess, exampleWorld)"
proof -
  have "ToLower (TrimSpace ''simulated'') = ''simulated''" by code_simp
  then show adapter: "mainAdapter (adapterFactories (liveAdapter twoLegs)) (Load exampleEnv) = Ok (liveAdapter twoLegs)"
    by (simp add: mainAdapter_def NewAdapterWithOptions_def adapterFactories_def Load_def envString_def exampleEnv_def Let_def)
  have recovered: "recoverCloseRequests (mn_activeCloses exampleOpened) (mn_repo exampleOpened) e exampleWorld = (Ok (), exampleWorld)" for e
    by (simp add: recoverCloseRequests_def exampleOpened_def bnd_def onMgmt_def faulty_def exampleWorld_def
        exampleMgmt_def emptyMgmtDB_def ListActiveHedgeCloseRequests_def ret_def)
  have started: "(case x of None \<Rightarrow> ret ()
      | Some e \<Rightarrow> recoverCloseRequests (mn_activeCloses exampleOpened) (mn_repo exampleOpened) e) exampleWorld = (Ok (), exampleWorld)" for x
    by (cases x) (simp_all add: recovered ret_def)
  have off: "\<not> fg_ExposureSyncEnabled (Load exampleEnv)"
    by (simp add: Load_def envBool_def exampleEnv_def)
  have codec: "NewCodec (mn_newGCM exampleOpened) (fg_CredentialEncryptionKey (Load exampleEnv)) = Ok \<lparr>cd_aead = None\<rparr>"
  proof -
    have "TrimSpace '''' = ''''" by code_simp
    then show ?thesis by (simp add: NewCodec_def Load_def exampleEnv_def)
  qed
  have jobs: "startJobs cron (Load exampleEnv) js exampleWorld = (Ok [], exampleWorld)" for js
    by (simp add: startJobs_def optionalJob_def Load_def envBool_def exampleEnv_def ret_apply)
  show "mainStart cron (adapterFactories (liveAdapter twoLegs)) (Load exampleEnv) exampleOpened exampleWorld =
      (Ok exampleProcess, exampleWorld)"
    by (simp add: mainStart_def adapter codec lift_def bnd_def jobs started off ret_def exampleProcess_def Let_def)
qed

lemma started_process_is_live_witness:
  "\<exists>codec opt v. NewCodec (mn_newGCM exampleOpened) (fg_CredentialEncryptionKey (Load exampleEnv)) = Ok codec \<and>
    ps_http exampleProcess = liveServer twoLegs opt exampleRepo (ps_http exampleProcess) \<and>
    ps_worker exampleProcess = Some (runTask (Some twoLegs) opt) \<and> recoverLive opt exampleWorld = (Ok (), v)"
proof -
  have "openedLive (\<lambda>_ _. False) (lo_taskInfo exampleOptions) (\<lambda>_. ''token'') exampleOpened"
    by (simp add: openedLive_def exampleOpened_def)
  moreover have "fg_RedisAddr (Load exampleEnv) \<noteq> ''''" "fg_WorkerEnabled (Load exampleEnv)" "mn_management exampleOpened = exampleRepo"
    by (simp_all add: Load_def exampleEnv_def envBool_def exampleOpened_def)
  moreover note started_process_is_live [OF calculation(1) example_started(1) example_started(2) [where cron = "\<lambda>_. ret ()"]]
  ultimately show ?thesis by (elim exE conjE) (intro exI conjI, assumption, simp_all)
qed

end
