(* ===== verification/Spec2Isabelle.thy ===== *)
theory Spec2Isabelle
  imports HedgeRuns MonitorRuns Simulated AccountTables MarketRuns Startup PositionRuns ExposureRuns ApiRuns HistoryReader Migrations Credentials
    Configuration SymbolConfig Wiring
begin

text \<open>
  \<^bold>\<open>The program.\<close> 6mm-hedging-bot keeps an agent's futures hedge in line with the net exposure of its
  customers. Exposure and position snapshots are stored in the core tables; a run reads both, lets the
  calculator decide, and places an order on an exchange through an adapter; an exit closes a hedge and
  follows the close until the position is gone; a monitor shows, per configuration, what the next run
  would do. This library models these parts as written under \<open>src/internal\<close> and proves what makes them
  correct. A Go function keeps its name; a struct is a record, an interface is a record of operations
  over a world \<open>'w\<close>, an error return is the left value of a result, a panic is a result of its own
  (\<open>Prelude\<close>), and a computation is a function from the world to a result and the next world.

  \<^bold>\<open>The theories.\<close>
  \<^item> \<open>Prelude\<close>, \<open>GoStd\<close>, \<open>GoTime\<close>, \<open>Sha256\<close>, \<open>Tables\<close>: errors and computations with the rules that lift
    a fact about one call to a handler; Go's string, number and time functions; SHA-256; tables with their
    upsert law (locale \<open>keyed_table\<close>).
  \<^item> \<open>Calculator\<close> (\<open>hedge/calculator.go\<close>): \<open>Calculate\<close>, \<open>ClosePosition\<close>. Its lemmas say when a trade is
    decided, its side, size and limit price, that it never carries a position through zero, and that
    trading it settles the position.
  \<^item> \<open>ExchangeTypes\<close> (\<open>exchange/adapter.go\<close>), \<open>Simulated\<close> (\<open>exchange/simulated.go\<close>): the adapter
    interface and the simulated exchange, whose positions are the signed sums of its filled orders.
  \<^item> \<open>Models\<close>, \<open>CoreStore\<close>, \<open>MonitorStore\<close> (\<open>db/coredb\<close>) and \<open>MgmtStore\<close>, \<open>CloseLifecycle\<close> (\<open>db/mgmt\<close>): rows,
    queries with the constraints of the migrations, and the close requests as a step relation
    (\<open>closeStep\<close>) whose reachable states are characterised.
  \<^item> \<open>Positions\<close>, \<open>Symbols\<close>: signed position values and the normal forms of symbols and sources.
  \<^item> \<open>RedisLock\<close> (\<open>lock/redis_lock.go\<close>): the run lock excludes and its release removes only its own key.
  \<^item> \<open>HedgeService\<close> (\<open>service/hedge_service.go\<close>): \<open>RunOnce\<close>, \<open>ExitHedge\<close>, \<open>ReconcileOrderExecution\<close>,
    \<open>FailCloseReconciliation\<close> and everything they call. \<open>HedgeLaws\<close> states as locales what they need
    of their collaborators; \<open>World\<close> builds the service on the modelled stores, lock, queue and clock with
    any exchange and any schedule of faults and interprets the locales; \<open>HedgeRuns\<close> has the properties of
    whole runs.
  \<^item> \<open>GoJson\<close>, \<open>Accounts\<close>, \<open>AccountTables\<close> (\<open>db/mgmt/exchange_account.go\<close>, \<open>repository.go\<close>): the scanner
    behind \<open>json.Valid\<close>, the preparation of an account row, and the account statements with the rule that a
    primary account is handed over inside one transaction.
  \<^item> \<open>Markets\<close> (\<open>db/mgmt/exchange_market.go\<close>), \<open>MarketSync\<close> (\<open>service/market_sync_service.go\<close>), \<open>MarketRuns\<close>:
    the market catalogue, its batched upsert and its pruning, and what a synchronisation changes.
  \<^item> \<open>MonitorTexts\<close>, \<open>Monitor\<close> (\<open>service/hedge_monitor_service.go\<close>), \<open>MonitorRuns\<close>: the monitor, its
    agreement with the calculator, and what a refresh leaves in the table.

  \<^item> \<open>Reconciliation\<close> (\<open>service/exchange_reconciliation_service.go\<close>), \<open>Tasks\<close> (\<open>tasks/*.go\<close>): external orders and
    position settings are checked against the exchange, and a chain of delayed tasks repeats the check.
    \<open>QueueLaws\<close> bounds what a call of the service adds to the queue; \<open>Workers\<close> runs the queue as a step relation
    and shows that it empties; \<open>Startup\<close> (\<open>cmd/hedging-bot/main.go\<close>) shows that a restart takes up every
    interrupted close again.
  \<^item> \<open>PositionSync\<close> (\<open>service/position_sync_service.go\<close>), \<open>PositionRuns\<close>: the positions of an account are summed per
    configured symbol and stored as one snapshot each.
  \<^item> \<open>ExposureCache\<close> (\<open>service/redis_exposure_store.go\<close>), \<open>ExposureSync\<close> (\<open>service/exposure_sync_service.go\<close>),
    \<open>ExposureRuns\<close>: mark prices and exposures in Redis, the synchronisation that prices an exposure and
    enqueues hedge runs, and the proof that only priced exposures lead to runs.
  \<^item> \<open>HttpTypes\<close>, \<open>HttpApi\<close> (\<open>httpapi/server.go\<close>), \<open>HttpAdapter\<close> (\<open>httpapi/exchange_adapter.go\<close>),
    \<open>HttpAccounts\<close> (\<open>httpapi/exchange_accounts.go\<close>, \<open>httpapi/exchange_markets.go\<close>), \<open>HttpRoutes\<close>: the HTTP server, one
    definition per handler, from the bound request to the status and the body of the response. \<open>HttpRuns\<close> puts it
    on the live stores: every request is answered, closing all positions sends only reduce-only orders that
    close, and a configuration created over HTTP is never scheduled.
  \<^item> \<open>GrpcApi\<close> (\<open>grpcapi/server.go\<close>, \<open>grpcapi/mapper.go\<close>), \<open>ApiRuns\<close>: the gRPC methods, which do what the HTTP handlers
    do. \<open>Schedulers\<close> (\<open>scheduler/*.go\<close>), \<open>SchedulerRuns\<close>: the periodic jobs and what a tick puts into the queue.
  \<^item> \<open>HistoryReader\<close> (\<open>db/clickhousehist/client.go\<close>): the reader the exposure synchronisation asks; its query is read
    back with ClickHouse's literals. \<open>SymbolConfig\<close> (\<open>db/symbolcfg/repository.go\<close>): the allowlist of symbols.
  \<^item> \<open>Credentials\<close> (\<open>credentials/codec.go\<close>) with base64, \<open>Migrations\<close> (\<open>db/migrate.go\<close>): schema and version table stay in
    step whatever statement fails. \<open>Adapters\<close> (\<open>exchange/factory.go\<close>, \<open>exchange/ccxt_adapter.go\<close>): the choice of the
    adapter and the bridge to 6mm-ccxt. \<open>Configuration\<close> (\<open>config/config.go\<close>, parts of \<open>main.go\<close>): the settings and
    the jobs they start. \<open>Wiring\<close> (\<open>main.go\<close>, constructors and setters): the services, servers and worker \<open>main\<close> builds,
    and that over the live stores they are the ones the properties of whole runs are about.

  \<^bold>\<open>Bounds.\<close> Loops are over finite lists and recursive on them; no fuel is used. A chain of reconciliation
  tasks has four attempts, six for a close request, and the measure of \<open>Workers\<close> counts the attempts that are
  left. Database identifiers are integers with their 64-bit conversions written out (\<open>int64\<close>); decimals are
  exact rationals as \<open>shopspring/decimal\<close> computes them, except division, which is a parameter with a
  rounding law.

  \<^bold>\<open>Not modelled.\<close> The generated gRPC code, the shutdown, logging, metrics and the opening of connections, which hold
  no state of their own. Packages of
  other repositories (the ccxt client, asynq, gocron, gin, gorm, the decimal package) and of the standard library
  beyond strings, numbers, base64 and the JSON scanner (AES-GCM, \<open>net/url\<close>, \<open>net/http\<close>, decoding of JSON into structs,
  \<open>time.ParseDuration\<close>) are parameters. Text is ASCII where Go folds case or trims. The rounding of numeric columns,
  creation times of rows and cancelled contexts are left out.
\<close>

end
